(* ===== verification/Node_Prelude.thy ===== *)
theory Node_Prelude
  imports Main "HOL-Library.Word"
begin

text \<open>
  The prelude of the development: the machine types of the node, its error type
  (\<^verbatim>\<open>node/src/error.rs\<close>), the sequencing combinators that stand for Rust's
  question-mark operator with and without state, and the byte encodings of the
  standard library (\<^verbatim>\<open>to_le_bytes\<close>, \<^verbatim>\<open>to_be_bytes\<close>, hexadecimal formatting) with the
  lemmas on them that the storage and finality theories share.
\<close>

section \<open>Machine types\<close>

type_synonym u8 = "8 word"
type_synonym u32 = "32 word"
type_synonym u64 = "64 word"
type_synonym i32 = "32 word"
type_synonym u256 = "256 word"
type_synonym bytes = "8 word list"

section \<open>Errors\<close>

text \<open>
  \<^verbatim>\<open>io::Error\<close> is seen through its kind: the code only tells \<^verbatim>\<open>UnexpectedEof\<close> from the
  rest. \<^verbatim>\<open>anyhow::Error\<close> carries either a message of a library or a wrapped node error.
\<close>

datatype io_error = UnexpectedEof | NoSuchPath | OtherIo string

datatype node_error =
    Io io_error
  | FailureError any_error
  | BlockError string
  | NotFound
  | PathError string
  | DataBaseProblem
  | InvalidExtMessage
  | InvalidMerkleUpdate
  | InvalidOperation
  | LoadFinalityError
  | FinalityError
  | RoolbackBlockError
  | TlSerializeError
  | TlDeserializeError
  | TlIncompatiblePacketType
  | InvalidShardState
  | QueueFull
  | TrExecutorError string
  | InvalidData string
  | DocumentDbError string
  | ConfigError string
  | ApiError string
  | ForkEndpointFetchError string
and any_error = LibError string | AnyNode node_error

text \<open>
  A call ends with a value, with an error value, or with a panic (\<^verbatim>\<open>unwrap\<close>,
  \<^verbatim>\<open>expect\<close>, \<^verbatim>\<open>assert_ne!\<close>), which no \<^verbatim>\<open>?\<close> of the callers catches.
\<close>

datatype fault = Err node_error | Panic string

type_synonym 'a res = "fault + 'a"

abbreviation Ok :: "'a \<Rightarrow> 'e + 'a" where
  "Ok \<equiv> Inr"

abbreviation Fail :: "node_error \<Rightarrow> fault + 'a" where
  "Fail e \<equiv> Inl (Err e)"

definition from_anyhow :: "any_error \<Rightarrow> node_error" where
  "from_anyhow e = FailureError e"

definition from_io :: "io_error \<Rightarrow> node_error" where
  "from_io e = Io e"

text \<open>The \<^verbatim>\<open>?\<close> of a \<^verbatim>\<open>NodeResult\<close> function on a library result, on an I/O result, and
  \<^verbatim>\<open>unwrap\<close>.\<close>

definition lib_try :: "any_error + 'a \<Rightarrow> 'a res" where
  "lib_try r = map_sum (\<lambda>e. Err (from_anyhow e)) id r"

definition io_try :: "io_error + 'a \<Rightarrow> 'a res" where
  "io_try r = map_sum (\<lambda>e. Err (from_io e)) id r"

definition unwrap_or_panic :: "string \<Rightarrow> any_error + 'a \<Rightarrow> 'a res" where
  "unwrap_or_panic what r = map_sum (\<lambda>_. Panic what) id r"

lemma lib_try_simps [simp]:
  "lib_try (Inl e) = Fail (FailureError e)" "lib_try (Inr x) = Inr x"
  by (simp_all add: lib_try_def from_anyhow_def)

lemma io_try_simps [simp]: "io_try (Inl e) = Fail (Io e)" "io_try (Inr x) = Inr x"
  by (simp_all add: io_try_def from_io_def)

lemma unwrap_or_panic_simps [simp]:
  "unwrap_or_panic w (Inl e) = Inl (Panic w)" "unwrap_or_panic w (Inr x) = Inr x"
  by (simp_all add: unwrap_or_panic_def)

lemma lib_try_eq_Inr [simp]: "lib_try r = Inr x \<longleftrightarrow> r = Inr x"
  by (cases r) auto

lemma io_try_eq_Inr [simp]: "io_try r = Inr x \<longleftrightarrow> r = Inr x"
  by (cases r) auto

lemma unwrap_or_panic_eq_Inr [simp]: "unwrap_or_panic w r = Inr x \<longleftrightarrow> r = Inr x"
  by (cases r) auto

section \<open>Sequencing\<close>

text \<open>
  \<open>bindR\<close> sequences calls without state; \<open>bindS\<close> sequences calls on an explicit state.
  A call that fails keeps the state it reached, as a method on \<^verbatim>\<open>&mut self\<close> that returns
  early does.
\<close>

definition bindR :: "'e + 'a \<Rightarrow> ('a \<Rightarrow> 'e + 'b) \<Rightarrow> 'e + 'b" where
  "bindR r f = (case r of Inl e \<Rightarrow> Inl e | Inr x \<Rightarrow> f x)"

definition bindS ::
  "('s \<Rightarrow> ('e + 'a) \<times> 's) \<Rightarrow> ('a \<Rightarrow> 's \<Rightarrow> ('e + 'b) \<times> 's) \<Rightarrow> 's \<Rightarrow> ('e + 'b) \<times> 's" where
  "bindS m f s = (case m s of (Inl e, t) \<Rightarrow> (Inl e, t) | (Inr x, t) \<Rightarrow> f x t)"

definition retS :: "'a \<Rightarrow> 's \<Rightarrow> ('e + 'a) \<times> 's" where
  "retS x s = (Inr x, s)"

text \<open>A fallible computation that does not touch the state.\<close>

definition liftS :: "('e + 'a) \<Rightarrow> 's \<Rightarrow> ('e + 'a) \<times> 's" where
  "liftS r s = (r, s)"

lemma bindR_simps [simp]: "bindR (Inl e) f = Inl e" "bindR (Inr x) f = f x"
  by (simp_all add: bindR_def)

lemma bindR_eq_Inr: "bindR r f = Inr y \<longleftrightarrow> (\<exists>x. r = Inr x \<and> f x = Inr y)"
  by (cases r) auto

lemma bindR_eq_Inl: "bindR r f = Inl e \<longleftrightarrow> r = Inl e \<or> (\<exists>x. r = Inr x \<and> f x = Inl e)"
  by (cases r) auto

lemma bindS_liftS [simp]:
  "bindS (liftS r) f s = (case r of Inl e \<Rightarrow> (Inl e, s) | Inr x \<Rightarrow> f x s)"
  by (simp add: bindS_def liftS_def split: sum.splits)

lemma bindS_retS [simp]: "bindS (retS x) f s = f x s"
  by (simp add: bindS_def retS_def)

lemma bindS_Inr: "m s = (Inr x, t) \<Longrightarrow> bindS m f s = f x t"
  by (simp add: bindS_def)

lemma bindS_Inl: "m s = (Inl e, t) \<Longrightarrow> bindS m f s = (Inl e, t)"
  by (simp add: bindS_def)

lemma bindS_eq_Inr:
  "bindS m f s = (Inr y, u) \<longleftrightarrow> (\<exists>x t. m s = (Inr x, t) \<and> f x t = (Inr y, u))"
  by (auto simp: bindS_def split: prod.splits sum.splits)

lemma bindS_eq_Inl:
  "bindS m f s = (Inl e, u) \<longleftrightarrow> m s = (Inl e, u) \<or> (\<exists>x t. m s = (Inr x, t) \<and> f x t = (Inl e, u))"
  by (auto simp: bindS_def split: prod.splits sum.splits)

lemma retS_eq [simp]: "retS x s = (r, t) \<longleftrightarrow> r = Inr x \<and> t = s"
  by (auto simp: retS_def)

lemma liftS_eq [simp]: "liftS r s = (r', t) \<longleftrightarrow> r' = r \<and> t = s"
  by (auto simp: liftS_def)

text \<open>A relation that every step of a sequence keeps is kept by the sequence.\<close>

lemma bindS_rel:
  assumes "bindS m f s = (r, u)"
    and "\<And>r' t. m s = (r', t) \<Longrightarrow> R s t"
    and "\<And>x t r' v. m s = (Inr x, t) \<Longrightarrow> f x t = (r', v) \<Longrightarrow> R t v"
    and "\<And>a b c. R a b \<Longrightarrow> R b c \<Longrightarrow> R a c"
  shows "R s u"
  using assms by (auto simp: bindS_def split: prod.splits sum.splits)

text \<open>Computations that may not return: \<open>None\<close> is a run without end.\<close>

definition bindO ::
  "('s \<Rightarrow> (('e + 'a) \<times> 's) option) \<Rightarrow> ('a \<Rightarrow> 's \<Rightarrow> (('e + 'b) \<times> 's) option) \<Rightarrow> 's \<Rightarrow>
   (('e + 'b) \<times> 's) option" where
  "bindO m f s =
     (case m s of
        None \<Rightarrow> None
      | Some (r, t) \<Rightarrow> (case r of Inl e \<Rightarrow> Some (Inl e, t) | Inr x \<Rightarrow> f x t))"

definition returns :: "('s \<Rightarrow> 'r \<times> 's) \<Rightarrow> 's \<Rightarrow> ('r \<times> 's) option" where
  "returns m s = Some (m s)"

lemma bindO_Some_Inr [simp]: "m s = Some (Inr x, t) \<Longrightarrow> bindO m f s = f x t"
  by (simp add: bindO_def)

lemma bindO_Some_Inl [simp]: "m s = Some (Inl e, t) \<Longrightarrow> bindO m f s = Some (Inl e, t)"
  by (simp add: bindO_def)

lemma bindO_eq_Some:
  "bindO m f s = Some (r, u) \<longleftrightarrow>
     (\<exists>e. m s = Some (Inl e, u) \<and> r = Inl e) \<or> (\<exists>x t. m s = Some (Inr x, t) \<and> f x t = Some (r, u))"
  by (auto simp: bindO_def split: option.splits sum.splits)

lemma bindO_Inr_iff:
  "bindO m f s = Some (Inr y, u) \<longleftrightarrow> (\<exists>x t. m s = Some (Inr x, t) \<and> f x t = Some (Inr y, u))"
  by (auto simp: bindO_eq_Some)

lemma bindO_cases:
  assumes "bindO m f s = Some (r, u)"
  obtains (fail) e where "m s = Some (Inl e, u)" "r = Inl e"
  | (step) x t where "m s = Some (Inr x, t)" "f x t = Some (r, u)"
  using assms by (auto simp: bindO_eq_Some)

lemma returns_eq [simp]: "returns m s = Some y \<longleftrightarrow> m s = y"
  by (auto simp: returns_def)

text \<open>Partial-correctness triples with a postcondition \<open>Q\<close> for values and \<open>E\<close> for errors.\<close>

definition triple ::
  "('s \<Rightarrow> bool) \<Rightarrow> ('s \<Rightarrow> ('e + 'a) \<times> 's) \<Rightarrow> ('a \<Rightarrow> 's \<Rightarrow> bool) \<Rightarrow> ('s \<Rightarrow> bool) \<Rightarrow> bool" where
  "triple P m Q E \<longleftrightarrow>
     (\<forall>s r t. P s \<longrightarrow> m s = (r, t) \<longrightarrow> (case r of Inr x \<Rightarrow> Q x t | Inl _ \<Rightarrow> E t))"

lemma triple_Inr: "triple P m Q E \<Longrightarrow> P s \<Longrightarrow> m s = (Inr x, t) \<Longrightarrow> Q x t"
  by (fastforce simp: triple_def)

lemma triple_Inl: "triple P m Q E \<Longrightarrow> P s \<Longrightarrow> m s = (Inl e, t) \<Longrightarrow> E t"
  by (fastforce simp: triple_def)

lemma triple_retS: "(\<And>s. P s \<Longrightarrow> Q x s) \<Longrightarrow> triple P (retS x) Q E"
  by (auto simp: triple_def retS_def)

lemma triple_liftS: "(\<And>s. P s \<Longrightarrow> E s) \<Longrightarrow> triple P (liftS r) (\<lambda>x s. P s \<and> r = Inr x) E"
  by (auto simp: triple_def liftS_def split: sum.splits)

lemma triple_bindS:
  "triple P m R E \<Longrightarrow> (\<And>x. triple (R x) (f x) Q E) \<Longrightarrow> triple P (bindS m f) Q E"
  unfolding triple_def by (fastforce simp: bindS_def split: prod.splits sum.splits)

lemma triple_any: "triple P m (\<lambda>_ _. True) (\<lambda>_. True)"
  by (auto simp: triple_def split: sum.splits)

lemma triple_weaken:
  "triple P m Q E \<Longrightarrow> (\<And>s. P' s \<Longrightarrow> P s) \<Longrightarrow> (\<And>x s. Q x s \<Longrightarrow> Q' x s) \<Longrightarrow> (\<And>s. E s \<Longrightarrow> E' s) \<Longrightarrow>
   triple P' m Q' E'"
  unfolding triple_def by (fastforce split: sum.splits)

text \<open>A relation between states that every step may be shown to keep, as an interface: what is
  shown of the steps of a computation holds of the whole.\<close>

locale step_relation =
  fixes R :: "'s \<Rightarrow> 's \<Rightarrow> bool"
  assumes R_refl: "R s s"
    and R_trans: "R s t \<Longrightarrow> R t u \<Longrightarrow> R s u"
begin

definition keeps :: "('s \<Rightarrow> ('e + 'a) \<times> 's) \<Rightarrow> bool" where
  "keeps m \<longleftrightarrow> (\<forall>s. R s (snd (m s)))"

lemma keepsD: "keeps m \<Longrightarrow> m s = (r, t) \<Longrightarrow> R s t"
  by (metis keeps_def snd_conv)

lemma keeps_retS: "keeps (retS x)"
  by (simp add: keeps_def retS_def R_refl)

lemma keeps_liftS: "keeps (liftS r)"
  by (simp add: keeps_def liftS_def R_refl)

lemma keeps_ask: "keeps (\<lambda>s. (f s, s))"
  by (simp add: keeps_def R_refl)

lemma keeps_bindS:
  assumes "keeps m" "\<And>x. keeps (f x)"
  shows "keeps (bindS m f)"
  unfolding keeps_def
proof
  fix s
  obtain r t where m: "m s = (r, t)" by (cases "m s")
  have "R s t" using keepsD [OF assms(1) m] .
  with m show "R s (snd (bindS m f s))"
    using assms(2) by (cases r) (auto simp: bindS_def keeps_def intro: R_trans)
qed

lemma keeps_triple:
  assumes "keeps m" "\<And>s t. P s \<Longrightarrow> R s t \<Longrightarrow> Q t"
  shows "triple P m (\<lambda>_. Q) Q"
  using assms by (auto simp: triple_def keeps_def split: sum.splits) (metis snd_conv)+

lemmas keeps_intros = keeps_retS keeps_liftS keeps_ask keeps_bindS

end

text \<open>Computations that never panic.\<close>

definition calm :: "('s \<Rightarrow> 'a res \<times> 's) \<Rightarrow> bool" where
  "calm m \<longleftrightarrow> (\<forall>s p. fst (m s) \<noteq> Inl (Panic p))"

definition calm_res :: "'a res \<Rightarrow> bool" where
  "calm_res r \<longleftrightarrow> (\<forall>p. r \<noteq> Inl (Panic p))"

lemma calm_res_intros [intro]:
  "calm_res (Inr x)" "calm_res (Fail e)" "calm_res (lib_try q)" "calm_res (io_try z)"
  by (auto simp: calm_res_def lib_try_def io_try_def map_sum_def split: sum.splits)

lemma calm_res_bindR [intro]: "calm_res r \<Longrightarrow> (\<And>x. calm_res (f x)) \<Longrightarrow> calm_res (bindR r f)"
  by (auto simp: calm_res_def bindR_def split: sum.splits)

lemma calm_retS [intro]: "calm (retS x)"
  by (simp add: calm_def retS_def)

lemma calm_liftS [intro]: "calm_res r \<Longrightarrow> calm (liftS r)"
  by (simp add: calm_def calm_res_def liftS_def)

lemma calm_bindS [intro]:
  assumes "calm m" "\<And>x. calm (f x)"
  shows "calm (bindS m f)"
  unfolding calm_def
proof (intro allI)
  fix s p
  show "fst (bindS m f s) \<noteq> Inl (Panic p)"
    using assms(1) assms(2) [of "projr (fst (m s))"]
    by (cases "fst (m s)"; cases "m s") (auto simp: calm_def bindS_def dest: spec [of _ s])
qed

lemmas bind_eqs = bindR_eq_Inr bindS_eq_Inr

end
