(* ===== verification/Messages_Queue.thy ===== *)
theory Messages_Queue
  imports Node_Prelude
begin

text \<open>
  The queue of inbound messages of \<^verbatim>\<open>node/src/engine/messages.rs\<close>. A message is opaque
  here: \<open>wc_of\<close> stands for \<^verbatim>\<open>Message::workchain_id\<close> of the block library. Every
  operation runs under the queue's mutex, so it is one step on the state; the waiting
  side is the subject of \<^verbatim>\<open>Queue_Wakeup\<close>.
\<close>

record 'm in_messages_queue =
  mq_storage :: "'m list"
  mq_capacity :: nat
  mq_stopped :: bool

definition mq_new :: "nat \<Rightarrow> 'm in_messages_queue" where
  "mq_new capacity = \<lparr>mq_storage = [], mq_capacity = capacity, mq_stopped = False\<rparr>"

text \<open>
  \<^verbatim>\<open>Err(None)\<close> when the queue is stopped, \<^verbatim>\<open>Err(Some(msg))\<close> hands the message back when
  it is full.
\<close>

definition mq_queue ::
  "'m \<Rightarrow> 'm in_messages_queue \<Rightarrow> ('m option + unit) \<times> 'm in_messages_queue" where
  "mq_queue msg q =
     (if mq_stopped q then (Inl None, q)
      else if length (mq_storage q) \<ge> mq_capacity q then (Inl (Some msg), q)
      else (Inr (), q\<lparr>mq_storage := mq_storage q @ [msg]\<rparr>))"

text \<open>The \<^verbatim>\<open>for\<close> loop of \<^verbatim>\<open>dequeue\<close> from index \<open>i\<close> on; \<^verbatim>\<open>VecDeque::remove\<close> closes the gap.\<close>

function dequeue_loop ::
  "('m \<Rightarrow> i32 option) \<Rightarrow> i32 \<Rightarrow> nat \<Rightarrow> 'm list \<Rightarrow> 'm option \<times> 'm list" where
  "dequeue_loop wc_of wc i xs =
     (if i < length xs then
        if wc_of (xs ! i) = Some wc then (Some (xs ! i), take i xs @ drop (Suc i) xs)
        else dequeue_loop wc_of wc (Suc i) xs
      else (None, xs))"
  by pat_completeness auto
termination
  by (relation "measure (\<lambda>(wc_of, wc, i, xs). length xs - i)") auto

declare dequeue_loop.simps [simp del]

definition mq_dequeue ::
  "('m \<Rightarrow> i32 option) \<Rightarrow> i32 \<Rightarrow> 'm in_messages_queue \<Rightarrow> 'm option \<times> 'm in_messages_queue" where
  "mq_dequeue wc_of wc q =
     (let (r, xs) = dequeue_loop wc_of wc 0 (mq_storage q) in (r, q\<lparr>mq_storage := xs\<rparr>))"

definition mq_len :: "'m in_messages_queue \<Rightarrow> nat" where
  "mq_len q = length (mq_storage q)"

definition mq_is_empty :: "'m in_messages_queue \<Rightarrow> bool" where
  "mq_is_empty q \<longleftrightarrow> mq_storage q = []"

definition mq_is_full :: "'m in_messages_queue \<Rightarrow> bool" where
  "mq_is_full q \<longleftrightarrow> mq_len q \<ge> mq_capacity q"

definition mq_stop :: "'m in_messages_queue \<Rightarrow> 'm in_messages_queue" where
  "mq_stop q = q\<lparr>mq_stopped := True\<rparr>"

definition mq_start :: "'m in_messages_queue \<Rightarrow> 'm in_messages_queue" where
  "mq_start q = q\<lparr>mq_stopped := False\<rparr>"

section \<open>The loop finds the oldest message of the workchain\<close>

text \<open>The specification: the messages of one workchain, oldest first.\<close>

definition pending :: "('m \<Rightarrow> i32 option) \<Rightarrow> 'm in_messages_queue \<Rightarrow> i32 \<Rightarrow> 'm list" where
  "pending wc_of q wc = filter (\<lambda>m. wc_of m = Some wc) (mq_storage q)"

lemma dequeue_loop_skip:
  assumes "\<forall>m \<in> set xs. wc_of m \<noteq> Some wc"
  shows "dequeue_loop wc_of wc (length us) (us @ xs @ ys) =
         dequeue_loop wc_of wc (length us + length xs) (us @ xs @ ys)"
  using assms
proof (induction xs arbitrary: us)
  case Nil
  then show ?case by simp
next
  case (Cons x xs)
  from Cons.IH [of "us @ [x]"] Cons.prems show ?case
    by (subst dequeue_loop.simps) (simp add: nth_append)
qed

lemma dequeue_loop_None:
  "\<forall>m \<in> set xs. wc_of m \<noteq> Some wc \<Longrightarrow> dequeue_loop wc_of wc 0 xs = (None, xs)"
  using dequeue_loop_skip [of xs wc_of wc "[]" "[]"] by (simp add: dequeue_loop.simps)

lemma dequeue_loop_Some:
  assumes "\<forall>m \<in> set xs. wc_of m \<noteq> Some wc" "wc_of m = Some wc"
  shows "dequeue_loop wc_of wc 0 (xs @ m # ys) = (Some m, xs @ ys)"
  using dequeue_loop_skip [of xs wc_of wc "[]" "m # ys"] assms
  by (simp add: dequeue_loop.simps)

lemma mq_dequeue_cases:
  obtains (none) "pending wc_of q wc = []" "mq_dequeue wc_of wc q = (None, q)"
  | (some) xs m ys where "mq_storage q = xs @ m # ys"
      "\<forall>x \<in> set xs. wc_of x \<noteq> Some wc" "wc_of m = Some wc"
      "mq_dequeue wc_of wc q = (Some m, q\<lparr>mq_storage := xs @ ys\<rparr>)"
proof (cases "\<exists>m \<in> set (mq_storage q). wc_of m = Some wc")
  case True
  then obtain xs m ys where s: "mq_storage q = xs @ m # ys"
      "wc_of m = Some wc" "\<forall>x \<in> set xs. \<not> wc_of x = Some wc"
    using split_list_first_prop [of "mq_storage q" "\<lambda>m. wc_of m = Some wc"] by blast
  with dequeue_loop_Some [of xs wc_of wc m ys] show ?thesis
    by (intro some) (simp_all add: mq_dequeue_def)
next
  case False
  then have "dequeue_loop wc_of wc 0 (mq_storage q) = (None, mq_storage q)"
    by (intro dequeue_loop_None) blast
  moreover from False have "pending wc_of q wc = []"
    by (auto simp: pending_def filter_empty_conv)
  ultimately show ?thesis by (intro none) (simp_all add: mq_dequeue_def)
qed

lemma mq_dequeue_frame:
  "mq_dequeue wc_of wc q = (r, q') \<Longrightarrow>
   mq_capacity q' = mq_capacity q \<and> mq_stopped q' = mq_stopped q"
  by (cases rule: mq_dequeue_cases [of wc_of q wc]) auto

section \<open>The interface of the queue\<close>

text \<open>
  A run of calls from the threads that share the queue, in the order the mutex admits
  them: it returns the messages that were accepted, the messages that were handed out
  with the workchain that asked for them, and the queue it ends in. The operations are
  arguments, so the interface below can speak of any provider of them.
\<close>

datatype 'm queue_call = CallQueue 'm | CallDequeue i32 | CallStop | CallStart

fun queue_run ::
  "('m \<Rightarrow> 'q \<Rightarrow> ('m option + unit) \<times> 'q) \<Rightarrow> (i32 \<Rightarrow> 'q \<Rightarrow> 'm option \<times> 'q) \<Rightarrow>
   ('q \<Rightarrow> 'q) \<Rightarrow> ('q \<Rightarrow> 'q) \<Rightarrow> 'm queue_call list \<Rightarrow> 'q \<Rightarrow>
   'm list \<times> (i32 \<times> 'm) list \<times> 'q" where
  "queue_run enq deq stp sta [] q = ([], [], q)"
| "queue_run enq deq stp sta (CallQueue m # cs) q =
     (case enq m q of
        (Inr _, q1) \<Rightarrow> (let (acc, out, q2) = queue_run enq deq stp sta cs q1 in (m # acc, out, q2))
      | (Inl _, q1) \<Rightarrow> queue_run enq deq stp sta cs q1)"
| "queue_run enq deq stp sta (CallDequeue wc # cs) q =
     (case deq wc q of
        (Some m, q1) \<Rightarrow>
          (let (acc, out, q2) = queue_run enq deq stp sta cs q1 in (acc, (wc, m) # out, q2))
      | (None, q1) \<Rightarrow> queue_run enq deq stp sta cs q1)"
| "queue_run enq deq stp sta (CallStop # cs) q = queue_run enq deq stp sta cs (stp q)"
| "queue_run enq deq stp sta (CallStart # cs) q = queue_run enq deq stp sta cs (sta q)"

definition for_wc :: "('m \<Rightarrow> i32 option) \<Rightarrow> i32 \<Rightarrow> 'm list \<Rightarrow> 'm list" where
  "for_wc wc_of wc ms = filter (\<lambda>m. wc_of m = Some wc) ms"

definition handed_to :: "i32 \<Rightarrow> (i32 \<times> 'm) list \<Rightarrow> 'm list" where
  "handed_to wc out = map snd (filter (\<lambda>(w, m). w = wc) out)"

text \<open>
  What the collator and the receivers rely on: a queue is a family of per-workchain FIFO
  queues. Producers append or are refused, consumers take the oldest message of their
  workchain and disturb no other, stopping and starting loses nothing.
\<close>

locale inbound_queue =
  fixes enq :: "'m \<Rightarrow> 'q \<Rightarrow> ('m option + unit) \<times> 'q"
    and deq :: "i32 \<Rightarrow> 'q \<Rightarrow> 'm option \<times> 'q"
    and stp :: "'q \<Rightarrow> 'q"
    and sta :: "'q \<Rightarrow> 'q"
    and pend :: "'q \<Rightarrow> i32 \<Rightarrow> 'm list"
    and wc_of :: "'m \<Rightarrow> i32 option"
  assumes enq_accepts: "enq m q = (Inr u, q') \<Longrightarrow> pend q' wc = pend q wc @ for_wc wc_of wc [m]"
    and enq_refuses: "enq m q = (Inl r, q') \<Longrightarrow> pend q' wc = pend q wc"
    and deq_None: "deq wc q = (None, q') \<Longrightarrow> pend q wc = [] \<and> pend q' wc' = pend q wc'"
    and deq_Some: "deq wc q = (Some m, q') \<Longrightarrow> pend q wc = m # pend q' wc"
    and deq_other: "deq wc q = (r, q') \<Longrightarrow> wc' \<noteq> wc \<Longrightarrow> pend q' wc' = pend q wc'"
    and stp_keeps: "pend (stp q) wc = pend q wc"
    and sta_keeps: "pend (sta q) wc = pend q wc"
begin

text \<open>Nothing is lost, duplicated or reordered within a workchain.\<close>

lemma run_fifo:
  "queue_run enq deq stp sta cs q = (acc, out, q') \<Longrightarrow>
   handed_to wc out @ pend q' wc = pend q wc @ for_wc wc_of wc acc"
proof (induction cs arbitrary: q acc out q')
  case Nil
  then show ?case by (simp add: handed_to_def for_wc_def)
next
  case (Cons c cs)
  show ?case
  proof (cases c)
    case (CallQueue m)
    obtain r q1 where e: "enq m q = (r, q1)" by (cases "enq m q")
    obtain acc1 out1 q2 where run: "queue_run enq deq stp sta cs q1 = (acc1, out1, q2)"
      by (cases "queue_run enq deq stp sta cs q1")
    show ?thesis
    proof (cases r)
      case (Inl x)
      with Cons.prems CallQueue e run Cons.IH [OF run] enq_refuses [of m q x q1]
      show ?thesis by simp
    next
      case (Inr u)
      with Cons.prems CallQueue e run Cons.IH [OF run] enq_accepts [of m q u q1]
      show ?thesis by (auto simp: for_wc_def)
    qed
  next
    case (CallDequeue w)
    obtain r q1 where e: "deq w q = (r, q1)" by (cases "deq w q")
    obtain acc1 out1 q2 where run: "queue_run enq deq stp sta cs q1 = (acc1, out1, q2)"
      by (cases "queue_run enq deq stp sta cs q1")
    show ?thesis
    proof (cases r)
      case None
      with Cons.prems CallDequeue e run Cons.IH [OF run] deq_None [of w q q1 wc]
      show ?thesis by simp
    next
      case (Some m)
      with Cons.prems CallDequeue e run Cons.IH [OF run]
        deq_Some [of w q m q1] deq_other [of w q r q1 wc]
      show ?thesis by (cases "w = wc") (auto simp: handed_to_def)
    qed
  next
    case CallStop
    with Cons.prems Cons.IH [of "stp q"] show ?thesis by (simp add: stp_keeps)
  next
    case CallStart
    with Cons.prems Cons.IH [of "sta q"] show ?thesis by (simp add: sta_keeps)
  qed
qed

end

interpretation mq: inbound_queue mq_queue "mq_dequeue wc_of" mq_stop mq_start "pending wc_of" wc_of
  for wc_of
proof unfold_locales
  fix m :: 'a and q q' :: "'a in_messages_queue" and wc u
  assume "mq_queue m q = (Inr u, q')"
  then show "pending wc_of q' wc = pending wc_of q wc @ for_wc wc_of wc [m]"
    by (auto simp: mq_queue_def pending_def for_wc_def split: if_splits)
next
  fix m :: 'a and q q' :: "'a in_messages_queue" and r wc
  assume "mq_queue m q = (Inl r, q')"
  then show "pending wc_of q' wc = pending wc_of q wc"
    by (auto simp: mq_queue_def split: if_splits)
next
  fix q q' :: "'a in_messages_queue" and wc wc'
  assume "mq_dequeue wc_of wc q = (None, q')"
  then show "pending wc_of q wc = [] \<and> pending wc_of q' wc' = pending wc_of q wc'"
    by (cases rule: mq_dequeue_cases [of wc_of q wc]) auto
next
  fix m :: 'a and q q' :: "'a in_messages_queue" and wc
  assume "mq_dequeue wc_of wc q = (Some m, q')"
  then show "pending wc_of q wc = m # pending wc_of q' wc"
    by (cases rule: mq_dequeue_cases [of wc_of q wc]) (auto simp: pending_def)
next
  fix q q' :: "'a in_messages_queue" and wc wc' r
  assume "mq_dequeue wc_of wc q = (r, q')" "wc' \<noteq> wc"
  then show "pending wc_of q' wc' = pending wc_of q wc'"
    by (cases rule: mq_dequeue_cases [of wc_of q wc]) (auto simp: pending_def)
qed (simp_all add: pending_def mq_stop_def mq_start_def)

section \<open>Capacity\<close>

lemma mq_dequeue_length:
  "mq_dequeue wc_of wc q = (r, q') \<Longrightarrow>
   length (mq_storage q') = length (mq_storage q) - (if r = None then 0 else 1)"
  by (cases rule: mq_dequeue_cases [of wc_of q wc]) auto

lemma mq_dequeue_Some_shorter:
  "mq_dequeue wc_of wc q = (Some m, q') \<Longrightarrow>
   length (mq_storage q) = Suc (length (mq_storage q'))"
  by (cases rule: mq_dequeue_cases [of wc_of q wc]) auto

text \<open>\<^bold>\<open>C1\<close>. Whatever the receivers and the collators do, the messages that the queue handed
  to a workchain followed by those still waiting for it are the ones that waited at the
  start followed by the accepted ones, in this order: no message of a workchain is lost,
  duplicated or overtaken.\<close>

theorem queue_fifo_per_workchain:
  assumes "queue_run mq_queue (mq_dequeue wc_of) mq_stop mq_start calls q = (acc, out, q')"
  shows "handed_to wc out @ pending wc_of q' wc = pending wc_of q wc @ for_wc wc_of wc acc"
  using assms by (rule mq.run_fifo)

theorem queue_fifo_per_workchain_witness:
  "handed_to 0 [(0, 4), (- 1, 3)] @ pending (\<lambda>m::nat. Some (if even m then 0 else - 1))
      \<lparr>mq_storage = [6], mq_capacity = 3, mq_stopped = False\<rparr> 0 =
    pending (\<lambda>m. Some (if even m then 0 else - 1)) (mq_new 3) 0 @
      for_wc (\<lambda>m. Some (if even m then 0 else - 1)) 0 [3, 4, 6]"
proof -
  have "queue_run mq_queue (mq_dequeue (\<lambda>m::nat. Some (if even m then 0 else - 1))) mq_stop mq_start
      [CallQueue 3, CallQueue 4, CallDequeue 0, CallStop, CallQueue 5, CallStart,
       CallQueue 6, CallDequeue (- 1)] (mq_new 3) =
    ([3, 4, 6], [(0, 4), (- 1, 3)], \<lparr>mq_storage = [6], mq_capacity = 3, mq_stopped = False\<rparr>)"
    by (simp add: mq_new_def mq_queue_def mq_dequeue_def mq_stop_def mq_start_def
        dequeue_loop.simps)
  from queue_fifo_per_workchain [OF this, of 0] show ?thesis .
qed

lemma queue_run_capacity:
  "queue_run mq_queue (mq_dequeue wc_of) mq_stop mq_start calls q = (acc, out, q') \<Longrightarrow>
   mq_len q \<le> mq_capacity q \<Longrightarrow> mq_len q' \<le> mq_capacity q' \<and> mq_capacity q' = mq_capacity q \<and>
     length acc + mq_len q = length out + mq_len q'"
proof (induction calls arbitrary: q acc out q')
  case Nil
  then show ?case by simp
next
  case (Cons c cs)
  show ?case
  proof (cases c)
    case (CallQueue m)
    with Cons.prems Cons.IH [of q] Cons.IH [of "q\<lparr>mq_storage := mq_storage q @ [m]\<rparr>"]
    show ?thesis by (auto simp: mq_queue_def mq_len_def split: prod.splits if_splits)
  next
    case (CallDequeue wc)
    from Cons.prems Cons.IH show ?thesis
      unfolding CallDequeue
      by (cases rule: mq_dequeue_cases [of wc_of q wc])
        (fastforce simp: mq_len_def split: prod.splits)+
  next
    case CallStop
    with Cons.prems Cons.IH [of "mq_stop q"] show ?thesis by (simp add: mq_stop_def mq_len_def)
  next
    case CallStart
    with Cons.prems Cons.IH [of "mq_start q"] show ?thesis by (simp add: mq_start_def mq_len_def)
  qed
qed

text \<open>From an empty queue no run of calls passes the capacity, and at every moment the
  number of accepted messages is the number handed out plus the number still waiting.\<close>

theorem queue_bounded_and_balanced:
  assumes "queue_run mq_queue (mq_dequeue wc_of) mq_stop mq_start calls (mq_new cap) = (acc, out, q')"
  shows "mq_len q' \<le> cap \<and> length acc = length out + mq_len q'"
  using queue_run_capacity [OF assms] by (simp add: mq_new_def mq_len_def)

theorem queue_bounded_and_balanced_witness:
  "mq_len \<lparr>mq_storage = [7 :: nat], mq_capacity = 1, mq_stopped = False\<rparr> \<le> 1 \<and>
   length [7 :: nat] = length [] +
     mq_len \<lparr>mq_storage = [7 :: nat], mq_capacity = 1, mq_stopped = False\<rparr>"
proof -
  have "queue_run mq_queue (mq_dequeue (\<lambda>_. Some 0)) mq_stop mq_start
      [CallQueue 7, CallQueue 8, CallDequeue 1] (mq_new 1) =
    ([7 :: nat], [], \<lparr>mq_storage = [7], mq_capacity = 1, mq_stopped = False\<rparr>)"
    by (simp add: mq_new_def mq_queue_def mq_dequeue_def dequeue_loop.simps)
  from queue_bounded_and_balanced [OF this] show ?thesis by simp
qed

end
