(* ===== verification/Queue_Wakeup.thy ===== *)
theory Queue_Wakeup
  imports Messages_Queue
begin

text \<open>
  The sleeping and waking of the node's worker thread: \<^verbatim>\<open>TonNodeEngine::run\<close> of
  \<^verbatim>\<open>engine.rs\<close> against \<^verbatim>\<open>queue\<close>, \<^verbatim>\<open>wait_new_message\<close> and \<^verbatim>\<open>stop\<close> of \<^verbatim>\<open>messages.rs\<close>,
  as an interleaving of atomic steps. An access to the \<^verbatim>\<open>stopped\<close> flag is one step, a
  critical section of the storage mutex is one step, \<^verbatim>\<open>notify_one\<close> is one step; a
  notification that finds nobody waiting has no effect (\<^verbatim>\<open>parking_lot::Condvar\<close> keeps
  none and has no spurious wake-ups). \<^verbatim>\<open>start\<close> is left out: nothing calls it.
\<close>

section \<open>The threads\<close>

text \<open>
  The worker: inside \<^verbatim>\<open>execute_queued_messages\<close>, before \<^verbatim>\<open>message_queues_are_empty\<close>,
  before the first load of \<^verbatim>\<open>stopped\<close>, before lock and wait, waiting, woken up before the
  second load of \<^verbatim>\<open>stopped\<close>, returned from \<^verbatim>\<open>run\<close>.
\<close>

datatype worker_pc =
  Executing | CheckEmpty | LoadStopped | LockAndWait | Waiting | Woken | Exited

record 'm wakeup =
  w_queue :: "'m in_messages_queue"
  w_pc :: worker_pc
  w_admitted :: nat
  w_notify_due :: bool

definition wakeup_init :: "nat \<Rightarrow> 'm wakeup" where
  "wakeup_init cap =
     \<lparr>w_queue = mq_new cap, w_pc = Executing, w_admitted = 0, w_notify_due = False\<rparr>"

definition notify_one :: "'m wakeup \<Rightarrow> 'm wakeup" where
  "notify_one s = (if w_pc s = Waiting then s\<lparr>w_pc := Woken\<rparr> else s)"

text \<open>
  \<open>served m\<close>: one of the chains of the node asks the queue for the workchain of \<open>m\<close>.
  \<^verbatim>\<open>execute_queued_messages\<close> takes served messages and returns when it finds none; the
  outbound queues of the chains are taken to be empty then.
\<close>

inductive worker_step :: "('m \<Rightarrow> bool) \<Rightarrow> 'm wakeup \<Rightarrow> 'm wakeup \<Rightarrow> bool" for served where
  take_message: "w_pc s = Executing \<Longrightarrow> mq_storage (w_queue s) = xs @ m # ys \<Longrightarrow> served m \<Longrightarrow>
    worker_step served s (s\<lparr>w_queue := (w_queue s)\<lparr>mq_storage := xs @ ys\<rparr>\<rparr>)"
| executed: "w_pc s = Executing \<Longrightarrow> \<forall>m \<in> set (mq_storage (w_queue s)). \<not> served m \<Longrightarrow>
    worker_step served s (s\<lparr>w_pc := CheckEmpty\<rparr>)"
| not_empty: "w_pc s = CheckEmpty \<Longrightarrow> \<not> mq_is_empty (w_queue s) \<Longrightarrow>
    worker_step served s (s\<lparr>w_pc := Executing\<rparr>)"
| empty: "w_pc s = CheckEmpty \<Longrightarrow> mq_is_empty (w_queue s) \<Longrightarrow>
    worker_step served s (s\<lparr>w_pc := LoadStopped\<rparr>)"
| load_stopped: "w_pc s = LoadStopped \<Longrightarrow>
    worker_step served s (s\<lparr>w_pc := if mq_stopped (w_queue s) then Exited else LockAndWait\<rparr>)"
| lock_and_wait: "w_pc s = LockAndWait \<Longrightarrow> worker_step served s (s\<lparr>w_pc := Waiting\<rparr>)"
| woken: "w_pc s = Woken \<Longrightarrow>
    worker_step served s (s\<lparr>w_pc := if mq_stopped (w_queue s) then Exited else Executing\<rparr>)"

text \<open>
  The receivers and the one thread that stops the node. A receiver first loads
  \<^verbatim>\<open>stopped\<close> (\<open>w_admitted\<close> counts those that saw it unset) and then, under the lock,
  appends and notifies, or finds the queue full. \<^verbatim>\<open>stop\<close> stores the flag and then
  notifies; it is called once, since its caller joins the worker before anything else.
\<close>

inductive api_step :: "'m wakeup \<Rightarrow> 'm wakeup \<Rightarrow> bool" where
  admitted: "\<not> mq_stopped (w_queue s) \<Longrightarrow> api_step s (s\<lparr>w_admitted := Suc (w_admitted s)\<rparr>)"
| push: "w_admitted s = Suc n \<Longrightarrow> \<not> mq_is_full (w_queue s) \<Longrightarrow>
    api_step s (notify_one (s\<lparr>w_admitted := n,
      w_queue := (w_queue s)\<lparr>mq_storage := mq_storage (w_queue s) @ [m]\<rparr>\<rparr>))"
| full: "w_admitted s = Suc n \<Longrightarrow> mq_is_full (w_queue s) \<Longrightarrow> api_step s (s\<lparr>w_admitted := n\<rparr>)"
| stop_store: "\<not> mq_stopped (w_queue s) \<Longrightarrow>
    api_step s (s\<lparr>w_queue := mq_stop (w_queue s), w_notify_due := True\<rparr>)"
| stop_notify: "w_notify_due s \<Longrightarrow> api_step s (notify_one (s\<lparr>w_notify_due := False\<rparr>))"

inductive wakeup_reachable :: "('m \<Rightarrow> bool) \<Rightarrow> nat \<Rightarrow> 'm wakeup \<Rightarrow> bool" for served cap where
  reach_init: "wakeup_reachable served cap (wakeup_init cap)"
| reach_worker: "wakeup_reachable served cap s \<Longrightarrow> worker_step served s t \<Longrightarrow>
    wakeup_reachable served cap t"
| reach_api: "wakeup_reachable served cap s \<Longrightarrow> api_step s t \<Longrightarrow> wakeup_reachable served cap t"

inductive_cases worker_stepE: "worker_step served s t"
inductive_cases api_stepE: "api_step s t"
inductive_simps worker_step_iff: "worker_step served s t"
inductive_simps api_step_iff: "api_step s t"

section \<open>What always holds\<close>

text \<open>
  The worker returns only when the node was stopped, the stopping thread still owes its
  notification only after it stored the flag, and the queue stays within its capacity.
\<close>

definition wakeup_inv :: "nat \<Rightarrow> 'm wakeup \<Rightarrow> bool" where
  "wakeup_inv cap s \<longleftrightarrow>
     mq_capacity (w_queue s) = cap \<and> mq_len (w_queue s) \<le> cap \<and>
     (w_pc s = Exited \<longrightarrow> mq_stopped (w_queue s)) \<and>
     (w_notify_due s \<longrightarrow> mq_stopped (w_queue s))"

lemma wakeup_inv_init: "wakeup_inv cap (wakeup_init cap)"
  by (simp add: wakeup_inv_def wakeup_init_def mq_new_def mq_len_def)

lemma wakeup_inv_worker: "worker_step served s t \<Longrightarrow> wakeup_inv cap s \<Longrightarrow> wakeup_inv cap t"
  by (induction rule: worker_step.induct) (auto simp: wakeup_inv_def mq_len_def)

lemma wakeup_inv_api: "api_step s t \<Longrightarrow> wakeup_inv cap s \<Longrightarrow> wakeup_inv cap t"
  by (induction rule: api_step.induct)
    (auto simp: wakeup_inv_def mq_len_def notify_one_def mq_stop_def mq_is_full_def)

lemma wakeup_inv_reachable: "wakeup_reachable served cap s \<Longrightarrow> wakeup_inv cap s"
  by (induction rule: wakeup_reachable.induct)
    (auto intro: wakeup_inv_init wakeup_inv_worker wakeup_inv_api)

section \<open>Two notifications that are lost\<close>

text \<open>The worker found the queue empty and the flag unset, and has not locked yet.\<close>

definition about_to_wait :: "nat \<Rightarrow> 'm wakeup" where
  "about_to_wait cap = (wakeup_init cap)\<lparr>w_pc := LockAndWait\<rparr>"

lemma reach_about_to_wait:
  fixes served :: "'m \<Rightarrow> bool"
  shows "wakeup_reachable served cap (about_to_wait cap)"
proof -
  let ?i = "wakeup_init cap :: 'm wakeup"
  have e: "mq_storage (w_queue ?i) = []" "\<not> mq_stopped (w_queue ?i)" "w_pc ?i = Executing"
    by (simp_all add: wakeup_init_def mq_new_def)
  have s1: "worker_step served ?i (?i\<lparr>w_pc := CheckEmpty\<rparr>)"
    using e by (intro executed) simp_all
  have s2: "worker_step served (?i\<lparr>w_pc := CheckEmpty\<rparr>) (?i\<lparr>w_pc := LoadStopped\<rparr>)"
    using empty [of "?i\<lparr>w_pc := CheckEmpty\<rparr>" served] e by (simp add: mq_is_empty_def)
  have s3: "worker_step served (?i\<lparr>w_pc := LoadStopped\<rparr>) (about_to_wait cap)"
    using load_stopped [of "?i\<lparr>w_pc := LoadStopped\<rparr>" served] e by (simp add: about_to_wait_def)
  from reach_init s1 s2 s3 show ?thesis by (blast intro: reach_worker)
qed

lemma reach_asleep_over_message:
  fixes served :: "'m \<Rightarrow> bool"
  assumes "0 < cap"
  shows "wakeup_reachable served cap
    (\<lparr>w_queue = (mq_new cap)\<lparr>mq_storage := [m]\<rparr>, w_pc = Waiting, w_admitted = 0,
      w_notify_due = False\<rparr>)"
proof -
  let ?a = "about_to_wait cap :: 'm wakeup"
  have a: "w_pc ?a = LockAndWait" "w_queue ?a = mq_new cap" "w_admitted ?a = 0"
    "w_notify_due ?a = False"
    by (simp_all add: about_to_wait_def wakeup_init_def)
  have s1: "api_step ?a (?a\<lparr>w_admitted := 1\<rparr>)"
    using admitted [of ?a] a by (simp add: mq_new_def)
  have s2: "api_step (?a\<lparr>w_admitted := 1\<rparr>)
      (?a\<lparr>w_admitted := 0, w_queue := (mq_new cap)\<lparr>mq_storage := [m]\<rparr>\<rparr>)"
    using push [of "?a\<lparr>w_admitted := 1\<rparr>" 0 m] a assms
    by (simp add: mq_new_def mq_is_full_def mq_len_def notify_one_def)
  have s3: "worker_step served (?a\<lparr>w_admitted := 0, w_queue := (mq_new cap)\<lparr>mq_storage := [m]\<rparr>\<rparr>)
      (?a\<lparr>w_admitted := 0, w_queue := (mq_new cap)\<lparr>mq_storage := [m]\<rparr>, w_pc := Waiting\<rparr>)"
    using lock_and_wait [of "?a\<lparr>w_admitted := 0, w_queue := (mq_new cap)\<lparr>mq_storage := [m]\<rparr>\<rparr>" served] a
    by simp
  have "wakeup_reachable served cap
      (?a\<lparr>w_admitted := 0, w_queue := (mq_new cap)\<lparr>mq_storage := [m]\<rparr>, w_pc := Waiting\<rparr>)"
    using reach_about_to_wait s1 s2 s3 by (blast intro: reach_worker reach_api)
  then show ?thesis by (simp add: about_to_wait_def wakeup_init_def)
qed

lemma reach_asleep_when_stopped:
  fixes served :: "'m \<Rightarrow> bool"
  shows "wakeup_reachable served cap
    (\<lparr>w_queue = mq_stop (mq_new cap), w_pc = Waiting, w_admitted = 0, w_notify_due = False\<rparr>)"
proof -
  let ?a = "about_to_wait cap :: 'm wakeup"
  have a: "w_pc ?a = LockAndWait" "w_queue ?a = mq_new cap" "w_admitted ?a = 0"
    "w_notify_due ?a = False"
    by (simp_all add: about_to_wait_def wakeup_init_def)
  let ?b = "?a\<lparr>w_queue := mq_stop (mq_new cap), w_notify_due := True\<rparr>"
  have s1: "api_step ?a ?b"
    using stop_store [of ?a] a by (simp add: mq_new_def)
  have s2: "api_step ?b (?b\<lparr>w_notify_due := False\<rparr>)"
    using stop_notify [of ?b] a by (simp add: notify_one_def)
  have s3: "worker_step served (?b\<lparr>w_notify_due := False\<rparr>) (?b\<lparr>w_notify_due := False, w_pc := Waiting\<rparr>)"
    using lock_and_wait [of "?b\<lparr>w_notify_due := False\<rparr>" served] a by simp
  have "wakeup_reachable served cap (?b\<lparr>w_notify_due := False, w_pc := Waiting\<rparr>)"
    using reach_about_to_wait s1 s2 s3 by (blast intro: reach_worker reach_api)
  then show ?thesis by (simp add: about_to_wait_def wakeup_init_def)
qed

lemma waiting_worker_stuck: "w_pc s = Waiting \<Longrightarrow> \<not> worker_step served s t"
  by (auto simp: worker_step_iff)

text \<open>\<^bold>\<open>C10\<close>. In every interleaving of the worker with the receivers and the stopping thread the
  queue stays within its capacity, and \<open>run\<close> has returned only if the node was stopped.\<close>

theorem wakeup_safety:
  assumes "wakeup_reachable served cap s"
  shows "mq_len (w_queue s) \<le> cap \<and> \<not> (w_pc s = Exited \<and> \<not> mq_stopped (w_queue s))"
  using wakeup_inv_reachable [OF assms] by (simp add: wakeup_inv_def)

theorem wakeup_safety_witness:
  "mq_len (w_queue (wakeup_init 2 :: nat wakeup)) \<le> 2 \<and>
   \<not> (w_pc (wakeup_init 2 :: nat wakeup) = Exited \<and> \<not> mq_stopped (w_queue (wakeup_init 2 :: nat wakeup)))"
  by (rule wakeup_safety [of "\<lambda>_. True"]) (rule reach_init)

text \<open>\<^bold>\<open>C16\<close>. The emptiness check and the wait are separate critical sections, so a message can
  be accepted between them: its notification finds nobody, and the worker then sleeps
  with a message it serves in the queue until some later call notifies it.\<close>

theorem accepted_message_can_be_slept_over:
  assumes "0 < cap" "served m"
  shows "\<exists>s. wakeup_reachable served cap s \<and> mq_storage (w_queue s) = [m] \<and>
    \<not> mq_stopped (w_queue s) \<and> (\<forall>t. \<not> worker_step served s t)"
proof -
  let ?s = "\<lparr>w_queue = (mq_new cap)\<lparr>mq_storage := [m]\<rparr>, w_pc = Waiting, w_admitted = 0,
      w_notify_due = False\<rparr>"
  have "\<forall>t. \<not> worker_step served ?s t" by (simp add: waiting_worker_stuck)
  with reach_asleep_over_message [OF assms(1), of served m] show ?thesis
    by (intro exI [of _ ?s]) (simp add: mq_new_def)
qed

theorem accepted_message_can_be_slept_over_witness:
  "\<exists>s. wakeup_reachable (\<lambda>m. m = (7::nat)) 10000 s \<and> mq_storage (w_queue s) = [7] \<and>
    \<not> mq_stopped (w_queue s) \<and> (\<forall>t. \<not> worker_step (\<lambda>m. m = 7) s t)"
  by (rule accepted_message_can_be_slept_over) simp_all

text \<open>\<^bold>\<open>C17\<close>. The first load of \<open>stopped\<close> in \<open>wait_new_message\<close> happens before the lock, so
  \<open>stop\<close> can store the flag and notify in between: the worker then waits forever in a
  stopped node, no thread can make a step any more, and the join in the caller of
  \<open>stop\<close> never returns.\<close>

theorem stop_can_deadlock:
  fixes served :: "'m \<Rightarrow> bool"
  shows "\<exists>s. wakeup_reachable served cap s \<and> mq_stopped (w_queue s) \<and> w_pc s \<noteq> Exited \<and>
    (\<forall>t. \<not> worker_step served s t \<and> \<not> api_step s t)"
proof -
  let ?s = "\<lparr>w_queue = mq_stop (mq_new cap), w_pc = Waiting, w_admitted = 0,
      w_notify_due = False\<rparr> :: 'm wakeup"
  have "\<forall>t. \<not> worker_step served ?s t" by (simp add: waiting_worker_stuck)
  moreover have "\<forall>t. \<not> api_step ?s t" by (auto simp: api_step_iff mq_stop_def)
  ultimately show ?thesis using reach_asleep_when_stopped
    by (intro exI [of _ ?s]) (simp add: mq_stop_def)
qed

end
