(* ===== verification/Byte_Codec.thy ===== *)
theory Byte_Codec
  imports Node_Prelude
begin

text \<open>
  The fixed-width byte encodings that the storage layer uses: \<^verbatim>\<open>to_le_bytes\<close> and
  \<^verbatim>\<open>to_be_bytes\<close> of Rust's unsigned integers, the 32 bytes of a \<^verbatim>\<open>UInt256\<close>, and the
  zero-padded hexadecimal of \<^verbatim>\<open>format!\<close>. Decoders are the inverse functions that the
  hypotheses on the byte reader of the block library refer to.
\<close>

section \<open>Little- and big-endian bytes\<close>

definition le_bytes :: "nat \<Rightarrow> 'a::len word \<Rightarrow> bytes" where
  "le_bytes n w = map (\<lambda>i. ucast (drop_bit (8 * i) w)) [0..<n]"

fun le_word :: "bytes \<Rightarrow> 'a::len word" where
  "le_word [] = 0"
| "le_word (b # bs) = or (ucast b) (push_bit 8 (le_word bs))"

definition u32_le :: "u32 \<Rightarrow> bytes" where
  "u32_le w = le_bytes 4 w"

definition u64_le :: "u64 \<Rightarrow> bytes" where
  "u64_le w = le_bytes 8 w"

definition u64_be :: "u64 \<Rightarrow> bytes" where
  "u64_be w = rev (le_bytes 8 w)"

text \<open>\<^verbatim>\<open>UInt256::as_slice\<close>: the 32 bytes of the value, most significant first.\<close>

definition u256_bytes :: "u256 \<Rightarrow> bytes" where
  "u256_bytes w = rev (le_bytes 32 w)"

lemma length_le_bytes [simp]: "length (le_bytes n w) = n"
  by (simp add: le_bytes_def)

lemma nth_le_bytes: "i < n \<Longrightarrow> le_bytes n w ! i = ucast (drop_bit (8 * i) w)"
  by (simp add: le_bytes_def)

lemma length_encodings [simp]:
  "length (u32_le a) = 4" "length (u64_le b) = 8" "length (u64_be b) = 8"
  "length (u256_bytes h) = 32"
  by (simp_all add: u32_le_def u64_le_def u64_be_def u256_bytes_def)

lemma le_bytes_Suc: "le_bytes (Suc n) w = ucast w # le_bytes n (drop_bit 8 w)"
  by (simp add: le_bytes_def upt_conv_Cons map_Suc_upt [symmetric] ac_simps del: upt_Suc)

lemma bit_le_word_le_bytes:
  "bit (le_word (le_bytes n w) :: 'a::len word) k \<longleftrightarrow> k < 8 * n \<and> bit (w :: 'a word) k"
proof (induction n arbitrary: w k)
  case 0
  then show ?case by (simp add: le_bytes_def)
next
  case (Suc n)
  have len: "bit w k \<Longrightarrow> k < LENGTH('a)"
    by (auto dest: bit_imp_le_length)
  show ?case
  proof (cases "k < 8")
    case True
    then show ?thesis
      by (auto simp: le_bytes_Suc bit_or_iff bit_push_bit_iff bit_ucast_iff len)
  next
    case False
    then have "8 + (k - 8) = k" by simp
    with False show ?thesis
      using Suc.IH [of "drop_bit 8 w" "k - 8"] len bit_imp_le_length [of "ucast w :: u8" k]
      by (auto simp: le_bytes_Suc bit_or_iff bit_push_bit_iff bit_drop_bit_eq bit_ucast_iff)
  qed
qed

lemma le_word_le_bytes:
  "LENGTH('a::len) \<le> 8 * n \<Longrightarrow> le_word (le_bytes n w) = (w :: 'a word)"
  by (rule bit_word_eqI) (auto simp: bit_le_word_le_bytes)

lemma le_word_u32_le [simp]: "le_word (u32_le w) = w"
  by (simp add: u32_le_def le_word_le_bytes)

lemma le_word_u64_le [simp]: "le_word (u64_le w) = w"
  by (simp add: u64_le_def le_word_le_bytes)

lemma le_word_u64_be [simp]: "le_word (rev (u64_be w)) = w"
  by (simp add: u64_be_def le_word_le_bytes)

lemma le_word_u256_bytes [simp]: "le_word (rev (u256_bytes w)) = w"
  by (simp add: u256_bytes_def le_word_le_bytes)

lemma encodings_inject [simp]:
  "u32_le a = u32_le b \<longleftrightarrow> a = b" "u64_le c = u64_le d \<longleftrightarrow> c = d"
  "u64_be c = u64_be d \<longleftrightarrow> c = d" "u256_bytes g = u256_bytes h \<longleftrightarrow> g = h"
  by (metis le_word_u32_le) (metis le_word_u64_le, metis le_word_u64_be, metis le_word_u256_bytes)

section \<open>Hexadecimal\<close>

text \<open>The digits that \<^verbatim>\<open>format!\<close> writes for \<^verbatim>\<open>{:X}\<close> and \<^verbatim>\<open>{:x}\<close>.\<close>

definition hex_upper :: "nat \<Rightarrow> char" where
  "hex_upper n = ''0123456789ABCDEF'' ! n"

definition hex_lower :: "nat \<Rightarrow> char" where
  "hex_lower n = ''0123456789abcdef'' ! n"

definition nibble :: "'a::len word \<Rightarrow> nat \<Rightarrow> nat" where
  "nibble w i = unat (take_bit 4 (drop_bit (4 * i) w))"

text \<open>
  \<^verbatim>\<open>{:08X}\<close> of a \<^verbatim>\<open>u32\<close> and \<^verbatim>\<open>{:016x}\<close> of a \<^verbatim>\<open>u64\<close>: the padding width is the number of
  digits of the type, so the result is always all the digits, most significant first.
\<close>

definition fmt_08X :: "u32 \<Rightarrow> string" where
  "fmt_08X w = map (\<lambda>i. hex_upper (nibble w i)) (rev [0..<8])"

definition fmt_016x :: "u64 \<Rightarrow> string" where
  "fmt_016x w = map (\<lambda>i. hex_lower (nibble w i)) (rev [0..<16])"

lemma length_fmt [simp]: "length (fmt_08X w) = 8" "length (fmt_016x v) = 16"
  by (simp_all add: fmt_08X_def fmt_016x_def)

lemma nibble_less [simp]: "nibble w i < 16"
proof -
  have "unat (take_bit 4 (drop_bit (4 * i) w)) = take_bit 4 (unat (drop_bit (4 * i) w))"
    by (rule unsigned_take_bit_eq)
  then show ?thesis
    using take_bit_nat_less_exp [of 4 "unat (drop_bit (4 * i) w)"] by (simp add: nibble_def)
qed

lemma hex_upper_set: "n < 16 \<Longrightarrow> hex_upper n \<in> set ''0123456789ABCDEF''"
  unfolding hex_upper_def by (rule nth_mem) simp

lemma hex_upper_inject: "m < 16 \<Longrightarrow> n < 16 \<Longrightarrow> hex_upper m = hex_upper n \<longleftrightarrow> m = n"
  unfolding hex_upper_def by (subst nth_eq_iff_index_eq) auto

lemma nibble_eq_imp_eq:
  assumes "\<And>i. 4 * i < LENGTH('a::len) \<Longrightarrow> nibble v i = nibble w i"
  shows "v = (w :: 'a word)"
proof (rule bit_word_eqI)
  fix k
  assume k: "k < LENGTH('a)"
  have "4 * (k div 4) \<le> k" by simp
  with k have "4 * (k div 4) < LENGTH('a)" by linarith
  from assms [OF this]
  have "take_bit 4 (drop_bit (4 * (k div 4)) v) = take_bit 4 (drop_bit (4 * (k div 4)) w)"
    by (simp add: nibble_def unsigned_word_eqI)
  then have "bit (take_bit 4 (drop_bit (4 * (k div 4)) v)) (k mod 4) =
      bit (take_bit 4 (drop_bit (4 * (k div 4)) w)) (k mod 4)"
    by simp
  then show "bit v k = bit w k"
    by (simp add: bit_take_bit_iff bit_drop_bit_eq)
qed

lemma fmt_08X_inject [simp]: "fmt_08X v = fmt_08X w \<longleftrightarrow> v = w"
proof
  assume "fmt_08X v = fmt_08X w"
  then have "\<forall>i < 8. nibble v i = nibble w i"
    by (simp add: fmt_08X_def rev_map [symmetric] hex_upper_inject)
  then show "v = w" by (intro nibble_eq_imp_eq) simp
qed simp

lemma fmt_08X_chars: "c \<in> set (fmt_08X w) \<Longrightarrow> c \<in> set ''0123456789ABCDEF''"
  using hex_upper_set [OF nibble_less] by (fastforce simp: fmt_08X_def simp del: list.set)

section \<open>Decimal\<close>

text \<open>\<^verbatim>\<open>format!("{}", n)\<close> of unsigned and signed integers.\<close>

fun show_nat :: "nat \<Rightarrow> string" where
  "show_nat n =
     (if n < 10 then [char_of (48 + n)] else show_nat (n div 10) @ [char_of (48 + n mod 10)])"

declare show_nat.simps [simp del]

definition show_int :: "int \<Rightarrow> string" where
  "show_int i = (if i < 0 then CHR ''-'' # show_nat (nat (- i)) else show_nat (nat i))"

lemma show_nat_digit_chars: "c \<in> set (show_nat n) \<Longrightarrow> \<exists>d < 10. c = char_of (48 + d :: nat)"
proof (induction n arbitrary: c rule: show_nat.induct)
  case (1 n)
  have d: "\<exists>d < 10. char_of (48 + n mod 10) = char_of (48 + d :: nat)"
    by (rule exI [of _ "n mod 10"]) simp
  show ?case
  proof (cases "n < 10")
    case True
    with "1.prems" show ?thesis by (auto simp: show_nat.simps [of n])
  next
    case False
    with "1.prems" have "c = char_of (48 + n mod 10) \<or> c \<in> set (show_nat (n div 10))"
      by (auto simp: show_nat.simps [of n])
    with "1.IH" [OF False] d show ?thesis by blast
  qed
qed

lemma show_nat_not_Nil: "show_nat n \<noteq> []"
  by (subst show_nat.simps) simp

end
