(* ===== verification/KV_Storage.thy ===== *)
theory KV_Storage
  imports Byte_Codec
begin

text \<open>
  Key-value storage: the trait \<^verbatim>\<open>KVStorage\<close> of \<^verbatim>\<open>node/src/data/mod.rs\<close>, its in-memory
  implementation (\<^verbatim>\<open>mem_storage.rs\<close>), and the contract that the storage of a shard
  relies on, as a locale. The file-system implementation is in \<^verbatim>\<open>FS_Storage\<close>.
\<close>

text \<open>A trait object: the operations on a storage of type \<open>'k\<close>.\<close>

record 'k kv =
  kv_get :: "string \<Rightarrow> 'k \<Rightarrow> bytes res"
  kv_set :: "string \<Rightarrow> bytes \<Rightarrow> bool \<Rightarrow> 'k \<Rightarrow> unit res \<times> 'k"
  kv_remove :: "string \<Rightarrow> 'k \<Rightarrow> unit res \<times> 'k"

section \<open>The storage in memory\<close>

type_synonym mem_kv_storage = "string \<Rightarrow> bytes option"

definition mem_get :: "string \<Rightarrow> mem_kv_storage \<Rightarrow> bytes res" where
  "mem_get key m = (case m key of Some data \<Rightarrow> Inr data | None \<Rightarrow> Fail NotFound)"

definition mem_set ::
  "string \<Rightarrow> bytes \<Rightarrow> bool \<Rightarrow> mem_kv_storage \<Rightarrow> unit res \<times> mem_kv_storage" where
  "mem_set key data overwrite m =
     (case m key of
        Some existing \<Rightarrow> (Inr (), if overwrite then m(key \<mapsto> data) else m)
      | None \<Rightarrow> (Inr (), m(key \<mapsto> data)))"

definition mem_remove :: "string \<Rightarrow> mem_kv_storage \<Rightarrow> unit res \<times> mem_kv_storage" where
  "mem_remove key m = (Inr (), m(key := None))"

definition mem_kv :: "mem_kv_storage kv" where
  "mem_kv = \<lparr>kv_get = mem_get, kv_set = mem_set, kv_remove = mem_remove\<rparr>"

lemma mem_kv_sel [simp]:
  "kv_get mem_kv = mem_get" "kv_set mem_kv = mem_set" "kv_remove mem_kv = mem_remove"
  by (simp_all add: mem_kv_def)

section \<open>Runs of calls\<close>

datatype kv_call = KGet string | KSet string bytes bool | KRemove string

datatype kv_reply = Got "bytes res" | Done "unit res"

fun kv_key :: "kv_call \<Rightarrow> string" where
  "kv_key (KGet k) = k"
| "kv_key (KSet k _ _) = k"
| "kv_key (KRemove k) = k"

fun kv_step :: "'k kv \<Rightarrow> kv_call \<Rightarrow> 'k \<Rightarrow> kv_reply \<times> 'k" where
  "kv_step kv (KGet k) s = (Got (kv_get kv k s), s)"
| "kv_step kv (KSet k d ow) s = (let (r, t) = kv_set kv k d ow s in (Done r, t))"
| "kv_step kv (KRemove k) s = (let (r, t) = kv_remove kv k s in (Done r, t))"

fun kv_run :: "'k kv \<Rightarrow> kv_call list \<Rightarrow> 'k \<Rightarrow> kv_reply list \<times> 'k" where
  "kv_run kv [] s = ([], s)"
| "kv_run kv (c # cs) s =
     (let (r, t) = kv_step kv c s; (rs, u) = kv_run kv cs t in (r # rs, u))"

section \<open>The contract\<close>

text \<open>
  A storage presents a map on the keys it supports. \<open>get\<close> reads it, \<open>set\<close> succeeds and
  stores unless the key is taken and must not be overwritten, \<open>remove\<close> succeeds and
  clears; other keys are untouched.
\<close>

locale kv_store =
  fixes kv :: "'k kv"
    and view :: "'k \<Rightarrow> string \<Rightarrow> bytes option"
    and inv :: "'k \<Rightarrow> bool"
    and key_ok :: "string \<Rightarrow> bool"
  assumes get_spec: "inv s \<Longrightarrow> key_ok k \<Longrightarrow>
      kv_get kv k s = (case view s k of None \<Rightarrow> Fail NotFound | Some d \<Rightarrow> Inr d)"
    and set_spec: "inv s \<Longrightarrow> key_ok k \<Longrightarrow> \<exists>t. kv_set kv k d ow s = (Inr (), t) \<and> inv t \<and>
      (\<forall>k'. key_ok k' \<longrightarrow>
         view t k' = (if k' = k \<and> (ow \<or> view s k = None) then Some d else view s k'))"
    and remove_spec: "inv s \<Longrightarrow> key_ok k \<Longrightarrow> \<exists>t. kv_remove kv k s = (Inr (), t) \<and> inv t \<and>
      (\<forall>k'. key_ok k' \<longrightarrow> view t k' = (if k' = k then None else view s k'))"
begin

text \<open>Agreement with a map on the supported keys, the simulation relation.\<close>

definition shows_map :: "'k \<Rightarrow> mem_kv_storage \<Rightarrow> bool" where
  "shows_map s m \<longleftrightarrow> inv s \<and> (\<forall>k. key_ok k \<longrightarrow> view s k = m k)"

lemma step_simulates_mem:
  assumes "shows_map s m" "key_ok (kv_key c)"
  shows "fst (kv_step kv c s) = fst (kv_step mem_kv c m) \<and>
    shows_map (snd (kv_step kv c s)) (snd (kv_step mem_kv c m))"
proof (cases c)
  case (KGet k)
  with assms show ?thesis
    by (auto simp: shows_map_def get_spec mem_get_def split: option.splits)
next
  case (KSet k d ow)
  with assms set_spec [of s k d ow] show ?thesis
    by (auto simp: shows_map_def mem_set_def split: option.splits)
next
  case (KRemove k)
  with assms remove_spec [of s k] show ?thesis
    by (auto simp: shows_map_def mem_remove_def)
qed

lemma run_simulates_mem:
  "shows_map s m \<Longrightarrow> list_all (\<lambda>c. key_ok (kv_key c)) cs \<Longrightarrow>
   fst (kv_run kv cs s) = fst (kv_run mem_kv cs m) \<and>
   shows_map (snd (kv_run kv cs s)) (snd (kv_run mem_kv cs m))"
proof (induction cs arbitrary: s m)
  case Nil
  then show ?case by simp
next
  case (Cons c cs)
  from Cons.prems step_simulates_mem [of s m c]
  have "fst (kv_step kv c s) = fst (kv_step mem_kv c m)"
    "shows_map (snd (kv_step kv c s)) (snd (kv_step mem_kv c m))" by simp_all
  with Cons.IH [of "snd (kv_step kv c s)" "snd (kv_step mem_kv c m)"] Cons.prems(2)
  show ?case by (simp add: split_beta Let_def)
qed

end

interpretation mem: kv_store mem_kv "\<lambda>m. m" "\<lambda>_. True" "\<lambda>_. True"
  by unfold_locales (auto simp: mem_get_def mem_set_def mem_remove_def split: option.splits)

section \<open>The keys of a shard's storage\<close>

text \<open>
  \<^verbatim>\<open>shard_storage_key\<close> of \<^verbatim>\<open>node/src/data/shard_storage.rs\<close>. \<open>hex\<close> stands for
  \<^verbatim>\<open>UInt256::to_hex_string\<close>, which writes the 64 hexadecimal digits of the value.
\<close>

definition BLOCKS_FINALITY_INFO_KEY :: string where
  "BLOCKS_FINALITY_INFO_KEY = ''blocks_finality.info''"

definition SHARD_INFO_KEY :: string where
  "SHARD_INFO_KEY = ''shard.info''"

definition SHARD_STATE_BLOCK_KEY :: string where
  "SHARD_STATE_BLOCK_KEY = ''shard_state.block''"

definition ZEROSTATE_KEY :: string where
  "ZEROSTATE_KEY = ''zerostate''"

lemmas root_key_defs =
  BLOCKS_FINALITY_INFO_KEY_def SHARD_INFO_KEY_def SHARD_STATE_BLOCK_KEY_def ZEROSTATE_KEY_def

definition block_key :: "u32 \<Rightarrow> u32 \<Rightarrow> string" where
  "block_key seq_no vert_seq_no =
     ''blocks/block_'' @ fmt_08X seq_no @ ''_'' @ fmt_08X vert_seq_no @ ''.block''"

definition block_finality_hash_key :: "(u256 \<Rightarrow> string) \<Rightarrow> u256 \<Rightarrow> string" where
  "block_finality_hash_key hex hash = ''block_finality/'' @ hex hash"

definition hex_digest :: "(u256 \<Rightarrow> string) \<Rightarrow> bool" where
  "hex_digest hex \<longleftrightarrow>
     inj hex \<and> (\<forall>h. length (hex h) = 64 \<and> set (hex h) \<subseteq> set ''0123456789abcdef'')"

text \<open>A function as the library documents it, for the witnesses.\<close>

definition std_hex :: "u256 \<Rightarrow> string" where
  "std_hex h = map (\<lambda>i. hex_lower (nibble h i)) (rev [0..<64])"

lemma hex_lower_inject: "m < 16 \<Longrightarrow> n < 16 \<Longrightarrow> hex_lower m = hex_lower n \<longleftrightarrow> m = n"
  unfolding hex_lower_def by (subst nth_eq_iff_index_eq) auto

lemma hex_lower_set: "n < 16 \<Longrightarrow> hex_lower n \<in> set ''0123456789abcdef''"
  unfolding hex_lower_def by (rule nth_mem) simp

lemma hex_digest_std_hex: "hex_digest std_hex"
proof -
  have "inj std_hex"
  proof (rule injI)
    fix g h
    assume "std_hex g = std_hex h"
    then have "\<forall>i < 64. nibble g i = nibble h i"
      by (simp add: std_hex_def rev_map [symmetric] hex_lower_inject)
    then show "g = h" by (intro nibble_eq_imp_eq) simp
  qed
  moreover have "set (std_hex h) \<subseteq> set ''0123456789abcdef''" for h
    using hex_lower_set [OF nibble_less] by (fastforce simp: std_hex_def simp del: list.set)
  moreover have "length (std_hex h) = 64" for h
    by (simp add: std_hex_def)
  ultimately show ?thesis unfolding hex_digest_def by blast
qed

lemma block_key_inject [simp]:
  "block_key a b = block_key c d \<longleftrightarrow> a = c \<and> b = d"
  by (auto simp: block_key_def)

lemma block_finality_hash_key_inject:
  "hex_digest hex \<Longrightarrow> block_finality_hash_key hex g = block_finality_hash_key hex h \<longleftrightarrow> g = h"
  by (auto simp: block_finality_hash_key_def hex_digest_def dest: injD)

lemma keys_disjoint [simp]:
  "block_key a b \<noteq> block_finality_hash_key hex h"
  "block_finality_hash_key hex h \<noteq> block_key a b"
  "k \<in> {BLOCKS_FINALITY_INFO_KEY, SHARD_INFO_KEY, SHARD_STATE_BLOCK_KEY, ZEROSTATE_KEY} \<Longrightarrow>
     k \<noteq> block_key a b \<and> k \<noteq> block_finality_hash_key hex h"
  by (auto simp: block_key_def block_finality_hash_key_def root_key_defs)

lemma root_keys_ne [simp]:
  "BLOCKS_FINALITY_INFO_KEY \<noteq> SHARD_INFO_KEY"
  "BLOCKS_FINALITY_INFO_KEY \<noteq> SHARD_STATE_BLOCK_KEY"
  "BLOCKS_FINALITY_INFO_KEY \<noteq> ZEROSTATE_KEY"
  "BLOCKS_FINALITY_INFO_KEY \<noteq> block_key a b"
  "block_key a b \<noteq> BLOCKS_FINALITY_INFO_KEY"
  "BLOCKS_FINALITY_INFO_KEY \<noteq> block_finality_hash_key hex h"
  "block_finality_hash_key hex h \<noteq> BLOCKS_FINALITY_INFO_KEY"
  "SHARD_INFO_KEY \<noteq> BLOCKS_FINALITY_INFO_KEY"
  "SHARD_INFO_KEY \<noteq> SHARD_STATE_BLOCK_KEY"
  "SHARD_INFO_KEY \<noteq> ZEROSTATE_KEY"
  "SHARD_INFO_KEY \<noteq> block_key a b"
  "block_key a b \<noteq> SHARD_INFO_KEY"
  "SHARD_INFO_KEY \<noteq> block_finality_hash_key hex h"
  "block_finality_hash_key hex h \<noteq> SHARD_INFO_KEY"
  "SHARD_STATE_BLOCK_KEY \<noteq> BLOCKS_FINALITY_INFO_KEY"
  "SHARD_STATE_BLOCK_KEY \<noteq> SHARD_INFO_KEY"
  "SHARD_STATE_BLOCK_KEY \<noteq> ZEROSTATE_KEY"
  "SHARD_STATE_BLOCK_KEY \<noteq> block_key a b"
  "block_key a b \<noteq> SHARD_STATE_BLOCK_KEY"
  "SHARD_STATE_BLOCK_KEY \<noteq> block_finality_hash_key hex h"
  "block_finality_hash_key hex h \<noteq> SHARD_STATE_BLOCK_KEY"
  "ZEROSTATE_KEY \<noteq> BLOCKS_FINALITY_INFO_KEY"
  "ZEROSTATE_KEY \<noteq> SHARD_INFO_KEY"
  "ZEROSTATE_KEY \<noteq> SHARD_STATE_BLOCK_KEY"
  "ZEROSTATE_KEY \<noteq> block_key a b"
  "block_key a b \<noteq> ZEROSTATE_KEY"
  "ZEROSTATE_KEY \<noteq> block_finality_hash_key hex h"
  "block_finality_hash_key hex h \<noteq> ZEROSTATE_KEY"
  by (simp_all add: root_key_defs block_key_def block_finality_hash_key_def)

lemma root_keys_distinct:
  "distinct [BLOCKS_FINALITY_INFO_KEY, SHARD_INFO_KEY, SHARD_STATE_BLOCK_KEY, ZEROSTATE_KEY]"
  by (simp add: root_key_defs)

section \<open>Shards and the storage of a node in memory\<close>

text \<open>
  A \<^verbatim>\<open>ShardIdent\<close> is known by the values its accessors \<^verbatim>\<open>workchain_id\<close> and
  \<^verbatim>\<open>shard_prefix_with_tag\<close> return; the library's functions on it are parameters.
\<close>

record shard_ident =
  si_workchain_id :: i32
  si_prefix :: u64

record shard_lib =
  sl_is_masterchain :: "shard_ident \<Rightarrow> bool"
  sl_masterchain :: shard_ident
  sl_full :: "i32 \<Rightarrow> shard_ident"

text \<open>\<^verbatim>\<open>MemStorage\<close> holds the zero state and hands it to the base workchain only.\<close>

definition mem_shard_storage :: "shard_lib \<Rightarrow> bytes \<Rightarrow> shard_ident \<Rightarrow> mem_kv_storage" where
  "mem_shard_storage sl zerostate shard =
     (let storage = Map.empty
      in if shard = sl_full sl 0 then snd (mem_set ZEROSTATE_KEY zerostate True storage)
         else storage)"

end
