(* ===== verification/Block_Lib.thy ===== *)
theory Block_Lib
  imports KV_Storage
begin

text \<open>
  What the node uses of the block library (\<^verbatim>\<open>ever_block\<close>, not part of this repository):
  a record of functions, passed to every definition that calls them. Shard states are of
  type \<open>'s\<close>, blocks of type \<open>'b\<close>, cells of type \<open>'c\<close>. A library value whose parts the
  node itself sets and reads (\<^verbatim>\<open>BlockInfo\<close>, \<^verbatim>\<open>ExtBlkRef\<close>) is a record of those parts.
\<close>

record ext_blk_ref =
  ebr_end_lt :: u64
  ebr_seq_no :: u32
  ebr_root_hash :: u256
  ebr_file_hash :: u256

datatype blk_prev_info = PrevBlock ext_blk_ref

record block_info =
  bi_seq_no :: u32
  bi_vert_seq_no :: u32
  bi_start_lt :: u64
  bi_end_lt :: u64
  bi_gen_utime :: u32
  bi_shard :: shard_ident
  bi_prev :: "blk_prev_info option"
  bi_key_block :: bool
  bi_before_split :: bool
  bi_want_split :: bool
  bi_want_merge :: bool
  bi_flags :: u8
  bi_min_ref_mc_seqno :: u32

text \<open>
  The reader functions (\<^verbatim>\<open>ByteOrderRead\<close>, \<^verbatim>\<open>BocReader\<close>) take the bytes that are left in
  the cursor and return what they read and the bytes left after it.
\<close>

record ('s, 'b, 'c) block_lib =
  bl_default_state :: 's
  bl_state_set_global_id :: "i32 \<Rightarrow> 's \<Rightarrow> 's"
  bl_state_set_shard :: "shard_ident \<Rightarrow> 's \<Rightarrow> 's"
  bl_state_seq_no :: "'s \<Rightarrow> u32"
  bl_state_out_queue_empty :: "'s \<Rightarrow> any_error + bool"
  bl_write_state :: "'s \<Rightarrow> any_error + bytes"
  bl_parse_state :: "bytes \<Rightarrow> any_error + 's"
  bl_read_state_boc :: "bytes \<Rightarrow> any_error + 's \<times> bytes"
  bl_default_block :: 'b
  bl_block_set_global_id :: "i32 \<Rightarrow> 'b \<Rightarrow> 'b"
  bl_block_global_id :: "'b \<Rightarrow> i32"
  bl_read_info :: "'b \<Rightarrow> any_error + block_info"
  bl_state_update_hash :: "'b \<Rightarrow> any_error + u256"
  bl_block_cell :: "'b \<Rightarrow> any_error + 'c"
  bl_cell_hash :: "'c \<Rightarrow> u256"
  bl_write_boc :: "'c \<Rightarrow> any_error + bytes"
  bl_file_hash :: "bytes \<Rightarrow> u256"
  bl_write_block :: "'b \<Rightarrow> any_error + bytes"
  bl_read_block_boc :: "bytes \<Rightarrow> any_error + 'b \<times> bytes"
  bl_rd_le_u64 :: "bytes \<Rightarrow> io_error + u64 \<times> bytes"
  bl_rd_le_u32 :: "bytes \<Rightarrow> io_error + u32 \<times> bytes"
  bl_rd_u256 :: "bytes \<Rightarrow> io_error + u256 \<times> bytes"
  bl_hex :: "u256 \<Rightarrow> string"

text \<open>
  The documented behaviour the node relies on: integers are read from exactly their bytes
  or fail at the end of the input; a bag of cells is read back from what was written and
  is self-delimiting; \<^verbatim>\<open>to_hex_string\<close> writes the digits.
\<close>

definition reads_exactly :: "nat \<Rightarrow> (bytes \<Rightarrow> 'a) \<Rightarrow> (bytes \<Rightarrow> io_error + 'a \<times> bytes) \<Rightarrow> bool" where
  "reads_exactly n dec rd \<longleftrightarrow>
     (\<forall>bs. rd bs = (if length bs < n then Inl UnexpectedEof else Inr (dec (take n bs), drop n bs)))"

definition reader_ok :: "('s, 'b, 'c) block_lib \<Rightarrow> bool" where
  "reader_ok lib \<longleftrightarrow>
     reads_exactly 8 le_word (bl_rd_le_u64 lib) \<and>
     reads_exactly 4 le_word (bl_rd_le_u32 lib) \<and>
     reads_exactly 32 (\<lambda>bs. le_word (rev bs)) (bl_rd_u256 lib)"

definition boc_ok :: "('s, 'b, 'c) block_lib \<Rightarrow> bool" where
  "boc_ok lib \<longleftrightarrow>
     (\<forall>s bs rest. bl_write_state lib s = Inr bs \<longrightarrow> bl_read_state_boc lib (bs @ rest) = Inr (s, rest)) \<and>
     (\<forall>b bs rest. bl_write_block lib b = Inr bs \<longrightarrow> bl_read_block_boc lib (bs @ rest) = Inr (b, rest))"

text \<open>A bag of cells that was cut off is refused: its header states the size.\<close>

definition boc_cut_refused :: "('s, 'b, 'c) block_lib \<Rightarrow> bool" where
  "boc_cut_refused lib \<longleftrightarrow>
     (\<forall>s bs n. bl_write_state lib s = Inr bs \<longrightarrow> n < length bs \<longrightarrow> isl (bl_read_state_boc lib (take n bs))) \<and>
     (\<forall>b bs n. bl_write_block lib b = Inr bs \<longrightarrow> n < length bs \<longrightarrow> isl (bl_read_block_boc lib (take n bs)))"

definition lib_ok :: "('s, 'b, 'c) block_lib \<Rightarrow> bool" where
  "lib_ok lib \<longleftrightarrow> reader_ok lib \<and> boc_ok lib \<and> hex_digest (bl_hex lib)"

lemma reads_exactly_append:
  "reads_exactly n dec rd \<Longrightarrow> length bs = n \<Longrightarrow> rd (bs @ rest) = Inr (dec bs, rest)"
  by (simp add: reads_exactly_def)

lemma reads_exactly_short:
  "reads_exactly n dec rd \<Longrightarrow> length bs < n \<Longrightarrow> rd bs = Inl UnexpectedEof"
  by (simp add: reads_exactly_def)

lemma reader_ok_simps:
  assumes "reader_ok lib"
  shows "bl_rd_le_u64 lib (u64_le a @ rest) = Inr (a, rest)"
    and "bl_rd_le_u32 lib (u32_le b @ rest) = Inr (b, rest)"
    and "bl_rd_u256 lib (u256_bytes h @ rest) = Inr (h, rest)"
  using assms reads_exactly_append [of 8 le_word "bl_rd_le_u64 lib" "u64_le a" rest]
    reads_exactly_append [of 4 le_word "bl_rd_le_u32 lib" "u32_le b" rest]
    reads_exactly_append [of 32 "\<lambda>bs. le_word (rev bs)" "bl_rd_u256 lib" "u256_bytes h" rest]
  by (simp_all add: reader_ok_def)

lemma reader_ok_short:
  assumes "reader_ok lib"
  shows "length bs < 8 \<Longrightarrow> bl_rd_le_u64 lib bs = Inl UnexpectedEof"
    and "length bs < 4 \<Longrightarrow> bl_rd_le_u32 lib bs = Inl UnexpectedEof"
    and "length bs < 32 \<Longrightarrow> bl_rd_u256 lib bs = Inl UnexpectedEof"
  using assms by (auto simp: reader_ok_def reads_exactly_def)

section \<open>A library for the witnesses\<close>

text \<open>
  A small library that behaves as documented: a shard state is its global id, its
  sequence number and whether its outbound queue is empty; a block is its global id, its
  sequence number and its end of logical time; a cell is its bytes. Everything is written
  as fixed-width fields, so reading back is exact.
\<close>

definition std_read :: "nat \<Rightarrow> (bytes \<Rightarrow> 'a) \<Rightarrow> bytes \<Rightarrow> 'e \<Rightarrow> 'e + 'a \<times> bytes" where
  "std_read n dec bs eof = (if length bs < n then Inl eof else Inr (dec (take n bs), drop n bs))"

type_synonym demo_state = "i32 \<times> u32 \<times> bool"
type_synonym demo_block = "i32 \<times> u32 \<times> u64"

fun demo_state_bytes :: "demo_state \<Rightarrow> bytes" where
  "demo_state_bytes (g, n, e) = u32_le g @ u32_le n @ [if e then 1 else 0]"

definition demo_state_of :: "bytes \<Rightarrow> demo_state" where
  "demo_state_of bs = (le_word (take 4 bs), le_word (take 4 (drop 4 bs)), drop 8 bs = [1])"

fun demo_block_bytes :: "demo_block \<Rightarrow> bytes" where
  "demo_block_bytes (g, n, lt) = u32_le g @ u32_le n @ u64_le lt"

definition demo_block_of :: "bytes \<Rightarrow> demo_block" where
  "demo_block_of bs = (le_word (take 4 bs), le_word (take 4 (drop 4 bs)), le_word (drop 8 bs))"

definition demo_info :: block_info where
  "demo_info =
     \<lparr>bi_seq_no = 0, bi_vert_seq_no = 0, bi_start_lt = 0, bi_end_lt = 0, bi_gen_utime = 0,
      bi_shard = \<lparr>si_workchain_id = 0, si_prefix = 0x8000000000000000\<rparr>, bi_prev = None,
      bi_key_block = False, bi_before_split = False, bi_want_split = False,
      bi_want_merge = False, bi_flags = 0, bi_min_ref_mc_seqno = 0\<rparr>"

definition demo_lib :: "(demo_state, demo_block, bytes) block_lib" where
  "demo_lib =
     \<lparr>bl_default_state = (0, 0, True),
      bl_state_set_global_id = (\<lambda>g (_, n, e). (g, n, e)),
      bl_state_set_shard = (\<lambda>_ s. s),
      bl_state_seq_no = (\<lambda>(_, n, _). n),
      bl_state_out_queue_empty = (\<lambda>(_, _, e). Inr e),
      bl_write_state = (\<lambda>s. Inr (demo_state_bytes s)),
      bl_parse_state = (\<lambda>bs. if length bs = 9 then Inr (demo_state_of bs) else Inl (LibError ''boc'')),
      bl_read_state_boc = (\<lambda>bs. std_read 9 demo_state_of bs (LibError ''boc'')),
      bl_default_block = (0, 0, 0),
      bl_block_set_global_id = (\<lambda>g (_, n, lt). (g, n, lt)),
      bl_block_global_id = (\<lambda>(g, _, _). g),
      bl_read_info = (\<lambda>(_, n, lt). Inr (demo_info\<lparr>bi_seq_no := n, bi_end_lt := lt\<rparr>)),
      bl_state_update_hash = (\<lambda>_. Inr 1),
      bl_block_cell = (\<lambda>b. Inr (demo_block_bytes b)),
      bl_cell_hash = (\<lambda>c. le_word c + 1),
      bl_write_boc = (\<lambda>c. Inr c),
      bl_file_hash = (\<lambda>bs. le_word bs),
      bl_write_block = (\<lambda>b. Inr (demo_block_bytes b)),
      bl_read_block_boc = (\<lambda>bs. std_read 16 demo_block_of bs (LibError ''boc'')),
      bl_rd_le_u64 = (\<lambda>bs. std_read 8 le_word bs UnexpectedEof),
      bl_rd_le_u32 = (\<lambda>bs. std_read 4 le_word bs UnexpectedEof),
      bl_rd_u256 = (\<lambda>bs. std_read 32 (\<lambda>x. le_word (rev x)) bs UnexpectedEof),
      bl_hex = std_hex\<rparr>"

lemma length_demo_bytes [simp]:
  "length (demo_state_bytes s) = 9" "length (demo_block_bytes b) = 16"
  by (cases s; simp) (cases b; simp)

lemma demo_of_bytes [simp]:
  "demo_state_of (demo_state_bytes s) = s" "demo_block_of (demo_block_bytes b) = b"
  by (cases s; simp add: demo_state_of_def) (cases b; simp add: demo_block_of_def)

lemma demo_lib_ok: "lib_ok demo_lib"
  by (simp add: lib_ok_def reader_ok_def boc_ok_def reads_exactly_def demo_lib_def std_read_def
      hex_digest_std_hex)

lemma demo_lib_cut: "boc_cut_refused demo_lib"
  by (auto simp: boc_cut_refused_def demo_lib_def std_read_def)

end
