(* ===== verification/FS_Storage.thy ===== *)
theory FS_Storage
  imports KV_Storage
begin

text \<open>
  The storage on the file system (\<^verbatim>\<open>node/src/data/fs_storage.rs\<close>) and the constructors of
  both node storages. The file system is the part of the standard library that the code
  uses: regular files with their bytes, directories, and the errors of a missing parent
  and of a directory where a file is wanted. Failures of the device are not modelled.
\<close>

section \<open>Paths\<close>

type_synonym path = "string list"

fun split_slash :: "string \<Rightarrow> string list" where
  "split_slash [] = [[]]"
| "split_slash (c # cs) =
     (if c = CHR ''/'' then [] # split_slash cs
      else case split_slash cs of s # ss \<Rightarrow> (c # s) # ss | [] \<Rightarrow> [[c]])"

text \<open>\<^verbatim>\<open>Path::components\<close>: empty components and \<^verbatim>\<open>.\<close> are dropped.\<close>

definition path_components :: "string \<Rightarrow> path" where
  "path_components s = filter (\<lambda>c. c \<noteq> [] \<and> c \<noteq> ''.'') (split_slash s)"

text \<open>\<^verbatim>\<open>PathBuf::join\<close>: an absolute argument replaces the path.\<close>

definition path_join :: "path \<Rightarrow> string \<Rightarrow> path" where
  "path_join p s =
     (if s \<noteq> [] \<and> hd s = CHR ''/'' then path_components s else p @ path_components s)"

fun join_slash :: "string list \<Rightarrow> string" where
  "join_slash [] = []"
| "join_slash [c] = c"
| "join_slash (c # cs) = c @ CHR ''/'' # join_slash cs"

lemma split_slash_ne [simp]: "split_slash s \<noteq> []"
  by (induction s) (auto split: list.splits)

lemma split_slash_no_slash: "c \<in> set (split_slash s) \<Longrightarrow> CHR ''/'' \<notin> set c"
  by (induction s arbitrary: c) (auto split: list.splits if_splits)

lemma split_slash_atom: "CHR ''/'' \<notin> set s \<Longrightarrow> split_slash s = [s]"
  by (induction s) auto

lemma split_slash_append:
  "CHR ''/'' \<notin> set a \<Longrightarrow> split_slash (a @ CHR ''/'' # b) = a # split_slash b"
  by (induction a) auto

section \<open>The file system\<close>

record fs =
  fs_files :: "path \<Rightarrow> bytes option"
  fs_dirs :: "path set"

definition fs_exists :: "path \<Rightarrow> fs \<Rightarrow> bool" where
  "fs_exists p w \<longleftrightarrow> p \<in> fs_dirs w \<or> fs_files w p \<noteq> None"

definition path_prefixes :: "path \<Rightarrow> path list" where
  "path_prefixes p = map (\<lambda>n. take n p) [0..<Suc (length p)]"

definition fs_create_dir_all :: "path \<Rightarrow> fs \<Rightarrow> (io_error + unit) \<times> fs" where
  "fs_create_dir_all p w =
     (if \<exists>q \<in> set (path_prefixes p). fs_files w q \<noteq> None then (Inl (OtherIo ''not a directory''), w)
      else (Inr (), w\<lparr>fs_dirs := fs_dirs w \<union> set (path_prefixes p)\<rparr>))"

definition fs_read :: "path \<Rightarrow> fs \<Rightarrow> io_error + bytes" where
  "fs_read p w =
     (case fs_files w p of
        Some d \<Rightarrow> Inr d
      | None \<Rightarrow> Inl (if p \<in> fs_dirs w then OtherIo ''is a directory'' else NoSuchPath))"

definition fs_write :: "path \<Rightarrow> bytes \<Rightarrow> fs \<Rightarrow> (io_error + unit) \<times> fs" where
  "fs_write p d w =
     (if p \<in> fs_dirs w then (Inl (OtherIo ''is a directory''), w)
      else if p = [] \<or> butlast p \<notin> fs_dirs w then (Inl NoSuchPath, w)
      else (Inr (), w\<lparr>fs_files := (fs_files w)(p \<mapsto> d)\<rparr>))"

definition fs_remove_file :: "path \<Rightarrow> fs \<Rightarrow> (io_error + unit) \<times> fs" where
  "fs_remove_file p w =
     (if fs_files w p \<noteq> None then (Inr (), w\<lparr>fs_files := (fs_files w)(p := None)\<rparr>)
      else (Inl (if p \<in> fs_dirs w then OtherIo ''is a directory'' else NoSuchPath), w))"

section \<open>FSKVStorage\<close>

definition fskv_get :: "path \<Rightarrow> string \<Rightarrow> fs \<Rightarrow> bytes res" where
  "fskv_get root key w =
     (let path = path_join root key in
      if \<not> fs_exists path w then Fail NotFound else io_try (fs_read path w))"

definition fskv_set :: "path \<Rightarrow> string \<Rightarrow> bytes \<Rightarrow> bool \<Rightarrow> fs \<Rightarrow> unit res \<times> fs" where
  "fskv_set root key data overwrite w =
     (let path = path_join root key in
      if overwrite \<or> \<not> fs_exists path w
      then (let (r, w') = fs_write path data w in (io_try r, w'))
      else (Inr (), w))"

definition fskv_remove :: "path \<Rightarrow> string \<Rightarrow> fs \<Rightarrow> unit res \<times> fs" where
  "fskv_remove root key w =
     (let path = path_join root key in
      if fs_exists path w
      then (let (r, w') = fs_remove_file path w in (io_try r, w'))
      else (Inr (), w))"

definition fs_kv :: "path \<Rightarrow> fs kv" where
  "fs_kv root = \<lparr>kv_get = fskv_get root, kv_set = fskv_set root, kv_remove = fskv_remove root\<rparr>"

lemma fs_kv_sel [simp]:
  "kv_get (fs_kv root) = fskv_get root" "kv_set (fs_kv root) = fskv_set root"
  "kv_remove (fs_kv root) = fskv_remove root"
  by (simp_all add: fs_kv_def)

section \<open>Keys of a shard's storage\<close>

text \<open>
  The directories that \<^verbatim>\<open>FSKVStorage::with_path\<close> creates under the root of a shard, and
  the keys that name a file directly in one of them, written without redundant parts.
\<close>

definition key_dirs :: "path list" where
  "key_dirs = [[], [''blocks''], [''block_finality'']]"

definition storage_key :: "string \<Rightarrow> bool" where
  "storage_key k \<longleftrightarrow>
     (let cs = path_components k
      in cs \<noteq> [] \<and> k = join_slash cs \<and> butlast cs \<in> set key_dirs \<and> cs \<notin> set key_dirs)"

lemma storage_key_inj:
  "storage_key k \<Longrightarrow> storage_key k' \<Longrightarrow> path_components k = path_components k' \<Longrightarrow> k = k'"
  unfolding storage_key_def Let_def by metis

lemma hd_join_slash: "cs \<noteq> [] \<Longrightarrow> hd cs \<noteq> [] \<Longrightarrow> hd (join_slash cs) = hd (hd cs)"
  by (cases cs rule: join_slash.cases) auto

lemma storage_key_relative:
  assumes "storage_key k"
  shows "path_join root k = root @ path_components k"
proof (cases "k \<noteq> [] \<and> hd k = CHR ''/''")
  case True
  let ?cs = "path_components k"
  from assms have cs: "?cs \<noteq> []" "k = join_slash ?cs" by (auto simp: storage_key_def Let_def)
  then have "hd ?cs \<in> set ?cs" by simp
  then have h: "hd ?cs \<noteq> []" "CHR ''/'' \<notin> set (hd ?cs)"
    by (auto simp: path_components_def dest: split_slash_no_slash)
  with cs hd_join_slash [of ?cs] have "hd k = hd (hd ?cs)" by metis
  with h True have False by (metis hd_in_set)
  then show ?thesis ..
next
  case False
  then show ?thesis by (simp only: path_join_def if_False)
qed

lemma path_components_atom:
  "CHR ''/'' \<notin> set s \<Longrightarrow> s \<noteq> [] \<Longrightarrow> s \<noteq> ''.'' \<Longrightarrow> path_components s = [s]"
  by (simp add: path_components_def split_slash_atom)

lemma path_components_dir:
  "CHR ''/'' \<notin> set d \<Longrightarrow> d \<noteq> [] \<Longrightarrow> d \<noteq> ''.'' \<Longrightarrow>
   path_components (d @ CHR ''/'' # s) = d # path_components s"
  by (simp add: path_components_def split_slash_append)

lemma storage_key_plain:
  "CHR ''/'' \<notin> set s \<Longrightarrow> s \<notin> {[], ''.'', ''blocks'', ''block_finality''} \<Longrightarrow> storage_key s"
  by (simp add: storage_key_def path_components_atom key_dirs_def)

lemma storage_key_in_dir:
  assumes "d \<in> {''blocks'', ''block_finality''}" "CHR ''/'' \<notin> set s" "s \<notin> {[], ''.''}"
  shows "storage_key (d @ CHR ''/'' # s)"
proof -
  have "path_components (d @ CHR ''/'' # s) = [d, s]"
    using assms by (subst path_components_dir) (auto simp: path_components_atom)
  with assms show ?thesis by (auto simp: storage_key_def key_dirs_def)
qed

section \<open>The file-system storage keeps the contract\<close>

text \<open>
  The worlds in which the storage of a shard works: its directories exist, no file's
  path is a directory, and none of the keys' paths is a directory.
\<close>

definition fs_ready :: "path \<Rightarrow> fs \<Rightarrow> bool" where
  "fs_ready root w \<longleftrightarrow>
     (\<forall>d \<in> set key_dirs. root @ d \<in> fs_dirs w) \<and>
     (\<forall>p \<in> fs_dirs w. fs_files w p = None) \<and>
     (\<forall>k. storage_key k \<longrightarrow> root @ path_components k \<notin> fs_dirs w)"

definition fs_view :: "path \<Rightarrow> fs \<Rightarrow> string \<Rightarrow> bytes option" where
  "fs_view root w k = fs_files w (path_join root k)"

lemma fs_ready_parent:
  assumes "fs_ready root w" "storage_key k"
  shows "butlast (root @ path_components k) \<in> fs_dirs w" "path_components k \<noteq> []"
proof -
  from assms(2) show ne: "path_components k \<noteq> []" by (auto simp: storage_key_def Let_def)
  from assms have "root @ butlast (path_components k) \<in> fs_dirs w"
    by (auto simp: fs_ready_def storage_key_def Let_def)
  with ne show "butlast (root @ path_components k) \<in> fs_dirs w"
    by (simp add: butlast_append)
qed

lemma fskv_set_ready:
  assumes "fs_ready root w" "storage_key k"
  shows "fskv_set root k d ow w =
    (Inr (), if ow \<or> fs_view root w k = None
             then w\<lparr>fs_files := (fs_files w)(root @ path_components k \<mapsto> d)\<rparr> else w)"
  using assms fs_ready_parent [OF assms]
  by (auto simp: fskv_set_def fs_view_def storage_key_relative fs_exists_def fs_write_def
      fs_ready_def Let_def)

interpretation fs: kv_store "fs_kv root" "fs_view root" "fs_ready root" storage_key for root
proof unfold_locales
  fix w k
  assume "fs_ready root w" "storage_key k"
  then show "kv_get (fs_kv root) k w =
      (case fs_view root w k of None \<Rightarrow> Fail NotFound | Some d \<Rightarrow> Inr d)"
    by (auto simp: fskv_get_def fs_view_def storage_key_relative fs_exists_def fs_read_def
        fs_ready_def split: option.splits)
next
  fix w k d ow
  assume w: "fs_ready root w" and k: "storage_key k"
  then show "\<exists>t. kv_set (fs_kv root) k d ow w = (Inr (), t) \<and> fs_ready root t \<and>
      (\<forall>k'. storage_key k' \<longrightarrow> fs_view root t k' =
         (if k' = k \<and> (ow \<or> fs_view root w k = None) then Some d else fs_view root w k'))"
    by (auto simp: fskv_set_ready fs_view_def storage_key_relative fs_ready_def
        dest: storage_key_inj)
next
  fix w k
  assume w: "fs_ready root w" and k: "storage_key k"
  then show "\<exists>t. kv_remove (fs_kv root) k w = (Inr (), t) \<and> fs_ready root t \<and>
      (\<forall>k'. storage_key k' \<longrightarrow> fs_view root t k' = (if k' = k then None else fs_view root w k'))"
    by (cases "fs_files w (root @ path_components k)")
      (auto simp: fskv_remove_def fs_remove_file_def fs_exists_def fs_view_def Let_def
        storage_key_relative fs_ready_def dest: storage_key_inj)
qed

section \<open>All keys of the node are storage keys\<close>

lemma no_slash_chars:
  "set s \<subseteq> set cs \<Longrightarrow> CHR ''/'' \<notin> set cs \<Longrightarrow> CHR ''/'' \<notin> set s"
  by blast

lemma storage_key_root:
  "k \<in> {BLOCKS_FINALITY_INFO_KEY, SHARD_INFO_KEY, SHARD_STATE_BLOCK_KEY, ZEROSTATE_KEY} \<Longrightarrow>
   storage_key k"
  by (auto simp: root_key_defs intro: storage_key_plain)

lemma fmt_08X_no_slash: "CHR ''/'' \<notin> set (fmt_08X w)"
  using fmt_08X_chars by fastforce

lemma storage_key_block: "storage_key (block_key a b)"
proof -
  let ?s = "''block_'' @ fmt_08X a @ ''_'' @ fmt_08X b @ ''.block''"
  have "storage_key (''blocks'' @ CHR ''/'' # ?s)"
    by (rule storage_key_in_dir) (auto simp: fmt_08X_no_slash)
  then show ?thesis by (simp add: block_key_def)
qed

lemma storage_key_finality:
  assumes "hex_digest hex"
  shows "storage_key (block_finality_hash_key hex h)"
proof -
  from assms have "set (hex h) \<subseteq> set ''0123456789abcdef''" "length (hex h) = 64"
    by (auto simp: hex_digest_def)
  then have "CHR ''/'' \<notin> set (hex h)" "hex h \<notin> {[], ''.''}" by auto
  then have "storage_key (''block_finality'' @ CHR ''/'' # hex h)"
    by (intro storage_key_in_dir) simp_all
  then show ?thesis by (simp add: block_finality_hash_key_def)
qed

lemmas storage_keys [simp] = storage_key_root storage_key_block storage_key_finality

section \<open>Constructors and clear_db\<close>

definition fs_storage_new :: "path \<Rightarrow> fs \<Rightarrow> path res \<times> fs" where
  "fs_storage_new root_path w =
     (let root = path_join root_path ''workchains'' in
      if \<not> fs_exists root w
      then (case fs_create_dir_all root w of
              (Inl e, w') \<Rightarrow> (Fail (Io e), w') | (Inr _, w') \<Rightarrow> (Inr root, w'))
      else (Inr root, w))"

text \<open>The directory test and creation that the constructor makes twice.\<close>

definition ensure_dir :: "path \<Rightarrow> fs \<Rightarrow> unit res \<times> fs" where
  "ensure_dir d w =
     (if \<not> fs_exists d w then (let (r, w') = fs_create_dir_all d w in (io_try r, w'))
      else (Inr (), w))"

definition shard_root :: "shard_lib \<Rightarrow> shard_ident \<Rightarrow> path \<Rightarrow> path" where
  "shard_root sl shard workchains_path =
     (let workchain_name =
            (if sl_is_masterchain sl shard then ''MC''
             else ''WC'' @ show_int (sint (si_workchain_id shard)));
          shard_name = ''shard_'' @ fmt_016x (si_prefix shard)
      in path_join (path_join workchains_path workchain_name) shard_name)"

definition fskv_with_path :: "shard_lib \<Rightarrow> shard_ident \<Rightarrow> path \<Rightarrow> fs \<Rightarrow> path res \<times> fs" where
  "fskv_with_path sl shard workchains_path =
     (let root = shard_root sl shard workchains_path in
      bindS (ensure_dir (path_join root ''blocks'')) (\<lambda>_.
      bindS (ensure_dir (path_join root ''block_finality'')) (\<lambda>_.
      retS root)))"

definition fs_shard_storage :: "shard_lib \<Rightarrow> path \<Rightarrow> shard_ident \<Rightarrow> fs \<Rightarrow> path res \<times> fs" where
  "fs_shard_storage sl root_path shard = fskv_with_path sl shard root_path"

definition fs_clear_db :: "shard_lib \<Rightarrow> path \<Rightarrow> shard_ident \<Rightarrow> fs \<Rightarrow> unit res \<times> fs" where
  "fs_clear_db sl root_path shard =
     bindS (fs_shard_storage sl root_path shard) (\<lambda>storage.
     bindS (kv_remove (fs_kv storage) BLOCKS_FINALITY_INFO_KEY) (\<lambda>_.
     bindS (kv_remove (fs_kv storage) SHARD_INFO_KEY) (\<lambda>_.
     bindS (kv_remove (fs_kv storage) SHARD_STATE_BLOCK_KEY) (\<lambda>_.
     retS ()))))"

text \<open>
  What the constructor needs: directories and files do not overlap, nothing on the way to
  the shard's directories is a file, and no key's path is taken by a directory.
\<close>

definition fs_usable :: "path \<Rightarrow> fs \<Rightarrow> bool" where
  "fs_usable root w \<longleftrightarrow>
     (\<forall>p \<in> fs_dirs w. fs_files w p = None \<and> set (path_prefixes p) \<subseteq> fs_dirs w) \<and>
     (\<forall>d \<in> set key_dirs. \<forall>q \<in> set (path_prefixes (root @ d)). fs_files w q = None) \<and>
     (\<forall>k. storage_key k \<longrightarrow> root @ path_components k \<notin> fs_dirs w)"

lemma path_join_dirs [simp]:
  "path_join root ''blocks'' = root @ [''blocks'']"
  "path_join root ''block_finality'' = root @ [''block_finality'']"
  by (simp_all add: path_join_def path_components_def)

lemma path_prefixes_append [simp]: "q \<in> set (path_prefixes (q @ r))"
  by (auto simp: path_prefixes_def image_iff simp del: upt_Suc intro!: bexI [of _ "length q"])

lemma path_prefixes_self [simp]: "p \<in> set (path_prefixes p)"
  using path_prefixes_append [of p "[]"] by simp

lemma path_prefixes_Nil: "path_prefixes [] = [[]]"
  by (simp add: path_prefixes_def)

lemma path_prefixes_Cons: "path_prefixes (c # p) = [] # map (\<lambda>q. c # q) (path_prefixes p)"
  unfolding path_prefixes_def by (simp add: upt_conv_Cons map_Suc_upt [symmetric] del: upt_Suc)

lemma path_prefixes_trans:
  "q \<in> set (path_prefixes p) \<Longrightarrow> r \<in> set (path_prefixes q) \<Longrightarrow> r \<in> set (path_prefixes p)"
  by (force simp: path_prefixes_def min_def)

lemma key_dir_prefix_not_key:
  assumes "storage_key k" "d \<in> set key_dirs"
  shows "root @ path_components k \<notin> set (path_prefixes (root @ d))"
proof
  let ?cs = "path_components k"
  assume "root @ ?cs \<in> set (path_prefixes (root @ d))"
  then obtain n where n: "root @ ?cs = take n (root @ d)"
    by (auto simp: path_prefixes_def simp del: take_append upt_Suc)
  have "length root \<le> n"
    using arg_cong [OF n, of length] by (simp del: take_append)
  with n have "?cs = take (n - length root) d" by simp
  with assms show False
    by (auto simp: storage_key_def key_dirs_def Let_def take_Cons split: nat.splits)
qed

lemma ensure_dir_usable:
  assumes "fs_usable root w" "d \<in> set key_dirs"
  shows "ensure_dir (root @ d) w =
      (Inr (), w\<lparr>fs_dirs := fs_dirs w \<union> set (path_prefixes (root @ d))\<rparr>)"
    and "fs_usable root (w\<lparr>fs_dirs := fs_dirs w \<union> set (path_prefixes (root @ d))\<rparr>)"
proof -
  have f: "\<forall>q \<in> set (path_prefixes (root @ d)). fs_files w q = None"
    using assms by (simp add: fs_usable_def)
  then have "fs_files w (root @ d) = None" by simp
  moreover have "root @ d \<in> fs_dirs w \<Longrightarrow>
      fs_dirs w \<union> set (path_prefixes (root @ d)) = fs_dirs w"
    using assms(1) by (auto simp: fs_usable_def)
  ultimately show "ensure_dir (root @ d) w =
      (Inr (), w\<lparr>fs_dirs := fs_dirs w \<union> set (path_prefixes (root @ d))\<rparr>)"
    using f by (auto simp: ensure_dir_def fs_exists_def fs_create_dir_all_def)
  show "fs_usable root (w\<lparr>fs_dirs := fs_dirs w \<union> set (path_prefixes (root @ d))\<rparr>)"
    using assms f key_dir_prefix_not_key [OF _ assms(2), of _ root]
    by (auto simp: fs_usable_def dest: path_prefixes_trans)
qed

text \<open>The world after the constructor: the same files, and the shard's directories.\<close>

definition shard_dirs_made :: "path \<Rightarrow> fs \<Rightarrow> fs" where
  "shard_dirs_made root w =
     w\<lparr>fs_dirs := fs_dirs w \<union> set (path_prefixes (root @ [''blocks'']))
         \<union> set (path_prefixes (root @ [''block_finality'']))\<rparr>"

lemma fskv_with_path_ready:
  assumes "fs_usable (shard_root sl shard wp) w"
  shows "fskv_with_path sl shard wp w =
      (Inr (shard_root sl shard wp), shard_dirs_made (shard_root sl shard wp) w)"
    and "fs_ready (shard_root sl shard wp) (shard_dirs_made (shard_root sl shard wp) w)"
proof -
  let ?r = "shard_root sl shard wp"
  let ?w1 = "w\<lparr>fs_dirs := fs_dirs w \<union> set (path_prefixes (?r @ [''blocks'']))\<rparr>"
  have d: "[''blocks''] \<in> set key_dirs" "[''block_finality''] \<in> set key_dirs"
    by (simp_all add: key_dirs_def)
  note e1 = ensure_dir_usable [OF assms d(1)]
  note e2 = ensure_dir_usable [OF e1(2) d(2)]
  from e1(1) e2(1) show "fskv_with_path sl shard wp w = (Inr ?r, shard_dirs_made ?r w)"
    by (simp add: fskv_with_path_def Let_def bindS_def shard_dirs_made_def)
  have "fs_usable ?r (shard_dirs_made ?r w)"
    using e2(2) by (simp add: shard_dirs_made_def)
  moreover have "\<forall>d \<in> set key_dirs. ?r @ d \<in> fs_dirs (shard_dirs_made ?r w)"
    using path_prefixes_append [of ?r "[''blocks'']"]
    by (auto simp: key_dirs_def shard_dirs_made_def)
  ultimately show "fs_ready ?r (shard_dirs_made ?r w)"
    by (auto simp: fs_ready_def fs_usable_def)
qed

lemma fs_view_dirs_made [simp]: "fs_view root (shard_dirs_made r w) = fs_view root w"
  by (simp add: fs_view_def shard_dirs_made_def fun_eq_iff)

section \<open>Properties\<close>

lemma fs_shows_map: "fs_ready root w \<Longrightarrow> fs.shows_map root w (fs_view root w)"
  by (simp add: fs.shows_map_def)

text \<open>A world for the witnesses: the shard's directories are there, and one file.\<close>

definition example_world :: fs where
  "example_world =
     \<lparr>fs_files = [[''r'', ''zerostate''] \<mapsto> [1, 2]],
      fs_dirs = {[], [''r''], [''r'', ''blocks''], [''r'', ''block_finality'']}\<rparr>"

lemma storage_key_not_dir:
  "storage_key k \<Longrightarrow> path_components k \<notin> {[], [''blocks''], [''block_finality'']}"
  by (simp add: storage_key_def Let_def key_dirs_def)

lemma fs_ready_example: "fs_ready [''r''] example_world"
  using storage_key_not_dir by (auto simp: fs_ready_def example_world_def key_dirs_def)

text \<open>\<^bold>\<open>C4\<close>. The file-system storage and the in-memory storage are interchangeable: from a ready
  world, any sequence of calls on storage keys gets the same answers from the files as
  from a hash map that starts with the same contents.\<close>

theorem fs_storage_refines_mem_storage:
  assumes "fs_ready root w" "list_all (\<lambda>c. storage_key (kv_key c)) calls"
  shows "fst (kv_run (fs_kv root) calls w) = fst (kv_run mem_kv calls (fs_view root w))"
  using fs.run_simulates_mem [OF fs_shows_map [OF assms(1)] assms(2)] by simp

theorem fs_storage_refines_mem_storage_witness:
  "fst (kv_run (fs_kv [''r'']) [KSet SHARD_INFO_KEY [3] False, KGet SHARD_INFO_KEY, KGet ZEROSTATE_KEY]
      example_world) =
   [Done (Inr ()), Got (Inr [3]), Got (Inr [1, 2])]"
proof -
  have "list_all (\<lambda>c. storage_key (kv_key c))
      [KSet SHARD_INFO_KEY [3] False, KGet SHARD_INFO_KEY, KGet ZEROSTATE_KEY]"
    by simp
  from fs_storage_refines_mem_storage [OF fs_ready_example this]
  show ?thesis
    by (simp add: mem_set_def mem_get_def fs_view_def example_world_def path_join_def
        path_components_def root_key_defs)
qed

text \<open>The keys of a shard's storage never collide: block keys determine both sequence
  numbers, finality keys determine the hash, and no key of one family is a key of another;
  and each of them names a file directly inside a directory that the storage creates.\<close>

theorem storage_keys_unambiguous:
  assumes "hex_digest hex"
  shows "(block_key a b = block_key c d) = (a = c \<and> b = d) \<and>
    (block_finality_hash_key hex g = block_finality_hash_key hex h) = (g = h) \<and>
    block_key a b \<noteq> block_finality_hash_key hex h \<and>
    {block_key a b, block_finality_hash_key hex h} \<inter>
      {BLOCKS_FINALITY_INFO_KEY, SHARD_INFO_KEY, SHARD_STATE_BLOCK_KEY, ZEROSTATE_KEY} = {} \<and>
    distinct [BLOCKS_FINALITY_INFO_KEY, SHARD_INFO_KEY, SHARD_STATE_BLOCK_KEY, ZEROSTATE_KEY] \<and>
    storage_key (block_key a b) \<and> storage_key (block_finality_hash_key hex h)"
  using assms root_keys_distinct keys_disjoint(3) [of _ a b hex h]
  by (auto simp: block_finality_hash_key_inject)

theorem storage_keys_unambiguous_witness:
  "block_finality_hash_key std_hex 1 \<noteq> block_finality_hash_key std_hex 2"
  using storage_keys_unambiguous [OF hex_digest_std_hex, of 0 0 0 0 1 2] by simp

lemma fs_clear_db_spec:
  assumes "fs_usable (shard_root sl shard wp) w"
  shows "\<exists>w'. fs_clear_db sl wp shard w = (Inr (), w') \<and> fs_ready (shard_root sl shard wp) w' \<and>
    (\<forall>k. storage_key k \<longrightarrow> fs_view (shard_root sl shard wp) w' k =
       (if k \<in> {BLOCKS_FINALITY_INFO_KEY, SHARD_INFO_KEY, SHARD_STATE_BLOCK_KEY} then None
        else fs_view (shard_root sl shard wp) w k))"
proof -
  let ?r = "shard_root sl shard wp"
  note ready = fskv_with_path_ready [OF assms]
  obtain w1 where w1: "fskv_remove ?r BLOCKS_FINALITY_INFO_KEY (shard_dirs_made ?r w) = (Inr (), w1)"
      "fs_ready ?r w1" "\<forall>k'. storage_key k' \<longrightarrow> fs_view ?r w1 k' =
        (if k' = BLOCKS_FINALITY_INFO_KEY then None else fs_view ?r w k')"
    using fs.remove_spec [OF ready(2), of BLOCKS_FINALITY_INFO_KEY] by auto
  obtain w2 where w2: "fskv_remove ?r SHARD_INFO_KEY w1 = (Inr (), w2)"
      "fs_ready ?r w2" "\<forall>k'. storage_key k' \<longrightarrow> fs_view ?r w2 k' =
        (if k' = SHARD_INFO_KEY then None else fs_view ?r w1 k')"
    using fs.remove_spec [OF w1(2), of SHARD_INFO_KEY] by auto
  obtain w3 where w3: "fskv_remove ?r SHARD_STATE_BLOCK_KEY w2 = (Inr (), w3)"
      "fs_ready ?r w3" "\<forall>k'. storage_key k' \<longrightarrow> fs_view ?r w3 k' =
        (if k' = SHARD_STATE_BLOCK_KEY then None else fs_view ?r w2 k')"
    using fs.remove_spec [OF w2(2), of SHARD_STATE_BLOCK_KEY] by auto
  have "fs_clear_db sl wp shard w = (Inr (), w3)"
    using ready(1) w1(1) w2(1) w3(1)
    by (simp add: fs_clear_db_def fs_shard_storage_def bindS_def retS_def)
  moreover have "\<forall>k. storage_key k \<longrightarrow> fs_view ?r w3 k =
       (if k \<in> {BLOCKS_FINALITY_INFO_KEY, SHARD_INFO_KEY, SHARD_STATE_BLOCK_KEY} then None
        else fs_view ?r w k)"
    using w1(3) w2(3) w3(3) by simp
  ultimately show ?thesis using w3(2) by blast
qed

text \<open>\<^bold>\<open>C15\<close>. \<open>clear_db\<close> succeeds on a usable file system; afterwards the finality index, the
  shard info and the shard state are gone, and every other stored item (zero state,
  blocks, blocks by hash) is exactly what it was.\<close>

theorem clear_db_forgets_the_chain_only:
  assumes "fs_usable (shard_root sl shard wp) w" "storage_key k"
  shows "fst (fs_clear_db sl wp shard w) = Inr () \<and>
    fskv_get (shard_root sl shard wp) k (snd (fs_clear_db sl wp shard w)) =
      (if k \<in> {BLOCKS_FINALITY_INFO_KEY, SHARD_INFO_KEY, SHARD_STATE_BLOCK_KEY} then Fail NotFound
       else case fs_view (shard_root sl shard wp) w k of None \<Rightarrow> Fail NotFound | Some d \<Rightarrow> Inr d)"
proof -
  obtain w' where w': "fs_clear_db sl wp shard w = (Inr (), w')"
      "fs_ready (shard_root sl shard wp) w'"
      "fs_view (shard_root sl shard wp) w' k =
        (if k \<in> {BLOCKS_FINALITY_INFO_KEY, SHARD_INFO_KEY, SHARD_STATE_BLOCK_KEY} then None
         else fs_view (shard_root sl shard wp) w k)"
    using fs_clear_db_spec [OF assms(1)] assms(2) by blast
  with fs.get_spec [OF w'(2) assms(2)] show ?thesis by simp
qed

text \<open>A file system as \<open>FSStorage::new\<close> leaves it, with an index file of the masterchain.\<close>

definition example_lib :: shard_lib where
  "example_lib =
     \<lparr>sl_is_masterchain = (\<lambda>s. si_workchain_id s = - 1),
      sl_masterchain = \<lparr>si_workchain_id = - 1, si_prefix = 0x8000000000000000\<rparr>,
      sl_full = (\<lambda>wc. \<lparr>si_workchain_id = wc, si_prefix = 0x8000000000000000\<rparr>)\<rparr>"

definition example_fs :: fs where
  "example_fs =
     \<lparr>fs_files = [[''w'', ''MC'', ''shard_8000000000000000'', ''blocks_finality.info''] \<mapsto> [9],
                 [''w'', ''MC'', ''shard_8000000000000000'', ''zerostate''] \<mapsto> [5]],
      fs_dirs = {[], [''w''], [''w'', ''MC''], [''w'', ''MC'', ''shard_8000000000000000'']}\<rparr>"

lemma example_shard_root:
  "shard_root example_lib (sl_masterchain example_lib) [''w''] =
     [''w'', ''MC'', ''shard_8000000000000000'']"
  by (simp add: shard_root_def example_lib_def path_join_def path_components_def fmt_016x_def
      nibble_def hex_lower_def upt_rec)

lemma fs_usable_example: "fs_usable [''w'', ''MC'', ''shard_8000000000000000''] example_fs"
  unfolding fs_usable_def
proof (intro conjI)
  show "\<forall>p \<in> fs_dirs example_fs. fs_files example_fs p = None \<and>
      set (path_prefixes p) \<subseteq> fs_dirs example_fs"
    by (simp add: example_fs_def path_prefixes_Nil path_prefixes_Cons)
  show "\<forall>d \<in> set key_dirs. \<forall>q \<in> set (path_prefixes
      ([''w'', ''MC'', ''shard_8000000000000000''] @ d)). fs_files example_fs q = None"
    by (simp add: example_fs_def path_prefixes_Nil path_prefixes_Cons key_dirs_def)
  show "\<forall>k. storage_key k \<longrightarrow>
      [''w'', ''MC'', ''shard_8000000000000000''] @ path_components k \<notin> fs_dirs example_fs"
    using storage_key_not_dir by (simp add: example_fs_def)
qed

theorem clear_db_forgets_the_chain_only_witness:
  "fskv_get [''w'', ''MC'', ''shard_8000000000000000''] BLOCKS_FINALITY_INFO_KEY
     (snd (fs_clear_db example_lib [''w''] (sl_masterchain example_lib) example_fs)) = Fail NotFound \<and>
   fskv_get [''w'', ''MC'', ''shard_8000000000000000''] ZEROSTATE_KEY
     (snd (fs_clear_db example_lib [''w''] (sl_masterchain example_lib) example_fs)) = Inr [5]"
proof -
  note u = fs_usable_example [folded example_shard_root]
  have z: "fs_view [''w'', ''MC'', ''shard_8000000000000000''] example_fs ZEROSTATE_KEY = Some [5]"
    by (simp add: fs_view_def path_join_def path_components_def root_key_defs example_fs_def)
  from clear_db_forgets_the_chain_only [OF u, of BLOCKS_FINALITY_INFO_KEY]
    clear_db_forgets_the_chain_only [OF u, of ZEROSTATE_KEY] z
  show ?thesis by (simp add: example_shard_root)
qed

end
