(* ===== verification/Shard_Storage.thy ===== *)
theory Shard_Storage
  imports Block_Lib FS_Storage
begin

text \<open>
  \<^verbatim>\<open>node/src/data/shard_storage.rs\<close>: what the node stores per shard, over any key-value
  storage. \<^verbatim>\<open>ShardStorage\<close> is a mutex around the trait object, so its state is the
  storage's own and each call is one step on it.
\<close>

section \<open>ShardHash\<close>

record shard_hash =
  sh_block_seq_no :: u64
  sh_shard_hash :: u256

definition shard_hash_new :: shard_hash where
  "shard_hash_new = \<lparr>sh_block_seq_no = 0, sh_shard_hash = 0\<rparr>"

datatype ordering = Less | Equal | Greater

definition shard_hash_cmp :: "shard_hash \<Rightarrow> shard_hash \<Rightarrow> ordering" where
  "shard_hash_cmp a b =
     (if sh_block_seq_no a < sh_block_seq_no b then Less
      else if sh_block_seq_no a = sh_block_seq_no b then Equal else Greater)"

definition shard_hash_partial_cmp :: "shard_hash \<Rightarrow> shard_hash \<Rightarrow> ordering option" where
  "shard_hash_partial_cmp a b = Some (shard_hash_cmp a b)"

definition shard_hash_eq :: "shard_hash \<Rightarrow> shard_hash \<Rightarrow> bool" where
  "shard_hash_eq a b \<longleftrightarrow> sh_block_seq_no a = sh_block_seq_no b"

text \<open>\<^verbatim>\<open>Ord\<close> of the source compares the numbers alone, so that two hashes of one number are
  equivalent and not the same: a preorder, and total.\<close>

instantiation shard_hash_ext :: (type) preorder
begin

definition less_eq_shard_hash_ext :: "'a shard_hash_scheme \<Rightarrow> 'a shard_hash_scheme \<Rightarrow> bool" where
  "less_eq_shard_hash_ext a b \<longleftrightarrow> sh_block_seq_no a \<le> sh_block_seq_no b"

definition less_shard_hash_ext :: "'a shard_hash_scheme \<Rightarrow> 'a shard_hash_scheme \<Rightarrow> bool" where
  "less_shard_hash_ext a b \<longleftrightarrow> sh_block_seq_no a < sh_block_seq_no b"

instance
  by standard (auto simp: less_eq_shard_hash_ext_def less_shard_hash_ext_def)

end

lemma shard_hash_cmp_order:
  fixes a b :: shard_hash
  shows "shard_hash_cmp a b = Less \<longleftrightarrow> a < b" and "shard_hash_cmp a b = Greater \<longleftrightarrow> b < a"
    and "shard_hash_cmp a b = Equal \<longleftrightarrow> a \<le> b \<and> b \<le> a"
  by (auto simp: shard_hash_cmp_def less_eq_shard_hash_ext_def less_shard_hash_ext_def)

lemma shard_hash_eq_order: "shard_hash_eq a b \<longleftrightarrow> shard_hash_cmp a b = Equal"
  by (auto simp: shard_hash_eq_def shard_hash_cmp_def)

lemma shard_hash_total:
  fixes a b :: shard_hash
  shows "a \<le> b \<or> b \<le> a"
  by (auto simp: less_eq_shard_hash_ext_def)

section \<open>ShardStateInfo\<close>

record shard_state_info =
  ssi_seq_no :: u64
  ssi_lt :: u64
  ssi_hash :: u256

definition ssi_serialize :: "shard_state_info \<Rightarrow> bytes" where
  "ssi_serialize i = u64_be (ssi_seq_no i) @ u64_be (ssi_lt i) @ u256_bytes (ssi_hash i)"

lemma length_ssi_serialize [simp]: "length (ssi_serialize i) = 48"
  by (simp add: ssi_serialize_def)

lemma ssi_serialize_inject [simp]: "ssi_serialize i = ssi_serialize j \<longleftrightarrow> i = j"
  by (auto simp: ssi_serialize_def)

section \<open>ShardStorage\<close>

definition ss_get :: "'k kv \<Rightarrow> string \<Rightarrow> 'k \<Rightarrow> bytes res" where
  "ss_get kv key st = kv_get kv key st"

definition ss_set :: "'k kv \<Rightarrow> string \<Rightarrow> bytes \<Rightarrow> bool \<Rightarrow> 'k \<Rightarrow> unit res \<times> 'k" where
  "ss_set kv key data overwrite = kv_set kv key data overwrite"

definition save_non_finalized_block ::
  "(u256 \<Rightarrow> string) \<Rightarrow> 'k kv \<Rightarrow> u256 \<Rightarrow> bytes \<Rightarrow> 'k \<Rightarrow> unit res \<times> 'k" where
  "save_non_finalized_block hex kv hash data =
     ss_set kv (block_finality_hash_key hex hash) data False"

definition save_serialized_shardstate_ex ::
  "('s, 'b, 'c) block_lib \<Rightarrow> 'k kv \<Rightarrow> 's \<Rightarrow> bytes option \<Rightarrow> u256 \<Rightarrow> shard_state_info \<Rightarrow>
   'k \<Rightarrow> unit res \<times> 'k" where
  "save_serialized_shardstate_ex lib kv shard_state shard_data shard_hash info =
     (if shard_hash = 0 then liftS (Inl (Panic ''There should be no empty hashes!''))
      else
        bindS (liftS (case shard_data of Some d \<Rightarrow> Inr d
                      | None \<Rightarrow> lib_try (bl_write_state lib shard_state))) (\<lambda>data.
        bindS (ss_set kv SHARD_STATE_BLOCK_KEY data True) (\<lambda>_.
        ss_set kv SHARD_INFO_KEY (ssi_serialize info) True)))"

definition save_raw_block ::
  "('s, 'b, 'c) block_lib \<Rightarrow> 'k kv \<Rightarrow> 'b \<Rightarrow> bytes option \<Rightarrow> 'k \<Rightarrow> unit res \<times> 'k" where
  "save_raw_block lib kv block block_data =
     bindS (liftS (lib_try (bl_read_info lib block))) (\<lambda>info.
     let key = block_key (bi_seq_no info) (bi_vert_seq_no info) in
     case block_data of
       Some d \<Rightarrow> ss_set kv key d True
     | None \<Rightarrow>
         bindS (liftS (lib_try (bl_write_block lib block))) (\<lambda>d.
         ss_set kv key d True))"

text \<open>
  Over a storage that keeps the contract of \<open>kv_store\<close>, the three saves succeed and
  change exactly their keys.
\<close>

context kv_store
begin

definition wrote :: "'k \<Rightarrow> (string \<Rightarrow> bytes option) \<Rightarrow> 'k \<Rightarrow> bool" where
  "wrote s upd t \<longleftrightarrow> inv t \<and>
     (\<forall>k. key_ok k \<longrightarrow> view t k = (case upd k of Some d \<Rightarrow> Some d | None \<Rightarrow> view s k))"

lemma wrote_refl: "inv s \<Longrightarrow> wrote s Map.empty s"
  by (simp add: wrote_def)

lemma wrote_trans: "wrote s u1 t \<Longrightarrow> wrote t u2 v \<Longrightarrow> wrote s (u1 ++ u2) v"
  by (auto simp: wrote_def map_add_def split: option.splits)

lemma wrote_inv: "wrote s u t \<Longrightarrow> inv t"
  by (simp add: wrote_def)

lemma wrote_view: "wrote s u t \<Longrightarrow> key_ok k \<Longrightarrow>
    view t k = (case u k of Some d \<Rightarrow> Some d | None \<Rightarrow> view s k)"
  by (simp add: wrote_def)

lemma ss_set_overwrite:
  assumes "inv s" "key_ok k"
  shows "\<exists>t. ss_set kv k d True s = (Inr (), t) \<and> wrote s [k \<mapsto> d] t"
  using set_spec [OF assms, of d True] by (auto simp: ss_set_def wrote_def)

lemma ss_set_keep:
  assumes "inv s" "key_ok k"
  shows "\<exists>t. ss_set kv k d False s = (Inr (), t) \<and>
    wrote s [k \<mapsto> (case view s k of None \<Rightarrow> d | Some e \<Rightarrow> e)] t"
  using set_spec [OF assms, of d False] assms(2)
  by (auto simp: ss_set_def wrote_def split: option.splits)

lemma save_serialized_shardstate_ex_spec:
  assumes "inv s" "h \<noteq> 0" "key_ok SHARD_STATE_BLOCK_KEY" "key_ok SHARD_INFO_KEY"
  shows "\<exists>t. save_serialized_shardstate_ex lib kv st (Some d) h i s = (Inr (), t) \<and>
    wrote s [SHARD_STATE_BLOCK_KEY \<mapsto> d, SHARD_INFO_KEY \<mapsto> ssi_serialize i] t"
proof -
  obtain t where t: "ss_set kv SHARD_STATE_BLOCK_KEY d True s = (Inr (), t)"
      "wrote s [SHARD_STATE_BLOCK_KEY \<mapsto> d] t"
    using ss_set_overwrite [OF assms(1,3)] by blast
  obtain v where v: "ss_set kv SHARD_INFO_KEY (ssi_serialize i) True t = (Inr (), v)"
      "wrote t [SHARD_INFO_KEY \<mapsto> ssi_serialize i] v"
    using ss_set_overwrite [OF wrote_inv [OF t(2)] assms(4)] by blast
  from wrote_trans [OF t(2) v(2)]
  have "wrote s [SHARD_STATE_BLOCK_KEY \<mapsto> d, SHARD_INFO_KEY \<mapsto> ssi_serialize i] v"
    by simp
  with v(1) assms(2) show ?thesis
    using t(1) by (auto simp: save_serialized_shardstate_ex_def bindS_eq_Inr)
qed

lemma save_raw_block_spec:
  assumes "inv s" "bl_read_info lib b = Inr info"
    and "key_ok (block_key (bi_seq_no info) (bi_vert_seq_no info))"
  shows "\<exists>t. save_raw_block lib kv b (Some d) s = (Inr (), t) \<and>
    wrote s [block_key (bi_seq_no info) (bi_vert_seq_no info) \<mapsto> d] t"
  using ss_set_overwrite [OF assms(1,3)] assms(2) by (simp add: save_raw_block_def Let_def)

lemma save_non_finalized_block_spec:
  assumes "inv s" "key_ok (block_finality_hash_key hex h)"
  shows "\<exists>t. save_non_finalized_block hex kv h d s = (Inr (), t) \<and>
    wrote s [block_finality_hash_key hex h \<mapsto>
      (case view s (block_finality_hash_key hex h) of None \<Rightarrow> d | Some e \<Rightarrow> e)] t"
  using ss_set_keep [OF assms] by (simp add: save_non_finalized_block_def)

end

end
