(* ===== verification/Documents_Db.thy ===== *)
theory Documents_Db
  imports Node_Prelude
begin

text \<open>
  The documents database: the trait \<^verbatim>\<open>DocumentsDb\<close> of \<^verbatim>\<open>node/src/data/mod.rs\<close> with its
  in-memory implementation (\<^verbatim>\<open>mem_documents_db.rs\<close>) and the mock
  (\<^verbatim>\<open>documents_db_mock.rs\<close>). JSON values are of type \<open>'j\<close>.
\<close>

record 'j serialized_item =
  item_id :: string
  item_data :: 'j

record ('d, 'j) documents_db =
  db_put_account :: "'j serialized_item \<Rightarrow> 'd \<Rightarrow> unit res \<times> 'd"
  db_put_block :: "'j serialized_item \<Rightarrow> 'd \<Rightarrow> unit res \<times> 'd"
  db_put_message :: "'j serialized_item \<Rightarrow> 'd \<Rightarrow> unit res \<times> 'd"
  db_put_transaction :: "'j serialized_item \<Rightarrow> 'd \<Rightarrow> unit res \<times> 'd"
  db_has_delivery_problems :: "'d \<Rightarrow> bool"

section \<open>MemDocumentsDb\<close>

record 'j mem_docs =
  md_accounts :: "string \<Rightarrow> 'j option"
  md_blocks :: "'j list"
  md_transactions :: "'j list"
  md_messages :: "'j list"

definition mem_docs_new :: "'j mem_docs" where
  "mem_docs_new =
     \<lparr>md_accounts = Map.empty, md_blocks = [], md_transactions = [], md_messages = []\<rparr>"

definition md_put_account :: "'j serialized_item \<Rightarrow> 'j mem_docs \<Rightarrow> unit res \<times> 'j mem_docs" where
  "md_put_account acc d =
     (Inr (), d\<lparr>md_accounts := (md_accounts d)(item_id acc \<mapsto> item_data acc)\<rparr>)"

definition md_put_block :: "'j serialized_item \<Rightarrow> 'j mem_docs \<Rightarrow> unit res \<times> 'j mem_docs" where
  "md_put_block block d = (Inr (), d\<lparr>md_blocks := md_blocks d @ [item_data block]\<rparr>)"

definition md_put_message :: "'j serialized_item \<Rightarrow> 'j mem_docs \<Rightarrow> unit res \<times> 'j mem_docs" where
  "md_put_message message d = (Inr (), d\<lparr>md_messages := md_messages d @ [item_data message]\<rparr>)"

definition md_put_transaction ::
  "'j serialized_item \<Rightarrow> 'j mem_docs \<Rightarrow> unit res \<times> 'j mem_docs" where
  "md_put_transaction transaction d =
     (Inr (), d\<lparr>md_transactions := md_transactions d @ [item_data transaction]\<rparr>)"

definition md_has_delivery_problems :: "'j mem_docs \<Rightarrow> bool" where
  "md_has_delivery_problems d \<longleftrightarrow> False"

definition mem_documents_db :: "('j mem_docs, 'j) documents_db" where
  "mem_documents_db =
     \<lparr>db_put_account = md_put_account, db_put_block = md_put_block,
      db_put_message = md_put_message, db_put_transaction = md_put_transaction,
      db_has_delivery_problems = md_has_delivery_problems\<rparr>"

lemma mem_documents_db_sel [simp]:
  "db_put_account mem_documents_db = md_put_account"
  "db_put_block mem_documents_db = md_put_block"
  "db_put_message mem_documents_db = md_put_message"
  "db_put_transaction mem_documents_db = md_put_transaction"
  by (simp_all add: mem_documents_db_def)

section \<open>DocumentsDbMock\<close>

definition mock_put :: "'j serialized_item \<Rightarrow> unit \<Rightarrow> unit res \<times> unit" where
  "mock_put item d = (Inr (), d)"

definition documents_db_mock :: "(unit, 'j) documents_db" where
  "documents_db_mock =
     \<lparr>db_put_account = mock_put, db_put_block = mock_put, db_put_message = mock_put,
      db_put_transaction = mock_put, db_has_delivery_problems = (\<lambda>_. False)\<rparr>"

section \<open>The contract\<close>

text \<open>
  What the finality layer relies on: a database accepts every document. The four puts are
  told apart by the document's collection.
\<close>

datatype collection = Accounts | Blocks | Messages | Transactions

fun db_put ::
  "('d, 'j) documents_db \<Rightarrow> collection \<Rightarrow> 'j serialized_item \<Rightarrow> 'd \<Rightarrow> unit res \<times> 'd" where
  "db_put db Accounts = db_put_account db"
| "db_put db Blocks = db_put_block db"
| "db_put db Messages = db_put_message db"
| "db_put db Transactions = db_put_transaction db"

fun puts ::
  "('d, 'j) documents_db \<Rightarrow> (collection \<times> 'j serialized_item) list \<Rightarrow> 'd \<Rightarrow> 'd" where
  "puts db [] d = d"
| "puts db ((c, i) # xs) d = puts db xs (snd (db_put db c i d))"

lemma puts_append: "puts db (xs @ ys) d = puts db ys (puts db xs d)"
  by (induction db xs d rule: puts.induct) auto

lemma puts_Cons: "puts db (x # xs) d = puts db xs (puts db [x] d)"
  using puts_append [of db "[x]" xs d] by (simp only: append_Cons append_Nil)

locale accepting_db =
  fixes db :: "('d, 'j) documents_db"
  assumes put_accepts: "fst (db_put db c i d) = Inr ()"
begin

lemma put_eq: "db_put db c i d = (Inr (), puts db [(c, i)] d)"
  using put_accepts [of c i d] by (simp add: prod_eq_iff)

lemma put_sel:
  "db_put_account db i d = (Inr (), puts db [(Accounts, i)] d)"
  "db_put_block db i d = (Inr (), puts db [(Blocks, i)] d)"
  "db_put_message db i d = (Inr (), puts db [(Messages, i)] d)"
  "db_put_transaction db i d = (Inr (), puts db [(Transactions, i)] d)"
  using put_eq [of Accounts i d] put_eq [of Blocks i d] put_eq [of Messages i d]
    put_eq [of Transactions i d] by simp_all

end

interpretation mem_docs: accepting_db mem_documents_db
proof
  fix c and i :: "'a serialized_item" and d
  show "fst (db_put mem_documents_db c i d) = Inr ()"
    by (cases c) (simp_all add: md_put_account_def md_put_block_def md_put_message_def
        md_put_transaction_def)
qed

interpretation mock_db: accepting_db documents_db_mock
proof
  fix c and i :: "'a serialized_item" and d
  show "fst (db_put documents_db_mock c i d) = Inr ()"
    by (cases c) (simp_all add: documents_db_mock_def mock_put_def)
qed

text \<open>What the in-memory database holds after a sequence of puts.\<close>

definition collected :: "collection \<Rightarrow> (collection \<times> 'j serialized_item) list \<Rightarrow> 'j list" where
  "collected c xs = map (item_data \<circ> snd) (filter (\<lambda>x. fst x = c) xs)"

lemma mem_puts_lists:
  "md_blocks (puts mem_documents_db xs d) = md_blocks d @ collected Blocks xs"
  "md_transactions (puts mem_documents_db xs d) = md_transactions d @ collected Transactions xs"
  "md_messages (puts mem_documents_db xs d) = md_messages d @ collected Messages xs"
proof (induction xs arbitrary: d)
  case (Cons x xs)
  obtain c i where x: "x = (c, i)" by (cases x)
  {
    case 1
    show ?case using Cons.IH(1) by (cases c) (simp_all add: x collected_def
        md_put_account_def md_put_block_def md_put_message_def md_put_transaction_def)
  next
    case 2
    show ?case using Cons.IH(2) by (cases c) (simp_all add: x collected_def
        md_put_account_def md_put_block_def md_put_message_def md_put_transaction_def)
  next
    case 3
    show ?case using Cons.IH(3) by (cases c) (simp_all add: x collected_def
        md_put_account_def md_put_block_def md_put_message_def md_put_transaction_def)
  }
qed (simp_all add: collected_def)

text \<open>The accounts are a map: of two documents with one id the later one stays.\<close>

definition put_accounts :: "(collection \<times> 'j serialized_item) list \<Rightarrow> (string \<times> 'j) list" where
  "put_accounts xs = map (\<lambda>x. (item_id (snd x), item_data (snd x))) (filter (\<lambda>x. fst x = Accounts) xs)"

lemma mem_puts_accounts:
  "md_accounts (puts mem_documents_db xs d) = md_accounts d ++ map_of (rev (put_accounts xs))"
proof (induction xs arbitrary: d)
  case (Cons x xs)
  obtain c i where x: "x = (c, i)" by (cases x)
  show ?case using Cons.IH by (cases c) (auto simp: x put_accounts_def map_add_def fun_eq_iff
      md_put_account_def md_put_block_def md_put_message_def md_put_transaction_def split: option.split)
qed (simp add: put_accounts_def)

end
