(* ===== verification/Finality_Block.thy ===== *)
theory Finality_Block
  imports Block_Lib
begin

text \<open>
  \<^verbatim>\<open>node/src/block/finality_block.rs\<close>: the block with its shard state that the finality
  layer keeps, its place holder on disk, and their byte formats.
\<close>

section \<open>Data\<close>

text \<open>\<^verbatim>\<open>EngineTraceInfoData\<close> of \<^verbatim>\<open>builder.rs\<close>, which a block carries per transaction.\<close>

record trace_info =
  ti_info_type :: string
  ti_step :: u32
  ti_cmd_str :: string
  ti_stack :: "string list"
  ti_gas_used :: string
  ti_gas_cmd :: string
  ti_cmd_code_rem_bits :: u32
  ti_cmd_code_hex :: string
  ti_cmd_code_cell_hash :: string
  ti_cmd_code_offset :: u32

type_synonym traces = "u256 \<Rightarrow> trace_info list option"

record shard_block_hash =
  sbh_seq_no :: u64
  sbh_root_hash :: u256

record ('s, 'b) shard_block =
  sb_seq_no :: u64
  sb_serialized_block :: bytes
  sb_root_hash :: u256
  sb_file_hash :: u256
  sb_block :: 'b
  sb_shard_state :: 's
  sb_traces :: traces

datatype ('s, 'b) finality_block =
    Loaded "('s, 'b) shard_block"
  | Stored shard_block_hash

fun fb_seq_no :: "('s, 'b) finality_block \<Rightarrow> u64" where
  "fb_seq_no (Stored sb) = sbh_seq_no sb"
| "fb_seq_no (Loaded sb) = sb_seq_no sb"

definition sbh_with_hash :: "u64 \<Rightarrow> u256 \<Rightarrow> shard_block_hash" where
  "sbh_with_hash seq_no hash = \<lparr>sbh_seq_no = seq_no, sbh_root_hash = hash\<rparr>"

section \<open>The key of a block in a shard\<close>

definition key_by_seqno :: "u32 \<Rightarrow> u32 \<Rightarrow> u64" where
  "key_by_seqno seq_no vert_seq_no = or (push_bit 32 (ucast vert_seq_no)) (ucast seq_no)"

lemma bit_key_by_seqno:
  "bit (key_by_seqno s v) n \<longleftrightarrow> (if n < 32 then bit s n else bit v (n - 32))"
  using bit_imp_le_length [of s n] bit_imp_le_length [of v "n - 32"]
  by (auto simp: key_by_seqno_def bit_or_iff bit_push_bit_iff bit_ucast_iff)

lemma key_by_seqno_inject [simp]:
  "key_by_seqno s v = key_by_seqno s' v' \<longleftrightarrow> s = s' \<and> v = v'"
proof
  assume eq: "key_by_seqno s v = key_by_seqno s' v'"
  have "s = s'"
  proof (rule bit_word_eqI)
    fix n assume "n < LENGTH(32)"
    with eq show "bit s n = bit s' n"
      using bit_key_by_seqno [of s v n] bit_key_by_seqno [of s' v' n] by simp
  qed
  moreover have "v = v'"
  proof (rule bit_word_eqI)
    fix n assume "n < LENGTH(32)"
    with eq show "bit v n = bit v' n"
      using bit_key_by_seqno [of s v "n + 32"] bit_key_by_seqno [of s' v' "n + 32"] by simp
  qed
  ultimately show "s = s' \<and> v = v'" by simp
qed simp

lemma key_by_seqno_0 [simp]: "key_by_seqno 0 0 = 0"
  by (simp add: key_by_seqno_def)

lemma key_by_seqno_eq_0 [simp]: "key_by_seqno s v = 0 \<longleftrightarrow> s = 0 \<and> v = 0"
  using key_by_seqno_inject [of s v 0 0] by simp

section \<open>Constructors\<close>

definition sb_new :: "('s, 'b, 'c) block_lib \<Rightarrow> i32 \<Rightarrow> shard_ident \<Rightarrow> ('s, 'b) shard_block" where
  "sb_new lib global_id shard =
     \<lparr>sb_seq_no = 0, sb_serialized_block = [], sb_root_hash = 0, sb_file_hash = 0,
      sb_block = bl_block_set_global_id lib global_id (bl_default_block lib),
      sb_shard_state =
        bl_state_set_shard lib shard (bl_state_set_global_id lib global_id (bl_default_state lib)),
      sb_traces = Map.empty\<rparr>"

text \<open>Each \<^verbatim>\<open>unwrap\<close> of the constructor is a panic of its own.\<close>

definition sb_with_block_and_state ::
  "('s, 'b, 'c) block_lib \<Rightarrow> 'b \<Rightarrow> 's \<Rightarrow> ('s, 'b) shard_block res" where
  "sb_with_block_and_state lib block shard_state =
     bindR (unwrap_or_panic ''serialize'' (bl_block_cell lib block)) (\<lambda>cell.
     let root_hash = bl_cell_hash lib cell in
     bindR (unwrap_or_panic ''write_boc'' (bl_write_boc lib cell)) (\<lambda>serialized_block.
     let file_hash = bl_file_hash lib serialized_block in
     bindR (unwrap_or_panic ''read_info'' (bl_read_info lib block)) (\<lambda>info.
     Inr \<lparr>sb_seq_no = key_by_seqno (bi_seq_no info) (bi_vert_seq_no info),
          sb_serialized_block = serialized_block, sb_root_hash = root_hash,
          sb_file_hash = file_hash, sb_block = block, sb_shard_state = shard_state,
          sb_traces = Map.empty\<rparr>)))"

section \<open>The byte format\<close>

text \<open>\<^verbatim>\<open>len() as u32\<close> keeps the low 32 bits of the length.\<close>

definition sb_serialize :: "('s, 'b, 'c) block_lib \<Rightarrow> ('s, 'b) shard_block \<Rightarrow> bytes res" where
  "sb_serialize lib sb =
     (let buf = u64_le (sb_seq_no sb) @ u32_le (of_nat (length (sb_serialized_block sb)))
                @ sb_serialized_block sb @ u256_bytes (sb_root_hash sb)
                @ u256_bytes (sb_file_hash sb) in
      bindR (lib_try (bl_write_state lib (sb_shard_state sb))) (\<lambda>state_buf.
      bindR (lib_try (bl_write_block lib (sb_block sb))) (\<lambda>block_buf.
      Inr (buf @ state_buf @ block_buf))))"

text \<open>
  \<^verbatim>\<open>rdr.read(&mut sb_buf)\<close> on a zeroed buffer: a short read is no error and leaves zeros
  at the end of the buffer.
\<close>

definition read_into_zeroed :: "nat \<Rightarrow> bytes \<Rightarrow> bytes \<times> bytes" where
  "read_into_zeroed n rdr = (take n rdr @ replicate (n - length rdr) 0, drop n rdr)"

definition sb_deserialize ::
  "('s, 'b, 'c) block_lib \<Rightarrow> shard_ident \<Rightarrow> bytes \<Rightarrow> (('s, 'b) shard_block \<times> bytes) res" where
  "sb_deserialize lib default_shard rdr =
     (let sb = sb_new lib 0 default_shard in
      bindR (io_try (bl_rd_le_u64 lib rdr)) (\<lambda>(seq_no, rdr).
      bindR (io_try (bl_rd_le_u32 lib rdr)) (\<lambda>(sb_len, rdr).
      let (sb_buf, rdr) = read_into_zeroed (unat sb_len) rdr in
      bindR (io_try (bl_rd_u256 lib rdr)) (\<lambda>(root_hash, rdr).
      bindR (io_try (bl_rd_u256 lib rdr)) (\<lambda>(file_hash, rdr).
      bindR (lib_try (bl_read_state_boc lib rdr)) (\<lambda>(shard_state, rdr).
      bindR (lib_try (bl_read_block_boc lib rdr)) (\<lambda>(block, rdr).
      Inr (sb\<lparr>sb_seq_no := seq_no, sb_serialized_block := sb_buf, sb_root_hash := root_hash,
              sb_file_hash := file_hash, sb_shard_state := shard_state, sb_block := block\<rparr>,
           rdr))))))))"

section \<open>Reading back what was written\<close>

lemma read_into_zeroed_exact: "read_into_zeroed (length bs) (bs @ rest) = (bs, rest)"
  by (simp add: read_into_zeroed_def)

lemma sb_roundtrip:
  assumes "reader_ok lib" "boc_ok lib"
    and "length (sb_serialized_block sb) < 2 ^ 32"
    and "sb_serialize lib sb = Inr bs"
  shows "sb_deserialize lib shard (bs @ rest) = Inr (sb\<lparr>sb_traces := Map.empty\<rparr>, rest)"
proof -
  from assms(4) obtain ss bb where w:
      "bl_write_state lib (sb_shard_state sb) = Inr ss" "bl_write_block lib (sb_block sb) = Inr bb"
      "bs = u64_le (sb_seq_no sb) @ u32_le (of_nat (length (sb_serialized_block sb)))
                @ sb_serialized_block sb @ u256_bytes (sb_root_hash sb)
                @ u256_bytes (sb_file_hash sb) @ ss @ bb"
    by (auto simp: sb_serialize_def Let_def bindR_eq_Inr)
  have len: "unat (of_nat (length (sb_serialized_block sb)) :: u32) = length (sb_serialized_block sb)"
    using assms(3) by (simp add: unat_of_nat)
  have "bl_read_state_boc lib (ss @ bb @ rest) = Inr (sb_shard_state sb, bb @ rest)"
    "bl_read_block_boc lib (bb @ rest) = Inr (sb_block sb, rest)"
    using assms(2) w(1,2) unfolding boc_ok_def by auto
  with assms(1) w(3) len show ?thesis
    by (simp add: sb_deserialize_def Let_def reader_ok_simps read_into_zeroed_exact sb_new_def)
qed

lemma sb_with_block_and_state_sel:
  assumes "sb_with_block_and_state lib block st = Inr sb"
  obtains cell bytes info where "bl_block_cell lib block = Inr cell"
    "bl_write_boc lib cell = Inr bytes" "bl_read_info lib block = Inr info"
    "sb = \<lparr>sb_seq_no = key_by_seqno (bi_seq_no info) (bi_vert_seq_no info),
          sb_serialized_block = bytes, sb_root_hash = bl_cell_hash lib cell,
          sb_file_hash = bl_file_hash lib bytes, sb_block = block, sb_shard_state = st,
          sb_traces = Map.empty\<rparr>"
  using assms
  by (auto simp: sb_with_block_and_state_def Let_def bindR_eq_Inr)

text \<open>A file that ends before the serialized state is refused with \<^verbatim>\<open>UnexpectedEof\<close>.\<close>

lemma sb_deserialize_truncated:
  assumes "reader_ok lib"
    and "length (sb_serialized_block sb) < 2 ^ 32"
    and "sb_serialize lib sb = Inr bs" "n < 76 + length (sb_serialized_block sb)"
  shows "sb_deserialize lib shard (take n bs) = Fail (Io UnexpectedEof)"
proof -
  let ?S = "sb_serialized_block sb"
  from assms(3) obtain tail where bs:
      "bs = u64_le (sb_seq_no sb) @ u32_le (of_nat (length ?S)) @ ?S
        @ u256_bytes (sb_root_hash sb) @ u256_bytes (sb_file_hash sb) @ tail"
    by (auto simp: sb_serialize_def Let_def bindR_eq_Inr)
  have len: "unat (of_nat (length ?S) :: u32) = length ?S"
    using assms(2) by (simp add: unat_of_nat)
  consider "n < 8" | "8 \<le> n" "n < 12" | "12 \<le> n" "n < 44 + length ?S"
    | "44 + length ?S \<le> n"
    by linarith
  then show ?thesis
  proof cases
    case 1
    then show ?thesis
      by (simp add: sb_deserialize_def Let_def reader_ok_short [OF assms(1)])
  next
    case 2
    then have "take n bs = u64_le (sb_seq_no sb) @ take (n - 8) (u32_le (of_nat (length ?S)))"
      by (simp add: bs)
    with 2 show ?thesis
      by (simp add: sb_deserialize_def Let_def reader_ok_simps [OF assms(1)]
          reader_ok_short [OF assms(1)])
  next
    case 3
    then have "take n bs = u64_le (sb_seq_no sb) @ u32_le (of_nat (length ?S))
        @ take (n - 12) (?S @ u256_bytes (sb_root_hash sb))"
      by (simp add: bs)
    with 3 len show ?thesis
      by (simp add: sb_deserialize_def Let_def reader_ok_simps [OF assms(1)]
          reader_ok_short [OF assms(1)] read_into_zeroed_def)
  next
    case 4
    with assms(4) have "take n bs = u64_le (sb_seq_no sb) @ u32_le (of_nat (length ?S)) @ ?S
        @ u256_bytes (sb_root_hash sb) @ take (n - 44 - length ?S) (u256_bytes (sb_file_hash sb))"
      by (simp add: bs)
    with 4 assms(4) len show ?thesis
      by (simp add: sb_deserialize_def Let_def reader_ok_simps [OF assms(1)]
          reader_ok_short [OF assms(1)] read_into_zeroed_def)
  qed
qed

text \<open>A file that is cut inside the state or inside the block is refused by the library.\<close>

lemma sb_deserialize_cut_boc:
  assumes "reader_ok lib" "boc_ok lib" "boc_cut_refused lib" "length (sb_serialized_block sb) < 2 ^ 32"
    and "sb_serialize lib sb = Inr bs" "76 + length (sb_serialized_block sb) \<le> n" "n < length bs"
  shows "\<exists>e. sb_deserialize lib shard (take n bs) = Fail e"
proof -
  let ?S = "sb_serialized_block sb"
  let ?head = "u64_le (sb_seq_no sb) @ u32_le (of_nat (length ?S)) @ ?S
    @ u256_bytes (sb_root_hash sb) @ u256_bytes (sb_file_hash sb)"
  from assms(5) obtain ss bb where w: "bl_write_state lib (sb_shard_state sb) = Inr ss"
      "bl_write_block lib (sb_block sb) = Inr bb" "bs = ?head @ ss @ bb"
    by (auto simp: sb_serialize_def Let_def bindR_eq_Inr)
  have len: "unat (of_nat (length ?S) :: u32) = length ?S"
    using assms(4) by (simp add: unat_of_nat)
  have head: "length ?head = 76 + length ?S" by simp
  have "take n bs = ?head @ take (n - length ?head) (ss @ bb)"
    unfolding w(3) using assms(6) head by (subst take_append) simp
  then have cut: "take n bs = ?head @ take (n - 76 - length ?S) (ss @ bb)"
    using head by (simp add: diff_diff_left add.commute)
  let ?k = "n - 76 - length ?S"
  have k: "?k < length ss + length bb" using assms(6,7) head unfolding w(3) by simp
  have refused: "\<exists>e. bindR (lib_try (bl_read_state_boc lib (take ?k (ss @ bb)))) (\<lambda>(st, rdr).
      bindR (lib_try (bl_read_block_boc lib rdr)) (\<lambda>(b, rdr). g st b rdr)) = Fail e"
    for g :: "'a \<Rightarrow> 'b \<Rightarrow> bytes \<Rightarrow> 'r res"
  proof (cases "?k < length ss")
    case True
    then obtain e where "bl_read_state_boc lib (take ?k ss) = Inl e"
      using assms(3) w(1) unfolding boc_cut_refused_def by (metis isl_def)
    with True show ?thesis by (simp add: lib_try_def)
  next
    case False
    then obtain e where "bl_read_block_boc lib (take (?k - length ss) bb) = Inl e"
      using assms(3) w(2) k unfolding boc_cut_refused_def by (metis isl_def add.commute less_diff_conv2 not_less)
    moreover have "bl_read_state_boc lib (ss @ take (?k - length ss) bb) =
        Inr (sb_shard_state sb, take (?k - length ss) bb)"
      using assms(2) w(1) by (simp add: boc_ok_def)
    ultimately show ?thesis using False by (simp add: lib_try_def)
  qed
  show ?thesis
    unfolding cut sb_deserialize_def Let_def
    using refused len by (simp add: reader_ok_simps [OF assms(1)] read_into_zeroed_exact)
qed

text \<open>\<^bold>\<open>C12\<close>. The file of a shard block (under 4 GiB of block data) is read back to the same
  block without its traces, leaving exactly the bytes that follow it; and a file that was
  cut anywhere is refused: before the serialized state with \<^verbatim>\<open>UnexpectedEof\<close>, although the
  block's data is read with a call that accepts short reads, and inside the state or the block
  with the error of the library, which refuses a bag of cells that is cut off.\<close>

theorem block_file_reads_back_or_is_refused:
  assumes "reader_ok lib" "boc_ok lib" "boc_cut_refused lib" "length (sb_serialized_block sb) < 2 ^ 32"
    and "sb_serialize lib sb = Inr bs" "n < length bs"
  shows "sb_deserialize lib shard (bs @ rest) = Inr (sb\<lparr>sb_traces := Map.empty\<rparr>, rest) \<and>
    (if n < 76 + length (sb_serialized_block sb)
     then sb_deserialize lib shard (take n bs) = Fail (Io UnexpectedEof)
     else \<exists>e. sb_deserialize lib shard (take n bs) = Fail e)"
  using sb_roundtrip [OF assms(1,2,4,5)] sb_deserialize_truncated [OF assms(1,4,5)]
    sb_deserialize_cut_boc [OF assms(1-5) _ assms(6)] by simp

definition demo_sb :: "(demo_state, demo_block) shard_block" where
  "demo_sb = \<lparr>sb_seq_no = 7, sb_serialized_block = [1, 2, 3], sb_root_hash = 5, sb_file_hash = 6,
     sb_block = (0, 7, 9), sb_shard_state = (0, 7, True), sb_traces = Map.empty\<rparr>"

theorem block_file_reads_back_or_is_refused_witness:
  "\<exists>bs. sb_serialize demo_lib demo_sb = Inr bs \<and>
    sb_deserialize demo_lib (bi_shard demo_info) (bs @ [42]) = Inr (demo_sb, [42]) \<and>
    sb_deserialize demo_lib (bi_shard demo_info) (take 50 bs) = Fail (Io UnexpectedEof) \<and>
    (\<exists>e. sb_deserialize demo_lib (bi_shard demo_info) (take 90 bs) = Fail e)"
proof -
  obtain bs where bs: "sb_serialize demo_lib demo_sb = Inr bs" and len: "length bs = 104"
    by (simp add: sb_serialize_def demo_lib_def demo_sb_def)
  have ok: "reader_ok demo_lib" "boc_ok demo_lib" using demo_lib_ok by (auto simp: lib_ok_def)
  have cut: "boc_cut_refused demo_lib" by (rule demo_lib_cut)
  have short: "length (sb_serialized_block demo_sb) < 2 ^ 32" by (simp add: demo_sb_def)
  have "demo_sb\<lparr>sb_traces := Map.empty\<rparr> = demo_sb" by (simp add: demo_sb_def)
  with block_file_reads_back_or_is_refused [OF ok cut short bs, of 50 "bi_shard demo_info" "[42]"]
    block_file_reads_back_or_is_refused [OF ok cut short bs, of 90 "bi_shard demo_info" "[42]"] len bs
  show ?thesis by (simp add: demo_sb_def)
qed

end
