(* ===== verification/Block_Json.thy ===== *)
theory Block_Json
  imports Documents_Db Finality_Block
begin

text \<open>
  \<^verbatim>\<open>node/src/block/json.rs\<close>: a finalized block is parsed by the JSON library and its
  documents are put into the database, block first, then accounts, transactions and
  messages. The parser, the object constructor and the decoding of hashes belong to
  libraries outside the repository and are the fields of a parameter record.

  The function returns \<^verbatim>\<open>ever_block::Result\<close>, whose error is an \<^verbatim>\<open>anyhow::Error\<close>; here it
  is the fault that \<^verbatim>\<open>FailureError\<close> makes of it.
\<close>

record block_id_ext =
  bid_shard :: shard_ident
  bid_seq_no :: u32
  bid_root_hash :: u256
  bid_file_hash :: u256

record ('s, 'b, 'c) parsing_block =
  pb_id :: block_id_ext
  pb_block :: 'b
  pb_root :: 'c
  pb_data :: bytes
  pb_mc_seq_no :: "u32 option"
  pb_shard_state :: "'s option"

record 'j parsed_entry =
  entry_id :: string
  entry_body :: "string \<Rightarrow> 'j option"

record 'j parsed_block =
  parsed_block :: "'j parsed_entry option"
  parsed_accounts :: "'j parsed_entry list"
  parsed_transactions :: "'j parsed_entry list"
  parsed_messages :: "'j parsed_entry list"

record ('s, 'b, 'c, 'j) json_lib =
  jl_read_single_root :: "bytes \<Rightarrow> any_error + 'c"
  jl_parse :: "('s, 'b, 'c) parsing_block \<Rightarrow> any_error + 'j parsed_block"
  jl_object :: "(string \<Rightarrow> 'j option) \<Rightarrow> 'j"
  jl_hash_from_str :: "string \<Rightarrow> any_error + u256"
  jl_trace_value :: "trace_info list \<Rightarrow> any_error + 'j"

definition serialize_entry :: "('s, 'b, 'c, 'j) json_lib \<Rightarrow> 'j parsed_entry \<Rightarrow> 'j serialized_item" where
  "serialize_entry jl e = \<lparr>item_id = entry_id e, item_data = jl_object jl (entry_body e)\<rparr>"

text \<open>A \<^verbatim>\<open>NodeError\<close> that passes a \<^verbatim>\<open>?\<close> into an \<^verbatim>\<open>anyhow::Error\<close>.\<close>

definition node_try :: "'a res \<Rightarrow> 'a res" where
  "node_try r =
     map_sum (\<lambda>f. case f of Err e \<Rightarrow> Err (FailureError (AnyNode e)) | Panic p \<Rightarrow> Panic p) id r"

lemma node_try_simps [simp]: "node_try (Inr x) = Inr x" "node_try (Fail e) = Fail (FailureError (AnyNode e))"
  by (simp_all add: node_try_def)

definition put_entry ::
  "('j serialized_item \<Rightarrow> 'd \<Rightarrow> unit res \<times> 'd) \<Rightarrow> 'j serialized_item \<Rightarrow>
   traces \<times> 'd \<Rightarrow> unit res \<times> (traces \<times> 'd)" where
  "put_entry put item = (\<lambda>(tr, d). case put item d of (r, d') \<Rightarrow> (node_try r, (tr, d')))"

fun put_entries ::
  "('j serialized_item \<Rightarrow> 'd \<Rightarrow> unit res \<times> 'd) \<Rightarrow> ('s, 'b, 'c, 'j) json_lib \<Rightarrow>
   'j parsed_entry list \<Rightarrow> traces \<times> 'd \<Rightarrow> unit res \<times> (traces \<times> 'd)" where
  "put_entries put jl [] = retS ()"
| "put_entries put jl (e # es) =
     bindS (put_entry put (serialize_entry jl e)) (\<lambda>_. put_entries put jl es)"

text \<open>\<^verbatim>\<open>HashMap::remove\<close> on the block's traces.\<close>

definition take_trace :: "u256 \<Rightarrow> traces \<times> 'd \<Rightarrow> trace_info list option res \<times> (traces \<times> 'd)" where
  "take_trace hash = (\<lambda>(tr, d). (Inr (tr hash), (tr(hash := None), d)))"

definition with_trace ::
  "('s, 'b, 'c, 'j) json_lib \<Rightarrow> 'j parsed_entry \<Rightarrow> trace_info list option \<Rightarrow> 'j parsed_entry res" where
  "with_trace jl e trace =
     (case trace of
        None \<Rightarrow> Inr e
      | Some t \<Rightarrow>
          bindR (lib_try (jl_trace_value jl t)) (\<lambda>v.
          Inr (e\<lparr>entry_body := (entry_body e)(''trace'' \<mapsto> v)\<rparr>)))"

fun put_transactions ::
  "('d, 'j) documents_db \<Rightarrow> ('s, 'b, 'c, 'j) json_lib \<Rightarrow>
   'j parsed_entry list \<Rightarrow> traces \<times> 'd \<Rightarrow> unit res \<times> (traces \<times> 'd)" where
  "put_transactions db jl [] = retS ()"
| "put_transactions db jl (e # es) =
     bindS (liftS (lib_try (jl_hash_from_str jl (entry_id e)))) (\<lambda>hash.
     bindS (take_trace hash) (\<lambda>trace.
     bindS (liftS (with_trace jl e trace)) (\<lambda>e'.
     bindS (put_entry (db_put_transaction db) (serialize_entry jl e')) (\<lambda>_.
     put_transactions db jl es))))"

definition put_parsed ::
  "('d, 'j) documents_db \<Rightarrow> ('s, 'b, 'c, 'j) json_lib \<Rightarrow> 'j parsed_block \<Rightarrow>
   traces \<times> 'd \<Rightarrow> unit res \<times> (traces \<times> 'd)" where
  "put_parsed db jl parsed =
     bindS (case parsed_block parsed of None \<Rightarrow> retS ()
            | Some e \<Rightarrow> put_entry (db_put_block db) (serialize_entry jl e)) (\<lambda>_.
     bindS (put_entries (db_put_account db) jl (parsed_accounts parsed)) (\<lambda>_.
     bindS (put_transactions db jl (parsed_transactions parsed)) (\<lambda>_.
     put_entries (db_put_message db) jl (parsed_messages parsed))))"

text \<open>The shard block is borrowed mutably: what changes of it is its traces.\<close>

definition reflect_block_in_db ::
  "('s, 'b, 'c) block_lib \<Rightarrow> ('s, 'b, 'c, 'j) json_lib \<Rightarrow> ('d, 'j) documents_db \<Rightarrow> u32 \<Rightarrow>
   ('s, 'b) shard_block \<times> 'd \<Rightarrow> unit res \<times> (('s, 'b) shard_block \<times> 'd)" where
  "reflect_block_in_db lib jl db mc_seq_no = (\<lambda>(sb, d).
     (case bindR (lib_try (jl_read_single_root jl (sb_serialized_block sb))) (\<lambda>root.
           bindR (lib_try (bl_read_info lib (sb_block sb))) (\<lambda>info.
           lib_try (jl_parse jl
             \<lparr>pb_id = \<lparr>bid_shard = bi_shard info, bid_seq_no = bi_seq_no info,
                       bid_root_hash = bl_cell_hash lib root, bid_file_hash = sb_file_hash sb\<rparr>,
              pb_block = sb_block sb, pb_root = root, pb_data = sb_serialized_block sb,
              pb_mc_seq_no = Some mc_seq_no, pb_shard_state = Some (sb_shard_state sb)\<rparr>))) of
        Inl e \<Rightarrow> (Inl e, (sb, d))
      | Inr parsed \<Rightarrow>
          (case put_parsed db jl parsed (sb_traces sb, d) of
             (r, (tr, d')) \<Rightarrow> (r, (sb\<lparr>sb_traces := tr\<rparr>, d')))))"

section \<open>What reaches the database\<close>

text \<open>The documents of a parsed block, with the traces that belong to its transactions.\<close>

definition transaction_doc ::
  "('s, 'b, 'c, 'j) json_lib \<Rightarrow> (trace_info list \<Rightarrow> 'j) \<Rightarrow> traces \<Rightarrow> u256 \<Rightarrow> 'j parsed_entry \<Rightarrow>
   'j serialized_item" where
  "transaction_doc jl value tr hash e =
     \<lparr>item_id = entry_id e,
      item_data = jl_object jl
        (case tr hash of None \<Rightarrow> entry_body e
         | Some t \<Rightarrow> (entry_body e)(''trace'' \<mapsto> value t))\<rparr>"

definition block_docs ::
  "('s, 'b, 'c, 'j) json_lib \<Rightarrow> (trace_info list \<Rightarrow> 'j) \<Rightarrow> (string \<Rightarrow> u256) \<Rightarrow> traces \<Rightarrow>
   'j parsed_block \<Rightarrow> (collection \<times> 'j serialized_item) list" where
  "block_docs jl value hash_of tr p =
     map (\<lambda>e. (Blocks, serialize_entry jl e)) (case parsed_block p of None \<Rightarrow> [] | Some e \<Rightarrow> [e]) @
     map (\<lambda>e. (Accounts, serialize_entry jl e)) (parsed_accounts p) @
     map (\<lambda>e. (Transactions, transaction_doc jl value tr (hash_of (entry_id e)) e))
       (parsed_transactions p) @
     map (\<lambda>e. (Messages, serialize_entry jl e)) (parsed_messages p)"

definition json_parse_input ::
  "('s, 'b, 'c) block_lib \<Rightarrow> ('s, 'b) shard_block \<Rightarrow> 'c \<Rightarrow> block_info \<Rightarrow> u32 \<Rightarrow>
   ('s, 'b, 'c) parsing_block" where
  "json_parse_input lib sb root info mc_seq_no =
     \<lparr>pb_id = \<lparr>bid_shard = bi_shard info, bid_seq_no = bi_seq_no info,
               bid_root_hash = bl_cell_hash lib root, bid_file_hash = sb_file_hash sb\<rparr>,
      pb_block = sb_block sb, pb_root = root, pb_data = sb_serialized_block sb,
      pb_mc_seq_no = Some mc_seq_no, pb_shard_state = Some (sb_shard_state sb)\<rparr>"

lemma collected_block_docs:
  "collected Blocks (block_docs jl value hash_of tr p) =
     map (item_data \<circ> serialize_entry jl) (case parsed_block p of None \<Rightarrow> [] | Some e \<Rightarrow> [e])"
  "collected Transactions (block_docs jl value hash_of tr p) =
     map (\<lambda>e. item_data (transaction_doc jl value tr (hash_of (entry_id e)) e)) (parsed_transactions p)"
  "collected Messages (block_docs jl value hash_of tr p) =
     map (item_data \<circ> serialize_entry jl) (parsed_messages p)"
  by (simp_all add: collected_def block_docs_def filter_map comp_def filter_empty_conv)

lemma put_accounts_block_docs:
  "put_accounts (block_docs jl value hash_of tr p) =
     map (\<lambda>e. (entry_id e, jl_object jl (entry_body e))) (parsed_accounts p)"
  by (simp add: put_accounts_def block_docs_def filter_map comp_def filter_empty_conv serialize_entry_def)

context accepting_db
begin

lemma put_entry_accepts:
  "put_entry (db_put db c) i (tr, d) = (Inr (), (tr, puts db [(c, i)] d))"
  by (simp add: put_entry_def put_eq del: puts.simps)

lemma put_entries_accepts:
  "put_entries (db_put db c) jl es (tr, d) =
    (Inr (), (tr, puts db (map (\<lambda>e. (c, serialize_entry jl e)) es) d))"
proof (induction es arbitrary: d)
  case (Cons e es)
  show ?case
    unfolding put_entries.simps list.map puts_Cons [of db _ "map _ es"]
    by (subst bindS_Inr, rule put_entry_accepts, rule Cons.IH)
qed simp

lemma put_transactions_accepts:
  assumes "\<And>e. e \<in> set es \<Longrightarrow> jl_hash_from_str jl (entry_id e) = Inr (hash_of (entry_id e))"
    and "\<And>t. jl_trace_value jl t = Inr (value t)"
    and "distinct (map (hash_of \<circ> entry_id) es)"
  shows "put_transactions db jl es (tr, d) =
    (Inr (), (tr |` (- (hash_of \<circ> entry_id) ` set es),
       puts db (map (\<lambda>e. (Transactions,
         transaction_doc jl value tr (hash_of (entry_id e)) e)) es) d))"
  using assms(1,3)
proof (induction es arbitrary: tr d)
  case Nil
  then show ?case by simp
next
  case (Cons e es)
  let ?h = "hash_of (entry_id e)"
  let ?doc = "transaction_doc jl value tr ?h e"
  have put: "put_entry (db_put_transaction db) i (tr', d) = (Inr (), (tr', puts db [(Transactions, i)] d))"
    for i tr' using put_entry_accepts [of Transactions i tr' d] by simp
  have rest: "map (\<lambda>e. (Transactions, transaction_doc jl value (tr(?h := None)) (hash_of (entry_id e)) e)) es
      = map (\<lambda>e. (Transactions, transaction_doc jl value tr (hash_of (entry_id e)) e)) es"
  proof (rule map_cong [OF refl])
    fix x assume "x \<in> set es"
    with Cons.prems(2) have "hash_of (entry_id x) \<noteq> ?h" by (force simp: image_iff)
    then show "(Transactions, transaction_doc jl value (tr(?h := None)) (hash_of (entry_id x)) x)
        = (Transactions, transaction_doc jl value tr (hash_of (entry_id x)) x)"
      by (simp add: transaction_doc_def)
  qed
  have "with_trace jl e (tr ?h) = Inr (case tr ?h of None \<Rightarrow> e
      | Some t \<Rightarrow> e\<lparr>entry_body := (entry_body e)(''trace'' \<mapsto> value t)\<rparr>)"
    by (simp add: with_trace_def assms(2) split: option.splits)
  moreover have "serialize_entry jl (case tr ?h of None \<Rightarrow> e
      | Some t \<Rightarrow> e\<lparr>entry_body := (entry_body e)(''trace'' \<mapsto> value t)\<rparr>) = ?doc"
    by (simp add: serialize_entry_def transaction_doc_def split: option.splits)
  moreover have "put_transactions db jl es (tr(?h := None), puts db [(Transactions, ?doc)] d) =
      (Inr (), ((tr(?h := None)) |` (- (hash_of \<circ> entry_id) ` set es),
        puts db (map (\<lambda>e. (Transactions, transaction_doc jl value tr (hash_of (entry_id e)) e)) es)
          (puts db [(Transactions, ?doc)] d)))"
    unfolding rest [symmetric] by (rule Cons.IH) (use Cons.prems in auto)
  moreover have "(tr(?h := None)) |` (- (hash_of \<circ> entry_id) ` set es) =
      tr |` (- (hash_of \<circ> entry_id) ` set (e # es))"
    by (auto simp: restrict_map_def fun_eq_iff)
  ultimately show ?case
    using Cons.prems(1) [of e]
    unfolding list.map puts_Cons [of db _ "map _ es"] put_transactions.simps
    by (simp add: put take_trace_def bindS_def liftS_def del: puts.simps)
qed

lemma put_parsed_accepts:
  assumes "\<And>e. e \<in> set (parsed_transactions p) \<Longrightarrow>
      jl_hash_from_str jl (entry_id e) = Inr (hash_of (entry_id e))"
    and "\<And>t. jl_trace_value jl t = Inr (value t)"
    and "distinct (map (hash_of \<circ> entry_id) (parsed_transactions p))"
  shows "put_parsed db jl p (tr, d) =
    (Inr (), (tr |` (- (hash_of \<circ> entry_id) ` set (parsed_transactions p)),
      puts db (block_docs jl value hash_of tr p) d))"
proof -
  let ?b = "map (\<lambda>e. (Blocks, serialize_entry jl e)) (case parsed_block p of None \<Rightarrow> [] | Some e \<Rightarrow> [e])"
  let ?a = "map (\<lambda>e. (Accounts, serialize_entry jl e)) (parsed_accounts p)"
  let ?t = "map (\<lambda>e. (Transactions, transaction_doc jl value tr (hash_of (entry_id e)) e))
    (parsed_transactions p)"
  let ?m = "map (\<lambda>e. (Messages, serialize_entry jl e)) (parsed_messages p)"
  let ?tr = "tr |` (- (hash_of \<circ> entry_id) ` set (parsed_transactions p))"
  have b: "(case parsed_block p of None \<Rightarrow> retS ()
      | Some e \<Rightarrow> put_entry (db_put_block db) (serialize_entry jl e)) (tr, d) = (Inr (), (tr, puts db ?b d))"
    using put_entry_accepts [of Blocks _ tr d]
    by (simp add: retS_def del: puts.simps(2) split: option.splits)
  have a: "put_entries (db_put_account db) jl (parsed_accounts p) (tr, d') = (Inr (), (tr, puts db ?a d'))"
    for d' using put_entries_accepts [of Accounts jl "parsed_accounts p" tr d'] by simp
  have m: "put_entries (db_put_message db) jl (parsed_messages p) (?tr, d') = (Inr (), (?tr, puts db ?m d'))"
    for d' using put_entries_accepts [of Messages jl "parsed_messages p" ?tr d'] by simp
  note t = put_transactions_accepts [OF assms, where tr = tr]
  show ?thesis
    unfolding put_parsed_def block_docs_def puts_append
    by (subst bindS_Inr, rule b, subst bindS_Inr, rule a, subst bindS_Inr, rule t) (assumption, rule m)
qed

text \<open>Nothing in the way to the database panics.\<close>

lemma put_entry_calm:
  "calm (put_entry (db_put db c) i)" "calm (put_entry (db_put_block db) i)"
  "calm (put_entry (db_put_account db) i)" "calm (put_entry (db_put_transaction db) i)"
  "calm (put_entry (db_put_message db) i)"
  by (auto simp: calm_def put_entry_def put_eq put_sel simp del: puts.simps)

lemma put_entries_calm: "(\<And>i. calm (put_entry f i)) \<Longrightarrow> calm (put_entries f jl es)"
  by (induction es) auto

lemma put_transactions_calm: "calm (put_transactions db jl es)"
proof (induction es)
  case (Cons e es)
  have "calm_res (with_trace jl e t)" for t
    by (auto simp: with_trace_def split: option.splits)
  moreover have "calm (take_trace h)" for h
    by (auto simp: calm_def take_trace_def)
  ultimately show ?case
    unfolding put_transactions.simps
    by (intro calm_bindS calm_liftS calm_res_intros put_entry_calm Cons.IH)
qed auto

lemma put_parsed_calm: "calm (put_parsed db jl p)"
proof -
  have "calm (case parsed_block p of None \<Rightarrow> retS ()
      | Some e \<Rightarrow> put_entry (db_put_block db) (serialize_entry jl e))"
    using put_entry_calm by (auto split: option.splits)
  then show ?thesis
    unfolding put_parsed_def by (intro calm_bindS put_entries_calm put_transactions_calm put_entry_calm)
qed

lemma reflect_calm: "calm (reflect_block_in_db lib jl db n)"
proof -
  have "fst (reflect_block_in_db lib jl db n (sb, d)) \<noteq> Inl (Panic w)" for sb d w
  proof -
    have "calm_res (bindR (lib_try (jl_read_single_root jl (sb_serialized_block sb))) (\<lambda>root.
        bindR (lib_try (bl_read_info lib (sb_block sb))) (\<lambda>info.
        lib_try (jl_parse jl (json_parse_input lib sb root info n)))))"
      by (intro calm_res_bindR calm_res_intros)
    moreover have "fst (put_parsed db jl p (sb_traces sb, d)) \<noteq> Inl (Panic w)" for p
      using put_parsed_calm [of jl p] by (simp add: calm_def)
    ultimately show ?thesis
      unfolding reflect_block_in_db_def json_parse_input_def calm_res_def
      by (auto split: sum.split prod.split) (metis fst_conv)
  qed
  then show ?thesis by (simp add: calm_def)
qed

end

section \<open>The in-memory database after a block\<close>

lemma reflect_eq_put_parsed:
  assumes "jl_read_single_root jl (sb_serialized_block sb) = Inr root"
    and "bl_read_info lib (sb_block sb) = Inr info"
    and "jl_parse jl (json_parse_input lib sb root info mc_seq_no) = Inr p"
  shows "reflect_block_in_db lib jl db mc_seq_no (sb, d) =
    (case put_parsed db jl p (sb_traces sb, d) of
       (r, (tr, d')) \<Rightarrow> (r, (sb\<lparr>sb_traces := tr\<rparr>, d')))"
  using assms by (simp add: reflect_block_in_db_def json_parse_input_def)

text \<open>Only the traces of the shard block can change, whatever the database does.\<close>

lemma reflect_keeps_block:
  assumes "reflect_block_in_db lib jl db mc_seq_no (sb, d) = (r, (sb', d'))"
  shows "\<exists>tr. sb' = sb\<lparr>sb_traces := tr\<rparr>"
proof -
  have "\<exists>tr. sb = sb\<lparr>sb_traces := tr\<rparr>" by (rule exI [of _ "sb_traces sb"]) simp
  with assms show ?thesis
    by (auto simp: reflect_block_in_db_def split: sum.splits prod.splits)
qed

text \<open>\<^bold>\<open>C14\<close>. When the parser accepts a finalized block, reflecting it into the in-memory
  database appends exactly its documents in the parser's order: its block document, one
  document per transaction, with the \<^verbatim>\<open>trace\<close> field present just for the transactions that
  the engine traced, and one per message. Every account document is entered under its id in the
  collection of accounts, over the one that was there (the last one of the block stays when an id
  occurs twice), no other account changes, and the traces used are taken out of the block.\<close>

theorem reflect_appends_documents:
  fixes lib :: "('s, 'b, 'c) block_lib" and jl :: "('s, 'b, 'c, 'j) json_lib"
  assumes "jl_read_single_root jl (sb_serialized_block sb) = Inr root"
    and "bl_read_info lib (sb_block sb) = Inr info"
    and "jl_parse jl (json_parse_input lib sb root info mc_seq_no) = Inr p"
    and "\<And>e. e \<in> set (parsed_transactions p) \<Longrightarrow>
      jl_hash_from_str jl (entry_id e) = Inr (hash_of (entry_id e))"
    and "\<And>t. jl_trace_value jl t = Inr (value t)"
    and "distinct (map (hash_of \<circ> entry_id) (parsed_transactions p))"
    and "reflect_block_in_db lib jl mem_documents_db mc_seq_no (sb, d) = (r, (sb', d'))"
  shows "r = Inr () \<and>
    sb' = sb\<lparr>sb_traces := sb_traces sb |` (- (hash_of \<circ> entry_id) ` set (parsed_transactions p))\<rparr> \<and>
    md_blocks d' =
      md_blocks d @ (case parsed_block p of None \<Rightarrow> [] | Some e \<Rightarrow> [jl_object jl (entry_body e)]) \<and>
    md_transactions d' =
      md_transactions d @ map (\<lambda>e. jl_object jl
        (case sb_traces sb (hash_of (entry_id e)) of None \<Rightarrow> entry_body e
         | Some t \<Rightarrow> (entry_body e)(''trace'' \<mapsto> value t))) (parsed_transactions p) \<and>
    md_messages d' = md_messages d @ map (\<lambda>e. jl_object jl (entry_body e)) (parsed_messages p) \<and>
    md_accounts d' = md_accounts d ++
      map_of (rev (map (\<lambda>e. (entry_id e, jl_object jl (entry_body e))) (parsed_accounts p)))"
  using assms(7)
  by (auto simp: reflect_eq_put_parsed [OF assms(1-3)] mem_docs.put_parsed_accepts [OF assms(4-6)]
      mem_puts_lists mem_puts_accounts put_accounts_block_docs collected_block_docs transaction_doc_def serialize_entry_def comp_def
      split: option.splits)

text \<open>A JSON library for the witness: every block has one account, two transactions and one
  message; an object is the text of its \<^verbatim>\<open>trace\<close> field, or of its name.\<close>

definition demo_entry :: "string \<Rightarrow> string parsed_entry" where
  "demo_entry i = \<lparr>entry_id = i, entry_body = [''name'' \<mapsto> i]\<rparr>"

definition demo_parsed :: "string parsed_block" where
  "demo_parsed = \<lparr>parsed_block = Some (demo_entry ''B''), parsed_accounts = [demo_entry ''A''],
     parsed_transactions = [demo_entry ''1'', demo_entry ''2''],
     parsed_messages = [demo_entry ''M'']\<rparr>"

definition demo_json :: "(demo_state, demo_block, bytes, string) json_lib" where
  "demo_json =
     \<lparr>jl_read_single_root = (\<lambda>bs. Inr bs), jl_parse = (\<lambda>_. Inr demo_parsed),
      jl_object = (\<lambda>f. case f ''trace'' of Some v \<Rightarrow> v | None \<Rightarrow> the (f ''name'')),
      jl_hash_from_str = (\<lambda>s. if s = ''1'' then Inr 1 else if s = ''2'' then Inr 2
        else Inl (LibError ''hash'')),
      jl_trace_value = (\<lambda>t. Inr (''T'' @ concat (map ti_info_type t)))\<rparr>"

definition demo_trace :: "trace_info list" where
  "demo_trace = [\<lparr>ti_info_type = ''start'', ti_step = 0, ti_cmd_str = [], ti_stack = [],
     ti_gas_used = ''0'', ti_gas_cmd = ''0'', ti_cmd_code_rem_bits = 0, ti_cmd_code_hex = [],
     ti_cmd_code_cell_hash = [], ti_cmd_code_offset = 0\<rparr>]"

definition demo_shard_block :: "(demo_state, demo_block) shard_block" where
  "demo_shard_block = \<lparr>sb_seq_no = 7, sb_serialized_block = [1, 2, 3], sb_root_hash = 5,
     sb_file_hash = 6, sb_block = (0, 7, 9), sb_shard_state = (0, 7, True),
     sb_traces = [2 \<mapsto> demo_trace]\<rparr>"

theorem reflect_appends_documents_witness:
  "md_transactions (snd (snd (reflect_block_in_db demo_lib demo_json mem_documents_db 3
      (demo_shard_block, mem_docs_new)))) = [''1'', ''Tstart''] \<and>
   md_accounts (snd (snd (reflect_block_in_db demo_lib demo_json mem_documents_db 3
      (demo_shard_block, mem_docs_new)))) = [''A'' \<mapsto> ''A'']"
proof -
  obtain r sb' d' where run:
      "reflect_block_in_db demo_lib demo_json mem_documents_db 3 (demo_shard_block, mem_docs_new)
       = (r, (sb', d'))"
    by (metis prod.exhaust)
  have "md_transactions d' = md_transactions mem_docs_new @ map (\<lambda>e. jl_object demo_json
        (case sb_traces demo_shard_block ((\<lambda>s. if s = ''1'' then 1 else 2) (entry_id e)) of
           None \<Rightarrow> entry_body e
         | Some t \<Rightarrow> (entry_body e)(''trace'' \<mapsto> ''T'' @ concat (map ti_info_type t))))
       (parsed_transactions demo_parsed) \<and>
     md_messages d' = md_messages mem_docs_new @
       map (\<lambda>e. jl_object demo_json (entry_body e)) (parsed_messages demo_parsed) \<and>
     md_accounts d' = md_accounts mem_docs_new ++
       map_of (rev (map (\<lambda>e. (entry_id e, jl_object demo_json (entry_body e))) (parsed_accounts demo_parsed)))"
    by (rule reflect_appends_documents [where root = "[1, 2, 3]" and
          info = "demo_info\<lparr>bi_seq_no := 7, bi_end_lt := 9\<rparr>", THEN conjunct2, THEN conjunct2,
          THEN conjunct2, OF _ _ _ _ _ _ run])
      (auto simp: demo_json_def demo_lib_def demo_parsed_def demo_entry_def demo_shard_block_def)
  with run show ?thesis
    by (simp add: demo_json_def demo_parsed_def demo_entry_def demo_shard_block_def demo_trace_def
        mem_docs_new_def)
qed

end
