(* ===== verification/Finality.thy ===== *)
theory Finality
  imports Shard_Storage Block_Json
begin

text \<open>
  The finality layer of a shard (\<^verbatim>\<open>node/src/block/finality.rs\<close>): the current block, the
  last finalized block, the two maps of blocks that wait for finality, and the storage and
  database they are written to. What the methods call outside this file is in one
  environment record. The storage's state is a field; the state of the documents database,
  which the shards of a node share, is carried beside the record.
\<close>

record ('k, 's, 'b, 'c, 'j, 'd) node_env =
  env_lib :: "('s, 'b, 'c) block_lib"
  env_kv :: "'k kv"
  env_json :: "('s, 'b, 'c, 'j) json_lib"
  env_docs :: "('d, 'j) documents_db"
  env_default_shard :: shard_ident
  env_iter :: "(u256 \<Rightarrow> ('s, 'b) finality_block option) \<Rightarrow> (u256 \<times> ('s, 'b) finality_block) list"

text \<open>\<open>env_iter\<close> is the iteration order of the hash map: each entry once, in some order.\<close>

definition iter_ok ::
  "((u256 \<Rightarrow> ('s, 'b) finality_block option) \<Rightarrow> (u256 \<times> ('s, 'b) finality_block) list) \<Rightarrow> bool" where
  "iter_ok it \<longleftrightarrow>
     (\<forall>m. finite (dom m) \<longrightarrow> distinct (map fst (it m)) \<and> set (it m) = {(h, b). m h = Some b})"

record ('k, 's, 'b) finality =
  fin_shard_ident :: shard_ident
  fin_storage :: 'k
  fin_has_db :: bool
  fin_current_block :: "('s, 'b) shard_block"
  fin_blocks_by_hash :: "u256 \<Rightarrow> ('s, 'b) finality_block option"
  fin_blocks_by_no :: "u64 \<Rightarrow> ('s, 'b) finality_block option"
  fin_last_finalized_block :: "('s, 'b) shard_block"

definition finality_with_params ::
  "('s, 'b, 'c) block_lib \<Rightarrow> i32 \<Rightarrow> shard_ident \<Rightarrow> 'k \<Rightarrow> bool \<Rightarrow> ('k, 's, 'b) finality" where
  "finality_with_params lib global_id shard storage db =
     \<lparr>fin_shard_ident = shard, fin_storage = storage, fin_has_db = db,
      fin_current_block = sb_new lib global_id shard, fin_blocks_by_hash = Map.empty,
      fin_blocks_by_no = Map.empty, fin_last_finalized_block = sb_new lib global_id shard\<rparr>"

section \<open>Reading the last block and state\<close>

definition get_last_shard_state :: "('k, 's, 'b) finality \<Rightarrow> 's" where
  "get_last_shard_state f = sb_shard_state (fin_current_block f)"

definition out_message_queue_is_empty ::
  "('s, 'b, 'c) block_lib \<Rightarrow> ('k, 's, 'b) finality \<Rightarrow> bool" where
  "out_message_queue_is_empty lib f =
     (case bl_state_out_queue_empty lib (get_last_shard_state f) of Inr e \<Rightarrow> e | Inl _ \<Rightarrow> True)"

definition get_last_block_info ::
  "('s, 'b, 'c) block_lib \<Rightarrow> ('k, 's, 'b) finality \<Rightarrow> blk_prev_info res" where
  "get_last_block_info lib f =
     bindR (lib_try (bl_read_info lib (sb_block (fin_current_block f)))) (\<lambda>info.
     Inr (PrevBlock
       \<lparr>ebr_end_lt = bi_end_lt info, ebr_seq_no = bi_seq_no info,
        ebr_root_hash = sb_root_hash (fin_current_block f),
        ebr_file_hash = sb_file_hash (fin_current_block f)\<rparr>))"

definition get_last_info ::
  "('s, 'b, 'c) block_lib \<Rightarrow> ('k, 's, 'b) finality \<Rightarrow> ('s \<times> blk_prev_info) res" where
  "get_last_info lib f =
     bindR (get_last_block_info lib f) (\<lambda>info. Inr (get_last_shard_state f, info))"

section \<open>Loading\<close>

definition read_one_sb_from_key ::
  "('k, 's, 'b, 'c, 'j, 'd) node_env \<Rightarrow> string \<Rightarrow> ('k, 's, 'b) finality \<Rightarrow>
   ('s, 'b) shard_block res" where
  "read_one_sb_from_key env key f =
     bindR (ss_get (env_kv env) key (fin_storage f)) (\<lambda>data.
     bindR (sb_deserialize (env_lib env) (env_default_shard env) data) (\<lambda>(sb, _). Inr sb))"

definition stored_to_loaded ::
  "('k, 's, 'b, 'c, 'j, 'd) node_env \<Rightarrow> ('s, 'b) finality_block \<Rightarrow> ('k, 's, 'b) finality \<Rightarrow>
   ('s, 'b) shard_block res" where
  "stored_to_loaded env fin_sb f =
     (case fin_sb of
        Stored sb_hash \<Rightarrow>
          read_one_sb_from_key env
            (block_finality_hash_key (bl_hex (env_lib env)) (sbh_root_hash sb_hash)) f
      | Loaded l_sb \<Rightarrow> Inr l_sb)"

definition read_one_sb_hash ::
  "('s, 'b, 'c) block_lib \<Rightarrow> bytes \<Rightarrow> ((u64 \<times> u256) \<times> bytes) res" where
  "read_one_sb_hash lib rdr =
     bindR (io_try (bl_rd_u256 lib rdr)) (\<lambda>(hash, rdr).
     bindR (io_try (bl_rd_le_u64 lib rdr)) (\<lambda>(seq_no, rdr).
     Inr ((seq_no, hash), rdr)))"

definition read_one_sb ::
  "('k, 's, 'b, 'c, 'j, 'd) node_env \<Rightarrow> bytes \<Rightarrow> ('k, 's, 'b) finality \<Rightarrow>
   (('s, 'b) shard_block \<times> bytes) res" where
  "read_one_sb env rdr f =
     bindR (io_try (bl_rd_u256 (env_lib env) rdr)) (\<lambda>(hash, rdr).
     bindR (io_try (bl_rd_le_u64 (env_lib env) rdr)) (\<lambda>(seq_no, rdr).
     if seq_no = 0 then
       Inr (sb_new (env_lib env) (bl_block_global_id (env_lib env) (sb_block (fin_current_block f)))
              (fin_shard_ident f), rdr)
     else
       bindR (read_one_sb_from_key env (block_finality_hash_key (bl_hex (env_lib env)) hash) f) (\<lambda>sb.
       Inr (sb, rdr))))"

definition insert_stored :: "u64 \<Rightarrow> u256 \<Rightarrow> ('k, 's, 'b) finality \<Rightarrow> ('k, 's, 'b) finality" where
  "insert_stored seq_no hash f =
     (let sb_hash = Stored (sbh_with_hash seq_no hash) in
      f\<lparr>fin_blocks_by_hash := (fin_blocks_by_hash f)(hash \<mapsto> sb_hash),
        fin_blocks_by_no := (fin_blocks_by_no f)(seq_no \<mapsto> sb_hash)\<rparr>)"

text \<open>
  The loop of \<^verbatim>\<open>deserialize\<close> ends at the first end of input. Nothing in the code bounds it
  for a reader that never reports one, so it is a partial function.
\<close>

partial_function (option) read_index ::
  "('s, 'b, 'c) block_lib \<Rightarrow> bytes \<Rightarrow> ('k, 's, 'b) finality \<Rightarrow>
   (unit res \<times> ('k, 's, 'b) finality) option" where
  "read_index lib rdr f =
     (case read_one_sb_hash lib rdr of
        Inr x \<Rightarrow> read_index lib (snd x) (insert_stored (fst (fst x)) (snd (fst x)) f)
      | Inl e \<Rightarrow> Some (if e = Err (Io UnexpectedEof) then (Inr (), f) else (Inl e, f)))"

definition finality_deserialize ::
  "('k, 's, 'b, 'c, 'j, 'd) node_env \<Rightarrow> bytes \<Rightarrow> ('k, 's, 'b) finality \<Rightarrow>
   (unit res \<times> ('k, 's, 'b) finality) option" where
  "finality_deserialize env rdr f =
     (case read_one_sb env rdr f of
        Inl e \<Rightarrow> Some (Inl e, f)
      | Inr (current, rdr) \<Rightarrow>
          (let f = f\<lparr>fin_current_block := current\<rparr> in
           case read_one_sb env rdr f of
             Inl e \<Rightarrow> Some (Inl e, f)
           | Inr (finalized, rdr) \<Rightarrow>
               read_index (env_lib env) rdr (f\<lparr>fin_last_finalized_block := finalized\<rparr>)))"

definition load_zerostate ::
  "('s, 'b, 'c) block_lib \<Rightarrow> bytes \<Rightarrow> ('k, 's, 'b) finality \<Rightarrow> unit res \<times> ('k, 's, 'b) finality" where
  "load_zerostate lib zerostate f =
     (case lib_try (bl_parse_state lib zerostate) of
        Inl e \<Rightarrow> (Inl e, f)
      | Inr state \<Rightarrow>
          (let state = bl_state_set_global_id lib
                 (bl_block_global_id lib (sb_block (fin_current_block f))) state in
           (Inr (), f\<lparr>fin_current_block := (fin_current_block f)\<lparr>sb_shard_state := state\<rparr>,
                      fin_last_finalized_block :=
                        (fin_last_finalized_block f)\<lparr>sb_shard_state := state\<rparr>\<rparr>)))"

definition finality_load ::
  "('k, 's, 'b, 'c, 'j, 'd) node_env \<Rightarrow> ('k, 's, 'b) finality \<Rightarrow>
   (bool res \<times> ('k, 's, 'b) finality) option" where
  "finality_load env f =
     (case ss_get (env_kv env) BLOCKS_FINALITY_INFO_KEY (fin_storage f) of
        Inr data \<Rightarrow>
          map_option (\<lambda>(r, f'). (map_sum id (\<lambda>_. True) r, f')) (finality_deserialize env data f)
      | Inl (Panic p) \<Rightarrow> Some (Inl (Panic p), f)
      | Inl (Err _) \<Rightarrow>
          Some (case ss_get (env_kv env) ZEROSTATE_KEY (fin_storage f) of
                  Inr zerostate \<Rightarrow>
                    (case load_zerostate (env_lib env) zerostate f of
                       (r, f') \<Rightarrow> (map_sum id (\<lambda>_. False) r, f'))
                | Inl e \<Rightarrow> if e = Err NotFound then (Inr False, f) else (Inl e, f)))"

section \<open>Finalizing and saving\<close>

text \<open>A call on the storage, from the state of the layer and of the database.\<close>

definition on_storage ::
  "('k \<Rightarrow> 'a res \<times> 'k) \<Rightarrow> ('k, 's, 'b) finality \<times> 'd \<Rightarrow> 'a res \<times> (('k, 's, 'b) finality \<times> 'd)" where
  "on_storage m = (\<lambda>(f, d).
     case m (fin_storage f) of (r, k) \<Rightarrow> (r, (f\<lparr>fin_storage := k\<rparr>, d)))"

definition remove_by_no ::
  "u64 \<Rightarrow> ('k, 's, 'b) finality \<times> 'd \<Rightarrow> unit res \<times> (('k, 's, 'b) finality \<times> 'd)" where
  "remove_by_no seq_no = (\<lambda>(f, d).
     case fin_blocks_by_no f seq_no of
       None \<Rightarrow> (Inl (Panic ''block by number remove error''), (f, d))
     | Some _ \<Rightarrow> (Inr (), (f\<lparr>fin_blocks_by_no := (fin_blocks_by_no f)(seq_no := None)\<rparr>, d)))"

text \<open>An error of the database is logged and dropped; a panic is not caught.\<close>

definition reflect_finalized ::
  "('k, 's, 'b, 'c, 'j, 'd) node_env \<Rightarrow> u32 \<Rightarrow> ('s, 'b) shard_block \<Rightarrow>
   ('k, 's, 'b) finality \<times> 'd \<Rightarrow> ('s, 'b) shard_block res \<times> (('k, 's, 'b) finality \<times> 'd)" where
  "reflect_finalized env mc_seq_no sb = (\<lambda>(f, d).
     if fin_has_db f then
       (case reflect_block_in_db (env_lib env) (env_json env) (env_docs env) mc_seq_no (sb, d) of
          (Inl (Panic p), (sb', d')) \<Rightarrow> (Inl (Panic p), (f, d'))
        | (_, (sb', d')) \<Rightarrow> (Inr sb', (f, d')))
     else (Inr sb, (f, d)))"

definition finality_blocks ::
  "('k, 's, 'b, 'c, 'j, 'd) node_env \<Rightarrow> u32 \<Rightarrow> u256 \<Rightarrow>
   ('k, 's, 'b) finality \<times> 'd \<Rightarrow> unit res \<times> (('k, 's, 'b) finality \<times> 'd)" where
  "finality_blocks env mc_seq_no root_hash = (\<lambda>(f, d).
     case fin_blocks_by_hash f root_hash of
       Some fin_sb \<Rightarrow>
         (let lib = env_lib env;
              f = f\<lparr>fin_blocks_by_hash := (fin_blocks_by_hash f)(root_hash := None)\<rparr> in
          bindS (liftS (stored_to_loaded env fin_sb f)) (\<lambda>sb.
          bindS (liftS (lib_try (bl_read_info lib (sb_block sb)))) (\<lambda>info.
          let shard_info =
            \<lparr>ssi_seq_no = key_by_seqno (bi_seq_no info) (bi_vert_seq_no info),
             ssi_lt = bi_end_lt info, ssi_hash = sb_root_hash sb\<rparr> in
          bindS (liftS (lib_try (bl_write_state lib (sb_shard_state sb)))) (\<lambda>shard.
          bindS (liftS (lib_try (bl_state_update_hash lib (sb_block sb)))) (\<lambda>new_hash.
          bindS (on_storage (save_serialized_shardstate_ex lib (env_kv env)
                   (bl_default_state lib) (Some shard) new_hash shard_info)) (\<lambda>_.
          bindS (on_storage (save_raw_block lib (env_kv env) (sb_block sb)
                   (Some (sb_serialized_block sb)))) (\<lambda>_.
          bindS (remove_by_no (sb_seq_no sb)) (\<lambda>_.
          bindS (reflect_finalized env mc_seq_no sb) (\<lambda>sb (f, d).
          (Inr (), (f\<lparr>fin_last_finalized_block := sb\<rparr>, d)))))))))) (f, d))
     | None \<Rightarrow>
         if root_hash \<noteq> 0 \<and> root_hash \<noteq> sb_root_hash (fin_last_finalized_block f)
         then (Fail FinalityError, (f, d))
         else (Inr (), (f, d)))"

definition finality_serialize ::
  "('k, 's, 'b, 'c, 'j, 'd) node_env \<Rightarrow> ('k, 's, 'b) finality \<Rightarrow> bytes" where
  "finality_serialize env f =
     u256_bytes (sb_root_hash (fin_current_block f)) @ u64_le (sb_seq_no (fin_current_block f)) @
     u256_bytes (sb_root_hash (fin_last_finalized_block f)) @
     u64_le (sb_seq_no (fin_last_finalized_block f)) @
     concat (map (\<lambda>(key, sb). u256_bytes key @ u64_le (fb_seq_no sb))
       (env_iter env (fin_blocks_by_hash f)))"

definition save_index ::
  "('k, 's, 'b, 'c, 'j, 'd) node_env \<Rightarrow>
   ('k, 's, 'b) finality \<times> 'd \<Rightarrow> unit res \<times> (('k, 's, 'b) finality \<times> 'd)" where
  "save_index env = (\<lambda>(f, d).
     on_storage (ss_set (env_kv env) BLOCKS_FINALITY_INFO_KEY (finality_serialize env f) True) (f, d))"

definition save_block_entry ::
  "('k, 's, 'b, 'c, 'j, 'd) node_env \<Rightarrow> ('s, 'b) shard_block \<Rightarrow>
   ('k, 's, 'b) finality \<times> 'd \<Rightarrow> unit res \<times> (('k, 's, 'b) finality \<times> 'd)" where
  "save_block_entry env sb =
     bindS (liftS (sb_serialize (env_lib env) sb)) (\<lambda>data.
     on_storage (save_non_finalized_block (bl_hex (env_lib env)) (env_kv env)
       (sb_root_hash sb) data))"

definition save_finality ::
  "('k, 's, 'b, 'c, 'j, 'd) node_env \<Rightarrow>
   ('k, 's, 'b) finality \<times> 'd \<Rightarrow> unit res \<times> (('k, 's, 'b) finality \<times> 'd)" where
  "save_finality env = (\<lambda>(f, d).
     bindS (save_block_entry env (fin_current_block f)) (\<lambda>_.
     bindS (save_block_entry env (fin_last_finalized_block f)) (\<lambda>_.
     save_index env)) (f, d))"

text \<open>
  The first line of \<^verbatim>\<open>put_block_with_info\<close> reads the block's info for the log, which the
  shipped configuration writes at level \<^verbatim>\<open>info\<close>.
\<close>

definition put_block_with_info ::
  "('k, 's, 'b, 'c, 'j, 'd) node_env \<Rightarrow> u32 \<Rightarrow> 'b \<Rightarrow> 's \<Rightarrow> traces \<Rightarrow>
   ('k, 's, 'b) finality \<times> 'd \<Rightarrow> unit res \<times> (('k, 's, 'b) finality \<times> 'd)" where
  "put_block_with_info env mc_seq_no block shard_state transaction_traces =
     bindS (liftS (lib_try (bl_read_info (env_lib env) block))) (\<lambda>_.
     bindS (liftS (sb_with_block_and_state (env_lib env) block shard_state)) (\<lambda>sb (f, d).
     let sb = sb\<lparr>sb_traces := transaction_traces\<rparr>;
         f = f\<lparr>fin_current_block := sb,
               fin_blocks_by_hash := (fin_blocks_by_hash f)(sb_root_hash sb \<mapsto> Loaded sb),
               fin_blocks_by_no := (fin_blocks_by_no f)(sb_seq_no sb \<mapsto> Loaded sb)\<rparr> in
     bindS (finality_blocks env mc_seq_no (sb_root_hash sb)) (\<lambda>_. save_finality env) (f, d)))"

section \<open>A block that is put is finalized and saved\<close>

definition reflected ::
  "('k, 's, 'b, 'c, 'j, 'd) node_env \<Rightarrow> u32 \<Rightarrow> ('k, 's, 'b) finality \<Rightarrow> ('s, 'b) shard_block \<Rightarrow> 'd \<Rightarrow>
   ('s, 'b) shard_block \<times> 'd" where
  "reflected env mc_seq_no f sb d =
     (if fin_has_db f
      then snd (reflect_block_in_db (env_lib env) (env_json env) (env_docs env) mc_seq_no (sb, d))
      else (sb, d))"

definition reflect_panics ::
  "('k, 's, 'b, 'c, 'j, 'd) node_env \<Rightarrow> u32 \<Rightarrow> ('s, 'b) shard_block \<Rightarrow> 'd \<Rightarrow> bool" where
  "reflect_panics env mc_seq_no sb d \<longleftrightarrow>
     (\<exists>p. fst (reflect_block_in_db (env_lib env) (env_json env) (env_docs env) mc_seq_no (sb, d))
          = Inl (Panic p))"

lemma reflect_finalized_eq:
  assumes "\<not> reflect_panics env mc_seq_no sb d"
  shows "reflect_finalized env mc_seq_no sb (f, d) =
    (Inr (fst (reflected env mc_seq_no f sb d)), (f, snd (reflected env mc_seq_no f sb d)))"
  using assms
  by (auto simp: reflect_finalized_def reflected_def reflect_panics_def
      split: prod.splits sum.splits fault.splits)

lemma reflected_update [simp]:
  "reflected env mc_seq_no (f\<lparr>fin_storage := k\<rparr>) sb d = reflected env mc_seq_no f sb d"
  "reflected env mc_seq_no (f\<lparr>fin_current_block := c\<rparr>) sb d = reflected env mc_seq_no f sb d"
  "reflected env mc_seq_no (f\<lparr>fin_blocks_by_hash := m\<rparr>) sb d = reflected env mc_seq_no f sb d"
  "reflected env mc_seq_no (f\<lparr>fin_blocks_by_no := n\<rparr>) sb d = reflected env mc_seq_no f sb d"
  by (simp_all add: reflected_def)

lemma reflected_block:
  "\<exists>tr. fst (reflected env mc_seq_no f sb d) = sb\<lparr>sb_traces := tr\<rparr>"
proof -
  have "\<exists>tr. sb = sb\<lparr>sb_traces := tr\<rparr>" by (rule exI [of _ "sb_traces sb"]) simp
  then show ?thesis
    using reflect_keeps_block [of "env_lib env" "env_json env" "env_docs env" mc_seq_no sb d]
    by (cases "reflect_block_in_db (env_lib env) (env_json env) (env_docs env) mc_seq_no (sb, d)")
      (auto simp: reflected_def)
qed

lemma bindS_on_storage:
  "m (fin_storage f) = (Inr x, k) \<Longrightarrow>
   bindS (on_storage m) g (f, d) = g x (f\<lparr>fin_storage := k\<rparr>, d)"
  by (simp add: bindS_def on_storage_def)

lemma bindS_remove_by_no:
  "fin_blocks_by_no f n = Some y \<Longrightarrow>
   bindS (remove_by_no n) g (f, d) =
     g () (f\<lparr>fin_blocks_by_no := (fin_blocks_by_no f)(n := None)\<rparr>, d)"
  by (simp add: bindS_def remove_by_no_def)

lemma bindS_reflect:
  "\<not> reflect_panics env mc_seq_no sb d \<Longrightarrow>
   bindS (reflect_finalized env mc_seq_no sb) g (f, d) =
     g (fst (reflected env mc_seq_no f sb d)) (f, snd (reflected env mc_seq_no f sb d))"
  by (simp add: bindS_def reflect_finalized_eq)

text \<open>What the block library must manage for a block to be put.\<close>

record ('c) block_parts =
  bp_cell :: 'c
  bp_boc :: bytes
  bp_info :: block_info
  bp_state :: bytes
  bp_new_hash :: u256
  bp_block :: bytes

definition parts_of :: "('s, 'b, 'c) block_lib \<Rightarrow> 'b \<Rightarrow> 's \<Rightarrow> 'c block_parts \<Rightarrow> bool" where
  "parts_of lib block st p \<longleftrightarrow>
     bl_block_cell lib block = Inr (bp_cell p) \<and> bl_write_boc lib (bp_cell p) = Inr (bp_boc p) \<and>
     bl_read_info lib block = Inr (bp_info p) \<and> bl_write_state lib st = Inr (bp_state p) \<and>
     bl_state_update_hash lib block = Inr (bp_new_hash p) \<and> bp_new_hash p \<noteq> 0 \<and>
     bl_write_block lib block = Inr (bp_block p)"

definition parts_block ::
  "('s, 'b, 'c) block_lib \<Rightarrow> 'b \<Rightarrow> 's \<Rightarrow> traces \<Rightarrow> 'c block_parts \<Rightarrow> ('s, 'b) shard_block" where
  "parts_block lib block st traces p =
     \<lparr>sb_seq_no = key_by_seqno (bi_seq_no (bp_info p)) (bi_vert_seq_no (bp_info p)),
      sb_serialized_block = bp_boc p, sb_root_hash = bl_cell_hash lib (bp_cell p),
      sb_file_hash = bl_file_hash lib (bp_boc p), sb_block = block, sb_shard_state = st,
      sb_traces = traces\<rparr>"

lemma parts_block_sel [simp]:
  "sb_seq_no (parts_block lib b st tr p) =
     key_by_seqno (bi_seq_no (bp_info p)) (bi_vert_seq_no (bp_info p))"
  "sb_serialized_block (parts_block lib b st tr p) = bp_boc p"
  "sb_root_hash (parts_block lib b st tr p) = bl_cell_hash lib (bp_cell p)"
  "sb_block (parts_block lib b st tr p) = b"
  "sb_shard_state (parts_block lib b st tr p) = st"
  "sb_traces (parts_block lib b st tr p) = tr"
  "(parts_block lib b st tr p)\<lparr>sb_traces := tr'\<rparr> = parts_block lib b st tr' p"
  by (simp_all add: parts_block_def)

lemma parts_block_new:
  "parts_of lib b st p \<Longrightarrow> sb_with_block_and_state lib b st = Inr (parts_block lib b st Map.empty p)"
  by (simp add: parts_of_def sb_with_block_and_state_def parts_block_def)

definition parts_bytes ::
  "('s, 'b, 'c) block_lib \<Rightarrow> 'c block_parts \<Rightarrow> bytes" where
  "parts_bytes lib p =
     u64_le (key_by_seqno (bi_seq_no (bp_info p)) (bi_vert_seq_no (bp_info p))) @
     u32_le (of_nat (length (bp_boc p))) @ bp_boc p @ u256_bytes (bl_cell_hash lib (bp_cell p)) @
     u256_bytes (bl_file_hash lib (bp_boc p)) @ bp_state p @ bp_block p"

lemma parts_serialize:
  "parts_of lib b st p \<Longrightarrow> sb_serialize lib (parts_block lib b st tr p) = Inr (parts_bytes lib p)"
  by (simp add: parts_of_def sb_serialize_def parts_bytes_def parts_block_def)

text \<open>The entries that finalizing and saving write.\<close>

definition final_entries ::
  "('s, 'b, 'c) block_lib \<Rightarrow> 'c block_parts \<Rightarrow> string \<Rightarrow> bytes option" where
  "final_entries lib p =
     [SHARD_STATE_BLOCK_KEY \<mapsto> bp_state p,
      SHARD_INFO_KEY \<mapsto> ssi_serialize
        \<lparr>ssi_seq_no = key_by_seqno (bi_seq_no (bp_info p)) (bi_vert_seq_no (bp_info p)),
         ssi_lt = bi_end_lt (bp_info p), ssi_hash = bl_cell_hash lib (bp_cell p)\<rparr>] ++
     [block_key (bi_seq_no (bp_info p)) (bi_vert_seq_no (bp_info p)) \<mapsto> bp_boc p]"

text \<open>The layer after a block was finalized and saved, with storage \<open>k\<close>.\<close>

definition put_result ::
  "('k, 's, 'b, 'c, 'j, 'd) node_env \<Rightarrow> u32 \<Rightarrow> ('s, 'b) shard_block \<Rightarrow> 'd \<Rightarrow> ('k, 's, 'b) finality \<Rightarrow>
   'k \<Rightarrow> ('k, 's, 'b) finality" where
  "put_result env mc_seq_no sb d f k =
     f\<lparr>fin_storage := k, fin_current_block := sb,
       fin_blocks_by_hash := (fin_blocks_by_hash f)(sb_root_hash sb := None),
       fin_blocks_by_no := (fin_blocks_by_no f)(sb_seq_no sb := None),
       fin_last_finalized_block := fst (reflected env mc_seq_no f sb d)\<rparr>"

definition node_keys :: "(u256 \<Rightarrow> string) \<Rightarrow> string set" where
  "node_keys hex =
     {BLOCKS_FINALITY_INFO_KEY, SHARD_INFO_KEY, SHARD_STATE_BLOCK_KEY, ZEROSTATE_KEY} \<union>
     {block_key a b | a b. True} \<union> range (block_finality_hash_key hex)"

lemma node_keys_mem [simp]:
  "BLOCKS_FINALITY_INFO_KEY \<in> node_keys hex" "SHARD_INFO_KEY \<in> node_keys hex"
  "SHARD_STATE_BLOCK_KEY \<in> node_keys hex" "ZEROSTATE_KEY \<in> node_keys hex"
  "block_key a b \<in> node_keys hex" "block_finality_hash_key hex h \<in> node_keys hex"
  by (auto simp: node_keys_def)

context kv_store
begin

lemma finality_blocks_spec:
  assumes "env_kv env = kv" "inv (fin_storage f)" "\<And>k. k \<in> node_keys (bl_hex (env_lib env)) \<Longrightarrow> key_ok k"
    and "parts_of (env_lib env) b st p" "sb = parts_block (env_lib env) b st tr p"
    and "fin_blocks_by_hash f (sb_root_hash sb) = Some (Loaded sb)"
    and "fin_blocks_by_no f (sb_seq_no sb) \<noteq> None"
    and "\<not> reflect_panics env mc_seq_no sb d"
  shows "\<exists>k. finality_blocks env mc_seq_no (sb_root_hash sb) (f, d) =
      (Inr (), (f\<lparr>fin_storage := k,
        fin_blocks_by_hash := (fin_blocks_by_hash f)(sb_root_hash sb := None),
        fin_blocks_by_no := (fin_blocks_by_no f)(sb_seq_no sb := None),
        fin_last_finalized_block := fst (reflected env mc_seq_no f sb d)\<rparr>,
        snd (reflected env mc_seq_no f sb d))) \<and>
    wrote (fin_storage f) (final_entries (env_lib env) p) k"
proof -
  let ?lib = "env_lib env"
  let ?i = "\<lparr>ssi_seq_no = key_by_seqno (bi_seq_no (bp_info p)) (bi_vert_seq_no (bp_info p)),
         ssi_lt = bi_end_lt (bp_info p), ssi_hash = bl_cell_hash ?lib (bp_cell p)\<rparr>"
  note p = assms(4) [unfolded parts_of_def]
  obtain k1 where k1: "save_serialized_shardstate_ex ?lib kv (bl_default_state ?lib)
        (Some (bp_state p)) (bp_new_hash p) ?i (fin_storage f) = (Inr (), k1)"
      "wrote (fin_storage f) [SHARD_STATE_BLOCK_KEY \<mapsto> bp_state p, SHARD_INFO_KEY \<mapsto> ssi_serialize ?i] k1"
    using save_serialized_shardstate_ex_spec [OF assms(2), of "bp_new_hash p"] p assms(3) by force
  obtain k2 where k2: "save_raw_block ?lib kv b (Some (bp_boc p)) k1 = (Inr (), k2)"
      "wrote k1 [block_key (bi_seq_no (bp_info p)) (bi_vert_seq_no (bp_info p)) \<mapsto> bp_boc p] k2"
    using save_raw_block_spec [OF wrote_inv [OF k1(2)], of ?lib b "bp_info p"] p assms(3) by force
  have "wrote (fin_storage f) (final_entries ?lib p) k2"
    using wrote_trans [OF k1(2) k2(2)] by (simp add: final_entries_def)
  moreover obtain x where "fin_blocks_by_no f (sb_seq_no sb) = Some x"
    using assms(7) by blast
  ultimately show ?thesis
    using p k1(1) k2(1) assms(1,5,6)
    by (intro exI [of _ k2])
      (simp add: finality_blocks_def stored_to_loaded_def Let_def bindS_on_storage
        bindS_remove_by_no bindS_reflect assms(8) [unfolded assms(5)])
qed

end

definition saved_entries ::
  "('k, 's, 'b, 'c, 'j, 'd) node_env \<Rightarrow> 'c block_parts \<Rightarrow> ('k, 's, 'b) finality \<Rightarrow> bytes option \<Rightarrow>
   string \<Rightarrow> bytes option" where
  "saved_entries env p f old =
     final_entries (env_lib env) p ++
     [block_finality_hash_key (bl_hex (env_lib env)) (bl_cell_hash (env_lib env) (bp_cell p)) \<mapsto>
        (case old of None \<Rightarrow> parts_bytes (env_lib env) p | Some e \<Rightarrow> e)] ++
     [BLOCKS_FINALITY_INFO_KEY \<mapsto> finality_serialize env f]"

lemma finality_serialize_storage [simp]:
  "finality_serialize env (f\<lparr>fin_storage := k\<rparr>) = finality_serialize env f"
  by (simp add: finality_serialize_def)

lemma final_entries_other [simp]:
  "final_entries lib p (block_finality_hash_key hex h) = None"
  "final_entries lib p BLOCKS_FINALITY_INFO_KEY = None"
  by (simp_all add: final_entries_def map_add_def)

context kv_store
begin

lemma save_block_entry_spec:
  assumes "env_kv env = kv" "inv (fin_storage f)"
    and "key_ok (block_finality_hash_key (bl_hex (env_lib env)) (sb_root_hash sb))"
    and "sb_serialize (env_lib env) sb = Inr data"
  shows "\<exists>k. save_block_entry env sb (f, d) = (Inr (), (f\<lparr>fin_storage := k\<rparr>, d)) \<and>
    wrote (fin_storage f) [block_finality_hash_key (bl_hex (env_lib env)) (sb_root_hash sb) \<mapsto>
      (case view (fin_storage f) (block_finality_hash_key (bl_hex (env_lib env)) (sb_root_hash sb)) of
         None \<Rightarrow> data | Some e \<Rightarrow> e)] k"
  using save_non_finalized_block_spec [OF assms(2,3), of data] assms(1,4)
  by (auto simp: save_block_entry_def on_storage_def)

lemma save_index_spec:
  assumes "env_kv env = kv" "inv (fin_storage f)" "key_ok BLOCKS_FINALITY_INFO_KEY"
  shows "\<exists>k. save_index env (f, d) = (Inr (), (f\<lparr>fin_storage := k\<rparr>, d)) \<and>
    wrote (fin_storage f) [BLOCKS_FINALITY_INFO_KEY \<mapsto> finality_serialize env f] k"
  using ss_set_overwrite [OF assms(2,3), of "finality_serialize env f"] assms(1)
  by (auto simp: save_index_def on_storage_def)

lemma put_block_spec:
  assumes "env_kv env = kv" "inv (fin_storage f)"
    and "\<And>k. k \<in> node_keys (bl_hex (env_lib env)) \<Longrightarrow> key_ok k"
    and "parts_of (env_lib env) b st p" "sb = parts_block (env_lib env) b st tr p"
    and "\<not> reflect_panics env mc_seq_no sb d"
  shows "\<exists>k. put_block_with_info env mc_seq_no b st tr (f, d) =
      (Inr (), (put_result env mc_seq_no sb d f k, snd (reflected env mc_seq_no f sb d))) \<and>
    wrote (fin_storage f)
      (saved_entries env p (put_result env mc_seq_no sb d f k)
        (view (fin_storage f) (block_finality_hash_key (bl_hex (env_lib env)) (sb_root_hash sb)))) k"
proof -
  let ?K = "block_finality_hash_key (bl_hex (env_lib env)) (sb_root_hash sb)"
  let ?keep = "\<lambda>old. case old of None \<Rightarrow> parts_bytes (env_lib env) p | Some e \<Rightarrow> e"
  let ?f0 = "f\<lparr>fin_current_block := sb,
        fin_blocks_by_hash := (fin_blocks_by_hash f)(sb_root_hash sb \<mapsto> Loaded sb),
        fin_blocks_by_no := (fin_blocks_by_no f)(sb_seq_no sb \<mapsto> Loaded sb)\<rparr>"
  let ?R = "\<lambda>k. put_result env mc_seq_no sb d f k"
  let ?d = "snd (reflected env mc_seq_no f sb d)"
  obtain tr' where last: "fin_last_finalized_block (?R k) = parts_block (env_lib env) b st tr' p" for k
    using reflected_block [of env mc_seq_no f sb d] assms(5) by (auto simp: put_result_def)
  have ser: "sb_serialize (env_lib env) sb = Inr (parts_bytes (env_lib env) p)"
      "sb_serialize (env_lib env) (fin_last_finalized_block (?R k)) = Inr (parts_bytes (env_lib env) p)"
      "sb_root_hash (fin_last_finalized_block (?R k)) = sb_root_hash sb" for k
    unfolding last using parts_serialize [OF assms(4)] assms(5) by simp_all
  have cur: "fin_current_block (?R k) = sb" and sto: "fin_storage (?R k) = k"
    and upd: "(?R k)\<lparr>fin_storage := k'\<rparr> = ?R k'" for k k'
    by (simp_all add: put_result_def)
  obtain k1 where k1: "finality_blocks env mc_seq_no (sb_root_hash sb) (?f0, d) = (Inr (), (?R k1, ?d))"
      "wrote (fin_storage f) (final_entries (env_lib env) p) k1"
    using finality_blocks_spec [OF assms(1) _ assms(3,4,5),
        where f = ?f0 and mc_seq_no = mc_seq_no and d = d] assms(2,6)
    by (cases f) (auto simp: put_result_def reflected_def)
  have v1: "view k1 ?K = view (fin_storage f) ?K"
    using wrote_view [OF k1(2) assms(3)] by simp
  have K: "key_ok ?K" "key_ok BLOCKS_FINALITY_INFO_KEY" using assms(3) by simp_all
  obtain k2 where k2: "save_block_entry env sb (?R k1, ?d) = (Inr (), (?R k2, ?d))"
      "wrote k1 [?K \<mapsto> ?keep (view (fin_storage f) ?K)] k2"
    using save_block_entry_spec [OF assms(1), where f = "?R k1" and sb = sb and
        data = "parts_bytes (env_lib env) p" and d = ?d] wrote_inv [OF k1(2)] K(1)
      ser(1) v1 by (auto simp: sto upd)
  have v2: "view k2 ?K = Some (?keep (view (fin_storage f) ?K))"
    using wrote_view [OF k2(2) K(1)] by simp
  obtain k3 where k3: "save_block_entry env (fin_last_finalized_block (?R k2)) (?R k2, ?d)
        = (Inr (), (?R k3, ?d))"
      "wrote k2 [?K \<mapsto> ?keep (view (fin_storage f) ?K)] k3"
    using save_block_entry_spec [OF assms(1), where f = "?R k2" and
        sb = "fin_last_finalized_block (?R k2)" and data = "parts_bytes (env_lib env) p" and d = ?d]
      wrote_inv [OF k2(2)] K(1) ser(2) v2 by (auto simp: sto upd ser(3))
  obtain k4 where k4: "save_index env (?R k3, ?d) = (Inr (), (?R k4, ?d))"
      "wrote k3 [BLOCKS_FINALITY_INFO_KEY \<mapsto> finality_serialize env (?R k3)] k4"
    using save_index_spec [OF assms(1), where f = "?R k3" and d = ?d] wrote_inv [OF k3(2)] K(2) by (auto simp: sto upd)
  have "finality_serialize env (?R k3) = finality_serialize env (?R k4)"
    using finality_serialize_storage [of env k4 "?R k3"] by (simp add: upd)
  then have "wrote (fin_storage f) (saved_entries env p (?R k4) (view (fin_storage f) ?K)) k4"
    using wrote_trans [OF k1(2) wrote_trans [OF k2(2) wrote_trans [OF k3(2) k4(2)]]] assms(5)
    by (simp add: saved_entries_def map_add_assoc [symmetric])
  moreover have "save_finality env (?R k1, ?d) = (Inr (), (?R k4, ?d))"
    using k2(1) k3(1) k4(1)
    by (simp add: save_finality_def bindS_def cur) (simp add: put_result_def)
  moreover have "sb_with_block_and_state (env_lib env) b st =
      Inr (parts_block (env_lib env) b st Map.empty p)" "bl_read_info (env_lib env) b = Inr (bp_info p)"
    using parts_block_new [OF assms(4)] assms(4) by (simp_all add: parts_of_def)
  ultimately show ?thesis
    using k1(1) assms(5)
    by (intro exI [of _ k4]) (simp add: put_block_with_info_def Let_def bindS_def [of "finality_blocks _ _ _"])
qed

end

end
