(* ===== verification/Finality_Props.thy ===== *)
theory Finality_Props
  imports Finality
begin

text \<open>
  What the finality layer guarantees: blocks that are put are final at once and stay
  readable, the layer is found again by a restart, its index loads whatever its bytes are,
  and what is left behind when the storage fails.
\<close>

section \<open>Reading the index\<close>

lemma read_one_sb_hash_entry:
  "reader_ok lib \<Longrightarrow>
   read_one_sb_hash lib (u256_bytes h @ u64_le n @ rest) = Inr ((n, h), rest)"
  by (simp add: read_one_sb_hash_def reader_ok_simps)

lemma read_one_sb_hash_long:
  assumes "reader_ok lib" "40 \<le> length bs"
  shows "\<exists>n h. read_one_sb_hash lib bs = Inr ((n, h), drop 40 bs)"
  using assms by (auto simp: read_one_sb_hash_def reader_ok_def reads_exactly_def)

lemma read_one_sb_hash_short:
  assumes "reader_ok lib" "length bs < 40"
  shows "read_one_sb_hash lib bs = Fail (Io UnexpectedEof)"
  using assms by (auto simp: read_one_sb_hash_def reader_ok_def reads_exactly_def)

lemma read_index_short:
  "reader_ok lib \<Longrightarrow> length bs < 40 \<Longrightarrow> read_index lib bs f = Some (Inr (), f)"
  by (subst read_index.simps) (simp add: read_one_sb_hash_short)

definition index_bytes :: "(u256 \<times> ('s, 'b) finality_block) list \<Rightarrow> bytes" where
  "index_bytes xs = concat (map (\<lambda>(key, sb). u256_bytes key @ u64_le (fb_seq_no sb)) xs)"

definition insert_all ::
  "(u256 \<times> ('s, 'b) finality_block) list \<Rightarrow> ('k, 's, 'b) finality \<Rightarrow> ('k, 's, 'b) finality" where
  "insert_all xs f = fold (\<lambda>(h, b). insert_stored (fb_seq_no b) h) xs f"

lemma read_index_bytes:
  assumes "reader_ok lib"
  shows "read_index lib (index_bytes xs) f = Some (Inr (), insert_all xs f)"
proof (induction xs arbitrary: f)
  case Nil
  then show ?case by (simp add: index_bytes_def insert_all_def read_index_short [OF assms])
next
  case (Cons x xs)
  obtain h b where x: "x = (h, b)" by (cases x)
  have "index_bytes (x # xs) = u256_bytes h @ u64_le (fb_seq_no b) @ index_bytes xs"
    by (simp add: index_bytes_def x)
  then show ?case
    using Cons.IH by (subst read_index.simps)
      (simp add: read_one_sb_hash_entry [OF assms] insert_all_def x)
qed

lemma insert_stored_sel [simp]:
  "fin_current_block (insert_stored n h f) = fin_current_block f"
  "fin_last_finalized_block (insert_stored n h f) = fin_last_finalized_block f"
  "fin_storage (insert_stored n h f) = fin_storage f"
  "fin_blocks_by_hash (insert_stored n h f) =
     (fin_blocks_by_hash f)(h \<mapsto> Stored (sbh_with_hash n h))"
  by (simp_all add: insert_stored_def Let_def)

lemma insert_all_sel [simp]:
  "fin_current_block (insert_all xs f) = fin_current_block f"
  "fin_last_finalized_block (insert_all xs f) = fin_last_finalized_block f"
  "fin_storage (insert_all xs f) = fin_storage f"
  by (induction xs arbitrary: f) (auto simp: insert_all_def)

lemma insert_all_by_hash:
  "distinct (map fst xs) \<Longrightarrow>
   fin_blocks_by_hash (insert_all xs f) h =
     (case map_of xs h of None \<Rightarrow> fin_blocks_by_hash f h
      | Some b \<Rightarrow> Some (Stored (sbh_with_hash (fb_seq_no b) h)))"
proof (induction xs arbitrary: f)
  case (Cons x xs)
  obtain h' b where x: "x = (h', b)" by (cases x)
  have step: "insert_all (x # xs) f = insert_all xs (insert_stored (fb_seq_no b) h' f)"
    by (simp add: insert_all_def x)
  from Cons.prems have "map_of xs h' = None" by (simp add: x map_of_eq_None_iff)
  with Cons.prems show ?case
    unfolding step using Cons.IH [of "insert_stored (fb_seq_no b) h' f"]
    by (auto simp: x split: option.splits)
qed (simp add: insert_all_def)

text \<open>The waiting blocks as an index brings them back.\<close>

definition as_stored ::
  "(u256 \<Rightarrow> ('s, 'b) finality_block option) \<Rightarrow> u256 \<Rightarrow> ('s, 'b) finality_block option" where
  "as_stored m h = map_option (\<lambda>b. Stored (sbh_with_hash (fb_seq_no b) h)) (m h)"

lemma insert_all_iter:
  assumes "iter_ok it" "finite (dom m)" "fin_blocks_by_hash f = Map.empty"
  shows "fin_blocks_by_hash (insert_all (it m) f) = as_stored m"
proof
  fix h
  from assms(1,2) have it: "distinct (map fst (it m))" "set (it m) = {(h, b). m h = Some b}"
    by (auto simp: iter_ok_def)
  then have "map_of (it m) h = m h"
    by (cases "m h") (auto simp: map_of_eq_None_iff)
  with it(1) assms(3) show "fin_blocks_by_hash (insert_all (it m) f) h = as_stored m h"
    by (simp add: insert_all_by_hash as_stored_def split: option.splits)
qed

section \<open>Reloading\<close>

lemma finality_serialize_eq:
  "finality_serialize env f =
     u256_bytes (sb_root_hash (fin_current_block f)) @ u64_le (sb_seq_no (fin_current_block f)) @
     u256_bytes (sb_root_hash (fin_last_finalized_block f)) @
     u64_le (sb_seq_no (fin_last_finalized_block f)) @
     index_bytes (env_iter env (fin_blocks_by_hash f))"
  by (simp add: finality_serialize_def index_bytes_def)

context kv_store
begin

text \<open>The storage holds the block under its root hash.\<close>

definition holds_block ::
  "('k, 's, 'b, 'c, 'j, 'd) node_env \<Rightarrow> 'k \<Rightarrow> ('s, 'b) shard_block \<Rightarrow> bool" where
  "holds_block env k sb \<longleftrightarrow>
     sb_seq_no sb \<noteq> 0 \<and> length (sb_serialized_block sb) < 2 ^ 32 \<and>
     (\<exists>bs. sb_serialize (env_lib env) sb = Inr bs \<and>
        view k (block_finality_hash_key (bl_hex (env_lib env)) (sb_root_hash sb)) = Some bs)"

lemma read_one_sb_held:
  assumes "env_kv env = kv" "inv (fin_storage g)" "lib_ok (env_lib env)"
    and "key_ok (block_finality_hash_key (bl_hex (env_lib env)) (sb_root_hash sb))"
    and "holds_block env (fin_storage g) sb"
  shows "read_one_sb env (u256_bytes (sb_root_hash sb) @ u64_le (sb_seq_no sb) @ rest) g =
    Inr (sb\<lparr>sb_traces := Map.empty\<rparr>, rest)"
proof -
  from assms(5) obtain bs where bs: "sb_serialize (env_lib env) sb = Inr bs"
      "view (fin_storage g) (block_finality_hash_key (bl_hex (env_lib env)) (sb_root_hash sb)) = Some bs"
      "sb_seq_no sb \<noteq> 0" "length (sb_serialized_block sb) < 2 ^ 32"
    by (auto simp: holds_block_def)
  have ok: "reader_ok (env_lib env)" "boc_ok (env_lib env)" using assms(3) by (auto simp: lib_ok_def)
  have "read_one_sb_from_key env
      (block_finality_hash_key (bl_hex (env_lib env)) (sb_root_hash sb)) g =
    Inr (sb\<lparr>sb_traces := Map.empty\<rparr>)"
    using assms(1) get_spec [OF assms(2,4)] bs(2)
      sb_roundtrip [OF ok bs(4,1), of "env_default_shard env" "[]"]
    by (simp add: read_one_sb_from_key_def ss_get_def)
  with bs(3) show ?thesis
    by (simp add: read_one_sb_def reader_ok_simps [OF ok(1)])
qed

lemma load_saved:
  assumes "env_kv env = kv" "inv k" "lib_ok (env_lib env)" "iter_ok (env_iter env)"
    and "\<And>x. x \<in> node_keys (bl_hex (env_lib env)) \<Longrightarrow> key_ok x"
    and "view k BLOCKS_FINALITY_INFO_KEY = Some (finality_serialize env f)"
    and "holds_block env k (fin_current_block f)" "holds_block env k (fin_last_finalized_block f)"
    and "finite (dom (fin_blocks_by_hash f))"
  shows "\<exists>g. finality_load env (finality_with_params lib gid shard k db) = Some (Inr True, g) \<and>
    fin_current_block g = (fin_current_block f)\<lparr>sb_traces := Map.empty\<rparr> \<and>
    fin_last_finalized_block g = (fin_last_finalized_block f)\<lparr>sb_traces := Map.empty\<rparr> \<and>
    fin_blocks_by_hash g = as_stored (fin_blocks_by_hash f) \<and> fin_storage g = k"
proof -
  let ?g0 = "finality_with_params lib gid shard k db"
  let ?g1 = "?g0\<lparr>fin_current_block := (fin_current_block f)\<lparr>sb_traces := Map.empty\<rparr>\<rparr>"
  let ?g2 = "?g1\<lparr>fin_last_finalized_block := (fin_last_finalized_block f)\<lparr>sb_traces := Map.empty\<rparr>\<rparr>"
  let ?idx = "index_bytes (env_iter env (fin_blocks_by_hash f))"
  have st: "fin_storage ?g0 = k" "fin_storage ?g1 = k" by (simp_all add: finality_with_params_def)
  have K: "key_ok (block_finality_hash_key (bl_hex (env_lib env)) h)" "key_ok BLOCKS_FINALITY_INFO_KEY" for h
    using assms(5) by simp_all
  have r1: "read_one_sb env (finality_serialize env f) ?g0 =
      Inr ((fin_current_block f)\<lparr>sb_traces := Map.empty\<rparr>,
        u256_bytes (sb_root_hash (fin_last_finalized_block f)) @
        u64_le (sb_seq_no (fin_last_finalized_block f)) @ ?idx)"
    unfolding finality_serialize_eq
    by (rule read_one_sb_held) (use assms st K in auto)
  have r2: "read_one_sb env (u256_bytes (sb_root_hash (fin_last_finalized_block f)) @
        u64_le (sb_seq_no (fin_last_finalized_block f)) @ ?idx) ?g1 =
      Inr ((fin_last_finalized_block f)\<lparr>sb_traces := Map.empty\<rparr>, ?idx)"
    by (rule read_one_sb_held) (use assms st K in auto)
  have r3: "read_index (env_lib env) ?idx ?g2 =
      Some (Inr (), insert_all (env_iter env (fin_blocks_by_hash f)) ?g2)"
    using assms(3) by (intro read_index_bytes) (simp add: lib_ok_def)
  have "finality_deserialize env (finality_serialize env f) ?g0 =
      Some (Inr (), insert_all (env_iter env (fin_blocks_by_hash f)) ?g2)"
    using r1 r2 r3 by (simp add: finality_deserialize_def Let_def)
  moreover have "ss_get kv BLOCKS_FINALITY_INFO_KEY k = Inr (finality_serialize env f)"
    using get_spec [OF assms(2) K(2)] assms(6) by (simp add: ss_get_def)
  moreover have "fin_blocks_by_hash (insert_all (env_iter env (fin_blocks_by_hash f)) ?g2) =
      as_stored (fin_blocks_by_hash f)"
    by (rule insert_all_iter) (use assms(4,9) in \<open>simp_all add: finality_with_params_def\<close>)
  ultimately show ?thesis
    using assms(1) st by (simp add: finality_load_def)
qed

end

section \<open>A sequence of blocks\<close>

record ('s, 'b) put_call =
  pc_mc_seq_no :: u32
  pc_block :: 'b
  pc_state :: 's
  pc_traces :: traces

fun put_all ::
  "('k, 's, 'b, 'c, 'j, 'd) node_env \<Rightarrow> ('s, 'b) put_call list \<Rightarrow>
   ('k, 's, 'b) finality \<times> 'd \<Rightarrow> unit res \<times> (('k, 's, 'b) finality \<times> 'd)" where
  "put_all env [] = retS ()"
| "put_all env (c # cs) =
     bindS (put_block_with_info env (pc_mc_seq_no c) (pc_block c) (pc_state c) (pc_traces c)) (\<lambda>_.
     put_all env cs)"

text \<open>A call with what the library makes of its block.\<close>

definition call_ok ::
  "('k, 's, 'b, 'c, 'j, 'd) node_env \<Rightarrow> ('s, 'b) put_call \<times> 'c block_parts \<Rightarrow> bool" where
  "call_ok env = (\<lambda>(c, p). parts_of (env_lib env) (pc_block c) (pc_state c) p)"

definition part_key :: "'c block_parts \<Rightarrow> string" where
  "part_key p = block_key (bi_seq_no (bp_info p)) (bi_vert_seq_no (bp_info p))"

definition docs_calm :: "('k, 's, 'b, 'c, 'j, 'd) node_env \<Rightarrow> bool" where
  "docs_calm env \<longleftrightarrow> (\<forall>mc_seq_no sb d. \<not> reflect_panics env mc_seq_no sb d)"

lemma saved_entries_keys [simp]:
  "saved_entries env p f old (part_key p) = Some (bp_boc p)"
  "saved_entries env p f old SHARD_STATE_BLOCK_KEY = Some (bp_state p)"
  "saved_entries env p f old BLOCKS_FINALITY_INFO_KEY = Some (finality_serialize env f)"
  "block_key a b \<noteq> part_key p \<Longrightarrow> saved_entries env p f old (block_key a b) = None"
  by (simp_all add: saved_entries_def final_entries_def part_key_def map_add_def)

context kv_store
begin

lemma put_all_keeps:
  assumes "env_kv env = kv" "docs_calm env"
    and "\<And>x. x \<in> node_keys (bl_hex (env_lib env)) \<Longrightarrow> key_ok x"
  shows "inv (fin_storage f) \<Longrightarrow> list_all (call_ok env) xs \<Longrightarrow>
    distinct (map (part_key \<circ> snd) xs) \<Longrightarrow>
    fin_blocks_by_hash f = Map.empty \<Longrightarrow> fin_blocks_by_no f = Map.empty \<Longrightarrow>
    \<exists>f' d'. put_all env (map fst xs) (f, d) = (Inr (), (f', d')) \<and> inv (fin_storage f') \<and>
      fin_blocks_by_hash f' = Map.empty \<and> fin_blocks_by_no f' = Map.empty \<and>
      (\<forall>cp \<in> set xs. view (fin_storage f') (part_key (snd cp)) = Some (bp_boc (snd cp))) \<and>
      (\<forall>a b. block_key a b \<notin> part_key ` snd ` set xs \<longrightarrow>
         view (fin_storage f') (block_key a b) = view (fin_storage f) (block_key a b)) \<and>
      (xs \<noteq> [] \<longrightarrow> view (fin_storage f') SHARD_STATE_BLOCK_KEY = Some (bp_state (snd (last xs))) \<and>
         view (fin_storage f') BLOCKS_FINALITY_INFO_KEY = Some (finality_serialize env f') \<and>
         get_last_shard_state f' = pc_state (fst (last xs)))"
proof (induction xs arbitrary: f d)
  case (Cons x xs)
  obtain c p where x: "x = (c, p)" by (cases x)
  let ?sb = "parts_block (env_lib env) (pc_block c) (pc_state c) (pc_traces c) p"
  from Cons.prems(2) x have p: "parts_of (env_lib env) (pc_block c) (pc_state c) p"
    by (simp add: call_ok_def)
  have calm: "\<not> reflect_panics env (pc_mc_seq_no c) ?sb d" using assms(2) by (simp add: docs_calm_def)
  obtain k old where k: "put_block_with_info env (pc_mc_seq_no c) (pc_block c) (pc_state c) (pc_traces c) (f, d)
      = (Inr (), (put_result env (pc_mc_seq_no c) ?sb d f k, snd (reflected env (pc_mc_seq_no c) f ?sb d)))"
    "wrote (fin_storage f) (saved_entries env p (put_result env (pc_mc_seq_no c) ?sb d f k) old) k"
    using put_block_spec [OF assms(1) Cons.prems(1) assms(3) p refl calm] by blast
  let ?f1 = "put_result env (pc_mc_seq_no c) ?sb d f k"
  let ?d1 = "snd (reflected env (pc_mc_seq_no c) f ?sb d)"
  have f1: "fin_storage ?f1 = k" "fin_blocks_by_hash ?f1 = Map.empty" "fin_blocks_by_no ?f1 = Map.empty"
      "get_last_shard_state ?f1 = pc_state c"
    using Cons.prems(4,5) by (simp_all add: put_result_def get_last_shard_state_def)
  have inv: "inv (fin_storage ?f1)" using wrote_inv [OF k(2)] f1(1) by simp
  have K: "key_ok (block_key a b)" "key_ok SHARD_STATE_BLOCK_KEY" "key_ok BLOCKS_FINALITY_INFO_KEY" for a b
    using assms(3) by simp_all
  note v = wrote_view [OF k(2)]
  from Cons.IH [OF inv _ _ f1(2,3), of ?d1] Cons.prems(2,3) obtain f' d' where IH:
    "put_all env (map fst xs) (?f1, ?d1) = (Inr (), (f', d'))" "inv (fin_storage f')"
    "fin_blocks_by_hash f' = Map.empty" "fin_blocks_by_no f' = Map.empty"
    "\<forall>cp \<in> set xs. view (fin_storage f') (part_key (snd cp)) = Some (bp_boc (snd cp))"
    "\<forall>a b. block_key a b \<notin> part_key ` snd ` set xs \<longrightarrow>
       view (fin_storage f') (block_key a b) = view k (block_key a b)"
    "xs \<noteq> [] \<longrightarrow> view (fin_storage f') SHARD_STATE_BLOCK_KEY = Some (bp_state (snd (last xs))) \<and>
         view (fin_storage f') BLOCKS_FINALITY_INFO_KEY = Some (finality_serialize env f') \<and>
         get_last_shard_state f' = pc_state (fst (last xs))"
    unfolding f1(1) by auto
  have fresh: "part_key p \<notin> part_key ` snd ` set xs"
    using Cons.prems(3) x by (simp add: image_comp)
  have head: "view (fin_storage f') (part_key p) = Some (bp_boc p)"
    using IH(6) fresh v [OF K(1)]
    by (simp add: part_key_def saved_entries_keys(1) [unfolded part_key_def])
  have other: "view (fin_storage f') (block_key a b) = view (fin_storage f) (block_key a b)"
    if "block_key a b \<notin> part_key ` snd ` set (x # xs)" for a b
    using that IH(6) v [OF K(1)] x by simp
  have nil: "f' = ?f1" if "xs = []" using IH(1) that by simp
  have "put_all env (map fst (x # xs)) (f, d) = (Inr (), (f', d'))"
    using k(1) IH(1) by (simp add: x bindS_def)
  with IH(2-5,7) head other nil f1 v [OF K(2)] v [OF K(3)] show ?case
    by (intro exI [of _ f'] exI [of _ d']) (auto simp: x)
qed simp

end

section \<open>The index always loads to an end\<close>

lemma read_index_returns:
  "reader_ok lib \<Longrightarrow> \<exists>g. read_index lib bs f = Some (Inr (), g)"
proof (induction "length bs" arbitrary: bs f rule: less_induct)
  case less
  show ?case
  proof (cases "length bs < 40")
    case True
    then show ?thesis using read_index_short [OF less.prems] by blast
  next
    case False
    then obtain n h where e: "read_one_sb_hash lib bs = Inr ((n, h), drop 40 bs)"
      using read_one_sb_hash_long [OF less.prems, of bs] by auto
    have "length (drop 40 bs) < length bs" using False by simp
    from less.hyps [OF this less.prems] show ?thesis
      by (subst read_index.simps) (simp add: e)
  qed
qed

lemma finality_deserialize_returns:
  "reader_ok (env_lib env) \<Longrightarrow> finality_deserialize env bs f \<noteq> None"
  using read_index_returns [of "env_lib env"]
  by (fastforce simp: finality_deserialize_def Let_def split: sum.splits prod.splits)

text \<open>\<^bold>\<open>C13\<close>. Loading the finality layer returns for every content of the storage: the loop
  over the index, which the code leaves only at the end of the input, reaches it whatever
  the bytes of the index are, and a partial last entry does not fail the load.\<close>

theorem finality_load_returns:
  assumes "reader_ok (env_lib env)"
  shows "(\<exists>r. finality_load env f = Some r) \<and>
    (\<exists>g. read_index (env_lib env) bs f = Some (Inr (), g))"
proof -
  have "finality_load env f \<noteq> None"
    using finality_deserialize_returns [OF assms]
    by (simp add: finality_load_def split: fault.split sum.split del: not_None_eq)
  then have "\<exists>r. finality_load env f = Some r" by blast
  with read_index_returns [OF assms] show ?thesis by blast
qed

section \<open>Properties on the file system\<close>

lemma node_keys_storage_keys:
  "lib_ok lib \<Longrightarrow> x \<in> node_keys (bl_hex lib) \<Longrightarrow> storage_key x"
  by (auto simp: node_keys_def lib_ok_def)

text \<open>\<^bold>\<open>C2\<close>. A block that is put on the file-system storage is the current and the last
  finalized block at once, waits in neither map, and survives a restart: a new finality
  layer over what is then on disk loads the same current and last finalized block (their
  traces apart, which are not stored) and every block that was still waiting.\<close>

theorem put_block_survives_restart:
  fixes env :: "(fs, 's, 'b, 'c, 'j, 'd) node_env"
  assumes "env_kv env = fs_kv root" "fs_ready root (fin_storage f)"
    and "lib_ok (env_lib env)" "iter_ok (env_iter env)" "finite (dom (fin_blocks_by_hash f))"
    and "parts_of (env_lib env) b st p" "sb = parts_block (env_lib env) b st tr p"
    and "sb_seq_no sb \<noteq> 0" "length (bp_boc p) < 2 ^ 32"
    and "fs_view root (fin_storage f)
          (block_finality_hash_key (bl_hex (env_lib env)) (sb_root_hash sb)) = None"
    and "\<not> reflect_panics env mc_seq_no sb d"
    and "put_block_with_info env mc_seq_no b st tr (f, d) = (r, (f', d'))"
  shows "r = Inr () \<and> fin_current_block f' = sb \<and>
    (fin_last_finalized_block f')\<lparr>sb_traces := tr\<rparr> = sb \<and>
    fin_blocks_by_hash f' = (fin_blocks_by_hash f)(sb_root_hash sb := None) \<and>
    fin_blocks_by_no f' = (fin_blocks_by_no f)(sb_seq_no sb := None) \<and>
    (\<exists>g. finality_load env (finality_with_params lib gid shard (fin_storage f') db) = Some (Inr True, g) \<and>
      fin_current_block g = (fin_current_block f')\<lparr>sb_traces := Map.empty\<rparr> \<and>
      fin_last_finalized_block g = (fin_last_finalized_block f')\<lparr>sb_traces := Map.empty\<rparr> \<and>
      fin_blocks_by_hash g = as_stored (fin_blocks_by_hash f'))"
proof -
  let ?K = "block_finality_hash_key (bl_hex (env_lib env)) (sb_root_hash sb)"
  have key: "x \<in> node_keys (bl_hex (env_lib env)) \<Longrightarrow> storage_key x" for x
    using node_keys_storage_keys [OF assms(3)] .
  obtain k where k: "r = Inr ()" "f' = put_result env mc_seq_no sb d f k"
      "kv_store.wrote (fs_view root) (fs_ready root) storage_key (fin_storage f) (saved_entries env p f' None) k"
    using fs.put_block_spec [OF assms(1,2) key assms(6,7,11)] assms(10,12) by auto
  obtain tr' where last: "fin_last_finalized_block f' = parts_block (env_lib env) b st tr' p"
    using reflected_block [of env mc_seq_no f sb d] assms(7) k(2) by (auto simp: put_result_def)
  have sel: "fin_storage f' = k" "fin_current_block f' = sb"
      "fin_blocks_by_hash f' = (fin_blocks_by_hash f)(sb_root_hash sb := None)"
      "fin_blocks_by_no f' = (fin_blocks_by_no f)(sb_seq_no sb := None)"
    using k(2) by (simp_all add: put_result_def)
  have "fs_view root k ?K = Some (parts_bytes (env_lib env) p)"
    using fs.wrote_view [OF k(3) key, of ?K] assms(7) by (simp add: saved_entries_def)
  then have held: "kv_store.holds_block (fs_view root) env k (fin_current_block f')"
      "kv_store.holds_block (fs_view root) env k (fin_last_finalized_block f')"
    unfolding fs.holds_block_def sel(2) last
    using assms(7,8,9) parts_serialize [OF assms(6)] by auto
  have idx: "fs_view root k BLOCKS_FINALITY_INFO_KEY = Some (finality_serialize env f')"
    using fs.wrote_view [OF k(3) key, of BLOCKS_FINALITY_INFO_KEY] by simp
  have fin: "finite (dom (fin_blocks_by_hash f'))"
    using assms(5) sel(3) by simp
  show ?thesis
    using fs.load_saved [OF assms(1) fs.wrote_inv [OF k(3)] assms(3,4) key idx held fin,
        of lib gid shard db] k(1) sel last assms(7) by auto
qed

text \<open>\<^bold>\<open>C3\<close>. Any number of blocks with different numbers put one after the other on the
  file-system storage all succeed; afterwards no block waits for finality, every one of
  the blocks is stored under its number with exactly its bytes, blocks stored before under
  other numbers are untouched, and the stored shard state is that of the last block.\<close>

theorem all_put_blocks_are_kept:
  fixes env :: "(fs, 's, 'b, 'c, 'j, 'd) node_env"
  assumes "env_kv env = fs_kv root" "docs_calm env" "lib_ok (env_lib env)"
    and "fs_ready root (fin_storage f)" "list_all (call_ok env) (xs @ [x])"
    and "distinct (map (part_key \<circ> snd) (xs @ [x]))"
    and "fin_blocks_by_hash f = Map.empty" "fin_blocks_by_no f = Map.empty"
    and "put_all env (map fst (xs @ [x])) (f, d) = (r, (f', d'))"
    and "cp \<in> set (xs @ [x])" "block_key a b \<notin> part_key ` snd ` set (xs @ [x])"
  shows "r = Inr () \<and> fin_blocks_by_hash f' = Map.empty \<and> fin_blocks_by_no f' = Map.empty \<and>
    fskv_get root (part_key (snd cp)) (fin_storage f') = Inr (bp_boc (snd cp)) \<and>
    fskv_get root (block_key a b) (fin_storage f') = fskv_get root (block_key a b) (fin_storage f) \<and>
    fskv_get root SHARD_STATE_BLOCK_KEY (fin_storage f') = Inr (bp_state (snd x)) \<and>
    get_last_shard_state f' = pc_state (fst x)"
proof -
  have key: "x \<in> node_keys (bl_hex (env_lib env)) \<Longrightarrow> storage_key x" for x
    using node_keys_storage_keys [OF assms(3)] .
  obtain f1 d1 where run: "put_all env (map fst (xs @ [x])) (f, d) = (Inr (), (f1, d1))"
      "fs_ready root (fin_storage f1)"
      "fin_blocks_by_hash f1 = Map.empty" "fin_blocks_by_no f1 = Map.empty"
      "\<forall>cp \<in> set (xs @ [x]). fs_view root (fin_storage f1) (part_key (snd cp)) = Some (bp_boc (snd cp))"
      "\<forall>a b. block_key a b \<notin> part_key ` snd ` set (xs @ [x]) \<longrightarrow>
         fs_view root (fin_storage f1) (block_key a b) = fs_view root (fin_storage f) (block_key a b)"
      "fs_view root (fin_storage f1) SHARD_STATE_BLOCK_KEY = Some (bp_state (snd x))"
      "get_last_shard_state f1 = pc_state (fst x)"
    using fs.put_all_keeps [OF assms(1,2) key assms(4,5,6,7,8), of d] by auto
  have f1: "r = Inr ()" "f' = f1" using run(1) assms(9) by auto
  have "fs_view root (fin_storage f1) (part_key (snd cp)) = Some (bp_boc (snd cp))"
      "fs_view root (fin_storage f1) (block_key a b) = fs_view root (fin_storage f) (block_key a b)"
    using run(5,6) assms(10,11) by blast+
  with fs.get_spec [OF run(2)] fs.get_spec [OF assms(4), of "block_key a b"] show ?thesis
    using f1 run(3,4,7,8) by (simp add: part_key_def)
qed

section \<open>A concrete layer\<close>

lemma docs_calm_mem: "env_docs env = mem_documents_db \<Longrightarrow> docs_calm env"
  using mem_docs.reflect_calm [of "env_lib env" "env_json env"]
  by (simp add: docs_calm_def reflect_panics_def calm_def)

definition demo_root :: path where
  "demo_root = [''w'', ''MC'', ''shard_8000000000000000'']"

definition demo_fs :: fs where
  "demo_fs = shard_dirs_made demo_root (example_fs\<lparr>fs_files := Map.empty\<rparr>)"

definition demo_shard :: shard_ident where
  "demo_shard = sl_masterchain example_lib"

definition demo_iter ::
  "(u256 \<Rightarrow> (demo_state, demo_block) finality_block option) \<Rightarrow>
   (u256 \<times> (demo_state, demo_block) finality_block) list" where
  "demo_iter m = map (\<lambda>h. (h, the (m h))) (sorted_list_of_set (dom m))"

definition demo_env :: "(fs, demo_state, demo_block, bytes, string, string mem_docs) node_env" where
  "demo_env =
     \<lparr>env_lib = demo_lib, env_kv = fs_kv demo_root, env_json = demo_json,
      env_docs = mem_documents_db, env_default_shard = demo_shard, env_iter = demo_iter\<rparr>"

definition demo_fin :: "(fs, demo_state, demo_block) finality" where
  "demo_fin = finality_with_params demo_lib 0 demo_shard demo_fs True"

text \<open>The block with number \<open>n\<close> of the demo library and its parts.\<close>

definition demo_parts :: "u32 \<Rightarrow> bytes block_parts" where
  "demo_parts n =
     \<lparr>bp_cell = demo_block_bytes (0, n, 5), bp_boc = demo_block_bytes (0, n, 5),
      bp_info = demo_info\<lparr>bi_seq_no := n, bi_end_lt := 5\<rparr>, bp_state = demo_state_bytes (0, n, True),
      bp_new_hash = 1, bp_block = demo_block_bytes (0, n, 5)\<rparr>"

definition demo_call :: "u32 \<Rightarrow> (demo_state, demo_block) put_call" where
  "demo_call n =
     \<lparr>pc_mc_seq_no = 1, pc_block = (0, n, 5), pc_state = (0, n, True), pc_traces = Map.empty\<rparr>"

lemma demo_env_sel [simp]:
  "env_lib demo_env = demo_lib" "env_kv demo_env = fs_kv demo_root"
  "env_docs demo_env = mem_documents_db" "env_iter demo_env = demo_iter"
  by (simp_all add: demo_env_def)

lemma demo_env_calm: "docs_calm demo_env"
  by (rule docs_calm_mem) simp

lemma demo_iter_ok: "iter_ok demo_iter"
  by (auto simp: iter_ok_def demo_iter_def comp_def)

lemma demo_parts_of: "parts_of demo_lib (0, n, 5) (0, n, True) (demo_parts n)"
  by (simp add: parts_of_def demo_lib_def demo_parts_def)

lemma demo_fs_ready: "fs_ready demo_root demo_fs"
proof -
  have "fs_usable demo_root (example_fs\<lparr>fs_files := Map.empty\<rparr>)"
    using fs_usable_example by (simp add: fs_usable_def demo_root_def)
  then show ?thesis
    using fskv_with_path_ready(2) [of example_lib demo_shard "[''w'']" "example_fs\<lparr>fs_files := Map.empty\<rparr>"]
      example_shard_root
    by (simp add: demo_shard_def demo_root_def demo_fs_def)
qed

lemma demo_fin_sel [simp]:
  "fin_storage demo_fin = demo_fs" "fin_blocks_by_hash demo_fin = Map.empty"
  "fin_blocks_by_no demo_fin = Map.empty"
  by (simp_all add: demo_fin_def finality_with_params_def)

lemma demo_fs_empty: "fs_view demo_root demo_fs k = None"
  by (simp add: fs_view_def demo_fs_def shard_dirs_made_def)

theorem finality_load_returns_witness:
  "\<exists>g. read_index demo_lib [1, 2, 3] demo_fin = Some (Inr (), g)"
  using finality_load_returns [of demo_env demo_fin "[1, 2, 3]"] demo_lib_ok
  by (simp add: lib_ok_def)

theorem put_block_survives_restart_witness:
  "\<exists>g. finality_load demo_env (finality_with_params demo_lib 0 demo_shard
        (fin_storage (fst (snd (put_block_with_info demo_env 1 (0, 1, 5) (0, 1, True)
          Map.empty (demo_fin, mem_docs_new))))) True) = Some (Inr True, g) \<and>
    fin_current_block g = parts_block demo_lib (0, 1, 5) (0, 1, True) Map.empty (demo_parts 1)"
proof -
  obtain r f' d' where run: "put_block_with_info demo_env 1 (0, 1, 5) (0, 1, True) Map.empty
      (demo_fin, mem_docs_new) = (r, (f', d'))"
    by (metis prod.exhaust)
  have calm: "\<not> reflect_panics demo_env 1 sb mem_docs_new" for sb
    using demo_env_calm by (simp add: docs_calm_def)
  from put_block_survives_restart [of demo_env demo_root demo_fin "(0, 1, 5)" "(0, 1, True)"
      "demo_parts 1", OF _ _ _ _ _ _ refl _ _ _ calm run]
  show ?thesis
    using demo_fs_ready demo_lib_ok demo_iter_ok demo_parts_of [of 1] run
    by (fastforce simp: demo_fs_empty demo_parts_def demo_info_def)
qed

theorem all_put_blocks_are_kept_witness:
  "fskv_get demo_root (block_key 1 0)
     (fin_storage (fst (snd (put_all demo_env [demo_call 1, demo_call 2] (demo_fin, mem_docs_new))))) =
   Inr (demo_block_bytes (0, 1, 5))"
proof -
  obtain r f' d' where run: "put_all demo_env (map fst ([(demo_call 1, demo_parts 1)] @
      [(demo_call 2, demo_parts 2)])) (demo_fin, mem_docs_new) = (r, (f', d'))"
    by (metis prod.exhaust)
  have "fskv_get demo_root (part_key (snd (demo_call 1, demo_parts 1))) (fin_storage f') =
      Inr (bp_boc (snd (demo_call 1, demo_parts 1)))"
    by (rule all_put_blocks_are_kept [where a = 9 and b = 0, THEN conjunct2, THEN conjunct2,
          THEN conjunct2, THEN conjunct1, OF _ _ _ _ _ _ _ _ run])
      (use demo_env_calm demo_lib_ok demo_fs_ready demo_parts_of in
        \<open>simp_all add: call_ok_def part_key_def demo_parts_def demo_call_def demo_info_def\<close>)
  with run show ?thesis
    by (simp add: part_key_def demo_parts_def demo_info_def)
qed

section \<open>When the storage fails\<close>

text \<open>\<^bold>\<open>C11\<close>. When the storage refuses the new shard state, \<^verbatim>\<open>put_block_with_info\<close> returns that
  error, but the new block is already the current block: the next block would be built on
  it, although it is neither finalized nor stored, it no longer is among the blocks by
  hash, and it stays behind among the blocks by number.\<close>

theorem failed_put_leaves_head_ahead:
  assumes "parts_of (env_lib env) b st p" "sb = parts_block (env_lib env) b st tr p"
    and "kv_set (env_kv env) SHARD_STATE_BLOCK_KEY (bp_state p) True (fin_storage f) = (Fail e, k)"
    and "put_block_with_info env mc_seq_no b st tr (f, d) = (r, (f', d'))"
  shows "r = Fail e \<and> d' = d \<and> fin_storage f' = k \<and>
    fin_last_finalized_block f' = fin_last_finalized_block f \<and>
    fin_blocks_by_hash f' (sb_root_hash sb) = None \<and>
    fin_blocks_by_no f' (sb_seq_no sb) = Some (Loaded sb) \<and>
    get_last_info (env_lib env) f' = Inr (st, PrevBlock
      \<lparr>ebr_end_lt = bi_end_lt (bp_info p), ebr_seq_no = bi_seq_no (bp_info p),
       ebr_root_hash = sb_root_hash sb, ebr_file_hash = sb_file_hash sb\<rparr>)"
proof -
  note p = assms(1) [unfolded parts_of_def]
  have save: "save_serialized_shardstate_ex (env_lib env) (env_kv env) (bl_default_state (env_lib env))
      (Some (bp_state p)) (bp_new_hash p) i (fin_storage f) = (Fail e, k)" for i
    using assms(3) p by (simp add: save_serialized_shardstate_ex_def bindS_def liftS_def ss_set_def)
  have "finality_blocks env mc_seq_no (sb_root_hash sb)
      (f\<lparr>fin_current_block := sb,
        fin_blocks_by_hash := (fin_blocks_by_hash f)(sb_root_hash sb \<mapsto> Loaded sb),
        fin_blocks_by_no := (fin_blocks_by_no f)(sb_seq_no sb \<mapsto> Loaded sb)\<rparr>, d) =
    (Fail e, (f\<lparr>fin_current_block := sb,
        fin_blocks_by_hash := (fin_blocks_by_hash f)(sb_root_hash sb := None),
        fin_blocks_by_no := (fin_blocks_by_no f)(sb_seq_no sb \<mapsto> Loaded sb),
        fin_storage := k\<rparr>, d))"
    using p assms(2)
    by (simp add: finality_blocks_def stored_to_loaded_def Let_def on_storage_def
        bindS_def [of "\<lambda>(f, d). case save_serialized_shardstate_ex _ _ _ _ _ _ (fin_storage f) of
          (r, k) \<Rightarrow> (r, f\<lparr>fin_storage := k\<rparr>, d)"] save)
  then have "r = Fail e" "d' = d" "f' = f\<lparr>fin_current_block := sb,
        fin_blocks_by_hash := (fin_blocks_by_hash f)(sb_root_hash sb := None),
        fin_blocks_by_no := (fin_blocks_by_no f)(sb_seq_no sb \<mapsto> Loaded sb), fin_storage := k\<rparr>"
    using assms(2,4) p parts_block_new [OF assms(1)]
    by (simp_all add: put_block_with_info_def Let_def bindS_def [of "finality_blocks _ _ _"])
  with p assms(2) show ?thesis
    by (simp add: get_last_info_def get_last_block_info_def get_last_shard_state_def)
qed

theorem failed_put_leaves_head_ahead_witness:
  "fst (put_block_with_info demo_env 1 (0, 1, 5) (0, 1, True) Map.empty
      (demo_fin\<lparr>fin_storage := \<lparr>fs_files = Map.empty, fs_dirs = {}\<rparr>\<rparr>, mem_docs_new)) =
    Fail (Io NoSuchPath)"
proof -
  let ?f = "demo_fin\<lparr>fin_storage := \<lparr>fs_files = Map.empty, fs_dirs = {}\<rparr>\<rparr>"
  obtain r f' d' where run: "put_block_with_info demo_env 1 (0, 1, 5) (0, 1, True) Map.empty
      (?f, mem_docs_new) = (r, (f', d'))"
    by (metis prod.exhaust)
  have "kv_set (env_kv demo_env) SHARD_STATE_BLOCK_KEY (bp_state (demo_parts 1)) True (fin_storage ?f)
      = (Fail (Io NoSuchPath), fin_storage ?f)"
    by (simp add: fskv_set_def fs_write_def)
  from failed_put_leaves_head_ahead [OF _ refl this run] run show ?thesis
    using demo_parts_of [of 1] by simp
qed

end
