(* ===== verification/Block_Time.thy ===== *)
theory Block_Time
  imports Node_Prelude
begin

text \<open>
  The block clock of \<^verbatim>\<open>node/src/engine/time.rs\<close>. \<^verbatim>\<open>u32\<close> arithmetic wraps, as in the
  release build of the node; \<^verbatim>\<open>UnixTime32::now()\<close> is the argument \<open>now\<close> of \<open>get_next\<close>.
\<close>

datatype block_time_mode = System | Seq

fun is_seq :: "block_time_mode \<Rightarrow> bool" where
  "is_seq Seq = True"
| "is_seq _ = False"

definition default_time_mode :: block_time_mode where
  "default_time_mode = System"

text \<open>The discriminants, which \<^verbatim>\<open>as u8\<close> reads.\<close>

fun time_mode_code :: "block_time_mode \<Rightarrow> u8" where
  "time_mode_code System = 0"
| "time_mode_code Seq = 1"

record block_time =
  bt_delta :: u32
  bt_last_time :: u32
  bt_mode :: block_time_mode
  bt_seq_mode_interval :: u32

definition block_time_new :: block_time where
  "block_time_new =
     \<lparr>bt_delta = 0, bt_last_time = 1, bt_mode = System, bt_seq_mode_interval = 1\<rparr>"

definition increase_delta :: "u32 \<Rightarrow> block_time \<Rightarrow> block_time" where
  "increase_delta d t = t\<lparr>bt_delta := bt_delta t + d\<rparr>"

definition reset_delta :: "block_time \<Rightarrow> block_time" where
  "reset_delta t = t\<lparr>bt_delta := 0\<rparr>"

definition set_mode :: "block_time_mode \<Rightarrow> block_time \<Rightarrow> block_time" where
  "set_mode m t = t\<lparr>bt_mode := m\<rparr>"

definition get_next :: "u32 \<Rightarrow> block_time \<Rightarrow> u32" where
  "get_next now t =
     (case bt_mode t of
        System \<Rightarrow> now + bt_delta t
      | Seq \<Rightarrow> bt_last_time t + bt_seq_mode_interval t + bt_delta t)"

text \<open>\<^verbatim>\<open>u32::saturating_sub\<close>.\<close>

definition saturating_sub :: "u32 \<Rightarrow> u32 \<Rightarrow> u32" where
  "saturating_sub a b = (if a < b then 0 else a - b)"

definition set_last :: "u32 \<Rightarrow> block_time \<Rightarrow> block_time" where
  "set_last time t = t\<lparr>bt_last_time := saturating_sub time (bt_delta t)\<rparr>"

section \<open>The clock in sequential mode\<close>

text \<open>The configuration that the constructor sets up and no operation leaves.\<close>

definition time_wf :: "block_time \<Rightarrow> bool" where
  "time_wf t \<longleftrightarrow> bt_seq_mode_interval t = 1"

lemma time_wf_new: "time_wf block_time_new"
  by (simp add: time_wf_def block_time_new_def)

lemma time_wf_preserved [simp]:
  "time_wf (increase_delta d t) = time_wf t"
  "time_wf (reset_delta t) = time_wf t"
  "time_wf (set_mode m t) = time_wf t"
  "time_wf (set_last x t) = time_wf t"
  by (simp_all add: time_wf_def increase_delta_def reset_delta_def set_mode_def set_last_def)

lemma set_last_frame [simp]:
  "bt_delta (set_last x t) = bt_delta t"
  "bt_mode (set_last x t) = bt_mode t"
  by (simp_all add: set_last_def)

lemma get_next_set_last_exact:
  assumes "time_wf t" "bt_mode t = Seq" "bt_delta t \<le> x"
  shows "get_next now (set_last x t) = x + 1"
  using assms by (auto simp: get_next_def set_last_def saturating_sub_def time_wf_def)

lemma get_next_set_last_early:
  assumes "time_wf t" "bt_mode t = Seq" "x < bt_delta t"
  shows "get_next now (set_last x t) = 1 + bt_delta t"
  using assms by (auto simp: get_next_def set_last_def saturating_sub_def time_wf_def)

lemma word_less_plus1: "(x :: 'a::len word) < - 1 \<Longrightarrow> x < x + 1"
proof -
  assume x: "x < - 1"
  have "1 + x \<noteq> 0"
  proof
    assume "1 + x = 0"
    then have "x = - 1" by (metis add.commute eq_neg_iff_add_eq_0)
    with x show False by simp
  qed
  then show "x < x + 1"
    using unatSuc [of x] by (simp add: word_less_nat_alt add.commute)
qed

text \<open>
  In sequential mode the time given to the next block is above the time of the last one,
  unless the 32-bit clock is at its end.
\<close>

lemma get_next_set_last_greater:
  assumes "time_wf t" "bt_mode t = Seq" "x < - 1" "bt_delta t < - 1"
  shows "x < get_next now (set_last x t)"
proof (cases "x < bt_delta t")
  case True
  have "bt_delta t < bt_delta t + 1" using assms(4) by (rule word_less_plus1)
  with True have "x < 1 + bt_delta t" by (simp add: add.commute)
  with assms True show ?thesis by (simp add: get_next_set_last_early)
next
  case False
  with assms show ?thesis by (simp add: get_next_set_last_exact word_less_plus1)
qed

text \<open>
  The times of \<open>n\<close> blocks in a row: each block takes \<open>get_next\<close> and then registers it
  with \<open>set_last\<close>, as the engine does around every block it produces.
\<close>

fun block_times :: "u32 \<Rightarrow> nat \<Rightarrow> block_time \<Rightarrow> u32 list" where
  "block_times now 0 t = []"
| "block_times now (Suc n) t =
     (let x = get_next now t in x # block_times now n (set_last x t))"

lemma block_times_seq_from:
  assumes "time_wf t" "bt_mode t = Seq" "bt_delta t \<le> get_next now t"
    and "unat (get_next now t) + n \<le> 2 ^ 32"
  shows "block_times now n t = map (\<lambda>i. get_next now t + of_nat i) [0..<n]"
  using assms
proof (induction n arbitrary: t)
  case 0
  then show ?case by simp
next
  case (Suc n)
  let ?x = "get_next now t"
  have step: "get_next now (set_last ?x t) = ?x + 1"
    using Suc.prems by (simp add: get_next_set_last_exact)
  show ?case
  proof (cases n)
    case 0
    then show ?thesis by (simp add: Let_def)
  next
    case (Suc k)
    have "unat ?x + 1 < 2 ^ 32" using Suc.prems(4) Suc by simp
    then have u: "unat (?x + 1) = unat ?x + 1"
      by (simp add: unat_word_ariths)
    then have "?x \<le> ?x + 1" by (simp add: word_le_nat_alt)
    with Suc.prems(3) have "bt_delta t \<le> ?x + 1" by (rule order_trans)
    then have "block_times now n (set_last ?x t) =
        map (\<lambda>i. ?x + 1 + of_nat i) [0..<n]"
      using Suc.IH [of "set_last ?x t"] Suc.prems step u by simp
    moreover have "[0..<Suc n] = 0 # map Suc [0..<n]"
      by (simp add: map_Suc_upt upt_conv_Cons del: upt_Suc)
    ultimately show ?thesis
      by (simp add: Let_def comp_def ac_simps del: upt_Suc)
  qed
qed

end
