(* ===== verification/Block_Builder.thy ===== *)
theory Block_Builder
  imports Messages_Queue Block_Time Finality_Block
begin

text \<open>
  The collator (\<^verbatim>\<open>node/src/block/builder.rs\<close>): one block is built from the shard's last
  state, its outbound queue and the inbound message queue. Messages have type \<open>'m\<close>,
  transactions \<open>'t\<close>, cells \<open>'c\<close>, the outbound queue \<open>'q\<close>; the remaining values of the
  block library (dictionaries, accounts, addresses, envelopes, balances) share the type
  \<open>'v\<close>, since the node only passes them from one library call to the next.

  A library call that changes its receiver and may fail returns what it left of the
  receiver in both cases: the error of one message is tolerated by the loop over external
  messages, which goes on with the builder as it is.
\<close>

section \<open>The library\<close>

text \<open>What the executor reports besides other errors (\<^verbatim>\<open>ExecutorError\<close>).\<close>

datatype skip_reason = SkipNoState | SkipNoGas | SkipOther string

datatype 'v exec_error =
    NoAcceptError i32 "'v option"
  | NoFundsToImportMsg
  | ExtMsgComputeSkipped skip_reason
  | OtherExecError any_error

record exec_params =
  ep_block_unixtime :: u32
  ep_block_lt :: u64
  ep_last_tr_lt :: u64
  ep_seed_block :: u256
  ep_debug :: bool
  ep_signature_id :: i32

text \<open>An entry that the virtual machine reports to the trace callback (\<^verbatim>\<open>EngineTraceInfo\<close>), with
  the texts its parts print as, and what the node keeps of it; \<^verbatim>\<open>as u32\<close> truncates.\<close>

record vm_trace =
  vm_info_type :: string
  vm_step :: u32
  vm_cmd_str :: string
  vm_stack :: "string list"
  vm_gas_used :: int
  vm_gas_cmd :: int
  vm_remaining_bits :: nat
  vm_code_hex :: string
  vm_cell_hash :: string
  vm_code_pos :: nat

definition trace_info_from :: "vm_trace \<Rightarrow> trace_info" where
  "trace_info_from info =
     \<lparr>ti_info_type = vm_info_type info, ti_step = vm_step info, ti_cmd_str = vm_cmd_str info,
      ti_stack = vm_stack info, ti_gas_used = show_int (vm_gas_used info),
      ti_gas_cmd = show_int (vm_gas_cmd info), ti_cmd_code_rem_bits = of_nat (vm_remaining_bits info),
      ti_cmd_code_hex = vm_code_hex info, ti_cmd_code_cell_hash = vm_cell_hash info,
      ti_cmd_code_offset = of_nat (vm_code_pos info)\<rparr>"

text \<open>A run of the executor: its result, the account cell it leaves, the logical time it
  leaves in the shared counter, and the entries that the callback was given.\<close>

record ('c, 't, 'v) exec_run =
  er_result :: "'v exec_error + 't"
  er_acc_root :: 'c
  er_lt :: u64
  er_trace :: "vm_trace list"

datatype compute_phase =
    PhaseVm bool i32 "i32 option"
  | PhaseSkipped skip_reason

record tr_description =
  td_aborted :: bool
  td_compute_ph :: compute_phase

record 'v int_header =
  ih_fwd_fee :: 'v
  ih_created_lt :: u64
  ih_dst :: 'v

datatype 'm common_message = Std 'm | NotStd

record 'v value_flow =
  vf_fees_collected :: 'v
  vf_imported :: 'v
  vf_exported :: 'v
  vf_from_prev_blk :: 'v
  vf_to_next_blk :: 'v
  vf_copyleft_rewards :: 'v

record ('s, 'b, 'c, 'm, 't, 'v, 'q) builder_lib =
  \<comment> \<open>shard states and block headers\<close>
  bx_read_accounts :: "'s \<Rightarrow> any_error + 'v"
  bx_read_out_queue :: "'s \<Rightarrow> any_error + 'q"
  bx_state_seq_no :: "'s \<Rightarrow> u32"
  bx_state_shard :: "'s \<Rightarrow> shard_ident"
  bx_state_global_id :: "'s \<Rightarrow> i32"
  bx_state_set_seq_no :: "u32 \<Rightarrow> 's \<Rightarrow> 's"
  bx_write_accounts :: "'v \<Rightarrow> 's \<Rightarrow> any_error + 's"
  bx_write_out_queue :: "'q \<Rightarrow> 's \<Rightarrow> any_error + 's"
  bx_default_info :: block_info
  bx_info_set_seq_no :: "u32 \<Rightarrow> block_info \<Rightarrow> any_error + block_info"
  bx_info_set_prev :: "blk_prev_info \<Rightarrow> block_info \<Rightarrow> any_error + block_info"
  bx_block_extra :: "'v \<Rightarrow> 'v \<Rightarrow> 'v \<Rightarrow> u256 \<Rightarrow> any_error + 'v"
  bx_block :: "i32 \<Rightarrow> block_info \<Rightarrow> 'v value_flow \<Rightarrow> 'v \<Rightarrow> any_error + 'b"
  \<comment> \<open>dictionaries\<close>
  bx_full_balance :: "'v \<Rightarrow> 'v"
  bx_account :: "'v \<Rightarrow> 'v \<Rightarrow> any_error + 'v option"
  bx_accounts_set :: "'v \<Rightarrow> 'c \<Rightarrow> 'v \<Rightarrow> 'v \<Rightarrow> (any_error + unit) \<times> 'v"
  bx_accounts_remove :: "'v \<Rightarrow> 'v \<Rightarrow> (any_error + unit) \<times> 'v"
  bx_default_in_descr :: 'v
  bx_default_out_descr :: 'v
  bx_default_account_blocks :: 'v
  bx_default_copyleft :: 'v
  bx_in_set :: "u256 \<Rightarrow> 'v \<Rightarrow> 'v \<Rightarrow> 'v \<Rightarrow> (any_error + unit) \<times> 'v"
  bx_out_set :: "u256 \<Rightarrow> 'v \<Rightarrow> 'v \<Rightarrow> 'v \<Rightarrow> (any_error + unit) \<times> 'v"
  bx_add_transaction :: "'t \<Rightarrow> 'c \<Rightarrow> 'v \<Rightarrow> (any_error + unit) \<times> 'v"
  bx_add_copyleft :: "'v \<Rightarrow> 'v \<Rightarrow> 'v \<Rightarrow> (any_error + unit) \<times> 'v"
  bx_in_fees :: "'v \<Rightarrow> 'v"
  bx_in_value :: "'v \<Rightarrow> 'v"
  bx_blocks_extra :: "'v \<Rightarrow> 'v"
  bx_out_extra :: "'v \<Rightarrow> 'v"
  bx_add_grams :: "'v \<Rightarrow> 'v \<Rightarrow> any_error + 'v"
  \<comment> \<open>the outbound queue\<close>
  bx_queue_len :: "'q \<Rightarrow> any_error + nat"
  bx_queue_iter :: "'q \<Rightarrow> (any_error + 'v \<times> 'v) list"
  bx_key_cell :: "'v \<Rightarrow> any_error + 'c"
  bx_value_aug :: "'v \<Rightarrow> any_error + 'v \<times> u64"
  bx_load_cell :: "'c \<Rightarrow> any_error + 'v"
  bx_queue_remove :: "'v \<Rightarrow> 'q \<Rightarrow> (any_error + unit) \<times> 'q"
  bx_queue_key :: "i32 \<Rightarrow> u64 \<Rightarrow> u256 \<Rightarrow> 'v"
  bx_queue_set :: "'v \<Rightarrow> 'v \<Rightarrow> 'v \<Rightarrow> 'q \<Rightarrow> (any_error + unit) \<times> 'q"
  bx_enq_out_msg :: "'v \<Rightarrow> any_error + 'v"
  bx_env_message :: "'v \<Rightarrow> any_error + 'm"
  bx_enqueued :: "u64 \<Rightarrow> 'v \<Rightarrow> any_error + 'v"
  \<comment> \<open>messages\<close>
  bx_dst_workchain :: "'m \<Rightarrow> i32 option"
  bx_dst_account :: "'m \<Rightarrow> 'v option"
  bx_default_account_id :: 'v
  bx_int_header :: "'m \<Rightarrow> 'v int_header option"
  bx_msg_lt :: "'m \<Rightarrow> u64 option"
  bx_msg_cell :: "'m \<Rightarrow> any_error + 'c"
  bx_msg_of_cell :: "'c \<Rightarrow> any_error + 'm"
  bx_envelope :: "'m \<Rightarrow> 'v \<Rightarrow> any_error + 'v"
  bx_envelope_cell :: "'v \<Rightarrow> any_error + 'c"
  bx_in_immediate :: "'c \<Rightarrow> 'c \<Rightarrow> 'v \<Rightarrow> 'v"
  bx_in_external :: "'c \<Rightarrow> 'c \<Rightarrow> 'v"
  bx_out_external :: "'c \<Rightarrow> 'c \<Rightarrow> 'v"
  bx_out_new :: "'v \<Rightarrow> 'c \<Rightarrow> 'v"
  bx_in_aug :: "'v \<Rightarrow> any_error + 'v"
  bx_out_aug :: "'v \<Rightarrow> any_error + 'v"
  bx_enq_aug :: "'v \<Rightarrow> any_error + 'v"
  bx_acc_aug :: "'v \<Rightarrow> any_error + 'v"
  bx_next_u64 :: "'v \<Rightarrow> any_error + u64"
  bx_contains_address :: "shard_ident \<Rightarrow> 'v \<Rightarrow> any_error + bool"
  bx_std_address :: "u8 \<Rightarrow> 'v \<Rightarrow> any_error + 'v"
  \<comment> \<open>accounts and transactions\<close>
  bx_default_shard_account :: 'v
  bx_account_cell :: "'v \<Rightarrow> 'c"
  bx_last_trans_lt :: "'v \<Rightarrow> u64"
  bx_last_trans_hash :: "'v \<Rightarrow> u256"
  bx_account_of_cell :: "'c \<Rightarrow> any_error + 'v"
  bx_account_to_cell :: "'v \<Rightarrow> any_error + 'c"
  bx_account_is_none :: "'v \<Rightarrow> bool"
  bx_last_tr_time :: "'v \<Rightarrow> u64 option"
  bx_set_last_tr_time :: "u64 \<Rightarrow> 'v \<Rightarrow> 'v"
  bx_shard_account :: "'c \<Rightarrow> u256 \<Rightarrow> u64 \<Rightarrow> 'v"
  bx_new_cell :: "'v \<Rightarrow> any_error + 'c"
  bx_repr_hash :: "'c \<Rightarrow> u256"
  bx_execute :: "'m \<Rightarrow> 'c \<Rightarrow> exec_params \<Rightarrow> ('c, 't, 'v) exec_run"
  bx_item_i32 :: "'v \<Rightarrow> any_error + i32"
  bx_gas_used :: "'t \<Rightarrow> u64 option"
  bx_is_aborted :: "'t \<Rightarrow> any_error + bool"
  bx_new_transaction :: "'v \<Rightarrow> 'm \<Rightarrow> u64 \<Rightarrow> any_error + 't"
  bx_set_now :: "u32 \<Rightarrow> 't \<Rightarrow> 't"
  bx_write_description :: "tr_description \<Rightarrow> 't \<Rightarrow> any_error + 't"
  bx_write_state_update :: "u256 \<Rightarrow> u256 \<Rightarrow> 't \<Rightarrow> any_error + 't"
  bx_set_prev_trans :: "u256 \<Rightarrow> u64 \<Rightarrow> 't \<Rightarrow> 't"
  bx_transaction_cell :: "'t \<Rightarrow> any_error + 'c"
  bx_logical_time :: "'t \<Rightarrow> u64"
  bx_copyleft_reward :: "'t \<Rightarrow> ('v \<times> 'v) option"
  bx_in_msg_cell :: "'t \<Rightarrow> 'c option"
  bx_out_msgs :: "'t \<Rightarrow> (any_error + 'm common_message) list"

section \<open>The builder\<close>

record ('s, 'c, 'm, 'v, 'q) block_builder =
  bb_shard_state :: 's
  bb_accounts :: 'v
  bb_block_info :: block_info
  bb_rand_seed :: u256
  bb_new_messages :: "('m \<times> 'c) list"
  bb_from_prev_blk :: 'v
  bb_in_msg_descr :: 'v
  bb_out_msg_descr :: 'v
  bb_out_queue_info :: 'q
  bb_block_gas_limit :: u64
  bb_account_blocks :: 'v
  bb_total_gas_used :: u64
  bb_total_message_processed :: nat
  bb_start_lt :: u64
  bb_end_lt :: u64
  bb_copyleft_rewards :: 'v
  bb_transaction_traces :: traces
  bb_time_mode :: block_time_mode
  bb_accounts_provider :: "('v \<Rightarrow> 'v option res) option"

text \<open>
  \<open>rand_seed\<close> is the value of \<^verbatim>\<open>UInt256::rand()\<close>. The node only makes previous references
  of the form \<^verbatim>\<open>Block { prev }\<close>, whose \<^verbatim>\<open>prev1\<close> is that block.
\<close>

definition prev1_end_lt :: "blk_prev_info \<Rightarrow> u64" where
  "prev1_end_lt prev_ref = (case prev_ref of PrevBlock p \<Rightarrow> ebr_end_lt p)"

definition builder_with_params ::
  "('s, 'b, 'c, 'm, 't, 'v, 'q) builder_lib \<Rightarrow> u256 \<Rightarrow> 's \<Rightarrow> blk_prev_info \<Rightarrow> u32 \<Rightarrow>
   block_time_mode \<Rightarrow> u64 \<Rightarrow> ('v \<Rightarrow> 'v option res) option \<Rightarrow>
   ('s, 'c, 'm, 'v, 'q) block_builder res" where
  "builder_with_params bx rand_seed shard_state prev_ref time time_mode block_gas_limit provider =
     bindR (lib_try (bx_read_accounts bx shard_state)) (\<lambda>accounts.
     bindR (lib_try (bx_read_out_queue bx shard_state)) (\<lambda>out_queue_info.
     let seq_no = bx_state_seq_no bx shard_state + 1;
         start_lt = prev1_end_lt prev_ref + 1;
         block_info = (bx_default_info bx)\<lparr>bi_shard := bx_state_shard bx shard_state\<rparr> in
     bindR (unwrap_or_panic ''set_seq_no'' (bx_info_set_seq_no bx seq_no block_info)) (\<lambda>block_info.
     bindR (unwrap_or_panic ''set_prev_stuff'' (bx_info_set_prev bx prev_ref block_info)) (\<lambda>block_info.
     let block_info = block_info\<lparr>bi_gen_utime := time, bi_start_lt := start_lt\<rparr> in
     Inr \<lparr>bb_shard_state = shard_state, bb_accounts = accounts, bb_block_info = block_info,
          bb_rand_seed = rand_seed, bb_new_messages = [],
          bb_from_prev_blk = bx_full_balance bx accounts, bb_in_msg_descr = bx_default_in_descr bx,
          bb_out_msg_descr = bx_default_out_descr bx, bb_out_queue_info = out_queue_info,
          bb_block_gas_limit = block_gas_limit, bb_account_blocks = bx_default_account_blocks bx,
          bb_total_gas_used = 0, bb_total_message_processed = 0, bb_start_lt = start_lt,
          bb_end_lt = start_lt + 1, bb_copyleft_rewards = bx_default_copyleft bx,
          bb_transaction_traces = Map.empty, bb_time_mode = time_mode,
          bb_accounts_provider = provider\<rparr>))))"

definition bb_shard_ident ::
  "('s, 'b, 'c, 'm, 't, 'v, 'q) builder_lib \<Rightarrow> ('s, 'c, 'm, 'v, 'q) block_builder \<Rightarrow> shard_ident" where
  "bb_shard_ident bx bb = bx_state_shard bx (bb_shard_state bb)"

definition out_msg_key ::
  "('s, 'b, 'c, 'm, 't, 'v, 'q) builder_lib \<Rightarrow> u64 \<Rightarrow> u256 \<Rightarrow>
   ('s, 'c, 'm, 'v, 'q) block_builder \<Rightarrow> 'v" where
  "out_msg_key bx prefix hash bb =
     bx_queue_key bx (si_workchain_id (bb_shard_ident bx bb)) prefix hash"

definition at_and_lt :: "('s, 'c, 'm, 'v, 'q) block_builder \<Rightarrow> u32 \<times> u64" where
  "at_and_lt bb = (bi_gen_utime (bb_block_info bb), bb_start_lt bb)"

definition is_limits_reached :: "('s, 'c, 'm, 'v, 'q) block_builder \<Rightarrow> bool" where
  "is_limits_reached bb \<longleftrightarrow>
     bb_total_gas_used bb > bb_block_gas_limit bb \<or>
     is_seq (bb_time_mode bb) \<and> bb_total_message_processed bb > 0"

text \<open>A mutating library call on a field of the builder.\<close>

definition on_accounts ::
  "('v \<Rightarrow> (any_error + 'r) \<times> 'v) \<Rightarrow> ('s, 'c, 'm, 'v, 'q) block_builder \<Rightarrow>
   'r res \<times> ('s, 'c, 'm, 'v, 'q) block_builder" where
  "on_accounts m bb = (case m (bb_accounts bb) of (r, v) \<Rightarrow> (lib_try r, bb\<lparr>bb_accounts := v\<rparr>))"

definition on_in_descr ::
  "('v \<Rightarrow> (any_error + 'r) \<times> 'v) \<Rightarrow> ('s, 'c, 'm, 'v, 'q) block_builder \<Rightarrow>
   'r res \<times> ('s, 'c, 'm, 'v, 'q) block_builder" where
  "on_in_descr m bb = (case m (bb_in_msg_descr bb) of (r, v) \<Rightarrow> (lib_try r, bb\<lparr>bb_in_msg_descr := v\<rparr>))"

definition on_out_descr ::
  "('v \<Rightarrow> (any_error + 'r) \<times> 'v) \<Rightarrow> ('s, 'c, 'm, 'v, 'q) block_builder \<Rightarrow>
   'r res \<times> ('s, 'c, 'm, 'v, 'q) block_builder" where
  "on_out_descr m bb = (case m (bb_out_msg_descr bb) of (r, v) \<Rightarrow> (lib_try r, bb\<lparr>bb_out_msg_descr := v\<rparr>))"

definition on_account_blocks ::
  "('v \<Rightarrow> (any_error + 'r) \<times> 'v) \<Rightarrow> ('s, 'c, 'm, 'v, 'q) block_builder \<Rightarrow>
   'r res \<times> ('s, 'c, 'm, 'v, 'q) block_builder" where
  "on_account_blocks m bb =
     (case m (bb_account_blocks bb) of (r, v) \<Rightarrow> (lib_try r, bb\<lparr>bb_account_blocks := v\<rparr>))"

definition on_copyleft ::
  "('v \<Rightarrow> (any_error + 'r) \<times> 'v) \<Rightarrow> ('s, 'c, 'm, 'v, 'q) block_builder \<Rightarrow>
   'r res \<times> ('s, 'c, 'm, 'v, 'q) block_builder" where
  "on_copyleft m bb =
     (case m (bb_copyleft_rewards bb) of (r, v) \<Rightarrow> (lib_try r, bb\<lparr>bb_copyleft_rewards := v\<rparr>))"

definition on_out_queue ::
  "('q \<Rightarrow> (any_error + 'r) \<times> 'q) \<Rightarrow> ('s, 'c, 'm, 'v, 'q) block_builder \<Rightarrow>
   'r res \<times> ('s, 'c, 'm, 'v, 'q) block_builder" where
  "on_out_queue m bb =
     (case m (bb_out_queue_info bb) of (r, v) \<Rightarrow> (lib_try r, bb\<lparr>bb_out_queue_info := v\<rparr>))"

section \<open>One message\<close>

definition nonempty_trace :: "trace_info list \<Rightarrow> trace_info list option" where
  "nonempty_trace trace = (if trace = [] then None else Some trace)"

text \<open>\<^verbatim>\<open>None | Err(_) | Ok(0) => None\<close> on the argument of a failed acceptance.\<close>

definition exit_arg :: "('s, 'b, 'c, 'm, 't, 'v, 'q) builder_lib \<Rightarrow> 'v option \<Rightarrow> i32 option" where
  "exit_arg bx arg =
     (case arg of None \<Rightarrow> None
      | Some item \<Rightarrow>
          (case bx_item_i32 bx item of Inl _ \<Rightarrow> None | Inr v \<Rightarrow> if v = 0 then None else Some v))"

text \<open>The compute phase written for an executor error, if the error is one of the three that
  end in an aborted transaction.\<close>

definition error_phase ::
  "('s, 'b, 'c, 'm, 't, 'v, 'q) builder_lib \<Rightarrow> 'v \<Rightarrow> 'v exec_error \<Rightarrow> compute_phase res" where
  "error_phase bx account err =
     (case err of
        NoAcceptError error arg \<Rightarrow> Inr (PhaseVm False error (exit_arg bx arg))
      | NoFundsToImportMsg \<Rightarrow>
          Inr (PhaseSkipped (if bx_account_is_none bx account then SkipNoState else SkipNoGas))
      | ExtMsgComputeSkipped reason \<Rightarrow> Inr (PhaseSkipped reason)
      | OtherExecError e \<Rightarrow> Fail (from_anyhow e))"

text \<open>The branch of \<^verbatim>\<open>try_prepare_transaction\<close> for an executor error. It reads the builder for
  the block's time only; the account cell is a local variable of the caller.\<close>

definition aborted_transaction ::
  "('s, 'b, 'c, 'm, 't, 'v, 'q) builder_lib \<Rightarrow> u32 \<Rightarrow> 'm \<Rightarrow> u64 \<Rightarrow> 'v exec_error \<Rightarrow> 'c \<Rightarrow>
   trace_info list \<Rightarrow> ('t \<times> u64 \<times> trace_info list option \<times> 'c) res" where
  "aborted_transaction bx block_unixtime msg last_lt err acc_root trace =
     (let old_hash = bx_repr_hash bx acc_root in
      bindR (lib_try (bx_account_of_cell bx acc_root)) (\<lambda>account.
      let lt = max (case bx_last_tr_time bx account of None \<Rightarrow> 0 | Some t \<Rightarrow> t)
                 (max last_lt ((case bx_msg_lt bx msg of None \<Rightarrow> 0 | Some l \<Rightarrow> l) + 1));
          account = bx_set_last_tr_time bx lt account in
      bindR (lib_try (bx_account_to_cell bx account)) (\<lambda>acc_root.
      bindR (lib_try (bx_new_transaction bx account msg lt)) (\<lambda>transaction.
      let transaction = bx_set_now bx block_unixtime transaction in
      bindR (error_phase bx account err) (\<lambda>compute_ph.
      let description = \<lparr>td_aborted = True, td_compute_ph = compute_ph\<rparr> in
      bindR (lib_try (bx_write_description bx description transaction)) (\<lambda>transaction.
      bindR (lib_try (bx_write_state_update bx old_hash (bx_repr_hash bx acc_root) transaction))
        (\<lambda>transaction.
      Inr (transaction, lt, nonempty_trace trace, acc_root))))))))"

definition try_prepare_transaction ::
  "('s, 'b, 'c, 'm, 't, 'v, 'q) builder_lib \<Rightarrow> 'c \<Rightarrow> 'm \<Rightarrow> u64 \<Rightarrow>
   ('s, 'c, 'm, 'v, 'q) block_builder \<Rightarrow>
   ('t \<times> u64 \<times> trace_info list option \<times> 'c) res \<times> ('s, 'c, 'm, 'v, 'q) block_builder" where
  "try_prepare_transaction bx acc_root msg last_lt bb =
     (let (block_unixtime, block_lt) = at_and_lt bb;
          run = bx_execute bx msg acc_root
            \<lparr>ep_block_unixtime = block_unixtime, ep_block_lt = block_lt, ep_last_tr_lt = last_lt,
             ep_seed_block = bb_rand_seed bb, ep_debug = True,
             ep_signature_id = bx_state_global_id bx (bb_shard_state bb)\<rparr> in
      case er_result run of
        Inr transaction \<Rightarrow>
          (let bb = (case bx_gas_used bx transaction of
                 Some gas_used \<Rightarrow> bb\<lparr>bb_total_gas_used := bb_total_gas_used bb + gas_used\<rparr>
               | None \<Rightarrow> bb) in
           (bindR (lib_try (bx_is_aborted bx transaction)) (\<lambda>aborted.
            Inr (transaction, er_lt run,
                 if aborted then nonempty_trace (map trace_info_from (er_trace run)) else None, er_acc_root run)), bb))
      | Inl err \<Rightarrow>
          (aborted_transaction bx block_unixtime msg last_lt err (er_acc_root run)
             (map trace_info_from (er_trace run)), bb))"

text \<open>The out-messages of a transaction; the library's iterator stops at the first error.\<close>

fun add_out_msgs ::
  "('s, 'b, 'c, 'm, 't, 'v, 'q) builder_lib \<Rightarrow> 'c \<Rightarrow> (any_error + 'm common_message) list \<Rightarrow>
   ('s, 'c, 'm, 'v, 'q) block_builder \<Rightarrow> unit res \<times> ('s, 'c, 'm, 'v, 'q) block_builder" where
  "add_out_msgs bx tr_cell [] = retS ()"
| "add_out_msgs bx tr_cell (Inl e # ms) = liftS (Fail (from_anyhow e))"
| "add_out_msgs bx tr_cell (Inr NotStd # ms) =
     liftS (Fail (from_anyhow (AnyNode (InvalidData ''Supported only std messages''))))"
| "add_out_msgs bx tr_cell (Inr (Std msg) # ms) =
     bindS (case bx_int_header bx msg of
          Some _ \<Rightarrow> (\<lambda>bb. (Inr (), bb\<lparr>bb_new_messages := bb_new_messages bb @ [(msg, tr_cell)]\<rparr>))
        | None \<Rightarrow>
            bindS (liftS (lib_try (bx_msg_cell bx msg))) (\<lambda>msg_cell.
            let out_msg = bx_out_external bx msg_cell tr_cell in
            bindS (liftS (lib_try (bx_out_aug bx out_msg))) (\<lambda>aug.
            on_out_descr (bx_out_set bx (bx_repr_hash bx msg_cell) out_msg aug)))) (\<lambda>_.
     add_out_msgs bx tr_cell ms)"

definition add_in_msg ::
  "('s, 'b, 'c, 'm, 't, 'v, 'q) builder_lib \<Rightarrow> 'c \<Rightarrow> 'c \<Rightarrow>
   ('s, 'c, 'm, 'v, 'q) block_builder \<Rightarrow> unit res \<times> ('s, 'c, 'm, 'v, 'q) block_builder" where
  "add_in_msg bx msg_cell tr_cell =
     bindS (liftS (lib_try (bx_msg_of_cell bx msg_cell))) (\<lambda>msg.
     bindS (liftS (case bx_int_header bx msg of
          Some hdr \<Rightarrow>
            bindR (lib_try (bx_envelope bx msg (ih_fwd_fee hdr))) (\<lambda>env.
            bindR (lib_try (bx_envelope_cell bx env)) (\<lambda>env_cell.
            Inr (bx_in_immediate bx env_cell tr_cell (ih_fwd_fee hdr))))
        | None \<Rightarrow> Inr (bx_in_external bx msg_cell tr_cell))) (\<lambda>in_msg.
     bindS (liftS (lib_try (bx_in_aug bx in_msg))) (\<lambda>aug.
     on_in_descr (bx_in_set bx (bx_repr_hash bx msg_cell) in_msg aug))))"

definition add_raw_transaction ::
  "('s, 'b, 'c, 'm, 't, 'v, 'q) builder_lib \<Rightarrow> 't \<Rightarrow> 'c \<Rightarrow>
   ('s, 'c, 'm, 'v, 'q) block_builder \<Rightarrow> unit res \<times> ('s, 'c, 'm, 'v, 'q) block_builder" where
  "add_raw_transaction bx transaction tr_cell =
     bindS (on_account_blocks (bx_add_transaction bx transaction tr_cell)) (\<lambda>_.
     bindS (case bx_copyleft_reward bx transaction of
          Some (address, reward) \<Rightarrow> on_copyleft (bx_add_copyleft bx address reward)
        | None \<Rightarrow> retS ()) (\<lambda>_.
     bindS (case bx_in_msg_cell bx transaction of
          Some msg_cell \<Rightarrow> add_in_msg bx msg_cell tr_cell
        | None \<Rightarrow> retS ()) (\<lambda>_.
     add_out_msgs bx tr_cell (bx_out_msgs bx transaction))))"

text \<open>The account from the shard's dictionary, else from the provider, else a new one.\<close>

definition find_account ::
  "('s, 'b, 'c, 'm, 't, 'v, 'q) builder_lib \<Rightarrow> 'v \<Rightarrow> ('s, 'c, 'm, 'v, 'q) block_builder \<Rightarrow> 'v res" where
  "find_account bx acc_id bb =
     bindR (lib_try (bx_account bx acc_id (bb_accounts bb))) (\<lambda>found.
     case found of
       Some acc \<Rightarrow> Inr acc
     | None \<Rightarrow>
         (case bb_accounts_provider bb of
            None \<Rightarrow> Inr (bx_default_shard_account bx)
          | Some get_account \<Rightarrow>
              bindR (lib_try (bx_std_address bx (ucast (si_workchain_id (bb_shard_ident bx bb))) acc_id))
                (\<lambda>address.
              bindR (get_account address) (\<lambda>acc.
              Inr (case acc of Some a \<Rightarrow> a | None \<Rightarrow> bx_default_shard_account bx)))))"

text \<open>The account is written back, or removed when it no longer exists.\<close>

definition store_account ::
  "('s, 'b, 'c, 'm, 't, 'v, 'q) builder_lib \<Rightarrow> 'v \<Rightarrow> 'c \<Rightarrow> 'c \<Rightarrow> 't \<Rightarrow>
   ('s, 'c, 'm, 'v, 'q) block_builder \<Rightarrow> unit res \<times> ('s, 'c, 'm, 'v, 'q) block_builder" where
  "store_account bx acc_id acc_root tr_cell transaction =
     bindS (liftS (lib_try (bx_account_of_cell bx acc_root))) (\<lambda>acc.
     if \<not> bx_account_is_none bx acc then
       (let shard_acc = bx_shard_account bx acc_root (bx_repr_hash bx tr_cell)
              (bx_logical_time bx transaction) in
        bindS (liftS (lib_try (bx_new_cell bx shard_acc))) (\<lambda>data.
        bindS (liftS (lib_try (bx_acc_aug bx acc))) (\<lambda>aug.
        on_accounts (bx_accounts_set bx acc_id data aug))))
     else on_accounts (bx_accounts_remove bx acc_id))"

text \<open>
  \<^verbatim>\<open>execute\<close>. The second log line reads the transaction's description with \<^verbatim>\<open>?\<close>; the shipped
  configuration logs at level \<^verbatim>\<open>debug\<close>, so it is evaluated. An error of
  \<^verbatim>\<open>add_raw_transaction\<close> is only logged.
\<close>

definition builder_execute ::
  "('s, 'b, 'c, 'm, 't, 'v, 'q) builder_lib \<Rightarrow> 'm \<Rightarrow> 'v \<Rightarrow>
   ('s, 'c, 'm, 'v, 'q) block_builder \<Rightarrow> unit res \<times> ('s, 'c, 'm, 'v, 'q) block_builder" where
  "builder_execute bx message acc_id bb0 =
     (let bb = bb0\<lparr>bb_total_message_processed := Suc (bb_total_message_processed bb0)\<rparr> in
      bindS (\<lambda>bb. (find_account bx acc_id bb, bb)) (\<lambda>shard_acc.
      bindS (\<lambda>bb. try_prepare_transaction bx (bx_account_cell bx shard_acc) message
          (max (bb_start_lt bb) (bx_last_trans_lt bx shard_acc + 1)) bb)
        (\<lambda>(transaction, max_lt, trace, acc_root).
      bindS (\<lambda>bb. (Inr (), bb\<lparr>bb_end_lt := max (bb_end_lt bb) max_lt\<rparr>)) (\<lambda>_.
      let transaction = bx_set_prev_trans bx (bx_last_trans_hash bx shard_acc)
            (bx_last_trans_lt bx shard_acc) transaction in
      bindS (liftS (lib_try (bx_transaction_cell bx transaction))) (\<lambda>tr_cell.
      bindS (\<lambda>bb. (Inr (), case trace of
            Some t \<Rightarrow> bb\<lparr>bb_transaction_traces :=
                (bb_transaction_traces bb)(bx_repr_hash bx tr_cell \<mapsto> t)\<rparr>
          | None \<Rightarrow> bb)) (\<lambda>_.
      bindS (liftS (lib_try (bx_is_aborted bx transaction))) (\<lambda>_.
      bindS (store_account bx acc_id acc_root tr_cell transaction) (\<lambda>_ bb.
      (Inr (), snd (add_raw_transaction bx transaction tr_cell bb))))))))) bb)"

section \<open>The block\<close>

text \<open>The outbound queue as the first loop reads it, then sorted by logical time;
  \<^verbatim>\<open>sort_by\<close> is stable.\<close>

fun collect_out_queue ::
  "('s, 'b, 'c, 'm, 't, 'v, 'q) builder_lib \<Rightarrow> (any_error + 'v \<times> 'v) list \<Rightarrow>
   ('c \<times> 'v \<times> u64) list res" where
  "collect_out_queue bx [] = Inr []"
| "collect_out_queue bx (out # outs) =
     bindR (lib_try out) (\<lambda>(key, slice).
     bindR (lib_try (bx_key_cell bx key)) (\<lambda>key.
     bindR (lib_try (bx_value_aug bx slice)) (\<lambda>value.
     bindR (collect_out_queue bx outs) (\<lambda>rest.
     Inr ((key, value) # rest)))))"

definition sorted_out_queue ::
  "('s, 'b, 'c, 'm, 't, 'v, 'q) builder_lib \<Rightarrow> 'q \<Rightarrow> ('c \<times> 'v \<times> u64) list res" where
  "sorted_out_queue bx out_queue =
     bindR (lib_try (bx_queue_len bx out_queue)) (\<lambda>_.
     bindR (collect_out_queue bx (bx_queue_iter bx out_queue)) (\<lambda>outs.
     Inr (sort_key (\<lambda>(key, enq, lt). lt) outs)))"

text \<open>The first phase returns \<^verbatim>\<open>is_empty\<close> and \<^verbatim>\<open>block_full\<close>.\<close>

fun import_internal ::
  "('s, 'b, 'c, 'm, 't, 'v, 'q) builder_lib \<Rightarrow> ('c \<times> 'v \<times> u64) list \<Rightarrow> bool \<Rightarrow>
   ('s, 'c, 'm, 'v, 'q) block_builder \<Rightarrow>
   (bool \<times> bool) res \<times> ('s, 'c, 'm, 'v, 'q) block_builder" where
  "import_internal bx [] is_empty = retS (is_empty, False)"
| "import_internal bx ((key, enq, lt) # rest) is_empty =
     bindS (liftS (lib_try (bx_enq_out_msg bx enq))) (\<lambda>env.
     bindS (liftS (lib_try (bx_env_message bx env))) (\<lambda>message.
     bindS (case bx_dst_account bx message of
          Some acc_id \<Rightarrow> builder_execute bx message acc_id
        | None \<Rightarrow> retS ()) (\<lambda>_.
     bindS (liftS (lib_try (bx_load_cell bx key))) (\<lambda>key.
     bindS (on_out_queue (bx_queue_remove bx key)) (\<lambda>_ bb.
     if is_limits_reached bb then (Inr (False, True), bb)
     else import_internal bx rest False bb)))))"

text \<open>
  The second phase. Messages that arrive while it runs are in the queue from its start
  (each is appended behind the others, so the loop takes the same ones in the same order).
  An error of a message is logged and the loop goes on.
\<close>

function import_external ::
  "('s, 'b, 'c, 'm, 't, 'v, 'q) builder_lib \<Rightarrow> i32 \<Rightarrow> bool \<Rightarrow>
   ('s, 'c, 'm, 'v, 'q) block_builder \<times> 'm in_messages_queue \<Rightarrow>
   (bool \<times> bool) res \<times> (('s, 'c, 'm, 'v, 'q) block_builder \<times> 'm in_messages_queue)" where
  "import_external bx workchain_id is_empty (bb, queue) =
     (case mq_dequeue (bx_dst_workchain bx) workchain_id queue of
        (None, queue') \<Rightarrow> (Inr (is_empty, False), (bb, queue'))
      | (Some msg, queue') \<Rightarrow>
          (case bx_dst_account bx msg of
             None \<Rightarrow> (Inl (Panic ''int_dst_account_id''), (bb, queue'))
           | Some acc_id \<Rightarrow>
               (case builder_execute bx msg acc_id bb of
                  (Inl (Panic p), bb') \<Rightarrow> (Inl (Panic p), (bb', queue'))
                | (_, bb') \<Rightarrow>
                    if is_limits_reached bb' then (Inr (False, True), (bb', queue'))
                    else import_external bx workchain_id False (bb', queue'))))"
  by pat_completeness auto

lemma mq_dequeue_shrinks:
  assumes "mq_dequeue wc_of wc q = (Some m, q')"
  shows "mq_len q' < mq_len q"
  using assms by (cases rule: mq_dequeue_cases [of wc_of q wc]) (auto simp: mq_len_def)

termination import_external
  by (relation "measure (\<lambda>(bx, wc, e, (bb, q)). mq_len q)") (auto dest: mq_dequeue_shrinks [OF sym])

declare import_external.simps [simp del]

text \<open>One pass over the taken new messages; the result is \<^verbatim>\<open>block_full\<close>.\<close>

definition enqueue_new ::
  "('s, 'b, 'c, 'm, 't, 'v, 'q) builder_lib \<Rightarrow> 'v int_header \<Rightarrow> 'v \<Rightarrow> 'v \<Rightarrow> 'c \<Rightarrow> 'c \<Rightarrow>
   ('s, 'c, 'm, 'v, 'q) block_builder \<Rightarrow> unit res \<times> ('s, 'c, 'm, 'v, 'q) block_builder" where
  "enqueue_new bx info env acc_id msg_cell tr_cell bb0 =
     (bindS (liftS (lib_try (bx_enqueued bx (ih_created_lt info) env))) (\<lambda>enq.
      bindS (liftS (lib_try (bx_next_u64 bx acc_id))) (\<lambda>prefix.
      let key = out_msg_key bx prefix (bx_repr_hash bx msg_cell) bb0 in
      bindS (liftS (lib_try (bx_enq_aug bx enq))) (\<lambda>aug.
      bindS (on_out_queue (bx_queue_set bx key enq aug)) (\<lambda>_.
      let out_msg = bx_out_new bx enq tr_cell in
      bindS (liftS (lib_try (bx_out_aug bx out_msg))) (\<lambda>aug.
      on_out_descr (bx_out_set bx (bx_repr_hash bx msg_cell) out_msg aug)))))) bb0)"

fun drain_new ::
  "('s, 'b, 'c, 'm, 't, 'v, 'q) builder_lib \<Rightarrow> ('m \<times> 'c) list \<Rightarrow> bool \<Rightarrow>
   ('s, 'c, 'm, 'v, 'q) block_builder \<Rightarrow> bool res \<times> ('s, 'c, 'm, 'v, 'q) block_builder" where
  "drain_new bx [] block_full = retS block_full"
| "drain_new bx ((message, tr_cell) # rest) block_full =
     bindS (liftS (case bx_int_header bx message of
          Some info \<Rightarrow> Inr info
        | None \<Rightarrow> Fail (from_anyhow (LibError ''message is not internal'')))) (\<lambda>info.
     bindS (liftS (lib_try (bx_msg_cell bx message))) (\<lambda>msg_cell.
     bindS (liftS (lib_try (bx_envelope bx message (ih_fwd_fee info)))) (\<lambda>env.
     let acc_id = (case bx_dst_account bx message of Some a \<Rightarrow> a | None \<Rightarrow> bx_default_account_id bx) in
     bindS (\<lambda>bb. (lib_try (bx_contains_address bx (bb_shard_ident bx bb) (ih_dst info)), bb))
       (\<lambda>contains.
     bindS (if \<not> contains \<or> block_full
            then bindS (enqueue_new bx info env acc_id msg_cell tr_cell) (\<lambda>_. retS block_full)
            else bindS (builder_execute bx message acc_id) (\<lambda>_ bb.
                   (Inr (if is_limits_reached bb then True else block_full), bb))) (\<lambda>block_full.
     drain_new bx rest block_full)))))"

text \<open>
  The third phase: as long as there are new messages. A transaction of each pass may add
  new ones, and nothing in the code bounds the passes, so the loop is a partial function.
\<close>

partial_function (option) process_new ::
  "('s, 'b, 'c, 'm, 't, 'v, 'q) builder_lib \<Rightarrow> bool \<Rightarrow> bool \<Rightarrow>
   ('s, 'c, 'm, 'v, 'q) block_builder \<Rightarrow>
   (bool res \<times> ('s, 'c, 'm, 'v, 'q) block_builder) option" where
  "process_new bx is_empty block_full bb =
     (if bb_new_messages bb = [] then Some (Inr is_empty, bb)
      else
        (case drain_new bx (bb_new_messages bb) block_full (bb\<lparr>bb_new_messages := []\<rparr>) of
           (r, bb') \<Rightarrow>
             (case r of
                Inl e \<Rightarrow> Some (Inl e, bb')
              | Inr block_full' \<Rightarrow> process_new bx False block_full' bb')))"

text \<open>The three phases: what \<^verbatim>\<open>build_block\<close> does before it finishes the block.\<close>

definition import_messages ::
  "('s, 'b, 'c, 'm, 't, 'v, 'q) builder_lib \<Rightarrow>
   ('s, 'c, 'm, 'v, 'q) block_builder \<times> 'm in_messages_queue \<Rightarrow>
   (bool \<times> bool) res \<times> (('s, 'c, 'm, 'v, 'q) block_builder \<times> 'm in_messages_queue)" where
  "import_messages bx = (\<lambda>(bb, queue).
     (case sorted_out_queue bx (bb_out_queue_info bb) of
        Inl e \<Rightarrow> (Inl e, (bb, queue))
      | Inr outs \<Rightarrow>
          (case import_internal bx outs True bb of
             (Inl e, bb) \<Rightarrow> (Inl e, (bb, queue))
           | (Inr (is_empty, block_full), bb) \<Rightarrow>
               if block_full then (Inr (is_empty, True), (bb, queue))
               else import_external bx (si_workchain_id (bb_shard_ident bx bb)) is_empty (bb, queue))))"

definition build_messages ::
  "('s, 'b, 'c, 'm, 't, 'v, 'q) builder_lib \<Rightarrow>
   ('s, 'c, 'm, 'v, 'q) block_builder \<times> 'm in_messages_queue \<Rightarrow>
   (bool res \<times> (('s, 'c, 'm, 'v, 'q) block_builder \<times> 'm in_messages_queue)) option" where
  "build_messages bx = (\<lambda>(bb, queue).
     (case import_messages bx (bb, queue) of
        (Inl e, st) \<Rightarrow> Some (Inl e, st)
      | (Inr (is_empty, block_full), (bb, queue)) \<Rightarrow>
          map_option (\<lambda>(r, bb). (r, (bb, queue))) (process_new bx is_empty block_full bb)))"

record ('s, 'b) prepared_block =
  prep_block :: 'b
  prep_state :: 's
  prep_is_empty :: bool
  prep_traces :: traces

definition finalize_block ::
  "('s, 'b, 'c, 'm, 't, 'v, 'q) builder_lib \<Rightarrow> ('s, 'c, 'm, 'v, 'q) block_builder \<Rightarrow>
   ('b \<times> 's) res" where
  "finalize_block bx bb =
     (let state = bx_state_set_seq_no bx (bi_seq_no (bb_block_info bb)) (bb_shard_state bb) in
      bindR (lib_try (bx_write_accounts bx (bb_accounts bb) state)) (\<lambda>state.
      bindR (lib_try (bx_write_out_queue bx (bb_out_queue_info bb) state)) (\<lambda>state.
      bindR (lib_try (bx_block_extra bx (bb_in_msg_descr bb) (bb_out_msg_descr bb)
               (bb_account_blocks bb) (bb_rand_seed bb))) (\<lambda>extra.
      bindR (lib_try (bx_add_grams bx (bx_blocks_extra bx (bb_account_blocks bb))
               (bx_in_fees bx (bb_in_msg_descr bb)))) (\<lambda>fees.
      let value_flow =
            \<lparr>vf_fees_collected = fees, vf_imported = bx_in_value bx (bb_in_msg_descr bb),
             vf_exported = bx_out_extra bx (bb_out_msg_descr bb),
             vf_from_prev_blk = bb_from_prev_blk bb,
             vf_to_next_blk = bx_full_balance bx (bb_accounts bb),
             vf_copyleft_rewards = bb_copyleft_rewards bb\<rparr>;
          info = (bb_block_info bb)\<lparr>bi_end_lt := max (bb_end_lt bb) (bb_start_lt bb + 1)\<rparr> in
      bindR (lib_try (bx_block bx (bx_state_global_id bx (bb_shard_state bb)) info value_flow extra))
        (\<lambda>block. Inr (block, state)))))))"

definition build_block ::
  "('s, 'b, 'c, 'm, 't, 'v, 'q) builder_lib \<Rightarrow> ('s, 'c, 'm, 'v, 'q) block_builder \<Rightarrow>
   'm in_messages_queue \<Rightarrow>
   (('s, 'b) prepared_block res \<times> 'm in_messages_queue) option" where
  "build_block bx bb queue =
     map_option (\<lambda>(r, (bb, queue)).
       (bindR r (\<lambda>is_empty.
        let transaction_traces = bb_transaction_traces bb;
            bb = bb\<lparr>bb_transaction_traces := Map.empty\<rparr> in
        bindR (finalize_block bx bb) (\<lambda>(block, state).
        Inr \<lparr>prep_block = block, prep_state = state, prep_is_empty = is_empty,
             prep_traces = transaction_traces\<rparr>)), queue))
     (build_messages bx (bb, queue))"

end
