(* ===== verification/Shardchain.thy ===== *)
theory Shardchain
  imports Block_Builder Finality "HOL-Library.Stream"
begin

text \<open>
  A chain of one shard (\<^verbatim>\<open>node/src/engine/shardchain.rs\<close>): it collates a block on top of the
  finality layer's current block and hands it to that layer. A chain owns its finality
  layer; the inbound queue and the documents database are shared by the chains of a node and
  carried beside it, together with what the node takes from outside: the readings of the
  system clock and the random seeds of its blocks, as streams.
\<close>

record ('m, 'd) node_world =
  nw_queue :: "'m in_messages_queue"
  nw_docs :: 'd
  nw_clock :: "u32 stream"
  nw_seeds :: "u256 stream"

section \<open>The library\<close>

text \<open>
  What the chains use of the block library besides the builder's and the finality layer's
  part: the extra part of a block (\<open>'x\<close>), its masterchain part (\<open>'y\<close>), the configuration of
  the chain (\<open>'g\<close>) and the prefixes of a shard tree (\<open>'p\<close>). The fields of a shard description
  that the node never sets keep their defaults and are left out.
\<close>

record shard_descr =
  sd_seq_no :: u32
  sd_reg_mc_seqno :: u32
  sd_start_lt :: u64
  sd_end_lt :: u64
  sd_root_hash :: u256
  sd_file_hash :: u256
  sd_before_split :: bool
  sd_want_split :: bool
  sd_want_merge :: bool
  sd_flags :: u8
  sd_next_validator_shard :: u64
  sd_min_ref_mc_seqno :: u32
  sd_gen_utime :: u32

record ('b, 'x, 'y, 'g, 'p) chain_lib =
  ch_block_gas_limit :: "shard_ident \<Rightarrow> u64"
  ch_read_extra :: "'b \<Rightarrow> any_error + 'x"
  ch_in_msg_count :: "'x \<Rightarrow> any_error + nat"
  ch_out_msg_count :: "'x \<Rightarrow> any_error + nat"
  ch_account_blocks_count :: "'x \<Rightarrow> any_error + nat"
  ch_write_info :: "block_info \<Rightarrow> 'b \<Rightarrow> any_error + 'b"
  ch_write_extra :: "'x \<Rightarrow> 'b \<Rightarrow> any_error + 'b"
  ch_write_custom :: "'y \<Rightarrow> 'x \<Rightarrow> any_error + 'x"
  ch_read_custom :: "'x \<Rightarrow> any_error + 'y option"
  ch_default_mc_extra :: 'y
  ch_set_config :: "'g \<Rightarrow> 'y \<Rightarrow> 'y"
  ch_config :: "'y \<Rightarrow> 'g option"
  ch_shards_set :: "i32 \<Rightarrow> shard_descr \<Rightarrow> 'y \<Rightarrow> any_error + 'y"
  ch_shards :: "'y \<Rightarrow> (any_error + i32 \<times> (any_error + 'p \<times> shard_descr) list) list"
  ch_with_prefix_slice :: "i32 \<Rightarrow> 'p \<Rightarrow> any_error + shard_ident"
  ch_prefix_with_tag :: "shard_ident \<Rightarrow> u64"
  ch_iter_shards :: "(shard_ident \<Rightarrow> shard_descr option) \<Rightarrow> (shard_ident \<times> shard_descr) list"

text \<open>Everything a chain calls; \<open>ce_raw_config\<close> is the configuration the node was given.\<close>

record ('k, 's, 'b, 'c, 'm, 't, 'v, 'q, 'j, 'd, 'x, 'y, 'g, 'p) chain_env =
  ce_builder :: "('s, 'b, 'c, 'm, 't, 'v, 'q) builder_lib"
  ce_node :: "('k, 's, 'b, 'c, 'j, 'd) node_env"
  ce_lib :: "('b, 'x, 'y, 'g, 'p) chain_lib"
  ce_raw_config :: 'g

abbreviation ce_blocks where
  "ce_blocks ce \<equiv> env_lib (ce_node ce)"

section \<open>The chain\<close>

record ('k, 's, 'b, 'v) shardchain =
  sc_finality_was_loaded :: bool
  sc_block_finality :: "('k, 's, 'b) finality"
  sc_block_gas_limit :: u64
  sc_accounts_provider :: "('v \<Rightarrow> 'v option res) option"

text \<open>\<open>storage\<close> is the answer of \<^verbatim>\<open>NodeStorage::shard_storage\<close> for this shard.\<close>

definition shardchain_with_params where
  "shardchain_with_params ce shard global_id storage accounts_provider =
     (case storage of
        Inl e \<Rightarrow> Some (Inl e)
      | Inr k \<Rightarrow>
          map_option (\<lambda>(r, f). bindR r (\<lambda>finality_was_loaded.
            Inr \<lparr>sc_finality_was_loaded = finality_was_loaded, sc_block_finality = f,
                 sc_block_gas_limit = ch_block_gas_limit (ce_lib ce) shard,
                 sc_accounts_provider = accounts_provider\<rparr>))
          (finality_load (ce_node ce) (finality_with_params (ce_blocks ce) global_id shard k True)))"

text \<open>The number that follows the last state's.\<close>

definition next_seq_no where
  "next_seq_no ce sc =
     bindR (get_last_info (ce_blocks ce) (sc_block_finality sc)) (\<lambda>(shard_state, _).
     Inr (bx_state_seq_no (ce_builder ce) shard_state + 1))"

definition sc_out_message_queue_is_empty ::
  "('s, 'b, 'c) block_lib \<Rightarrow> ('k, 's, 'b, 'v) shardchain \<Rightarrow> bool" where
  "sc_out_message_queue_is_empty lib sc = out_message_queue_is_empty lib (sc_block_finality sc)"

text \<open>\<^verbatim>\<open>build_block\<close> only reads the chain; it takes messages from the queue and one seed.\<close>

definition sc_build_block where
  "sc_build_block ce time time_mode sc (w :: ('m, 'd) node_world) =
     (case get_last_info (ce_blocks ce) (sc_block_finality sc) of
        Inl e \<Rightarrow> Some (Inl e, w)
      | Inr (shard_state, blk_prev_info) \<Rightarrow>
          (case builder_with_params (ce_builder ce) (shd (nw_seeds w)) shard_state blk_prev_info time
                  time_mode (sc_block_gas_limit sc) (sc_accounts_provider sc) of
             Inl e \<Rightarrow> Some (Inl e, w\<lparr>nw_seeds := stl (nw_seeds w)\<rparr>)
           | Inr collator \<Rightarrow>
               map_option (\<lambda>(r, q). (r, w\<lparr>nw_seeds := stl (nw_seeds w), nw_queue := q\<rparr>))
                 (build_block (ce_builder ce) collator (nw_queue w))))"

text \<open>\<^verbatim>\<open>print_block_info\<close> unwraps every read of the block.\<close>

definition print_block_info where
  "print_block_info ce block =
     bindR (unwrap_or_panic ''read_extra'' (ch_read_extra (ce_lib ce) block)) (\<lambda>extra.
     bindR (unwrap_or_panic ''read_info'' (bl_read_info (ce_blocks ce) block)) (\<lambda>_.
     bindR (unwrap_or_panic ''in_msg_descr'' (ch_in_msg_count (ce_lib ce) extra)) (\<lambda>_.
     bindR (unwrap_or_panic ''out_msg_descr'' (ch_out_msg_count (ce_lib ce) extra)) (\<lambda>_.
     bindR (unwrap_or_panic ''account_blocks'' (ch_account_blocks_count (ce_lib ce) extra)) (\<lambda>_.
     Inr ())))))"

text \<open>The log line reads the block's number with \<^verbatim>\<open>?\<close>, as in \<open>put_block_with_info\<close>.\<close>

definition finality_and_apply_block where
  "finality_and_apply_block ce mc_seq_no block applied_shard transaction_traces =
     (\<lambda>(sc, w :: ('m, 'd) node_world).
     (case lib_try (bl_read_info (ce_blocks ce) block) of
        Inl e \<Rightarrow> (Inl e, (sc, w))
      | Inr _ \<Rightarrow>
          (case put_block_with_info (ce_node ce) mc_seq_no block applied_shard transaction_traces
                  (sc_block_finality sc, nw_docs w) of
             (r, (f, d)) \<Rightarrow>
               (bindR r (\<lambda>_. Inr applied_shard), (sc\<lparr>sc_block_finality := f\<rparr>, w\<lparr>nw_docs := d\<rparr>)))))"

definition sc_generate_block where
  "sc_generate_block ce mc_seq_no time time_mode = (\<lambda>(sc, w).
     bindO (\<lambda>(sc, w). map_option (\<lambda>(r, w). (r, (sc, w))) (sc_build_block ce time time_mode sc w))
       (\<lambda>block.
          returns
            (if \<not> prep_is_empty block then
               bindS (liftS (print_block_info ce (prep_block block))) (\<lambda>_.
               bindS (finality_and_apply_block ce mc_seq_no (prep_block block) (prep_state block)
                       (prep_traces block)) (\<lambda>_.
               retS (Some (prep_block block))))
             else retS None)) (sc, w))"

definition get_last_finalized_block :: "('k, 's, 'b, 'v) shardchain \<Rightarrow> 'b res" where
  "get_last_finalized_block sc = Inr (sb_block (fin_last_finalized_block (sc_block_finality sc)))"

end
