(* ===== verification/Masterchain.thy ===== *)
theory Masterchain
  imports Shardchain
begin

text \<open>
  The masterchain (\<^verbatim>\<open>node/src/engine/masterchain.rs\<close>): a chain whose blocks carry the
  descriptions of the last block of every shard. The shards are a hash map, iterated in the
  order \<open>ch_iter_shards\<close>.
\<close>

record ('k, 's, 'b, 'v) masterchain =
  mc_shardchain :: "('k, 's, 'b, 'v) shardchain"
  mc_shards :: "shard_ident \<Rightarrow> shard_descr option"
  mc_shards_has_been_changed :: bool

definition masterchain_with_params where
  "masterchain_with_params ce masterchain_ident global_id storage accounts_provider =
     map_option (\<lambda>r. bindR r (\<lambda>shardchain.
       Inr \<lparr>mc_shardchain = shardchain, mc_shards = Map.empty, mc_shards_has_been_changed = False\<rparr>))
     (shardchain_with_params ce masterchain_ident global_id storage accounts_provider)"

definition mc_next_seq_no where
  "mc_next_seq_no ce mc = next_seq_no ce (mc_shardchain mc)"

definition mc_out_message_queue_is_empty where
  "mc_out_message_queue_is_empty lib mc = sc_out_message_queue_is_empty lib (mc_shardchain mc)"

definition shard_descr_of where
  "shard_descr_of ce info block_cell block_boc =
     \<lparr>sd_seq_no = bi_seq_no info, sd_reg_mc_seqno = 1, sd_start_lt = bi_start_lt info,
      sd_end_lt = bi_end_lt info, sd_root_hash = bl_cell_hash (ce_blocks ce) block_cell,
      sd_file_hash = bl_file_hash (ce_blocks ce) block_boc, sd_before_split = bi_before_split info,
      sd_want_split = bi_want_split info, sd_want_merge = bi_want_merge info,
      sd_flags = bi_flags info,
      sd_next_validator_shard = ch_prefix_with_tag (ce_lib ce) (bi_shard info),
      sd_min_ref_mc_seqno = bi_min_ref_mc_seqno info, sd_gen_utime = bi_gen_utime info\<rparr>"

definition register_new_shard_block where
  "register_new_shard_block ce block =
     bindS (liftS (lib_try (bl_read_info (ce_blocks ce) block))) (\<lambda>info.
     bindS (liftS (unwrap_or_panic ''serialize'' (bl_block_cell (ce_blocks ce) block))) (\<lambda>block_cell.
     bindS (liftS (lib_try (bl_write_boc (ce_blocks ce) block_cell))) (\<lambda>block_boc mc.
     let descr = shard_descr_of ce info block_cell block_boc in
     (Inr (), mc\<lparr>mc_shards := (mc_shards mc)(bi_shard info \<mapsto> descr),
                 mc_shards_has_been_changed := True\<rparr>))))"

section \<open>Generating a block\<close>

fun set_shards ::
  "('b, 'x, 'y, 'g, 'p) chain_lib \<Rightarrow> (shard_ident \<times> shard_descr) list \<Rightarrow> 'y \<Rightarrow> 'y res" where
  "set_shards ch [] mc_extra = Inr mc_extra"
| "set_shards ch ((shard, descr) # rest) mc_extra =
     bindR (lib_try (ch_shards_set ch (si_workchain_id shard) descr mc_extra)) (\<lambda>mc_extra.
     set_shards ch rest mc_extra)"

text \<open>The collated block as a masterchain block: a key block with the configuration and the
  shards in its extra part.\<close>

definition master_block where
  "master_block ce shards block =
     bindR (lib_try (bl_read_info (ce_blocks ce) block)) (\<lambda>info.
     bindR (lib_try (ch_write_info (ce_lib ce) (info\<lparr>bi_key_block := True\<rparr>) block)) (\<lambda>block.
     bindR (lib_try (ch_read_extra (ce_lib ce) block)) (\<lambda>extra.
     let mc_extra = ch_set_config (ce_lib ce) (ce_raw_config ce) (ch_default_mc_extra (ce_lib ce)) in
     bindR (set_shards (ce_lib ce) (ch_iter_shards (ce_lib ce) shards) mc_extra) (\<lambda>mc_extra.
     bindR (lib_try (ch_write_custom (ce_lib ce) mc_extra extra)) (\<lambda>extra.
     lib_try (ch_write_extra (ce_lib ce) extra block))))))"

text \<open>A call on the masterchain's own chain.\<close>

definition on_shardchain where
  "on_shardchain m = (\<lambda>(mc, w).
     case m (mc_shardchain mc, w) of (r, (sc, w)) \<Rightarrow> (r, (mc\<lparr>mc_shardchain := sc\<rparr>, w)))"

definition mc_generate_block where
  "mc_generate_block ce mc_seq_no time time_mode = (\<lambda>(mc, w).
     bindO (\<lambda>(mc, w). map_option (\<lambda>(r, w). (r, (mc, w)))
             (sc_build_block ce time time_mode (mc_shardchain mc) w))
       (\<lambda>prepared. returns (\<lambda>(mc, w).
          if prep_is_empty prepared \<and> \<not> mc_shards_has_been_changed mc then (Inr None, (mc, w))
          else
            bindS (liftS (master_block ce (mc_shards mc) (prep_block prepared))) (\<lambda>block.
            bindS (on_shardchain (finality_and_apply_block ce mc_seq_no block (prep_state prepared)
                     (prep_traces prepared))) (\<lambda>_ (mc, w).
            (Inr (Some block), (mc\<lparr>mc_shards_has_been_changed := False\<rparr>, w)))) (mc, w))) (mc, w))"

section \<open>Restoring after a restart\<close>

definition get_last_finalized_mc_extra where
  "get_last_finalized_mc_extra ce mc =
     (case get_last_finalized_block (mc_shardchain mc) of
        Inl _ \<Rightarrow> None
      | Inr block \<Rightarrow>
          (case ch_read_extra (ce_lib ce) block of
             Inl _ \<Rightarrow> None
           | Inr extra \<Rightarrow>
               (case ch_read_custom (ce_lib ce) extra of Inl _ \<Rightarrow> None | Inr custom \<Rightarrow> custom)))"

text \<open>The two nested iterations insert every description they meet.\<close>

fun restore_tree ::
  "('b, 'x, 'y, 'g, 'p) chain_lib \<Rightarrow> i32 \<Rightarrow> (any_error + 'p \<times> shard_descr) list \<Rightarrow>
   (shard_ident \<Rightarrow> shard_descr option) \<Rightarrow> unit res \<times> (shard_ident \<Rightarrow> shard_descr option)" where
  "restore_tree ch workchain_id [] = retS ()"
| "restore_tree ch workchain_id (leaf # rest) =
     bindS (liftS (lib_try leaf)) (\<lambda>(prefix, descr).
     bindS (liftS (unwrap_or_panic ''with_prefix_slice'' (ch_with_prefix_slice ch workchain_id prefix)))
       (\<lambda>shard.
     bindS (\<lambda>shards. (Inr (), shards(shard \<mapsto> descr))) (\<lambda>_.
     restore_tree ch workchain_id rest)))"

fun restore_shards ::
  "('b, 'x, 'y, 'g, 'p) chain_lib \<Rightarrow> (any_error + i32 \<times> (any_error + 'p \<times> shard_descr) list) list \<Rightarrow>
   (shard_ident \<Rightarrow> shard_descr option) \<Rightarrow> unit res \<times> (shard_ident \<Rightarrow> shard_descr option)" where
  "restore_shards ch [] = retS ()"
| "restore_shards ch (entry # rest) =
     bindS (liftS (lib_try entry)) (\<lambda>(workchain_id, tree).
     bindS (restore_tree ch workchain_id tree) (\<lambda>_.
     restore_shards ch rest))"

definition restore_state where
  "restore_state ce = (\<lambda>(mc, w).
     if \<not> sc_finality_was_loaded (mc_shardchain mc) then Some (Inr (), (mc, w))
     else
       (case get_last_finalized_mc_extra ce mc of
          None \<Rightarrow> Some (Inr (), (mc, w))
        | Some extra \<Rightarrow>
            (case restore_shards (ce_lib ce) (ch_shards (ce_lib ce) extra) (mc_shards mc) of
               (Inl e, shards) \<Rightarrow> Some (Inl e, (mc\<lparr>mc_shards := shards\<rparr>, w))
             | (Inr _, shards) \<Rightarrow>
                 (let mc = mc\<lparr>mc_shards := shards, mc_shards_has_been_changed := True\<rparr> in
                  case ch_config (ce_lib ce) extra of
                    None \<Rightarrow> Some (Inr (), (mc, w))
                  | Some last_config \<Rightarrow>
                      if last_config \<noteq> ce_raw_config ce then
                        (case mc_next_seq_no ce mc of
                           Inl e \<Rightarrow> Some (Inl e, (mc, w))
                         | Inr seq_no \<Rightarrow>
                             bindO (mc_generate_block ce seq_no 0 System) (\<lambda>_. returns (retS ())) (mc, w))
                      else Some (Inr (), (mc, w))))))"

end
