(* ===== verification/Node_Engine.thy ===== *)
theory Node_Engine
  imports Masterchain Block_Time
begin

text \<open>
  The engine (\<^verbatim>\<open>node/src/engine/engine.rs\<close>): the clock of the node, its masterchain and its
  workchain, and the loops that turn queued messages into blocks. A run is modelled between
  two arrivals of messages: \<open>execute_queued_messages\<close> is one call of it on the queue as it
  is, and \<open>run_step\<close> interleaves such calls with what the API does to the engine. The finer
  interleaving of the queue with its waiting thread is the subject of \<open>Queue_Wakeup\<close>.
\<close>

record ('k, 's, 'b, 'v) node_engine =
  en_time :: block_time
  en_masterchain :: "('k, 's, 'b, 'v) masterchain"
  en_workchain :: "('k, 's, 'b, 'v) shardchain"

text \<open>The calls of one chain on the node.\<close>

definition on_workchain where
  "on_workchain m = (\<lambda>(n, w).
     map_option (\<lambda>(r, (sc, w)). (r, (n\<lparr>en_workchain := sc\<rparr>, w))) (m (en_workchain n, w)))"

definition on_masterchain where
  "on_masterchain m = (\<lambda>(n, w).
     map_option (\<lambda>(r, (mc, w)). (r, (n\<lparr>en_masterchain := mc\<rparr>, w))) (m (en_masterchain n, w)))"

section \<open>The clock\<close>

definition get_next_time :: "('k, 's, 'b, 'v) node_engine \<Rightarrow> ('m, 'd) node_world \<Rightarrow>
    u32 \<times> ('m, 'd) node_world" where
  "get_next_time n w =
     (get_next (shd (nw_clock w)) (en_time n), w\<lparr>nw_clock := stl (nw_clock w)\<rparr>)"

definition set_last_time :: "u32 \<Rightarrow> ('k, 's, 'b, 'v) node_engine \<Rightarrow> ('k, 's, 'b, 'v) node_engine" where
  "set_last_time time n = n\<lparr>en_time := set_last time (en_time n)\<rparr>"

definition set_time_mode :: "block_time_mode \<Rightarrow> ('k, 's, 'b, 'v) node_engine \<Rightarrow>
    ('k, 's, 'b, 'v) node_engine" where
  "set_time_mode mode n = n\<lparr>en_time := set_mode mode (en_time n)\<rparr>"

definition increase_time_delta :: "u32 \<Rightarrow> ('k, 's, 'b, 'v) node_engine \<Rightarrow>
    ('k, 's, 'b, 'v) node_engine" where
  "increase_time_delta delta n = n\<lparr>en_time := increase_delta delta (en_time n)\<rparr>"

definition reset_time_delta :: "('k, 's, 'b, 'v) node_engine \<Rightarrow> ('k, 's, 'b, 'v) node_engine" where
  "reset_time_delta n = n\<lparr>en_time := reset_delta (en_time n)\<rparr>"

definition time_mode :: "('k, 's, 'b, 'v) node_engine \<Rightarrow> block_time_mode" where
  "time_mode n = bt_mode (en_time n)"

definition time_delta :: "('k, 's, 'b, 'v) node_engine \<Rightarrow> u32" where
  "time_delta n = bt_delta (en_time n)"

section \<open>Executing the queued messages\<close>

text \<open>One block of the workchain; its time is the last one and the masterchain gets its
  description.\<close>

definition workchain_block where
  "workchain_block mce wce mc_seq_no gen_time = (\<lambda>(n, w).
     bindO (on_workchain (sc_generate_block wce mc_seq_no gen_time (time_mode n))) (\<lambda>block (n, w).
       case block of
         None \<Rightarrow> Some (Inr False, (n, w))
       | Some block \<Rightarrow>
           (let n = set_last_time gen_time n in
            case register_new_shard_block mce block (en_masterchain n) of
              (r, mc) \<Rightarrow> Some (bindR r (\<lambda>_. Inr True), (n\<lparr>en_masterchain := mc\<rparr>, w)))) (n, w))"

text \<open>The inner loop; it returns whether it made a block, and the time for the next one.
  Nothing bounds it: it goes on as long as the workchain has messages.\<close>

partial_function (option) workchain_blocks where
  "workchain_blocks mce wce mc_seq_no gen_time again st =
     Option.bind (workchain_block mce wce mc_seq_no gen_time st) (\<lambda>(r, (n, w)).
       (case r of
          Inl e \<Rightarrow> Some (Inl e, (n, w))
        | Inr made \<Rightarrow>
            if made then
              (case get_next_time n w of (gen_time', w') \<Rightarrow>
                 workchain_blocks mce wce mc_seq_no gen_time' True (n, w'))
            else Some (Inr (again, gen_time), (n, w))))"

text \<open>The masterchain's block of a round, if there is one.\<close>

definition masterchain_block where
  "masterchain_block mce mc_seq_no gen_time = (\<lambda>(n, w).
     bindO (on_masterchain (mc_generate_block mce mc_seq_no gen_time (time_mode n))) (\<lambda>block (n, w).
       case block of
         None \<Rightarrow> Some (Inr False, (n, w))
       | Some _ \<Rightarrow> Some (Inr True, (set_last_time gen_time n, w))) (n, w))"

text \<open>A round of the outer loop; it returns \<^verbatim>\<open>continue_processing\<close> and the time.\<close>

definition chain_round where
  "chain_round mce wce gen_time = (\<lambda>(n, w).
     (case mc_next_seq_no mce (en_masterchain n) of
        Inl e \<Rightarrow> Some (Inl e, (n, w))
      | Inr mc_seq_no \<Rightarrow>
          bindO (workchain_blocks mce wce mc_seq_no gen_time False) (\<lambda>(continue, gen_time).
          bindO (masterchain_block mce mc_seq_no gen_time) (\<lambda>made.
          returns (retS (continue \<or> made, gen_time)))) (n, w)))"

partial_function (option) execute_rounds where
  "execute_rounds mce wce gen_time st =
     Option.bind (chain_round mce wce gen_time st) (\<lambda>(r, st').
       (case r of
          Inl e \<Rightarrow> Some (Inl e, st')
        | Inr (continue, gen_time') \<Rightarrow>
            if continue then execute_rounds mce wce gen_time' st' else Some (Inr (), st')))"

definition execute_queued_messages where
  "execute_queued_messages mce wce = (\<lambda>(n, w).
     (case get_next_time n w of (gen_time, w) \<Rightarrow> execute_rounds mce wce gen_time (n, w)))"

section \<open>The engine's interface\<close>

definition message_queues_are_empty where
  "message_queues_are_empty mce wce = (\<lambda>(n, w).
     sc_out_message_queue_is_empty (ce_blocks wce) (en_workchain n) \<and>
     mc_out_message_queue_is_empty (ce_blocks mce) (en_masterchain n) \<and>
     mq_is_empty (nw_queue w))"

text \<open>A full queue and a stopped one are both reported as \<^verbatim>\<open>QueueFull\<close>.\<close>

definition enqueue_message where
  "enqueue_message msg = (\<lambda>(n, w).
     (case mq_queue msg (nw_queue w) of
        (Inl _, q) \<Rightarrow> (Fail QueueFull, (n, w\<lparr>nw_queue := q\<rparr>))
      | (Inr _, q) \<Rightarrow> (Inr (), (n, w\<lparr>nw_queue := q\<rparr>))))"

definition process_message where
  "process_message mce wce msg =
     bindO (returns (enqueue_message msg)) (\<lambda>_. execute_queued_messages mce wce)"

text \<open>
  The constructor. \<open>shard_storage\<close> opens the node's storage of a shard and may change what is
  behind it (\<open>disk\<close>). The result is the engine with the world it lives in, or an error
  together with the chains it was made of as far as they had run; and the disk.
\<close>

definition engine_with_params where
  "engine_with_params mce wce masterchain_ident global_id workchain_shard shard_storage
     accounts_provider docs clock seeds disk =
     (case shard_storage masterchain_ident disk of
        (mc_storage, disk) \<Rightarrow>
      Option.bind (masterchain_with_params mce masterchain_ident global_id mc_storage accounts_provider)
        (\<lambda>masterchain.
      case masterchain of
        Inl e \<Rightarrow> Some (Inl (e, None), disk)
      | Inr masterchain \<Rightarrow>
          (case shard_storage workchain_shard disk of
             (wc_storage, disk) \<Rightarrow>
          Option.bind (shardchain_with_params wce workchain_shard global_id wc_storage accounts_provider)
            (\<lambda>workchain.
          case workchain of
            Inl e \<Rightarrow> Some (Inl (e, None), disk)
          | Inr workchain \<Rightarrow>
              (let w = \<lparr>nw_queue = mq_new 10000, nw_docs = docs, nw_clock = clock, nw_seeds = seeds\<rparr>;
                   n = \<lparr>en_time = block_time_new, en_masterchain = masterchain, en_workchain = workchain\<rparr> in
               map_option (\<lambda>(r, st). (map_sum (\<lambda>e. (e, Some st)) (\<lambda>_. st) r, disk))
                 (bindO (if sc_finality_was_loaded workchain then on_masterchain (restore_state mce)
                         else returns (retS ()))
                    (\<lambda>_. execute_queued_messages mce wce) (n, w)))))))"

section \<open>The engine's thread and the API\<close>

text \<open>
  \<^verbatim>\<open>run\<close> as steps: a round that ends with an error is only logged, a panic ends the thread.
  The thread waits only when the queues are empty; \<^verbatim>\<open>wait_new_message\<close> fails when the queue
  was stopped before the wait or when it is woken. Between the steps the API adds messages,
  stops the queue and changes the clock.
\<close>

datatype run_phase = Running | Blocked | Returned

inductive run_step for mce wce where
  round_again: "execute_queued_messages mce wce st = Some (r, st') \<Longrightarrow> calm_res r \<Longrightarrow>
    \<not> message_queues_are_empty mce wce st' \<Longrightarrow> run_step mce wce (Running, st) (Running, st')"
| round_wait: "execute_queued_messages mce wce st = Some (r, st') \<Longrightarrow> calm_res r \<Longrightarrow>
    message_queues_are_empty mce wce st' \<Longrightarrow>
    run_step mce wce (Running, st) (if mq_stopped (nw_queue (snd st')) then Returned else Blocked, st')"
| woken: "run_step mce wce (Blocked, st)
    (if mq_stopped (nw_queue (snd st)) then Returned else Running, st)"
| api_queue: "enqueue_message msg st = (Inr (), st') \<Longrightarrow> run_step mce wce (p, st) (p, st')"
| api_stop: "run_step mce wce (p, (n, w)) (p, (n, w\<lparr>nw_queue := mq_stop (nw_queue w)\<rparr>))"
| api_mode: "run_step mce wce (p, (n, w)) (p, (set_time_mode mode n, w))"
| api_delta: "run_step mce wce (p, (n, w)) (p, (increase_time_delta delta n, w))"
| api_reset: "run_step mce wce (p, (n, w)) (p, (reset_time_delta n, w))"

inductive run_reaches for mce wce where
  start: "run_reaches mce wce x x"
| step: "run_reaches mce wce x y \<Longrightarrow> run_step mce wce y z \<Longrightarrow> run_reaches mce wce x z"

end
