(* ===== verification/Builder_Props.thy ===== *)
theory Builder_Props
  imports Block_Builder
begin

text \<open>
  What the collator guarantees about one block: its header follows the previous block and
  its end of logical time lies after its start, and the limits of a block are kept (one
  message in sequential mode, the gas limit up to one transaction).
\<close>

section \<open>What a step of the builder leaves alone\<close>

text \<open>The parameters of the block; the end of logical time only grows.\<close>

definition same_block ::
  "('s, 'c, 'm, 'v, 'q) block_builder \<Rightarrow> ('s, 'c, 'm, 'v, 'q) block_builder \<Rightarrow> bool" where
  "same_block bb bb' \<longleftrightarrow>
     bb_shard_state bb' = bb_shard_state bb \<and> bb_block_info bb' = bb_block_info bb \<and>
     bb_rand_seed bb' = bb_rand_seed bb \<and> bb_from_prev_blk bb' = bb_from_prev_blk bb \<and>
     bb_block_gas_limit bb' = bb_block_gas_limit bb \<and> bb_start_lt bb' = bb_start_lt bb \<and>
     bb_time_mode bb' = bb_time_mode bb \<and> bb_accounts_provider bb' = bb_accounts_provider bb \<and>
     bb_end_lt bb \<le> bb_end_lt bb'"

text \<open>Besides, nothing was executed.\<close>

definition quiet ::
  "('s, 'c, 'm, 'v, 'q) block_builder \<Rightarrow> ('s, 'c, 'm, 'v, 'q) block_builder \<Rightarrow> bool" where
  "quiet bb bb' \<longleftrightarrow>
     same_block bb bb' \<and> bb_total_gas_used bb' = bb_total_gas_used bb \<and>
     bb_total_message_processed bb' = bb_total_message_processed bb"

interpretation block: step_relation same_block
  by unfold_locales (auto simp: same_block_def)

interpretation quiet: step_relation quiet
  by unfold_locales (auto simp: quiet_def same_block_def)

lemma quiet_same_block: "quiet bb bb' \<Longrightarrow> same_block bb bb'"
  by (simp add: quiet_def)

lemma quiet_limits: "quiet bb bb' \<Longrightarrow> is_limits_reached bb' = is_limits_reached bb"
  by (simp add: quiet_def same_block_def is_limits_reached_def)

lemma quiet_on:
  "quiet.keeps (on_accounts m)" "quiet.keeps (on_in_descr n)" "quiet.keeps (on_out_descr o1)"
  "quiet.keeps (on_account_blocks k)" "quiet.keeps (on_copyleft l)" "quiet.keeps (on_out_queue q)"
  by (auto simp: quiet.keeps_def quiet_def same_block_def on_accounts_def on_in_descr_def
      on_out_descr_def on_account_blocks_def on_copyleft_def on_out_queue_def split: prod.splits)

lemma quiet_new_messages: "quiet.keeps (\<lambda>bb. (r, bb\<lparr>bb_new_messages := f bb\<rparr>))"
  by (simp add: quiet.keeps_def quiet_def same_block_def)

lemma quiet_traces: "quiet.keeps (\<lambda>bb. (r, case t of Some x \<Rightarrow> bb\<lparr>bb_transaction_traces := f bb x\<rparr> | None \<Rightarrow> bb))"
  by (simp add: quiet.keeps_def quiet_def same_block_def split: option.split)

lemma quiet_end_lt: "quiet.keeps (\<lambda>bb. (r, bb\<lparr>bb_end_lt := max (bb_end_lt bb) lt\<rparr>))"
  by (simp add: quiet.keeps_def quiet_def same_block_def)

lemmas quiet_steps = quiet.keeps_intros quiet_on quiet_new_messages quiet_traces quiet_end_lt

lemma quiet_add_out_msgs: "quiet.keeps (add_out_msgs bx c ms)"
proof (induction bx c ms rule: add_out_msgs.induct)
  case (4 bx tr_cell msg ms)
  then show ?case
    by (auto simp: Let_def split: option.splits intro!: quiet_steps)
qed (auto intro: quiet_steps)

lemma quiet_add_in_msg: "quiet.keeps (add_in_msg bx c d)"
  unfolding add_in_msg_def by (intro quiet_steps)

lemma quiet_add_raw_transaction: "quiet.keeps (add_raw_transaction bx t c)"
  unfolding add_raw_transaction_def
  by (auto intro!: quiet_steps quiet_add_in_msg quiet_add_out_msgs split: option.split prod.split)

lemma quiet_store_account: "quiet.keeps (store_account bx a r c t)"
  unfolding store_account_def Let_def
  by (auto intro!: quiet_steps split: if_split)

lemma quiet_enqueue_new: "quiet bb (snd (enqueue_new bx info env a c d bb))"
  unfolding enqueue_new_def Let_def
  by (rule quiet.keeps_def [THEN iffD1, rule_format]) (intro quiet_steps)

section \<open>What executing a message does\<close>

text \<open>The gas of a successful run of the executor, bounded by \<open>G\<close>.\<close>

definition gas_bound :: "('s, 'b, 'c, 'm, 't, 'v, 'q) builder_lib \<Rightarrow> u64 \<Rightarrow> bool" where
  "gas_bound bx G \<longleftrightarrow>
     (\<forall>m c ps t g. er_result (bx_execute bx m c ps) = Inr t \<longrightarrow> bx_gas_used bx t = Some g \<longrightarrow> g \<le> G)"

definition executed_one ::
  "u64 \<Rightarrow> ('s, 'c, 'm, 'v, 'q) block_builder \<Rightarrow> ('s, 'c, 'm, 'v, 'q) block_builder \<Rightarrow> bool" where
  "executed_one G bb bb' \<longleftrightarrow>
     same_block bb bb' \<and> bb_total_message_processed bb' = Suc (bb_total_message_processed bb) \<and>
     (\<exists>g \<le> G. bb_total_gas_used bb' = bb_total_gas_used bb + g)"

lemma executed_one_quiet:
  "executed_one G bb bb1 \<Longrightarrow> quiet bb1 bb2 \<Longrightarrow> executed_one G bb bb2"
  by (auto simp: executed_one_def quiet_def intro: block.R_trans)

lemma try_prepare_effect:
  assumes "gas_bound bx G" "try_prepare_transaction bx c m lt bb = (r, bb')"
  shows "\<exists>g \<le> G. bb' = bb\<lparr>bb_total_gas_used := bb_total_gas_used bb + g\<rparr>"
proof -
  have zero: "\<exists>g \<le> G. bb = bb\<lparr>bb_total_gas_used := bb_total_gas_used bb + g\<rparr>"
    by (rule exI [of _ 0]) simp
  let ?run = "bx_execute bx m c
            \<lparr>ep_block_unixtime = fst (at_and_lt bb), ep_block_lt = snd (at_and_lt bb), ep_last_tr_lt = lt,
             ep_seed_block = bb_rand_seed bb, ep_debug = True,
             ep_signature_id = bx_state_global_id bx (bb_shard_state bb)\<rparr>"
  show ?thesis
  proof (cases "er_result ?run")
    case (Inl e)
    with assms(2) zero show ?thesis
      by (simp add: try_prepare_transaction_def Let_def split_beta)
  next
    case (Inr t)
    show ?thesis
    proof (cases "bx_gas_used bx t")
      case None
      with Inr assms(2) zero show ?thesis
        by (simp add: try_prepare_transaction_def Let_def split_beta)
    next
      case (Some g)
      with Inr assms(1) have "g \<le> G" by (auto simp: gas_bound_def)
      with Inr Some assms(2) show ?thesis
        by (auto simp: try_prepare_transaction_def Let_def split_beta)
    qed
  qed
qed

lemma execute_effect:
  assumes "gas_bound bx G" "builder_execute bx m a bb = (r, bb')"
  shows "executed_one G bb bb'"
proof -
  let ?b0 = "bb\<lparr>bb_total_message_processed := Suc (bb_total_message_processed bb)\<rparr>"
  have start: "executed_one G bb (?b0\<lparr>bb_total_gas_used := bb_total_gas_used bb + g\<rparr>)"
    if "g \<le> G" for g
    using that by (auto simp: executed_one_def same_block_def)
  have zero: "executed_one G bb ?b0"
    using start [of 0] by simp
  show ?thesis
  proof (cases "find_account bx a ?b0")
    case (Inl e)
    then show ?thesis
      using assms(2) zero by (simp add: builder_execute_def Let_def bindS_def)
  next
    case (Inr acc)
    obtain r1 b1 where prep: "try_prepare_transaction bx (bx_account_cell bx acc) m
        (max (bb_start_lt ?b0) (bx_last_trans_lt bx acc + 1)) ?b0 = (r1, b1)"
      by (metis prod.exhaust)
    from try_prepare_effect [OF assms(1) prep] have one: "executed_one G bb b1"
      using start by auto
    show ?thesis
    proof (cases r1)
      case (Inl e)
      then show ?thesis
        using assms(2) Inr prep one by (simp add: builder_execute_def Let_def bindS_def)
    next
      case (Inr x)
      obtain t lt trace root where x: "x = (t, lt, trace, root)" by (cases x)
      let ?t = "bx_set_prev_trans bx (bx_last_trans_hash bx acc) (bx_last_trans_lt bx acc) t"
      let ?rest = "bindS (\<lambda>bb. (Inr (), bb\<lparr>bb_end_lt := max (bb_end_lt bb) lt\<rparr>)) (\<lambda>_.
          bindS (liftS (lib_try (bx_transaction_cell bx ?t))) (\<lambda>tr_cell.
          bindS (\<lambda>bb. (Inr (), case trace of
            Some t \<Rightarrow> bb\<lparr>bb_transaction_traces :=
                (bb_transaction_traces bb)(bx_repr_hash bx tr_cell \<mapsto> t)\<rparr>
          | None \<Rightarrow> bb)) (\<lambda>_.
          bindS (liftS (lib_try (bx_is_aborted bx ?t))) (\<lambda>_.
          bindS (store_account bx a root tr_cell ?t) (\<lambda>_ bb.
          (Inr (), snd (add_raw_transaction bx ?t tr_cell bb)))))))"
      have "quiet.keeps (\<lambda>bb. (Inr (), snd (add_raw_transaction bx ?t c bb)))" for c
        using quiet_add_raw_transaction [of bx ?t c] by (simp add: quiet.keeps_def)
      then have "quiet.keeps ?rest"
        by (intro quiet_steps quiet_store_account)
      moreover have "?rest b1 = (r, bb')"
        using assms(2) \<open>find_account bx a ?b0 = Inr acc\<close> prep Inr x
        by (simp add: builder_execute_def Let_def bindS_def)
      ultimately show ?thesis
        using executed_one_quiet [OF one] quiet.keepsD by blast
    qed
  qed
qed

section \<open>The limits of a block\<close>

definition at_most_one ::
  "u64 \<Rightarrow> ('s, 'c, 'm, 'v, 'q) block_builder \<Rightarrow> ('s, 'c, 'm, 'v, 'q) block_builder \<Rightarrow> bool" where
  "at_most_one G bb bb' \<longleftrightarrow> quiet bb bb' \<or> executed_one G bb bb'"

lemma at_most_one_quiet: "at_most_one G bb bb1 \<Longrightarrow> quiet bb1 bb2 \<Longrightarrow> at_most_one G bb bb2"
  using executed_one_quiet quiet.R_trans by (auto simp: at_most_one_def)

definition within_limits :: "u64 \<Rightarrow> ('s, 'c, 'm, 'v, 'q) block_builder \<Rightarrow> bool" where
  "within_limits G bb \<longleftrightarrow>
     (is_seq (bb_time_mode bb) \<longrightarrow> bb_total_message_processed bb \<le> 1) \<and>
     unat (bb_total_gas_used bb) \<le> unat (bb_block_gas_limit bb) + unat G"

lemma within_limits_quiet: "within_limits G bb \<Longrightarrow> quiet bb bb' \<Longrightarrow> within_limits G bb'"
  by (simp add: within_limits_def quiet_def same_block_def)

lemma at_most_one_within:
  assumes "\<not> is_limits_reached bb" "at_most_one G bb bb'"
    and "unat (bb_block_gas_limit bb) + unat G < 2 ^ 64"
  shows "within_limits G bb'"
proof -
  have gas: "unat (bb_total_gas_used bb) \<le> unat (bb_block_gas_limit bb)"
    and seq: "is_seq (bb_time_mode bb) \<longrightarrow> bb_total_message_processed bb = 0"
    using assms(1) by (auto simp: is_limits_reached_def word_less_nat_alt)
  have "unat (bb_total_gas_used bb + g) \<le> unat (bb_block_gas_limit bb) + unat G" if "g \<le> G" for g
    using that gas assms(3) unat_word_ariths(1) [of "bb_total_gas_used bb" g]
    by (simp add: word_le_nat_alt)
  then show ?thesis
    using assms(2) gas seq
    by (auto simp: at_most_one_def within_limits_def quiet_def executed_one_def same_block_def)
qed

lemma at_most_one_same_block: "at_most_one G bb bb' \<Longrightarrow> same_block bb bb'"
  by (auto simp: at_most_one_def executed_one_def quiet_def)

text \<open>Before a message: the limits are not reached. After it: at most one message too many.\<close>

definition may_execute :: "u64 \<Rightarrow> ('s, 'c, 'm, 'v, 'q) block_builder \<Rightarrow> bool" where
  "may_execute G bb \<longleftrightarrow>
     \<not> is_limits_reached bb \<and> unat (bb_block_gas_limit bb) + unat G < 2 ^ 64"

definition limits_kept :: "u64 \<Rightarrow> ('s, 'c, 'm, 'v, 'q) block_builder \<Rightarrow> bool" where
  "limits_kept G bb \<longleftrightarrow> within_limits G bb \<and> unat (bb_block_gas_limit bb) + unat G < 2 ^ 64"

lemma may_execute_kept: "may_execute G bb \<Longrightarrow> limits_kept G bb"
  using at_most_one_within [of bb G bb]
  by (simp add: may_execute_def limits_kept_def at_most_one_def quiet.R_refl)

lemma limits_kept_quiet: "limits_kept G bb \<Longrightarrow> quiet bb bb' \<Longrightarrow> limits_kept G bb'"
  using within_limits_quiet [of G bb bb'] by (simp add: limits_kept_def quiet_def same_block_def)

lemma may_execute_quiet: "may_execute G bb \<Longrightarrow> quiet bb bb' \<Longrightarrow> may_execute G bb'"
  using quiet_limits [of bb bb'] by (simp add: may_execute_def quiet_def same_block_def)

lemma kept_may_execute: "limits_kept G bb \<Longrightarrow> \<not> is_limits_reached bb \<Longrightarrow> may_execute G bb"
  by (simp add: may_execute_def limits_kept_def)

lemma executed_kept: "may_execute G bb \<Longrightarrow> executed_one G bb bb' \<Longrightarrow> limits_kept G bb'"
  using at_most_one_within [of bb G bb']
  by (simp add: may_execute_def limits_kept_def at_most_one_def)
    (simp add: executed_one_def same_block_def)

lemma execute_kept:
  assumes "gas_bound bx G"
  shows "triple (may_execute G) (builder_execute bx m a) (\<lambda>_. limits_kept G) (limits_kept G)"
  by (auto simp: triple_def split: sum.splits intro: executed_kept [OF _ execute_effect [OF assms]])

lemma quiet_kept:
  "quiet.keeps m \<Longrightarrow> triple (limits_kept G) m (\<lambda>_. limits_kept G) (limits_kept G)"
  by (rule quiet.keeps_triple) (auto intro: limits_kept_quiet)

lemma lift_may_execute:
  "triple (may_execute G) (liftS r) (\<lambda>_. may_execute G) (limits_kept G)"
  by (rule triple_weaken [OF triple_liftS [where P = "may_execute G" and E = "limits_kept G"]])
    (auto intro: may_execute_kept)

definition phase_done :: "u64 \<Rightarrow> bool \<times> bool \<Rightarrow> ('s, 'c, 'm, 'v, 'q) block_builder \<Rightarrow> bool" where
  "phase_done G r bb \<longleftrightarrow> (if snd r then limits_kept G bb else may_execute G bb)"

lemma import_internal_kept:
  assumes "gas_bound bx G"
  shows "triple (may_execute G) (import_internal bx xs e) (phase_done G) (limits_kept G)"
proof (induction xs arbitrary: e)
  case Nil
  then show ?case by (auto simp: phase_done_def intro: triple_retS)
next
  case (Cons x xs)
  obtain key enq lt where x: "x = (key, enq, lt)" by (cases x)
  have exec: "triple (may_execute G) (case bx_dst_account bx msg of
      Some acc_id \<Rightarrow> builder_execute bx msg acc_id | None \<Rightarrow> retS ()) (\<lambda>_. limits_kept G) (limits_kept G)"
    for msg
    using execute_kept [OF assms] by (auto intro: triple_retS may_execute_kept split: option.splits)
  have loop: "triple (limits_kept G) (\<lambda>bb. if is_limits_reached bb then (Inr (False, True), bb)
     else import_internal bx xs False bb) (phase_done G) (limits_kept G)"
  proof -
    have "triple (\<lambda>bb. limits_kept G bb \<and> \<not> is_limits_reached bb) (import_internal bx xs False)
        (phase_done G) (limits_kept G)"
      by (rule triple_weaken [OF Cons.IH]) (auto intro: kept_may_execute)
    then show ?thesis
      unfolding triple_def by (auto simp: phase_done_def [of _ "(False, True)"] split: if_splits)
  qed
  show ?case
    unfolding x import_internal.simps
    by (rule triple_bindS [OF lift_may_execute] triple_bindS [OF exec]
        triple_bindS [OF quiet_kept] quiet_steps loop)+
qed

text \<open>The queue after messages of one workchain were taken from it, oldest first.\<close>

definition took ::
  "('m \<Rightarrow> i32 option) \<Rightarrow> i32 \<Rightarrow> 'm in_messages_queue \<Rightarrow> 'm in_messages_queue \<Rightarrow> bool" where
  "took wc_of wc q q' \<longleftrightarrow>
     mq_capacity q' = mq_capacity q \<and> mq_stopped q' = mq_stopped q \<and>
     (\<exists>taken. pending wc_of q wc = taken @ pending wc_of q' wc) \<and>
     (\<forall>wc'. wc' \<noteq> wc \<longrightarrow> pending wc_of q' wc' = pending wc_of q wc')"

lemma took_refl: "took wc_of wc q q"
  by (simp add: took_def)

lemma took_trans: "took wc_of wc q q1 \<Longrightarrow> took wc_of wc q1 q2 \<Longrightarrow> took wc_of wc q q2"
  by (fastforce simp: took_def)

lemma took_dequeue:
  assumes "mq_dequeue wc_of wc q = (r, q')"
  shows "took wc_of wc q q'"
proof (cases rule: mq_dequeue_cases [of wc_of q wc])
  case none
  with assms show ?thesis by (simp add: took_refl)
next
  case (some xs m ys)
  with assms have q': "q' = q\<lparr>mq_storage := xs @ ys\<rparr>" by simp
  have "filter (\<lambda>x. wc_of x = Some wc) xs = []"
    using some(2) by (simp add: filter_empty_conv)
  with some(1,3) show ?thesis by (simp add: took_def q' pending_def)
qed

lemma import_external_cases:
  assumes "import_external bx wc e (bb, q) = (r, (bb', q'))"
  obtains (none) "mq_dequeue (bx_dst_workchain bx) wc q = (None, q')" "r = Inr (e, False)" "bb' = bb"
  | (stuck) m where "mq_dequeue (bx_dst_workchain bx) wc q = (Some m, q')"
      "bx_dst_account bx m = None" "r = Inl (Panic ''int_dst_account_id'')" "bb' = bb"
  | (panic) m a p where "mq_dequeue (bx_dst_workchain bx) wc q = (Some m, q')"
      "bx_dst_account bx m = Some a" "builder_execute bx m a bb = (Inl (Panic p), bb')" "r = Inl (Panic p)"
  | (full) m a r1 where "mq_dequeue (bx_dst_workchain bx) wc q = (Some m, q')"
      "bx_dst_account bx m = Some a" "builder_execute bx m a bb = (r1, bb')"
      "is_limits_reached bb'" "r = Inr (False, True)"
  | (more) m a r1 bb1 q1 where "mq_dequeue (bx_dst_workchain bx) wc q = (Some m, q1)"
      "bx_dst_account bx m = Some a" "builder_execute bx m a bb = (r1, bb1)"
      "\<not> is_limits_reached bb1" "import_external bx wc False (bb1, q1) = (r, (bb', q'))"
proof -
  obtain o1 q1 where deq: "mq_dequeue (bx_dst_workchain bx) wc q = (o1, q1)"
    by (metis prod.exhaust)
  show thesis
  proof (cases o1)
    case None
    with assms deq show ?thesis by (intro none) (simp_all add: import_external.simps)
  next
    case (Some m)
    show ?thesis
    proof (cases "bx_dst_account bx m")
      case None
      with assms deq Some show ?thesis by (intro stuck) (simp_all add: import_external.simps)
    next
      case (Some a)
      obtain r1 bb1 where exec: "builder_execute bx m a bb = (r1, bb1)" by (metis prod.exhaust)
      note eq = assms [unfolded import_external.simps [of bx wc e bb q] deq \<open>o1 = Some m\<close> Some, simplified]
      show ?thesis
      proof (cases "\<exists>p. r1 = Inl (Panic p)")
        case True
        with eq exec deq \<open>o1 = Some m\<close> Some show ?thesis by (auto intro: panic)
      next
        case False
        then have "import_external bx wc e (bb, q) =
            (if is_limits_reached bb1 then (Inr (False, True), (bb1, q1))
             else import_external bx wc False (bb1, q1))"
          unfolding import_external.simps [of bx wc e bb q]
          using deq \<open>o1 = Some m\<close> Some exec
          by (auto split: sum.split fault.split)
        with assms exec deq \<open>o1 = Some m\<close> Some show ?thesis
          by (cases "is_limits_reached bb1") (auto intro: full more)
      qed
    qed
  qed
qed

lemma import_external_kept:
  assumes "gas_bound bx G"
  shows "may_execute G bb \<Longrightarrow> import_external bx wc e (bb, q) = (r, (bb', q')) \<Longrightarrow>
    (case r of Inr x \<Rightarrow> phase_done G x bb' | Inl _ \<Rightarrow> limits_kept G bb') \<and>
    took (bx_dst_workchain bx) wc q q' \<and>
    (is_seq (bb_time_mode bb) \<longrightarrow> mq_len q \<le> Suc (mq_len q'))"
proof (induction "mq_len q" arbitrary: e bb q rule: less_induct)
  case less
  have took: "took (bx_dst_workchain bx) wc q q1" if "mq_dequeue (bx_dst_workchain bx) wc q = (o1, q1)" for o1 q1
    using took_dequeue [OF that] .
  have len: "mq_len q \<le> Suc (mq_len q1)" if "mq_dequeue (bx_dst_workchain bx) wc q = (o1, q1)" for o1 q1
    using that by (cases rule: mq_dequeue_cases [of "bx_dst_workchain bx" q wc]) (auto simp: mq_len_def)
  have kept: "limits_kept G bb1" if "builder_execute bx m a bb = (r1, bb1)" for m a r1 bb1
    using executed_kept [OF less.prems(1) execute_effect [OF assms that]] .
  from less.prems(2) show ?case
  proof (cases rule: import_external_cases)
    case none
    with less.prems(1) took len show ?thesis by (auto simp: phase_done_def)
  next
    case (stuck m)
    with less.prems(1) took len show ?thesis by (auto intro: may_execute_kept)
  next
    case (panic m a p)
    with kept took len show ?thesis by auto
  next
    case (full m a r1)
    with kept took len show ?thesis by (auto simp: phase_done_def)
  next
    case (more m a r1 bb1 q1)
    from execute_effect [OF assms more(3)]
    have one: "bb_time_mode bb1 = bb_time_mode bb" "bb_total_message_processed bb1 \<noteq> 0"
      by (auto simp: executed_one_def same_block_def)
    with more(4) have not_seq: "\<not> is_seq (bb_time_mode bb)" by (auto simp: is_limits_reached_def)
    from less.hyps [OF mq_dequeue_shrinks [OF more(1)] kept_may_execute [OF kept [OF more(3)] more(4)] more(5)]
    show ?thesis using took_trans [OF took [OF more(1)]] not_seq by auto
  qed
qed

text \<open>The third phase.\<close>

definition drain_ready :: "u64 \<Rightarrow> bool \<Rightarrow> ('s, 'c, 'm, 'v, 'q) block_builder \<Rightarrow> bool" where
  "drain_ready G block_full bb \<longleftrightarrow> (if block_full then limits_kept G bb else may_execute G bb)"

lemma drain_ready_False: "drain_ready G False = may_execute G"
  by (simp add: drain_ready_def fun_eq_iff)

lemma drain_ready_kept: "drain_ready G full bb \<Longrightarrow> limits_kept G bb"
  by (auto simp: drain_ready_def intro: may_execute_kept split: if_splits)

lemma drain_ready_quiet: "drain_ready G full bb \<Longrightarrow> quiet bb bb' \<Longrightarrow> drain_ready G full bb'"
  by (auto simp: drain_ready_def intro: limits_kept_quiet may_execute_quiet split: if_splits)

lemma quiet_ready:
  "quiet.keeps m \<Longrightarrow> triple (drain_ready G full) m (\<lambda>_. drain_ready G full) (limits_kept G)"
  by (rule triple_weaken [OF quiet.keeps_triple [where P = "drain_ready G full" and Q = "drain_ready G full"]])
    (auto intro: drain_ready_quiet drain_ready_kept)

lemma drain_new_kept:
  assumes "gas_bound bx G"
  shows "triple (drain_ready G full) (drain_new bx ms full) (drain_ready G) (limits_kept G)"
proof (induction ms arbitrary: full)
  case Nil
  then show ?case by (auto intro: triple_retS)
next
  case (Cons x xs)
  obtain m c where x: "x = (m, c)" by (cases x)
  have ret: "triple (drain_ready G full) (retS full) (drain_ready G) (limits_kept G)" for full
    by (rule triple_retS)
  have enq: "quiet.keeps (enqueue_new bx info env a mc c)" for info env a mc
    by (simp add: quiet.keeps_def quiet_enqueue_new)
  have decide: "triple (limits_kept G) (\<lambda>bb. (Inr (if is_limits_reached bb then True else False), bb))
      (drain_ready G) (limits_kept G)"
    by (auto simp: triple_def drain_ready_def kept_may_execute)
  have exec: "triple (drain_ready G False) (bindS (builder_execute bx m a) (\<lambda>_ bb.
      (Inr (if is_limits_reached bb then True else False), bb))) (drain_ready G) (limits_kept G)" for a
    using triple_bindS [OF execute_kept [OF assms, of m a] decide] by (simp add: drain_ready_False)
  have branch: "triple (drain_ready G full)
      (if \<not> contains \<or> full then bindS (enqueue_new bx info env a mc c) (\<lambda>_. retS full)
       else bindS (builder_execute bx m a) (\<lambda>_ bb. (Inr (if is_limits_reached bb then True else full), bb)))
      (drain_ready G) (limits_kept G)" for contains info env a mc
    using triple_bindS [OF quiet_ready [OF enq] ret] exec [of a]
    by (auto cong: if_cong)
  show ?case
    unfolding x drain_new.simps Let_def
    by (rule triple_bindS [OF branch Cons.IH] triple_bindS [OF quiet_ready] quiet.keeps_intros)+
qed

lemma process_new_kept:
  assumes "gas_bound bx G" "process_new bx e full bb = Some (r, bb')" "drain_ready G full bb"
  shows "limits_kept G bb'"
proof -
  have "drain_ready G full bb \<longrightarrow> gas_bound bx G \<longrightarrow> limits_kept G (snd (r, bb'))"
  proof (rule process_new.raw_induct [where P = "\<lambda>bx e full bb y.
        drain_ready G full bb \<longrightarrow> gas_bound bx G \<longrightarrow> limits_kept G (snd y)", OF _ assms(2)])
    fix pn bx e full and bb :: "('a, 'c, 'd, 'f, 'g) block_builder" and y
    assume IH: "\<And>bx e full bb y. pn bx e full bb = Some y \<Longrightarrow>
        drain_ready G full bb \<longrightarrow> gas_bound bx G \<longrightarrow> limits_kept G (snd y)"
      and body: "(if bb_new_messages bb = [] then Some (Inr e, bb)
        else case drain_new bx (bb_new_messages bb) full (bb\<lparr>bb_new_messages := []\<rparr>) of
          (r, bb') \<Rightarrow> (case r of Inl e \<Rightarrow> Some (Inl e, bb') | Inr full' \<Rightarrow> pn bx False full' bb')) = Some y"
    show "drain_ready G full bb \<longrightarrow> gas_bound bx G \<longrightarrow> limits_kept G (snd y)"
    proof (intro impI)
      assume ready: "drain_ready G full bb" and gas: "gas_bound bx G"
      show "limits_kept G (snd y)"
      proof (cases "bb_new_messages bb = []")
        case True
        with body drain_ready_kept [OF ready] show ?thesis by auto
      next
        case False
        obtain r1 bb1 where drain: "drain_new bx (bb_new_messages bb) full (bb\<lparr>bb_new_messages := []\<rparr>) = (r1, bb1)"
          by (metis prod.exhaust)
        have "drain_ready G full (bb\<lparr>bb_new_messages := []\<rparr>)"
          using drain_ready_quiet [OF ready] by (simp add: quiet_def same_block_def)
        note t = drain_new_kept [OF gas] this drain
        show ?thesis
        proof (cases r1)
          case (Inl x)
          with body False drain triple_Inl [OF t(1,2)] show ?thesis by auto
        next
          case (Inr full')
          with body False drain have "pn bx False full' bb1 = Some y" by simp
          from IH [OF this] triple_Inr [OF t(1,2)] drain Inr gas show ?thesis by auto
        qed
      qed
    qed
  qed
  with assms(1,3) show ?thesis by simp
qed

section \<open>The parameters of the block\<close>

lemma gas_bound_max: "gas_bound bx (- 1)"
  by (simp add: gas_bound_def)

lemma block_of_quiet: "quiet.keeps m \<Longrightarrow> block.keeps m"
  by (auto simp: quiet.keeps_def block.keeps_def quiet_def)

lemma block_execute: "block.keeps (builder_execute bx m a)"
  unfolding block.keeps_def
  using execute_effect [OF gas_bound_max, of bx m a]
  by (metis executed_one_def prod.collapse)

text \<open>A relation that the passes of the third phase keep is kept by the phase.\<close>

lemma process_new_keeps:
  fixes R :: "('s, 'c, 'm, 'v, 'q) block_builder \<Rightarrow> ('s, 'c, 'm, 'v, 'q) block_builder \<Rightarrow> bool"
  assumes "step_relation R" "\<And>ms full. step_relation.keeps R (drain_new bx ms full)"
    and "\<And>bb. R bb (bb\<lparr>bb_new_messages := []\<rparr>)" "process_new bx e full bb = Some (r, bb')"
  shows "R bb bb'"
proof -
  note refl = step_relation.R_refl [OF assms(1)] and trans = step_relation.R_trans [OF assms(1)]
  have "bx' = bx \<longrightarrow> R bb (snd (r, bb'))" if "bx' = bx" for bx'
  proof (rule process_new.raw_induct [where P = "\<lambda>bx' e full bb y. bx' = bx \<longrightarrow> R bb (snd y)",
        OF _ assms(4) [folded that]])
    fix pn bx' e full bb and y :: "bool res \<times> ('s, 'c, 'm, 'v, 'q) block_builder"
    assume IH: "\<And>bx' e full bb y. pn bx' e full bb = Some y \<Longrightarrow> bx' = bx \<longrightarrow> R bb (snd y)"
      and body: "(if bb_new_messages bb = [] then Some (Inr e, bb)
        else case drain_new bx' (bb_new_messages bb) full (bb\<lparr>bb_new_messages := []\<rparr>) of
          (r, bb') \<Rightarrow> (case r of Inl e \<Rightarrow> Some (Inl e, bb') | Inr full' \<Rightarrow> pn bx' False full' bb')) = Some y"
    show "bx' = bx \<longrightarrow> R bb (snd y)"
    proof
      assume bx: "bx' = bx"
      obtain r1 bb1 where drain: "drain_new bx (bb_new_messages bb) full (bb\<lparr>bb_new_messages := []\<rparr>) = (r1, bb1)"
        by (metis prod.exhaust)
      have one: "R bb bb1"
        using trans [OF assms(3) step_relation.keepsD [OF assms(1,2) drain]] .
      show "R bb (snd y)"
        using body bx drain one IH [of bx False _ bb1 y] refl trans [OF one]
        by (cases "bb_new_messages bb = []"; cases r1) auto
    qed
  qed
  then show ?thesis by simp
qed

text \<open>The interface of the collator's loops: a relation that executing one message keeps, and that
  the changes of the outbound queue and of the lists of new messages keep, is kept by building
  a block.\<close>

locale builder_relation = step_relation R
  for R :: "('s, 'c, 'm, 'v, 'q) block_builder \<Rightarrow> ('s, 'c, 'm, 'v, 'q) block_builder \<Rightarrow> bool" +
  fixes bx :: "('s, 'b, 'c, 'm, 't, 'v, 'q) builder_lib"
  assumes keeps_execute: "keeps (builder_execute bx m a)"
    and keeps_out_queue: "keeps (on_out_queue (f :: 'q \<Rightarrow> (any_error + unit) \<times> 'q))"
    and keeps_out_descr: "keeps (on_out_descr (g :: 'v \<Rightarrow> (any_error + unit) \<times> 'v))"
    and R_new_messages: "R bb (bb\<lparr>bb_new_messages := []\<rparr>)"
begin

lemma keeps_import_internal: "keeps (import_internal bx xs e)"
proof (induction xs arbitrary: e)
  case Nil
  then show ?case by (auto intro: keeps_intros)
next
  case (Cons x xs)
  obtain key enq lt where x: "x = (key, enq, lt)" by (cases x)
  have exec: "keeps (case bx_dst_account bx msg of
      Some acc_id \<Rightarrow> builder_execute bx msg acc_id | None \<Rightarrow> retS ())" for msg
    by (auto intro: keeps_intros keeps_execute split: option.split)
  have loop: "keeps (\<lambda>bb. if is_limits_reached bb then (Inr (False, True), bb)
     else import_internal bx xs False bb)"
    using Cons.IH [of False] by (simp add: keeps_def R_refl)
  show ?case
    unfolding x import_internal.simps
    by (rule keeps_bindS exec loop keeps_liftS keeps_out_queue)+
qed

lemma R_import_external: "import_external bx wc e (bb, q) = (r, (bb', q')) \<Longrightarrow> R bb bb'"
proof (induction "mq_len q" arbitrary: e bb q rule: less_induct)
  case less
  have exec: "R bb bb1" if "builder_execute bx m a bb = (r1, bb1)" for m a r1 bb1
    using keepsD [OF keeps_execute that] .
  from less.prems show ?case
    by (cases rule: import_external_cases)
      (auto simp: R_refl intro: exec R_trans [OF exec less.hyps [OF mq_dequeue_shrinks]])
qed

lemma keeps_enqueue_new: "keeps (enqueue_new bx info env a c d)"
proof -
  have "keeps (\<lambda>bb0. bindS (liftS (lib_try (bx_enqueued bx (ih_created_lt info) env))) (\<lambda>enq.
      bindS (liftS (lib_try (bx_next_u64 bx a))) (\<lambda>prefix.
      bindS (liftS (lib_try (bx_enq_aug bx enq))) (\<lambda>aug.
      bindS (on_out_queue (bx_queue_set bx (out_msg_key bx prefix (bx_repr_hash bx c) bb) enq aug)) (\<lambda>_.
      bindS (liftS (lib_try (bx_out_aug bx (bx_out_new bx enq d)))) (\<lambda>aug.
      on_out_descr (bx_out_set bx (bx_repr_hash bx c) (bx_out_new bx enq d) aug)))))) bb0)" for bb
    by (rule keeps_bindS keeps_liftS keeps_out_queue keeps_out_descr)+
  then show ?thesis by (simp add: keeps_def enqueue_new_def Let_def)
qed

lemma keeps_drain_new: "keeps (drain_new bx ms full)"
proof (induction ms arbitrary: full)
  case Nil
  then show ?case by (auto intro: keeps_intros)
next
  case (Cons x xs)
  obtain m c where x: "x = (m, c)" by (cases x)
  have branch: "keeps
      (if \<not> contains \<or> full then bindS (enqueue_new bx info env a mc c) (\<lambda>_. retS full)
       else bindS (builder_execute bx m a) (\<lambda>_ bb. (Inr (if is_limits_reached bb then True else full), bb)))"
    for contains info env a mc
    by (auto intro!: keeps_intros keeps_execute keeps_enqueue_new)
  show ?case
    unfolding x drain_new.simps Let_def
    by (rule keeps_bindS branch Cons.IH keeps_liftS keeps_ask)+
qed

lemma R_process_new: "process_new bx e full bb = Some (r, bb') \<Longrightarrow> R bb bb'"
  by (rule process_new_keeps [OF step_relation_axioms keeps_drain_new R_new_messages])

lemma R_import_messages:
  assumes "import_messages bx (bb, q) = (r, (bb', q'))"
  shows "R bb bb'"
proof (cases "sorted_out_queue bx (bb_out_queue_info bb)")
  case (Inl e)
  with assms show ?thesis by (simp add: import_messages_def R_refl)
next
  case (Inr outs)
  obtain r2 b2 where int: "import_internal bx outs True bb = (r2, b2)" by (metis prod.exhaust)
  have "R bb b2" using keepsD [OF keeps_import_internal int] .
  with assms Inr int show ?thesis
    by (auto simp: import_messages_def split: sum.splits if_splits intro: R_trans [OF _ R_import_external])
qed

lemma R_build_messages:
  assumes "build_messages bx (bb, q) = Some (r, (bb', q'))"
  shows "R bb bb'"
proof -
  obtain r1 b1 q1 where i: "import_messages bx (bb, q) = (r1, (b1, q1))" by (metis prod.exhaust)
  show ?thesis
    using assms i R_import_messages [OF i] R_process_new
    by (cases r1) (auto simp: build_messages_def intro: R_trans)
qed

end

interpretation block_rel: builder_relation same_block bx for bx
proof unfold_locales
  show "block.keeps (builder_execute bx m a)" for m a by (rule block_execute)
  show "block.keeps (on_out_queue f)" "block.keeps (on_out_descr g)" for f g
    by (intro block_of_quiet quiet_on)+
qed (simp add: same_block_def)

lemmas block_import_internal = block_rel.keeps_import_internal
  and block_import_external = block_rel.R_import_external
  and block_drain_new = block_rel.keeps_drain_new
  and build_messages_same_block = block_rel.R_build_messages

section \<open>Properties of a built block\<close>

text \<open>Documented behaviour of the header's setters and of reading the header back.\<close>

definition header_ok ::
  "('s, 'b, 'c) block_lib \<Rightarrow> ('s, 'b, 'c, 'm, 't, 'v, 'q) builder_lib \<Rightarrow> bool" where
  "header_ok lib bx \<longleftrightarrow>
     (\<forall>n i i'. bx_info_set_seq_no bx n i = Inr i' \<longrightarrow> i' = i\<lparr>bi_seq_no := n\<rparr>) \<and>
     (\<forall>prev i i'. bx_info_set_prev bx prev i = Inr i' \<longrightarrow> i' = i\<lparr>bi_prev := Some prev\<rparr>) \<and>
     (\<forall>g i vf ex b. bx_block bx g i vf ex = Inr b \<longrightarrow> bl_read_info lib b = Inr i)"

lemma builder_new_sel:
  assumes "builder_with_params bx seed st prev time mode limit prov = Inr bb" "header_ok lib bx"
  shows "bx_read_accounts bx st = Inr (bb_accounts bb)"
    and "bx_read_out_queue bx st = Inr (bb_out_queue_info bb)"
    and "bb_block_info bb = (bx_default_info bx)\<lparr>bi_shard := bx_state_shard bx st,
      bi_seq_no := bx_state_seq_no bx st + 1, bi_prev := Some prev, bi_gen_utime := time,
      bi_start_lt := prev1_end_lt prev + 1\<rparr>"
    and "bb_start_lt bb = prev1_end_lt prev + 1" "bb_end_lt bb = bb_start_lt bb + 1"
  using assms by (auto simp: builder_with_params_def header_ok_def bindR_eq_Inr Let_def)

lemma builder_new_start:
  assumes "builder_with_params bx seed st prev time mode limit prov = Inr bb"
  shows "bb_new_messages bb = []" "bb_total_gas_used bb = 0" "bb_total_message_processed bb = 0"
    "bb_block_gas_limit bb = limit" "bb_time_mode bb = mode" "bb_shard_state bb = st"
    "bx_read_out_queue bx st = Inr (bb_out_queue_info bb)"
  using assms by (auto simp: builder_with_params_def bindR_eq_Inr Let_def)

lemma finalize_block_info:
  assumes "finalize_block bx bb = Inr (b, st')" "header_ok lib bx"
  shows "bl_read_info lib b =
    Inr ((bb_block_info bb)\<lparr>bi_end_lt := max (bb_end_lt bb) (bb_start_lt bb + 1)\<rparr>)"
  using assms by (auto simp: finalize_block_def header_ok_def bindR_eq_Inr Let_def)

lemma build_block_parts:
  assumes "build_block bx bb q = Some (Inr p, q')"
  obtains bb' where "build_messages bx (bb, q) = Some (Inr (prep_is_empty p), (bb', q'))"
    "finalize_block bx (bb'\<lparr>bb_transaction_traces := Map.empty\<rparr>) = Inr (prep_block p, prep_state p)"
    "prep_traces p = bb_transaction_traces bb'"
  using assms by (fastforce simp: build_block_def bindR_eq_Inr Let_def)

lemma built_block_header:
  assumes "header_ok lib bx" "unat (prev1_end_lt prev) + 2 < 2 ^ 64"
    and "builder_with_params bx seed st prev time mode limit prov = Inr bb"
    and "build_block bx bb q = Some (Inr p, q')"
  shows "\<exists>info. bl_read_info lib (prep_block p) = Inr info \<and>
    bi_seq_no info = bx_state_seq_no bx st + 1 \<and> bi_prev info = Some prev \<and>
    bi_gen_utime info = time \<and> bi_shard info = bx_state_shard bx st \<and>
    bi_start_lt info = prev1_end_lt prev + 1 \<and>
    prev1_end_lt prev < bi_start_lt info \<and> bi_start_lt info < bi_end_lt info"
proof -
  obtain bb' where b: "build_messages bx (bb, q) = Some (Inr (prep_is_empty p), (bb', q'))"
      "finalize_block bx (bb'\<lparr>bb_transaction_traces := Map.empty\<rparr>) = Inr (prep_block p, prep_state p)"
    using build_block_parts [OF assms(4)] by blast
  from build_messages_same_block [OF b(1)]
  have same: "bb_block_info bb' = bb_block_info bb" "bb_start_lt bb' = bb_start_lt bb"
    by (auto simp: same_block_def)
  note new = builder_new_sel [OF assms(3,1)]
  have lt: "prev1_end_lt prev < prev1_end_lt prev + 1"
      "prev1_end_lt prev + 1 < prev1_end_lt prev + 1 + 1"
    using assms(2) by (auto simp: word_less_nat_alt unat_word_ariths(1))
  have "prev1_end_lt prev + 1 < max (bb_end_lt bb') (bb_start_lt bb' + 1)"
    using lt(2) new(4) same(2) by (simp add: less_max_iff_disj)
  then show ?thesis
    using finalize_block_info [OF b(2) assms(1)] new same lt(1) by simp
qed

text \<open>\<^bold>\<open>C18\<close>. The header of a built block: its number follows the shard state's, it names the
  previous block, it has the time and the shard it was built for, its logical time starts
  right after the previous block's end and ends after its own start, so that logical time
  strictly grows from block to block (below \<open>2 ^ 64 - 2\<close>).\<close>

theorem built_block_follows_previous:
  assumes "header_ok lib bx" "unat (prev1_end_lt prev) + 2 < 2 ^ 64"
    and "builder_with_params bx seed st prev time mode limit prov = Inr bb"
    and "build_block bx bb q = Some (Inr p, q')"
  shows "\<exists>info. bl_read_info lib (prep_block p) = Inr info \<and>
    bi_seq_no info = bx_state_seq_no bx st + 1 \<and> bi_prev info = Some prev \<and>
    bi_gen_utime info = time \<and> bi_shard info = bx_state_shard bx st \<and>
    bi_start_lt info = prev1_end_lt prev + 1 \<and>
    prev1_end_lt prev < bi_start_lt info \<and> bi_start_lt info < bi_end_lt info"
  using assms by (rule built_block_header)

text \<open>\<^bold>\<open>C19\<close>. The limits of a block: whether building it succeeds or fails, the gas of its
  transactions exceeds the gas limit by at most one transaction, and in sequential mode it
  executes at most one message and takes at most one from the inbound queue. From that
  queue only messages of the shard's workchain are taken, the oldest first.\<close>

theorem block_limits_are_kept:
  assumes "gas_bound bx G" "unat limit + unat G < 2 ^ 64"
    and "builder_with_params bx seed st prev time mode limit prov = Inr bb"
    and "build_messages bx (bb, q) = Some (r, (bb', q'))"
  shows "unat (bb_total_gas_used bb') \<le> unat limit + unat G \<and>
    \<not> (mode = Seq \<and> (bb_total_message_processed bb' > 1 \<or> mq_len q > Suc (mq_len q'))) \<and>
    took (bx_dst_workchain bx) (si_workchain_id (bx_state_shard bx st)) q q'"
proof -
  note new = builder_new_start [OF assms(3)]
  have ready: "may_execute G bb"
    using assms(2) new by (simp add: may_execute_def is_limits_reached_def)
  obtain r1 b1 q1 where i: "import_messages bx (bb, q) = (r1, (b1, q1))" by (metis prod.exhaust)
  have imp: "(case r1 of Inr x \<Rightarrow> phase_done G x b1 | Inl _ \<Rightarrow> limits_kept G b1) \<and>
      took (bx_dst_workchain bx) (si_workchain_id (bx_state_shard bx st)) q q1 \<and>
      (is_seq (bb_time_mode bb) \<longrightarrow> mq_len q \<le> Suc (mq_len q1))"
  proof (cases "sorted_out_queue bx (bb_out_queue_info bb)")
    case (Inl e)
    with i ready show ?thesis by (auto simp: import_messages_def took_refl may_execute_kept)
  next
    case (Inr outs)
    obtain r2 b2 where int: "import_internal bx outs True bb = (r2, b2)" by (metis prod.exhaust)
    note kept = import_internal_kept [OF assms(1), of outs True]
    show ?thesis
    proof (cases "\<exists>e. r2 = Inr (e, False)")
      case True
      then obtain e where e: "r2 = Inr (e, False)" ..
      have b2: "may_execute G b2" using triple_Inr [OF kept ready] int e by (auto simp: phase_done_def)
      have st: "bb_shard_ident bx b2 = bx_state_shard bx st" "bb_time_mode b2 = bb_time_mode bb"
        using block.keepsD [OF block_import_internal int] new(6)
        by (auto simp: same_block_def bb_shard_ident_def)
      have "import_external bx (si_workchain_id (bx_state_shard bx st)) e (b2, q) = (r1, (b1, q1))"
        using i Inr int e st by (simp add: import_messages_def)
      from import_external_kept [OF assms(1) b2 this] st(2) show ?thesis by simp
    next
      case False
      show ?thesis
      proof (cases r2)
        case (Inl x)
        with i \<open>sorted_out_queue bx _ = Inr outs\<close> int have "r1 = Inl x" "b1 = b2" "q1 = q"
          by (simp_all add: import_messages_def)
        with triple_Inl [OF kept ready] int Inl show ?thesis by (simp add: took_refl)
      next
        case (Inr x)
        with False obtain e where x: "r2 = Inr (e, True)" by (cases x) auto
        with i \<open>sorted_out_queue bx _ = Inr outs\<close> int have "r1 = Inr (e, True)" "b1 = b2" "q1 = q"
          by (simp_all add: import_messages_def)
        with triple_Inr [OF kept ready] int x show ?thesis by (simp add: took_refl)
      qed
    qed
  qed
  have final: "limits_kept G bb' \<and> q' = q1"
  proof (cases r1)
    case (Inl e)
    with assms(4) i imp show ?thesis by (auto simp: build_messages_def)
  next
    case (Inr x)
    then obtain e full where x: "r1 = Inr (e, full)" by (cases x) auto
    with imp have "drain_ready G full b1" by (simp add: phase_done_def drain_ready_def)
    with assms(4) i x process_new_kept [OF assms(1)] show ?thesis
      by (auto simp: build_messages_def)
  qed
  have "bb_block_gas_limit bb' = limit" "bb_time_mode bb' = mode"
    using build_messages_same_block [OF assms(4)] new by (auto simp: same_block_def)
  with final imp new(5) show ?thesis
    by (auto simp: limits_kept_def within_limits_def)
qed

end
