(* ===== verification/Builder_Flow.thy ===== *)
theory Builder_Flow
  imports Builder_Props
begin

text \<open>
  Which messages a block takes and makes: when a block is empty, that a full block only
  forwards the new messages, that building a block ends, and what a failed build leaves
  of the inbound queue.
\<close>

section \<open>Empty blocks\<close>

lemma collect_out_queue_length:
  "collect_out_queue bx outs = Inr xs \<Longrightarrow> length xs = length outs"
  by (induction outs arbitrary: xs) (auto simp: bindR_eq_Inr split: prod.splits)

lemma sorted_out_queue_Nil:
  "sorted_out_queue bx oq = Inr outs \<Longrightarrow> outs = [] \<longleftrightarrow> bx_queue_iter bx oq = []"
proof -
  assume "sorted_out_queue bx oq = Inr outs"
  then obtain xs where xs: "collect_out_queue bx (bx_queue_iter bx oq) = Inr xs"
      "outs = sort_key (\<lambda>(key, enq, lt). lt) xs"
    by (auto simp: sorted_out_queue_def bindR_eq_Inr)
  have "length outs = length (bx_queue_iter bx oq)"
    using collect_out_queue_length [OF xs(1)] xs(2) by simp
  then show ?thesis by (cases outs; cases "bx_queue_iter bx oq") simp_all
qed

lemma import_internal_flag:
  "triple (\<lambda>_. True) (import_internal bx xs e) (\<lambda>r _. fst r = (e \<and> xs = [])) (\<lambda>_. True)"
proof (induction xs arbitrary: e)
  case Nil
  then show ?case by (auto intro: triple_retS)
next
  case (Cons x xs)
  obtain key enq lt where x: "x = (key, enq, lt)" by (cases x)
  have loop: "triple (\<lambda>_. True) (\<lambda>bb. if is_limits_reached bb then (Inr (False, True), bb)
     else import_internal bx xs False bb) (\<lambda>r _. fst r = (e \<and> x # xs = [])) (\<lambda>_. True)"
    using Cons.IH [of False] by (auto simp: triple_def split: sum.splits)
  show ?case
    unfolding x import_internal.simps
    by (rule loop [unfolded x] triple_bindS [OF triple_any])+
qed

lemma import_external_flag:
  "import_external bx wc e (bb, q) = (Inr (e', full), (bb', q')) \<Longrightarrow>
   e' = (e \<and> pending (bx_dst_workchain bx) q wc = []) \<and> (e' \<longrightarrow> bb' = bb \<and> q' = q)"
proof (induction "mq_len q" arbitrary: e bb q rule: less_induct)
  case less
  have ne: "pending (bx_dst_workchain bx) q wc \<noteq> []"
    if "mq_dequeue (bx_dst_workchain bx) wc q = (Some m, q1)" for m q1
    using that by (cases rule: mq_dequeue_cases [of "bx_dst_workchain bx" q wc]) (auto simp: pending_def)
  have none: "pending (bx_dst_workchain bx) q wc = [] \<and> q1 = q"
    if "mq_dequeue (bx_dst_workchain bx) wc q = (None, q1)" for q1
    using that by (cases rule: mq_dequeue_cases [of "bx_dst_workchain bx" q wc]) auto
  from less.prems show ?case
  proof (cases rule: import_external_cases)
    case (more m a r1 bb1 q1)
    from less.hyps [OF mq_dequeue_shrinks [OF more(1)] more(5)] ne [OF more(1)] show ?thesis by simp
  qed (use ne none in auto)
qed

lemma process_new_flag:
  fixes bx :: "('s, 'b, 'c, 'm, 't, 'v, 'q) builder_lib"
  assumes "process_new bx False full bb = Some (Inr e, bb')"
  shows "\<not> e"
proof -
  have "\<not> e0 \<longrightarrow> (case fst y of Inr e \<Rightarrow> \<not> e | Inl _ \<Rightarrow> True)" if "process_new bx e0 full bb = Some y" for e0 y
  proof (rule process_new.raw_induct [where P = "\<lambda>bx e0 full bb y.
        \<not> e0 \<longrightarrow> (case fst y of Inr e \<Rightarrow> \<not> e | Inl _ \<Rightarrow> True)", OF _ that])
    fix pn :: "('s, 'b, 'c, 'm, 't, 'v, 'q) builder_lib \<Rightarrow> bool \<Rightarrow> bool \<Rightarrow>
      ('s, 'c, 'm, 'v, 'q) block_builder \<Rightarrow> (bool res \<times> ('s, 'c, 'm, 'v, 'q) block_builder) option"
      and bx e0 full bb y
    assume "\<And>bx e0 full bb y. pn bx e0 full bb = Some y \<Longrightarrow>
        \<not> e0 \<longrightarrow> (case fst y of Inr e \<Rightarrow> \<not> e | Inl _ \<Rightarrow> True)"
      and "(if bb_new_messages bb = [] then Some (Inr e0, bb)
        else case drain_new bx (bb_new_messages bb) full (bb\<lparr>bb_new_messages := []\<rparr>) of
          (r, bb') \<Rightarrow> (case r of Inl e \<Rightarrow> Some (Inl e, bb') | Inr full' \<Rightarrow> pn bx False full' bb')) = Some y"
    note IH = this(1) and body = this(2)
    show "\<not> e0 \<longrightarrow> (case fst y of Inr e \<Rightarrow> \<not> e | Inl _ \<Rightarrow> True)"
    proof (cases "bb_new_messages bb = []")
      case True
      with body show ?thesis by auto
    next
      case False
      obtain r1 bb1 where drain: "drain_new bx (bb_new_messages bb) full (bb\<lparr>bb_new_messages := []\<rparr>) = (r1, bb1)"
        by (metis prod.exhaust)
      with False body IH [of bx False _ bb1 y] show ?thesis by (cases r1) auto
    qed
  qed
  from this [OF assms] show ?thesis by simp
qed

lemma process_new_simps:
  "bb_new_messages bb = [] \<Longrightarrow> process_new bx e full bb = Some (Inr e, bb)"
  by (subst process_new.simps) simp

lemma build_block_empty:
  assumes "builder_with_params bx seed st prev time mode limit prov = Inr bb"
    and "bx_read_out_queue bx st = Inr out_queue"
    and "build_block bx bb q = Some (Inr p, q')"
  shows "prep_is_empty p =
      (bx_queue_iter bx out_queue = [] \<and>
       pending (bx_dst_workchain bx) q (si_workchain_id (bx_state_shard bx st)) = []) \<and>
    \<not> (prep_is_empty p \<and> q' \<noteq> q)"
proof -
  note new = builder_new_start [OF assms(1)]
  let ?wc = "si_workchain_id (bx_state_shard bx st)"
  obtain bb' where b: "build_messages bx (bb, q) = Some (Inr (prep_is_empty p), (bb', q'))"
    using build_block_parts [OF assms(3)] by blast
  obtain e1 full b1 where i: "import_messages bx (bb, q) = (Inr (e1, full), (b1, q'))"
      and pn: "process_new bx e1 full b1 = Some (Inr (prep_is_empty p), bb')"
  proof -
    obtain r1 b1 q1 where i: "import_messages bx (bb, q) = (r1, (b1, q1))" by (metis prod.exhaust)
    with b obtain e1 full where r1: "r1 = Inr (e1, full)"
      by (cases r1) (auto simp: build_messages_def)
    with b i have "process_new bx e1 full b1 = Some (Inr (prep_is_empty p), bb')" "q1 = q'"
      by (auto simp: build_messages_def)
    with i r1 that show thesis by blast
  qed
  obtain outs e2 full2 b2 where o2: "sorted_out_queue bx out_queue = Inr outs"
      "import_internal bx outs True bb = (Inr (e2, full2), b2)"
  proof -
    obtain outs where o2: "sorted_out_queue bx out_queue = Inr outs"
      using i new(7) assms(2) by (cases "sorted_out_queue bx out_queue") (auto simp: import_messages_def)
    obtain r2 b2 where int: "import_internal bx outs True bb = (r2, b2)" by (metis prod.exhaust)
    with i o2 new(7) assms(2) obtain e2 full2 where "r2 = Inr (e2, full2)"
      by (cases r2) (auto simp: import_messages_def)
    with int o2 that show thesis by blast
  qed
  have e2: "e2 = (bx_queue_iter bx out_queue = [])"
    using triple_Inr [OF import_internal_flag _ o2(2)] sorted_out_queue_Nil [OF o2(1)] by simp
  have wc: "bb_shard_ident bx b2 = bx_state_shard bx st"
    using block.keepsD [OF block_import_internal o2(2)] new(6)
    by (simp add: same_block_def bb_shard_ident_def)
  have empty_first: "b2 = bb \<and> \<not> full2" if e2
    using that e2 o2 sorted_out_queue_Nil [OF o2(1)] by (simp add: retS_def)
  have e1: "e1 = (e2 \<and> pending (bx_dst_workchain bx) q ?wc = []) \<and> (e1 \<longrightarrow> b1 = bb \<and> q' = q)"
  proof (cases full2)
    case True
    with empty_first i o2 new(7) assms(2) show ?thesis by (auto simp: import_messages_def)
  next
    case False
    then have "import_external bx ?wc e2 (b2, q) = (Inr (e1, full), (b1, q'))"
      using i o2 new(7) assms(2) wc by (simp add: import_messages_def)
    from import_external_flag [OF this] empty_first show ?thesis by auto
  qed
  have "prep_is_empty p = e1"
  proof (cases e1)
    case True
    with e1 new(1) pn process_new_simps [of b1 bx e1 full] show ?thesis by simp
  next
    case False
    with pn process_new_flag [of bx full b1] show ?thesis by simp
  qed
  with e1 e2 show ?thesis by auto
qed

text \<open>\<^bold>\<open>C20\<close>. A block is empty exactly when the shard's outbound queue was empty and the
  inbound queue held no message for its workchain; an empty block takes nothing from the
  inbound queue. So a chain stops making blocks only when it has nothing to do.\<close>

theorem block_is_empty_iff_no_message:
  assumes "builder_with_params bx seed st prev time mode limit prov = Inr bb"
    and "bx_read_out_queue bx st = Inr out_queue"
    and "build_block bx bb q = Some (Inr p, q')"
  shows "prep_is_empty p =
      (bx_queue_iter bx out_queue = [] \<and>
       pending (bx_dst_workchain bx) q (si_workchain_id (bx_state_shard bx st)) = []) \<and>
    \<not> (prep_is_empty p \<and> q' \<noteq> q)"
  using assms by (rule build_block_empty)

section \<open>A full block only forwards\<close>

definition forwards ::
  "('s, 'c, 'm, 'v, 'q) block_builder \<Rightarrow> ('s, 'c, 'm, 'v, 'q) block_builder \<Rightarrow> bool" where
  "forwards bb bb' \<longleftrightarrow>
     quiet bb bb' \<and> bb_accounts bb' = bb_accounts bb \<and> bb_new_messages bb' = bb_new_messages bb \<and>
     bb_account_blocks bb' = bb_account_blocks bb \<and> bb_in_msg_descr bb' = bb_in_msg_descr bb"

interpretation fwd: step_relation forwards
  by unfold_locales (auto simp: forwards_def intro: quiet.R_refl quiet.R_trans)

lemma fwd_on: "fwd.keeps (on_out_descr m)" "fwd.keeps (on_out_queue n)"
  using quiet_on(3) [of m] quiet_on(6) [of n]
  by (auto simp: fwd.keeps_def quiet.keeps_def forwards_def on_out_descr_def on_out_queue_def
      split: prod.splits)

lemma fwd_enqueue_new: "forwards bb (snd (enqueue_new bx info env a c d bb))"
  unfolding enqueue_new_def Let_def
  by (rule fwd.keeps_def [THEN iffD1, rule_format]) (intro fwd.keeps_intros fwd_on)

lemma fwd_ready: "fwd.keeps m \<Longrightarrow> triple (forwards bb0) m (\<lambda>_. forwards bb0) (forwards bb0)"
  by (rule fwd.keeps_triple) (auto intro: fwd.R_trans)

lemma drain_full:
  "triple (forwards bb0) (drain_new bx ms True) (\<lambda>full bb. full \<and> forwards bb0 bb) (forwards bb0)"
proof (induction ms)
  case Nil
  then show ?case by (auto intro: triple_retS)
next
  case (Cons x xs)
  obtain m c where x: "x = (m, c)" by (cases x)
  have enq: "fwd.keeps (enqueue_new bx info env a mc c)" for info env a mc
    by (simp add: fwd.keeps_def fwd_enqueue_new)
  have branch: "triple (forwards bb0)
      (if \<not> contains \<or> True then bindS (enqueue_new bx info env a mc c) (\<lambda>_. retS True)
       else bindS (builder_execute bx m a) (\<lambda>_ bb. (Inr (if is_limits_reached bb then True else True), bb)))
      (\<lambda>full bb. full \<and> forwards bb0 bb) (forwards bb0)" for contains info env a mc
    by (auto intro!: triple_bindS [OF fwd_ready [OF enq]] triple_retS)
  have rest: "triple (\<lambda>bb. full \<and> forwards bb0 bb) (drain_new bx xs full)
      (\<lambda>full bb. full \<and> forwards bb0 bb) (forwards bb0)" for full
    using Cons.IH by (cases full) (auto simp: triple_def)
  show ?case
    unfolding x drain_new.simps Let_def
    by (rule triple_bindS [OF branch rest] triple_bindS [OF fwd_ready] fwd.keeps_intros)+
qed

lemma process_full:
  obtains r bb' where "process_new bx e True bb = Some (r, bb')"
    "forwards (bb\<lparr>bb_new_messages := []\<rparr>) bb'"
proof -
  let ?b0 = "bb\<lparr>bb_new_messages := []\<rparr>"
  obtain r1 b1 where drain: "drain_new bx (bb_new_messages bb) True ?b0 = (r1, b1)"
    by (metis prod.exhaust)
  have b1: "forwards ?b0 b1"
    using triple_Inr [OF drain_full fwd.R_refl, of bx "bb_new_messages bb" ?b0]
      triple_Inl [OF drain_full fwd.R_refl, of bx "bb_new_messages bb" ?b0] drain
    by (cases r1) auto
  show thesis
  proof (cases "bb_new_messages bb = []")
    case True
    then have "?b0 = bb" by simp
    with True show ?thesis
      using that [of "Inr e" bb] process_new_simps [of bb bx e True] fwd.R_refl by metis
  next
    case False
    show ?thesis
    proof (cases r1)
      case (Inl x)
      with False drain have "process_new bx e True bb = Some (Inl x, b1)"
        by (subst process_new.simps) simp
      with b1 that show ?thesis by blast
    next
      case (Inr full)
      have "bb_new_messages b1 = []" using b1 by (simp add: forwards_def)
      with False drain Inr have "process_new bx e True bb = Some (Inr False, b1)"
        by (subst process_new.simps) (simp add: process_new_simps)
      with b1 that show ?thesis by blast
    qed
  qed
qed

text \<open>Where a forwarded message ends up: its key in the outbound queue.\<close>

definition new_msg_key ::
  "('s, 'b, 'c, 'm, 't, 'v, 'q) builder_lib \<Rightarrow> ('s, 'c, 'm, 'v, 'q) block_builder \<Rightarrow> 'm \<Rightarrow> 'v \<Rightarrow> bool" where
  "new_msg_key bx bb m key \<longleftrightarrow>
     (\<exists>cell prefix. bx_msg_cell bx m = Inr cell \<and>
        bx_next_u64 bx (case bx_dst_account bx m of Some a \<Rightarrow> a | None \<Rightarrow> bx_default_account_id bx)
          = Inr prefix \<and>
        key = out_msg_key bx prefix (bx_repr_hash bx cell) bb)"

text \<open>Documented behaviour of the dictionary: after an insertion the key is there, and the
  keys there before stay.\<close>

definition queue_keys_ok ::
  "('s, 'b, 'c, 'm, 't, 'v, 'q) builder_lib \<Rightarrow> ('q \<Rightarrow> 'v set) \<Rightarrow> bool" where
  "queue_keys_ok bx keys \<longleftrightarrow>
     (\<forall>k e a q q'. bx_queue_set bx k e a q = (Inr (), q') \<longrightarrow> keys q' = insert k (keys q))"

lemma enqueue_new_key:
  assumes "queue_keys_ok bx keys"
    and "enqueue_new bx info env acc_id cell c bb = (Inr (), bb')"
    and "acc_id = (case bx_dst_account bx m of Some a \<Rightarrow> a | None \<Rightarrow> bx_default_account_id bx)"
    and "bx_msg_cell bx m = Inr cell"
  shows "\<exists>key. new_msg_key bx bb m key \<and> keys (bb_out_queue_info bb') = insert key (keys (bb_out_queue_info bb))"
proof -
  obtain enq where e: "bx_enqueued bx (ih_created_lt info) env = Inr enq"
    using assms(2) by (cases "bx_enqueued bx (ih_created_lt info) env") (auto simp: enqueue_new_def)
  obtain prefix where p: "bx_next_u64 bx acc_id = Inr prefix"
    using assms(2) e by (cases "bx_next_u64 bx acc_id") (auto simp: enqueue_new_def)
  let ?key = "out_msg_key bx prefix (bx_repr_hash bx cell) bb"
  obtain aug where g: "bx_enq_aug bx enq = Inr aug"
    using assms(2) e p by (cases "bx_enq_aug bx enq") (auto simp: enqueue_new_def Let_def)
  obtain r q' where q: "bx_queue_set bx ?key enq aug (bb_out_queue_info bb) = (r, q')"
    by (metis prod.exhaust)
  have *: "r = Inr ()" "bb_out_queue_info bb' = q'"
    using assms(2) e p g q
    by (cases r; cases "bx_out_aug bx (bx_out_new bx enq c)";
        auto simp: enqueue_new_def Let_def bindS_def on_out_queue_def on_out_descr_def liftS_def
        split: prod.splits)+
  note * = p q [unfolded *(1)] *(2)
  with assms(1,3,4) show ?thesis
    by (intro exI [of _ "out_msg_key bx prefix (bx_repr_hash bx cell) bb"])
      (simp add: new_msg_key_def queue_keys_ok_def)
qed

lemma drain_full_step:
  assumes "drain_new bx ((m, c) # ms) True bb = (Inr full, bb')"
  obtains info cell env b1 where "bx_msg_cell bx m = Inr cell"
    "enqueue_new bx info env
       (case bx_dst_account bx m of Some a \<Rightarrow> a | None \<Rightarrow> bx_default_account_id bx) cell c bb = (Inr (), b1)"
    "drain_new bx ms True b1 = (Inr full, bb')"
proof -
  obtain info where i: "bx_int_header bx m = Some info"
    using assms by (cases "bx_int_header bx m") auto
  obtain cell where cell: "bx_msg_cell bx m = Inr cell"
    using assms i by (cases "bx_msg_cell bx m") auto
  obtain env where env: "bx_envelope bx m (ih_fwd_fee info) = Inr env"
    using assms i cell by (cases "bx_envelope bx m (ih_fwd_fee info)") auto
  let ?a = "case bx_dst_account bx m of Some a \<Rightarrow> a | None \<Rightarrow> bx_default_account_id bx"
  obtain r b1 where enq: "enqueue_new bx info env ?a cell c bb = (r, b1)"
    by (metis prod.exhaust)
  have "r = Inr () \<and> drain_new bx ms True b1 = (Inr full, bb')"
    using assms i cell env enq
    by (cases "bx_contains_address bx (bb_shard_ident bx bb) (ih_dst info)"; cases r)
      (auto simp: bindS_def Let_def retS_def liftS_def)
  with cell enq that show thesis by blast
qed

lemma new_msg_key_forwards: "forwards bb bb' \<Longrightarrow> new_msg_key bx bb' m = new_msg_key bx bb m"
  by (simp add: fun_eq_iff new_msg_key_def out_msg_key_def bb_shard_ident_def forwards_def quiet_def
      same_block_def)

lemma drain_full_keys:
  assumes "queue_keys_ok bx keys"
  shows "drain_new bx ms True bb = (Inr full, bb') \<Longrightarrow>
    keys (bb_out_queue_info bb) \<subseteq> keys (bb_out_queue_info bb') \<and>
    (\<forall>x \<in> set ms. \<exists>key. new_msg_key bx bb (fst x) key \<and> key \<in> keys (bb_out_queue_info bb'))"
proof (induction ms arbitrary: bb)
  case Nil
  then show ?case by simp
next
  case (Cons x ms)
  obtain m c where x: "x = (m, c)" by (cases x)
  from Cons.prems [unfolded x] show ?case
  proof (rule drain_full_step)
    fix info cell env b1
    assume cell: "bx_msg_cell bx m = Inr cell"
      and enq: "enqueue_new bx info env
         (case bx_dst_account bx m of Some a \<Rightarrow> a | None \<Rightarrow> bx_default_account_id bx) cell c bb = (Inr (), b1)"
      and rest: "drain_new bx ms True b1 = (Inr full, bb')"
    have "forwards bb b1" using fwd_enqueue_new [of bb bx info env _ cell c] enq by (metis snd_conv)
    from Cons.IH [OF rest, unfolded new_msg_key_forwards [OF this]]
      enqueue_new_key [OF assms enq refl cell]
    show ?thesis by (auto simp: x)
  qed
qed

text \<open>Once a block is full the third phase ends in one pass: it executes nothing, it
  leaves every account as it is, and when it succeeds no new message is left over and each
  of them is in the outbound queue under its key, where the next block finds it; nothing
  that was in the queue is lost.\<close>

theorem full_block_forwards_all_new_messages:
  assumes "queue_keys_ok bx keys"
  shows "\<exists>r bb'. process_new bx e True bb = Some (r, bb') \<and>
    bb_total_message_processed bb' = bb_total_message_processed bb \<and>
    bb_accounts bb' = bb_accounts bb \<and> bb_new_messages bb' = [] \<and>
    \<not> ((\<exists>x. r = Inr x) \<and>
      \<not> (keys (bb_out_queue_info bb) \<subseteq> keys (bb_out_queue_info bb') \<and>
         fst ` set (bb_new_messages bb) \<subseteq>
           {m. \<exists>key. new_msg_key bx bb m key \<and> key \<in> keys (bb_out_queue_info bb')}))"
proof -
  let ?b0 = "bb\<lparr>bb_new_messages := []\<rparr>"
  obtain r bb' where pn: "process_new bx e True bb = Some (r, bb')" "forwards ?b0 bb'"
    using process_full .
  have keys: "keys (bb_out_queue_info bb) \<subseteq> keys (bb_out_queue_info bb') \<and>
      (\<forall>m \<in> fst ` set (bb_new_messages bb). \<exists>key. new_msg_key bx bb m key \<and>
         key \<in> keys (bb_out_queue_info bb'))" if rx: "r = Inr x" for x
  proof (cases "bb_new_messages bb = []")
    case True
    with pn(1) process_new_simps [of bb bx e True] show ?thesis by simp
  next
    case False
    obtain r1 b1 where drain: "drain_new bx (bb_new_messages bb) True ?b0 = (r1, b1)"
      by (metis prod.exhaust)
    then obtain full where r1: "r1 = Inr full"
      using pn(1) rx False by (cases r1) (auto simp: process_new.simps [of bx e True bb])
    have "bb_new_messages b1 = []"
      using triple_Inr [OF drain_full fwd.R_refl drain [unfolded r1]] by (simp add: forwards_def)
    then have "bb' = b1"
      using pn(1) drain r1 False
      by (simp add: process_new.simps [of bx e True bb] process_new_simps)
    moreover have "new_msg_key bx ?b0 m = new_msg_key bx bb m" for m
      by (simp add: new_msg_key_def out_msg_key_def bb_shard_ident_def fun_eq_iff)
    ultimately show ?thesis
      using drain_full_keys [OF assms drain [unfolded r1]] by auto
  qed
  then show ?thesis
    using pn by (auto simp: forwards_def quiet_def)
qed

section \<open>Building a block ends\<close>

text \<open>In sequential mode: nothing was executed yet, so there are no new messages.\<close>

definition seq_fresh :: "('s, 'c, 'm, 'v, 'q) block_builder \<Rightarrow> bool" where
  "seq_fresh bb \<longleftrightarrow>
     is_seq (bb_time_mode bb) \<and> bb_total_message_processed bb = 0 \<and> bb_new_messages bb = []"

definition seq_full :: "('s, 'c, 'm, 'v, 'q) block_builder \<Rightarrow> bool" where
  "seq_full bb \<longleftrightarrow> is_seq (bb_time_mode bb) \<and> bb_total_message_processed bb > 0"

lemma seq_full_limits: "seq_full bb \<Longrightarrow> is_limits_reached bb"
  by (simp add: seq_full_def is_limits_reached_def)

lemma execute_seq_full:
  assumes "builder_execute bx m a bb = (r, bb')" "is_seq (bb_time_mode bb)"
  shows "seq_full bb'"
  using execute_effect [OF gas_bound_max assms(1)] assms(2)
  by (auto simp: executed_one_def same_block_def seq_full_def)

definition seq_state :: "('s, 'c, 'm, 'v, 'q) block_builder \<Rightarrow> bool" where
  "seq_state bb \<longleftrightarrow> seq_full bb \<or> seq_fresh bb"

lemma seq_on_out_queue: "triple seq_state (on_out_queue f) (\<lambda>_. seq_state) (\<lambda>_. True)"
  by (auto simp: triple_def on_out_queue_def seq_state_def seq_full_def seq_fresh_def
      split: prod.splits sum.splits)

lemma triple_lift: "triple P (liftS r) (\<lambda>_. P) (\<lambda>_. True)"
  by (auto simp: triple_def split: sum.splits)

lemma import_internal_seq:
  "triple seq_fresh (import_internal bx xs e) (\<lambda>r bb. snd r \<or> seq_fresh bb) (\<lambda>_. True)"
proof (induction xs arbitrary: e)
  case Nil
  then show ?case by (auto intro: triple_retS)
next
  case (Cons x xs)
  obtain key enq lt where x: "x = (key, enq, lt)" by (cases x)
  have exec: "triple seq_fresh (case bx_dst_account bx msg of
      Some acc_id \<Rightarrow> builder_execute bx msg acc_id | None \<Rightarrow> retS ())
      (\<lambda>_. seq_state) (\<lambda>_. True)" for msg
    using execute_seq_full [of bx msg]
    by (auto simp: triple_def seq_state_def seq_fresh_def split: option.split sum.splits)
  have loop: "triple seq_state (\<lambda>bb. if is_limits_reached bb then (Inr (False, True), bb)
     else import_internal bx xs False bb) (\<lambda>r bb. snd r \<or> seq_fresh bb) (\<lambda>_. True)"
    using Cons.IH [of False] seq_full_limits by (auto simp: triple_def seq_state_def)
  show ?case
    unfolding x import_internal.simps
    by (rule triple_bindS [OF exec] triple_bindS [OF seq_on_out_queue] loop triple_bindS [OF triple_lift])+
qed

lemma import_external_seq:
  "import_external bx wc e (bb, q) = (Inr (e', full), (bb', q')) \<Longrightarrow> seq_fresh bb \<Longrightarrow>
   full \<or> seq_fresh bb'"
proof (induction "mq_len q" arbitrary: e bb q rule: less_induct)
  case less
  from less.prems(1) show ?case
  proof (cases rule: import_external_cases)
    case (more m a r1 bb1 q1)
    have "seq_full bb1"
      using execute_seq_full [OF more(3)] less.prems(2) by (simp add: seq_fresh_def)
    with seq_full_limits more(4) show ?thesis by blast
  qed (use less.prems(2) in simp_all)
qed

lemma build_block_returns:
  fixes bb :: "('s, 'c, 'm, 'v, 'q) block_builder"
  assumes "\<And>e full b1 q1. import_messages bx (bb, q) = (Inr (e, full), (b1, q1)) \<Longrightarrow>
    full \<or> bb_new_messages b1 = []"
  shows "\<exists>r q'. build_block bx bb q = Some (r, q')"
proof -
  obtain r1 b1 q1 where i: "import_messages bx (bb, q) = (r1, (b1, q1))"
    using prod.exhaust by metis
  have "build_messages bx (bb, q) \<noteq> None"
  proof (cases r1)
    case (Inl e)
    then show ?thesis by (simp add: build_messages_def i)
  next
    case (Inr x)
    obtain e full where x: "x = (e, full)" by (cases x)
    have "process_new bx e full b1 \<noteq> None"
    proof (cases full)
      case True
      obtain r b2 where "process_new bx e True b1 = Some (r, b2)" by (rule process_full)
      with True show ?thesis by simp
    next
      case False
      have "bb_new_messages b1 = []"
        using assms [OF i [unfolded Inr x]] False by simp
      then show ?thesis by (simp add: process_new_simps)
    qed
    then show ?thesis by (simp add: build_messages_def i Inr x)
  qed
  then obtain r b2 q2 where "build_messages bx (bb, q) = Some (r, (b2, q2))" by auto
  then show ?thesis by (auto simp: build_block_def)
qed

lemma import_messages_seq:
  assumes "import_messages bx (bb, q) = (Inr (e, full), (b1, q1))" "seq_fresh bb"
  shows "full \<or> bb_new_messages b1 = []"
proof -
  obtain outs where outs: "sorted_out_queue bx (bb_out_queue_info bb) = Inr outs"
    using assms(1) by (cases "sorted_out_queue bx (bb_out_queue_info bb)") (auto simp: import_messages_def)
  obtain r2 b2 where int: "import_internal bx outs True bb = (r2, b2)" by (metis prod.exhaust)
  with outs assms(1) obtain e2 full2 where r2: "r2 = Inr (e2, full2)"
    by (cases r2) (auto simp: import_messages_def)
  show ?thesis
  proof (cases full2)
    case True
    with assms(1) outs int r2 show ?thesis by (auto simp: import_messages_def)
  next
    case False
    with triple_Inr [OF import_internal_seq assms(2) int [unfolded r2]] have "seq_fresh b2" by simp
    moreover have "import_external bx (si_workchain_id (bb_shard_ident bx b2)) e2 (b2, q) =
        (Inr (e, full), (b1, q1))"
      using assms(1) outs int r2 False by (simp add: import_messages_def)
    ultimately have "full \<or> seq_fresh b1"
      using import_external_seq by blast
    then show ?thesis by (auto simp: seq_fresh_def)
  qed
qed

text \<open>\<^bold>\<open>C21\<close>. In sequential mode building a block always returns, whatever the messages do:
  the loop over new messages, which nothing in the code bounds, is entered at most once,
  because the one message of the block has reached its limit.\<close>

theorem sequential_block_is_always_built:
  assumes "builder_with_params bx seed st prev time Seq limit prov = Inr bb"
  shows "\<exists>r q'. build_block bx bb q = Some (r, q')"
proof (rule build_block_returns)
  have "seq_fresh bb" using builder_new_start [OF assms] by (simp add: seq_fresh_def)
  then show "full \<or> bb_new_messages b1 = []"
    if "import_messages bx (bb, q) = (Inr (e, full), (b1, q1))" for e full b1 q1
    using import_messages_seq [OF that] by simp
qed

section \<open>A chain without work\<close>

lemma build_block_idle:
  assumes "bb_new_messages bb = []" "bx_queue_iter bx (bb_out_queue_info bb) = []"
    and "bx_queue_len bx (bb_out_queue_info bb) = Inr len"
    and "pending (bx_dst_workchain bx) q (si_workchain_id (bb_shard_ident bx bb)) = []"
    and "finalize_block bx (bb\<lparr>bb_transaction_traces := Map.empty\<rparr>) = Inr x"
  shows "\<exists>p. build_block bx bb q = Some (Inr p, q) \<and> prep_is_empty p"
proof -
  have "mq_dequeue (bx_dst_workchain bx) (si_workchain_id (bb_shard_ident bx bb)) q = (None, q)"
    using assms(4)
    by (cases rule: mq_dequeue_cases [of "bx_dst_workchain bx" q "si_workchain_id (bb_shard_ident bx bb)"])
      (auto simp: pending_def)
  then have "import_messages bx (bb, q) = (Inr (True, False), (bb, q))"
    using assms(2,3)
    by (simp add: import_messages_def sorted_out_queue_def import_external.simps [of _ _ _ bb] retS_def)
  with assms(1,5) show ?thesis
    by (cases x) (simp add: build_block_def build_messages_def process_new_simps)
qed

end
