(* ===== verification/Chain_Props.thy ===== *)
theory Chain_Props
  imports Masterchain Builder_Flow
begin

text \<open>
  What one block does to its chain: which messages it takes, when it is made at all, that a
  chain without work is left as it is, and that the head of a chain stays well formed: the
  number of the current block is the number of its state.
\<close>

section \<open>The messages a block takes\<close>

lemma import_external_took:
  "import_external bx wc e (bb, q) = (r, (bb', q')) \<Longrightarrow> took (bx_dst_workchain bx) wc q q'"
proof (induction "mq_len q" arbitrary: e bb q rule: less_induct)
  case less
  from less.prems show ?case
    by (cases rule: import_external_cases)
      (auto intro: took_dequeue took_trans [OF took_dequeue less.hyps [OF mq_dequeue_shrinks]])
qed

lemma import_messages_took:
  assumes "import_messages bx (bb, q) = (r, (bb', q'))"
  shows "took (bx_dst_workchain bx) (si_workchain_id (bb_shard_ident bx bb)) q q'"
proof (cases "sorted_out_queue bx (bb_out_queue_info bb)")
  case (Inl e)
  with assms show ?thesis by (simp add: import_messages_def took_refl)
next
  case (Inr outs)
  obtain r2 b2 where int: "import_internal bx outs True bb = (r2, b2)" by (metis prod.exhaust)
  have "bb_shard_ident bx b2 = bb_shard_ident bx bb"
    using block.keepsD [OF block_import_internal int] by (simp add: same_block_def bb_shard_ident_def)
  with assms Inr int show ?thesis
    by (auto simp: import_messages_def took_refl split: sum.splits if_splits
        dest: import_external_took)
qed

lemma build_block_took:
  assumes "build_block bx bb q = Some (r, q')"
  shows "took (bx_dst_workchain bx) (si_workchain_id (bb_shard_ident bx bb)) q q'"
proof -
  obtain r1 b1 q1 where i: "import_messages bx (bb, q) = (r1, (b1, q1))" by (metis prod.exhaust)
  have "q' = q1"
    using assms i by (cases r1) (auto simp: build_block_def build_messages_def)
  with import_messages_took [OF i] show ?thesis by simp
qed

section \<open>Building on a chain\<close>

definition sc_head :: "('k, 's, 'b, 'v) shardchain \<Rightarrow> 's" where
  "sc_head sc = get_last_shard_state (sc_block_finality sc)"

definition sc_shard where
  "sc_shard ce sc = bx_state_shard (ce_builder ce) (sc_head sc)"

definition sc_workchain where
  "sc_workchain ce sc = si_workchain_id (sc_shard ce sc)"

text \<open>A chain has nothing to do: no message for it is queued inside or outside of it.\<close>

definition sc_idle where
  "sc_idle ce sc (w :: ('m, 'd) node_world) \<longleftrightarrow>
     (\<exists>out_queue. bx_read_out_queue (ce_builder ce) (sc_head sc) = Inr out_queue \<and>
        bx_queue_iter (ce_builder ce) out_queue = []) \<and>
     pending (bx_dst_workchain (ce_builder ce)) (nw_queue w) (sc_workchain ce sc) = []"

definition same_outside :: "('m, 'd) node_world \<Rightarrow> ('m, 'd) node_world \<Rightarrow> bool" where
  "same_outside w w' \<longleftrightarrow> nw_docs w' = nw_docs w \<and> nw_clock w' = nw_clock w"

lemma get_last_info_head:
  "get_last_info lib (sc_block_finality sc) = Inr (st, prev) \<Longrightarrow> st = sc_head sc"
  by (auto simp: get_last_info_def sc_head_def bindR_eq_Inr)

lemma sc_build_block_cases:
  fixes w :: "('m, 'd) node_world"
  assumes "sc_build_block ce t mode sc w = Some (r, w')"
  obtains (early) e where "r = Inl e" "nw_queue w' = nw_queue w" "same_outside w w'"
  | (build) prev seed bb where "get_last_info (ce_blocks ce) (sc_block_finality sc) = Inr (sc_head sc, prev)"
      "builder_with_params (ce_builder ce) seed (sc_head sc) prev t mode (sc_block_gas_limit sc)
         (sc_accounts_provider sc) = Inr bb"
      "build_block (ce_builder ce) bb (nw_queue w) = Some (r, nw_queue w')" "same_outside w w'"
proof (cases "get_last_info (ce_blocks ce) (sc_block_finality sc)")
  case (Inl e)
  with assms show thesis by (intro early) (auto simp: sc_build_block_def same_outside_def)
next
  case (Inr x)
  obtain st prev where x: "x = (st, prev)" by (cases x)
  have st: "st = sc_head sc" using get_last_info_head Inr x by metis
  show thesis
  proof (cases "builder_with_params (ce_builder ce) (shd (nw_seeds w)) st prev t mode
      (sc_block_gas_limit sc) (sc_accounts_provider sc)")
    case (Inl e)
    with assms \<open>get_last_info _ _ = Inr x\<close> x show thesis
      by (intro early) (auto simp: sc_build_block_def same_outside_def)
  next
    case (Inr bb)
    with assms \<open>get_last_info _ _ = Inr x\<close> x st show thesis
      by (intro build) (auto simp: sc_build_block_def same_outside_def)
  qed
qed

lemma builder_new_ident:
  "builder_with_params bx seed st prev t mode limit prov = Inr bb \<Longrightarrow>
   bb_shard_ident bx bb = bx_state_shard bx st"
  by (simp add: builder_new_start bb_shard_ident_def)

lemma sc_build_block_took:
  assumes "sc_build_block ce t mode sc w = Some (r, w')"
  shows "took (bx_dst_workchain (ce_builder ce)) (sc_workchain ce sc) (nw_queue w) (nw_queue w') \<and>
    same_outside w w'"
  using assms
proof (cases rule: sc_build_block_cases)
  case (early e)
  then show ?thesis by (simp add: took_refl)
next
  case (build prev seed bb)
  with build_block_took [OF build(3)] builder_new_ident [OF build(2)] show ?thesis
    by (simp add: sc_workchain_def sc_shard_def)
qed

lemma sc_build_block_empty:
  assumes "sc_build_block ce t mode sc w = Some (Inr p, w')"
  shows "prep_is_empty p = sc_idle ce sc w \<and>
    \<not> (prep_is_empty p \<and> nw_queue w' \<noteq> nw_queue w)"
  using assms
proof (cases rule: sc_build_block_cases)
  case (early e)
  then show ?thesis by simp
next
  case (build prev seed bb)
  note oq = builder_new_start(7) [OF build(2)]
  from build_block_empty [OF build(2) oq build(3)] oq show ?thesis
    by (simp add: sc_idle_def sc_workchain_def sc_shard_def)
qed

section \<open>When a block is made\<close>

lemma sc_generate_block_cases:
  assumes "sc_generate_block ce n t mode (sc, w) = Some (r, (sc', w'))"
  obtains (build_failed) e where "sc_build_block ce t mode sc w = Some (Inl e, w')" "r = Inl e" "sc' = sc"
  | (idle) p where "sc_build_block ce t mode sc w = Some (Inr p, w')" "prep_is_empty p"
      "r = Inr None" "sc' = sc"
  | (print) p e where "sc_build_block ce t mode sc w = Some (Inr p, w')" "\<not> prep_is_empty p"
      "print_block_info ce (prep_block p) = Inl e" "r = Inl e" "sc' = sc"
  | (put) p w1 r1 where "sc_build_block ce t mode sc w = Some (Inr p, w1)" "\<not> prep_is_empty p"
      "print_block_info ce (prep_block p) = Inr ()"
      "finality_and_apply_block ce n (prep_block p) (prep_state p) (prep_traces p) (sc, w1) =
         (r1, (sc', w'))" "r = bindR r1 (\<lambda>_. Inr (Some (prep_block p)))"
proof -
  obtain r0 w1 where b: "sc_build_block ce t mode sc w = Some (r0, w1)"
    using assms by (cases "sc_build_block ce t mode sc w") (auto simp: sc_generate_block_def bindO_def)
  show thesis
  proof (cases r0)
    case (Inl e)
    with assms b show thesis by (intro build_failed) (auto simp: sc_generate_block_def bindO_def)
  next
    case (Inr p)
    show thesis
    proof (cases "prep_is_empty p")
      case True
      with assms b Inr show thesis
        by (intro idle) (auto simp: sc_generate_block_def bindO_def returns_def)
    next
      case False
      show thesis
      proof (cases "print_block_info ce (prep_block p)")
        case (Inl e)
        with assms b \<open>r0 = Inr p\<close> False show thesis
          by (intro print) (auto simp: sc_generate_block_def bindO_def returns_def)
      next
        case (Inr u)
        obtain r1 sc1 w2 where f: "finality_and_apply_block ce n (prep_block p) (prep_state p)
            (prep_traces p) (sc, w1) = (r1, (sc1, w2))" by (metis prod.exhaust)
        have "(r, (sc', w')) = (bindR r1 (\<lambda>_. Inr (Some (prep_block p))), (sc1, w2))"
          using assms b \<open>r0 = Inr p\<close> False Inr f
          by (cases r1) (simp_all add: sc_generate_block_def bindO_def returns_def bindS_Inr bindS_Inl retS_def)
        with b \<open>r0 = Inr p\<close> False Inr f show thesis
          by (intro put) simp_all
      qed
    qed
  qed
qed

lemma mc_generate_block_cases:
  assumes "mc_generate_block ce n t mode (mc, w) = Some (r, (mc', w'))"
  obtains (build_failed) e where "sc_build_block ce t mode (mc_shardchain mc) w = Some (Inl e, w')"
      "r = Inl e" "mc' = mc"
  | (idle) p where "sc_build_block ce t mode (mc_shardchain mc) w = Some (Inr p, w')" "prep_is_empty p"
      "\<not> mc_shards_has_been_changed mc" "r = Inr None" "mc' = mc"
  | (shape) p e where "sc_build_block ce t mode (mc_shardchain mc) w = Some (Inr p, w')"
      "\<not> prep_is_empty p \<or> mc_shards_has_been_changed mc"
      "master_block ce (mc_shards mc) (prep_block p) = Inl e" "r = Inl e" "mc' = mc"
  | (put) p w1 b r1 sc1 where "sc_build_block ce t mode (mc_shardchain mc) w = Some (Inr p, w1)"
      "\<not> prep_is_empty p \<or> mc_shards_has_been_changed mc"
      "master_block ce (mc_shards mc) (prep_block p) = Inr b"
      "finality_and_apply_block ce n b (prep_state p) (prep_traces p) (mc_shardchain mc, w1) =
         (r1, (sc1, w'))" "r = bindR r1 (\<lambda>_. Inr (Some b))"
      "mc' = (case r1 of Inl _ \<Rightarrow> mc\<lparr>mc_shardchain := sc1\<rparr>
        | Inr _ \<Rightarrow> mc\<lparr>mc_shardchain := sc1, mc_shards_has_been_changed := False\<rparr>)"
proof -
  obtain r0 w1 where b: "sc_build_block ce t mode (mc_shardchain mc) w = Some (r0, w1)"
    using assms by (cases "sc_build_block ce t mode (mc_shardchain mc) w")
      (auto simp: mc_generate_block_def bindO_def)
  show thesis
  proof (cases r0)
    case (Inl e)
    with assms b show thesis by (intro build_failed) (auto simp: mc_generate_block_def bindO_def)
  next
    case (Inr p)
    show thesis
    proof (cases "prep_is_empty p \<and> \<not> mc_shards_has_been_changed mc")
      case True
      with assms b Inr show thesis
        by (intro idle) (auto simp: mc_generate_block_def bindO_def returns_def)
    next
      case False
      show thesis
      proof (cases "master_block ce (mc_shards mc) (prep_block p)")
        case (Inl e)
        with assms b \<open>r0 = Inr p\<close> False show thesis
          by (intro shape) (auto simp: mc_generate_block_def bindO_def returns_def)
      next
        case (Inr blk)
        obtain r1 sc1 w2 where f: "finality_and_apply_block ce n blk (prep_state p)
            (prep_traces p) (mc_shardchain mc, w1) = (r1, (sc1, w2))" by (metis prod.exhaust)
        have "(r, (mc', w')) = (bindR r1 (\<lambda>_. Inr (Some blk)),
            (case r1 of Inl _ \<Rightarrow> mc\<lparr>mc_shardchain := sc1\<rparr>
             | Inr _ \<Rightarrow> mc\<lparr>mc_shardchain := sc1, mc_shards_has_been_changed := False\<rparr>), w2)"
          using assms b \<open>r0 = Inr p\<close> False Inr f
          by (cases r1)
            (simp_all add: mc_generate_block_def bindO_def returns_def on_shardchain_def bindS_def liftS_def)
        with b \<open>r0 = Inr p\<close> False Inr f show thesis
          by (intro put) simp_all
      qed
    qed
  qed
qed

lemma bindR_not_None: "bindR r (\<lambda>_. Inr (Some b)) \<noteq> Inr None"
  by (cases r) simp_all

lemma sc_generate_None:
  assumes "sc_generate_block ce n t mode (sc, w) = Some (Inr None, (sc', w'))"
  shows "sc' = sc \<and> sc_idle ce sc w \<and> nw_queue w' = nw_queue w \<and> same_outside w w'"
  using assms
proof (cases rule: sc_generate_block_cases)
  case (idle p)
  with sc_build_block_empty [OF idle(1)] sc_build_block_took [OF idle(1)] show ?thesis by simp
qed (simp_all add: bindR_not_None [symmetric])

lemma mc_generate_None:
  assumes "mc_generate_block ce n t mode (mc, w) = Some (Inr None, (mc', w'))"
  shows "mc' = mc \<and> sc_idle ce (mc_shardchain mc) w \<and> \<not> mc_shards_has_been_changed mc \<and>
    nw_queue w' = nw_queue w \<and> same_outside w w'"
  using assms
proof (cases rule: mc_generate_block_cases)
  case (idle p)
  with sc_build_block_empty [OF idle(1)] sc_build_block_took [OF idle(1)] show ?thesis by simp
qed (simp_all add: bindR_not_None [symmetric])

section \<open>The head of a chain\<close>

interpretation current: step_relation "\<lambda>(f, d) (f', d'). fin_current_block f' = fin_current_block f"
  by unfold_locales auto

lemma current_on_storage: "current.keeps (on_storage m)"
  by (auto simp: current.keeps_def on_storage_def split: prod.split)

lemma current_remove_by_no: "current.keeps (remove_by_no n)"
  by (auto simp: current.keeps_def remove_by_no_def split: prod.split option.split)

lemma current_reflect_finalized: "current.keeps (reflect_finalized env n sb)"
  by (auto simp: current.keeps_def reflect_finalized_def split: prod.split sum.split fault.split)

lemma current_last_finalized:
  "current.keeps (\<lambda>(f, d). (Inr (), (f\<lparr>fin_last_finalized_block := sb\<rparr>, d)))"
  by (auto simp: current.keeps_def)

lemmas current_steps = current.keeps_intros current_on_storage current_remove_by_no
  current_reflect_finalized current_last_finalized

lemma current_finality_blocks:
  assumes "finality_blocks env n h (f, d) = (r, (f', d'))"
  shows "fin_current_block f' = fin_current_block f"
proof (cases "fin_blocks_by_hash f h")
  case None
  with assms show ?thesis by (auto simp: finality_blocks_def split: if_splits)
next
  case (Some fin_sb)
  let ?g = "f\<lparr>fin_blocks_by_hash := (fin_blocks_by_hash f)(h := None)\<rparr>"
  obtain m where m: "current.keeps m" "m (?g, d) = (r, (f', d'))"
    using assms Some unfolding finality_blocks_def
    by (simp add: Let_def del: bindS_liftS) (rule that; (assumption | intro current_steps)+)
  from current.keepsD [OF m] show ?thesis by simp
qed

lemma current_save_finality:
  assumes "save_finality env (f, d) = (r, (f', d'))"
  shows "fin_current_block f' = fin_current_block f"
proof -
  have e: "current.keeps (save_block_entry env sb)" for sb
    unfolding save_block_entry_def by (intro current_steps)
  have i: "current.keeps (save_index env)"
    by (auto simp: current.keeps_def save_index_def on_storage_def split: prod.split)
  have "current.keeps (bindS (save_block_entry env (fin_current_block f)) (\<lambda>_.
     bindS (save_block_entry env (fin_last_finalized_block f)) (\<lambda>_. save_index env)))"
    by (intro current.keeps_bindS e i)
  from current.keepsD [OF this, of "(f, d)"] assms show ?thesis
    by (auto simp: save_finality_def)
qed

lemma put_block_current:
  assumes "put_block_with_info env n b st tr (f, d) = (r, (f', d'))"
  shows "(fin_current_block f' = fin_current_block f \<and> (\<exists>e. r = Inl e)) \<or>
    (sb_block (fin_current_block f') = b \<and> sb_shard_state (fin_current_block f') = st)"
proof (cases "bl_read_info (env_lib env) b")
  case (Inl e)
  with assms show ?thesis by (auto simp: put_block_with_info_def)
next
  case (Inr info)
  show ?thesis
  proof (cases "sb_with_block_and_state (env_lib env) b st")
    case (Inl e)
    with assms Inr show ?thesis by (auto simp: put_block_with_info_def)
  next
    case (Inr sb)
    let ?sb = "sb\<lparr>sb_traces := tr\<rparr>"
    let ?f = "f\<lparr>fin_current_block := ?sb,
        fin_blocks_by_hash := (fin_blocks_by_hash f)(sb_root_hash ?sb \<mapsto> Loaded ?sb),
        fin_blocks_by_no := (fin_blocks_by_no f)(sb_seq_no ?sb \<mapsto> Loaded ?sb)\<rparr>"
    have run: "bindS (finality_blocks env n (sb_root_hash ?sb)) (\<lambda>_. save_finality env) (?f, d) =
        (r, (f', d'))"
      using assms Inr \<open>bl_read_info _ b = Inr info\<close> by (simp add: put_block_with_info_def Let_def)
    obtain r1 f1 d1 where f1: "finality_blocks env n (sb_root_hash ?sb) (?f, d) = (r1, (f1, d1))"
      by (metis prod.exhaust)
    have "fin_current_block f' = fin_current_block f1"
      using run f1 current_save_finality by (cases r1) (auto simp: bindS_def)
    with current_finality_blocks [OF f1] have "fin_current_block f' = ?sb" by simp
    moreover have "sb_block sb = b" "sb_shard_state sb = st"
      using Inr by (auto simp: sb_with_block_and_state_def bindR_eq_Inr Let_def)
    ultimately show ?thesis by simp
  qed
qed

text \<open>Documented behaviour of the block library that the numbering of a chain relies on:
  what is written to a header or to a state is read back from it.\<close>

definition state_ok :: "('s, 'b, 'c, 'm, 't, 'v, 'q) builder_lib \<Rightarrow> bool" where
  "state_ok bx \<longleftrightarrow>
     (\<forall>n s. bx_state_seq_no bx (bx_state_set_seq_no bx n s) = n \<and>
        bx_state_shard bx (bx_state_set_seq_no bx n s) = bx_state_shard bx s) \<and>
     (\<forall>a s s'. bx_write_accounts bx a s = Inr s' \<longrightarrow>
        bx_state_seq_no bx s' = bx_state_seq_no bx s \<and> bx_state_shard bx s' = bx_state_shard bx s) \<and>
     (\<forall>q s s'. bx_write_out_queue bx q s = Inr s' \<longrightarrow>
        bx_state_seq_no bx s' = bx_state_seq_no bx s \<and> bx_state_shard bx s' = bx_state_shard bx s)"

definition chain_env_ok where
  "chain_env_ok ce \<longleftrightarrow>
     header_ok (ce_blocks ce) (ce_builder ce) \<and> state_ok (ce_builder ce) \<and>
     (\<forall>i b b'. ch_write_info (ce_lib ce) i b = Inr b' \<longrightarrow> bl_read_info (ce_blocks ce) b' = Inr i) \<and>
     (\<forall>x b b'. ch_write_extra (ce_lib ce) x b = Inr b' \<longrightarrow>
        bl_read_info (ce_blocks ce) b' = bl_read_info (ce_blocks ce) b)"

text \<open>The current block of a chain can be read and has the number of its state.\<close>

definition sc_seq_no where
  "sc_seq_no ce sc = bx_state_seq_no (ce_builder ce) (sc_head sc)"

definition sc_wf where
  "sc_wf ce sc \<longleftrightarrow>
     (\<exists>info. bl_read_info (ce_blocks ce) (sb_block (fin_current_block (sc_block_finality sc))) = Inr info \<and>
        bi_seq_no info = sc_seq_no ce sc)"

definition sc_info where
  "sc_info ce sc = bl_read_info (ce_blocks ce) (sb_block (fin_current_block (sc_block_finality sc)))"

text \<open>Chains that differ in their finality layer only.\<close>

definition same_chain where
  "same_chain ce sc sc' \<longleftrightarrow>
     sc_shard ce sc' = sc_shard ce sc \<and>
     sc_block_gas_limit sc' = sc_block_gas_limit sc \<and>
     sc_accounts_provider sc' = sc_accounts_provider sc \<and>
     sc_finality_was_loaded sc' = sc_finality_was_loaded sc"

lemma same_chain_refl [simp]: "same_chain ce sc sc"
  by (simp add: same_chain_def)

lemma finalize_block_state:
  "finalize_block bx bb = Inr (b, st) \<Longrightarrow> state_ok bx \<Longrightarrow>
   bx_state_seq_no bx st = bi_seq_no (bb_block_info bb) \<and>
   bx_state_shard bx st = bx_state_shard bx (bb_shard_state bb)"
  by (auto simp: finalize_block_def state_ok_def bindR_eq_Inr Let_def)

definition extends_head where
  "extends_head ce t sc block state \<longleftrightarrow>
     (\<exists>info. bl_read_info (ce_blocks ce) block = Inr info \<and>
        bi_seq_no info = sc_seq_no ce sc + 1 \<and> bi_gen_utime info = t \<and>
        bi_shard info = bx_state_shard (ce_builder ce) (sc_head sc)) \<and>
     bx_state_seq_no (ce_builder ce) state = sc_seq_no ce sc + 1 \<and>
     bx_state_shard (ce_builder ce) state = bx_state_shard (ce_builder ce) (sc_head sc)"

lemma sc_build_block_header:
  assumes "chain_env_ok ce" "sc_build_block ce t mode sc w = Some (Inr p, w')"
  shows "extends_head ce t sc (prep_block p) (prep_state p)"
  using assms(2)
proof (cases rule: sc_build_block_cases)
  case (early e)
  then show ?thesis by simp
next
  case (build prev seed bb)
  have ok: "header_ok (ce_blocks ce) (ce_builder ce)" "state_ok (ce_builder ce)"
    using assms(1) by (simp_all add: chain_env_ok_def)
  obtain bb' where b: "build_messages (ce_builder ce) (bb, nw_queue w) =
        Some (Inr (prep_is_empty p), (bb', nw_queue w'))"
      "finalize_block (ce_builder ce) (bb'\<lparr>bb_transaction_traces := Map.empty\<rparr>) =
        Inr (prep_block p, prep_state p)"
    using build_block_parts [OF build(3)] by blast
  have same: "bb_block_info bb' = bb_block_info bb" "bb_shard_state bb' = bb_shard_state bb"
    using build_messages_same_block [OF b(1)] by (auto simp: same_block_def)
  show ?thesis
    using finalize_block_info [OF b(2) ok(1)] finalize_block_state [OF b(2) ok(2)]
      builder_new_sel(3) [OF build(2) ok(1)] builder_new_start(6) [OF build(2)] same
    by (simp add: extends_head_def sc_seq_no_def)
qed

lemma master_block_header:
  assumes "chain_env_ok ce" "master_block ce shards block = Inr b"
    and "extends_head ce t sc block state"
  shows "extends_head ce t sc b state"
  using assms
  by (fastforce simp: master_block_def chain_env_ok_def extends_head_def bindR_eq_Inr Let_def)

lemma finality_and_apply_head:
  assumes "finality_and_apply_block ce n b st tr (sc, w) = (r, (sc', w'))"
    and "sc_wf ce sc" "extends_head ce t sc b st"
  shows "sc_wf ce sc' \<and> same_chain ce sc sc' \<and> nw_queue w' = nw_queue w \<and> nw_clock w' = nw_clock w \<and>
    (\<forall>x. r = Inr x \<longrightarrow> sc_seq_no ce sc' = sc_seq_no ce sc + 1 \<and>
       sc_info ce sc' = bl_read_info (ce_blocks ce) b)"
proof -
  obtain info where info: "bl_read_info (ce_blocks ce) b = Inr info" "bi_seq_no info = sc_seq_no ce sc + 1"
    using assms(3) by (auto simp: extends_head_def)
  obtain r1 f d where put: "put_block_with_info (ce_node ce) n b st tr (sc_block_finality sc, nw_docs w) =
      (r1, (f, d))" by (metis prod.exhaust)
  have eq: "r = bindR r1 (\<lambda>_. Inr st)" "sc' = sc\<lparr>sc_block_finality := f\<rparr>" "w' = w\<lparr>nw_docs := d\<rparr>"
    using assms(1) info put by (auto simp: finality_and_apply_block_def)
  from put_block_current [OF put] show ?thesis
  proof
    assume "fin_current_block f = fin_current_block (sc_block_finality sc) \<and> (\<exists>e. r1 = Inl e)"
    with eq assms(2) show ?thesis
      by (auto simp: sc_wf_def sc_seq_no_def sc_head_def get_last_shard_state_def same_chain_def
          sc_workchain_def sc_shard_def sc_info_def)
  next
    assume "sb_block (fin_current_block f) = b \<and> sb_shard_state (fin_current_block f) = st"
    with eq info assms(3) show ?thesis
      by (auto simp: sc_wf_def sc_seq_no_def sc_head_def get_last_shard_state_def same_chain_def
          sc_workchain_def sc_shard_def extends_head_def sc_info_def)
  qed
qed

text \<open>A block that was put is the current one.\<close>

definition sc_block where
  "sc_block sc = sb_block (fin_current_block (sc_block_finality sc))"

lemma finality_and_apply_current:
  assumes "finality_and_apply_block ce n b st tr (sc, w) = (Inr y, (sc', w'))"
  shows "sc_block sc' = b \<and> sc_head sc' = st \<and> nw_queue w' = nw_queue w \<and> nw_clock w' = nw_clock w"
proof -
  obtain f d where put: "put_block_with_info (ce_node ce) n b st tr (sc_block_finality sc, nw_docs w) = (Inr (), (f, d))"
      and "sc' = sc\<lparr>sc_block_finality := f\<rparr>" "w' = w\<lparr>nw_docs := d\<rparr>"
    using assms by (auto simp: finality_and_apply_block_def bindR_eq_Inr split: sum.splits prod.splits)
  with put_block_current [OF put] show ?thesis
    by (auto simp: sc_block_def sc_head_def get_last_shard_state_def)
qed

lemma sc_generate_built:
  assumes "sc_generate_block ce n t mode (sc, w) = Some (Inr (Some b), (sc', w'))"
  obtains p w1 where "sc_build_block ce t mode sc w = Some (Inr p, w1)" "b = prep_block p"
    "sc_block sc' = b" "sc_head sc' = prep_state p" "nw_queue w' = nw_queue w1" "nw_clock w' = nw_clock w"
  using assms
proof (cases rule: sc_generate_block_cases)
  case (put p w1 r1)
  then obtain y where y: "r1 = Inr y" "b = prep_block p" by (cases r1) auto
  with finality_and_apply_current [OF put(4) [unfolded y(1)]] put(1) sc_build_block_took [OF put(1)] show thesis
    by (intro that [of p w1]) (simp_all add: same_outside_def)
qed simp_all

lemma mc_generate_built:
  assumes "mc_generate_block ce n t mode (mc, w) = Some (Inr (Some b), (mc', w'))"
  obtains p w1 where "sc_build_block ce t mode (mc_shardchain mc) w = Some (Inr p, w1)"
    "master_block ce (mc_shards mc) (prep_block p) = Inr b"
    "sc_block (mc_shardchain mc') = b" "sc_head (mc_shardchain mc') = prep_state p" "mc_shards mc' = mc_shards mc"
    "nw_queue w' = nw_queue w1" "nw_clock w' = nw_clock w"
  using assms
proof (cases rule: mc_generate_block_cases)
  case (put p w1 blk r1 sc1)
  then obtain y where y: "r1 = Inr y" "blk = b" by (cases r1) auto
  with finality_and_apply_current [OF put(4) [unfolded y(1)]] put(1,3,6) sc_build_block_took [OF put(1)] show thesis
    by (intro that [of p w1]) (simp_all add: same_outside_def)
qed simp_all

lemma sc_generate_keeps:
  assumes "chain_env_ok ce" "sc_wf ce sc"
    and "sc_generate_block ce n t mode (sc, w) = Some (r, (sc', w'))"
  shows "sc_wf ce sc' \<and> same_chain ce sc sc' \<and> nw_clock w' = nw_clock w \<and>
    took (bx_dst_workchain (ce_builder ce)) (sc_workchain ce sc) (nw_queue w) (nw_queue w') \<and>
    (\<forall>b. r = Inr (Some b) \<longrightarrow> sc_seq_no ce sc' = sc_seq_no ce sc + 1 \<and>
       sc_info ce sc' = bl_read_info (ce_blocks ce) b \<and>
       (\<exists>info. bl_read_info (ce_blocks ce) b = Inr info \<and> bi_seq_no info = sc_seq_no ce sc + 1 \<and>
          bi_gen_utime info = t \<and> bi_shard info = sc_shard ce sc))"
  using assms(3)
proof (cases rule: sc_generate_block_cases)
  case (build_failed e)
  with assms(2) sc_build_block_took [OF build_failed(1)] show ?thesis by (simp add: same_outside_def)
next
  case (idle p)
  with assms(2) sc_build_block_took [OF idle(1)] show ?thesis by (simp add: same_outside_def)
next
  case (print p e)
  with assms(2) sc_build_block_took [OF print(1)] show ?thesis by (simp add: same_outside_def)
next
  case (put p w1 r1)
  note head = sc_build_block_header [OF assms(1) put(1)]
  from finality_and_apply_head [OF put(4) assms(2) head] sc_build_block_took [OF put(1)] head
  show ?thesis
    using put(5) by (cases r1) (auto simp: same_outside_def extends_head_def sc_shard_def)
qed

lemma mc_generate_keeps:
  assumes "chain_env_ok ce" "sc_wf ce (mc_shardchain mc)"
    and "mc_generate_block ce n t mode (mc, w) = Some (r, (mc', w'))"
  shows "sc_wf ce (mc_shardchain mc') \<and> same_chain ce (mc_shardchain mc) (mc_shardchain mc') \<and>
    nw_clock w' = nw_clock w \<and> mc_shards mc' = mc_shards mc \<and>
    took (bx_dst_workchain (ce_builder ce)) (sc_workchain ce (mc_shardchain mc)) (nw_queue w) (nw_queue w') \<and>
    (\<forall>b. r = Inr (Some b) \<longrightarrow> \<not> mc_shards_has_been_changed mc' \<and>
       sc_seq_no ce (mc_shardchain mc') = sc_seq_no ce (mc_shardchain mc) + 1 \<and>
       sc_info ce (mc_shardchain mc') = bl_read_info (ce_blocks ce) b \<and>
       (\<exists>info. bl_read_info (ce_blocks ce) b = Inr info \<and>
          bi_seq_no info = sc_seq_no ce (mc_shardchain mc) + 1 \<and> bi_gen_utime info = t))"
  using assms(3)
proof (cases rule: mc_generate_block_cases)
  case (build_failed e)
  with assms(2) sc_build_block_took [OF build_failed(1)] show ?thesis by (simp add: same_outside_def)
next
  case (idle p)
  with assms(2) sc_build_block_took [OF idle(1)] show ?thesis by (simp add: same_outside_def)
next
  case (shape p e)
  with assms(2) sc_build_block_took [OF shape(1)] show ?thesis by (simp add: same_outside_def)
next
  case (put p w1 b r1 sc1)
  note head = master_block_header [OF assms(1) put(3) sc_build_block_header [OF assms(1) put(1)]]
  from finality_and_apply_head [OF put(4) assms(2) head] sc_build_block_took [OF put(1)] head
  show ?thesis
    using put(5,6) by (cases r1) (auto simp: same_outside_def extends_head_def)
qed

lemma next_seq_no_wf:
  "sc_wf ce sc \<Longrightarrow> next_seq_no ce sc = Inr (sc_seq_no ce sc + 1)"
  by (auto simp: sc_wf_def next_seq_no_def get_last_info_def get_last_block_info_def sc_seq_no_def sc_head_def)

section \<open>A chain that rests\<close>

text \<open>A block can be built on the chain and finished as long as it stays empty: the reads of
  the head's state and the final writes of the unchanged builder succeed.\<close>

definition can_build where
  "can_build ce sc \<longleftrightarrow>
     (\<exists>prev. get_last_info (ce_blocks ce) (sc_block_finality sc) = Inr (sc_head sc, prev) \<and>
        (\<forall>seed t mode. \<exists>bb len x.
           builder_with_params (ce_builder ce) seed (sc_head sc) prev t mode (sc_block_gas_limit sc)
             (sc_accounts_provider sc) = Inr bb \<and>
           bx_queue_len (ce_builder ce) (bb_out_queue_info bb) = Inr len \<and>
           finalize_block (ce_builder ce) (bb\<lparr>bb_transaction_traces := Map.empty\<rparr>) = Inr x))"

lemma sc_build_block_idle:
  assumes "sc_idle ce sc w" "can_build ce sc"
  shows "\<exists>p w'. sc_build_block ce t mode sc w = Some (Inr p, w') \<and> prep_is_empty p"
proof -
  from assms(2) obtain prev where
      prev: "get_last_info (ce_blocks ce) (sc_block_finality sc) = Inr (sc_head sc, prev)"
      and all: "\<forall>seed t mode. \<exists>bb len x.
           builder_with_params (ce_builder ce) seed (sc_head sc) prev t mode (sc_block_gas_limit sc)
             (sc_accounts_provider sc) = Inr bb \<and>
           bx_queue_len (ce_builder ce) (bb_out_queue_info bb) = Inr len \<and>
           finalize_block (ce_builder ce) (bb\<lparr>bb_transaction_traces := Map.empty\<rparr>) = Inr x"
    unfolding can_build_def by blast
  from all [rule_format, of "shd (nw_seeds w)" t mode] obtain bb len x where bb:
      "builder_with_params (ce_builder ce) (shd (nw_seeds w)) (sc_head sc) prev t mode
         (sc_block_gas_limit sc) (sc_accounts_provider sc) = Inr bb"
      "bx_queue_len (ce_builder ce) (bb_out_queue_info bb) = Inr len"
      "finalize_block (ce_builder ce) (bb\<lparr>bb_transaction_traces := Map.empty\<rparr>) = Inr x"
    by blast
  have "bx_queue_iter (ce_builder ce) (bb_out_queue_info bb) = []"
      "pending (bx_dst_workchain (ce_builder ce)) (nw_queue w)
         (si_workchain_id (bb_shard_ident (ce_builder ce) bb)) = []"
    using assms(1) builder_new_start(7) [OF bb(1)] builder_new_ident [OF bb(1)]
    by (auto simp: sc_idle_def sc_workchain_def sc_shard_def)
  from build_block_idle [OF builder_new_start(1) [OF bb(1)] this(1) bb(2) this(2) bb(3)] prev bb(1)
  show ?thesis by (auto simp: sc_build_block_def)
qed

lemma sc_generate_idle:
  assumes "sc_idle ce sc w" "can_build ce sc"
  shows "\<exists>w'. sc_generate_block ce n t mode (sc, w) = Some (Inr None, (sc, w'))"
  using sc_build_block_idle [OF assms, of t mode]
  by (auto simp: sc_generate_block_def bindO_def returns_def)

lemma mc_generate_idle:
  assumes "sc_idle ce (mc_shardchain mc) w" "can_build ce (mc_shardchain mc)"
    and "\<not> mc_shards_has_been_changed mc"
  shows "\<exists>w'. mc_generate_block ce n t mode (mc, w) = Some (Inr None, (mc, w'))"
  using sc_build_block_idle [OF assms(1,2), of t mode] assms(3)
  by (auto simp: mc_generate_block_def bindO_def returns_def)

end
