(* ===== verification/Engine_Props.thy ===== *)
theory Engine_Props
  imports Node_Engine Chain_Props
begin

text \<open>
  What the engine guarantees over a call of \<open>execute_queued_messages\<close>: when it succeeds
  nothing is left to do, both chains are well formed and the masterchain knows the head of
  the workchain; a message of a workchain that the node does not serve stays in the queue.
\<close>

section \<open>The loops, by their steps\<close>

lemmas workchain_blocks_induct =
  workchain_blocks.raw_induct [rotated, consumes 1, case_names loop]

lemmas execute_rounds_induct =
  execute_rounds.raw_induct [rotated, consumes 1, case_names loop]

lemma on_workchain_cases:
  assumes "on_workchain m (n, w) = Some (r, (n', w'))"
  obtains sc' where "m (en_workchain n, w) = Some (r, (sc', w'))" "n' = n\<lparr>en_workchain := sc'\<rparr>"
  using assms by (auto simp: on_workchain_def)

lemma on_masterchain_cases:
  assumes "on_masterchain m (n, w) = Some (r, (n', w'))"
  obtains mc' where "m (en_masterchain n, w) = Some (r, (mc', w'))" "n' = n\<lparr>en_masterchain := mc'\<rparr>"
  using assms by (auto simp: on_masterchain_def)

lemma register_cases:
  assumes "register_new_shard_block ce b mc = (r, mc')"
  obtains (fail) e where "r = Inl e" "mc' = mc"
  | (entered) info d where "r = Inr ()" "bl_read_info (ce_blocks ce) b = Inr info"
      "sd_seq_no d = bi_seq_no info" "sd_gen_utime d = bi_gen_utime info"
      "\<exists>cell boc. bl_block_cell (ce_blocks ce) b = Inr cell \<and> bl_write_boc (ce_blocks ce) cell = Inr boc \<and>
         d = shard_descr_of ce info cell boc"
      "mc' = mc\<lparr>mc_shards := (mc_shards mc)(bi_shard info \<mapsto> d), mc_shards_has_been_changed := True\<rparr>"
proof (cases r)
  case (Inl e)
  with assms show thesis
    by (intro fail) (auto simp: register_new_shard_block_def Let_def split: sum.splits)
next
  case (Inr u)
  obtain info where i: "bl_read_info (ce_blocks ce) b = Inr info"
    using assms Inr by (cases "bl_read_info (ce_blocks ce) b") (auto simp: register_new_shard_block_def)
  obtain cell where c: "bl_block_cell (ce_blocks ce) b = Inr cell"
    using assms Inr i by (cases "bl_block_cell (ce_blocks ce) b") (auto simp: register_new_shard_block_def)
  obtain boc where "bl_write_boc (ce_blocks ce) cell = Inr boc"
    using assms Inr i c by (cases "bl_write_boc (ce_blocks ce) cell") (auto simp: register_new_shard_block_def)
  with assms Inr i c show thesis
    by (intro entered [of info "shard_descr_of ce info cell boc"])
      (simp_all add: register_new_shard_block_def Let_def shard_descr_of_def)
qed

lemma workchain_block_cases:
  assumes "workchain_block mce wce k t (n, w) = Some (r, (n', w'))"
  obtains (failed) e sc' where "sc_generate_block wce k t (time_mode n) (en_workchain n, w) =
        Some (Inl e, (sc', w'))" "r = Inl e" "n' = n\<lparr>en_workchain := sc'\<rparr>"
  | (none) sc' where "sc_generate_block wce k t (time_mode n) (en_workchain n, w) =
        Some (Inr None, (sc', w'))" "r = Inr False" "n' = n\<lparr>en_workchain := sc'\<rparr>"
  | (made) b sc' r1 mc' where "sc_generate_block wce k t (time_mode n) (en_workchain n, w) =
        Some (Inr (Some b), (sc', w'))"
      "register_new_shard_block mce b (en_masterchain n) = (r1, mc')"
      "r = bindR r1 (\<lambda>_. Inr True)"
      "n' = n\<lparr>en_workchain := sc', en_time := set_last t (en_time n), en_masterchain := mc'\<rparr>"
proof -
  let ?g = "on_workchain (sc_generate_block wce k t (time_mode n))"
  from assms have "bindO ?g (\<lambda>block (n, w).
       case block of
         None \<Rightarrow> Some (Inr False, (n, w))
       | Some block \<Rightarrow>
           (let n = set_last_time t n in
            case register_new_shard_block mce block (en_masterchain n) of
              (r, mc) \<Rightarrow> Some (bindR r (\<lambda>_. Inr True), (n\<lparr>en_masterchain := mc\<rparr>, w)))) (n, w) =
       Some (r, (n', w'))"
    by (simp add: workchain_block_def)
  then show thesis
  proof (cases rule: bindO_cases)
    case (fail e)
    then show thesis using failed by (auto elim: on_workchain_cases)
  next
    case (step x st)
    obtain n1 w1 where st: "st = (n1, w1)" by (cases st)
    from step(1) [unfolded st] show thesis
    proof (rule on_workchain_cases)
      fix sc' assume g: "sc_generate_block wce k t (time_mode n) (en_workchain n, w) = Some (Inr x, (sc', w1))"
        and n1: "n1 = n\<lparr>en_workchain := sc'\<rparr>"
      show thesis
      proof (cases x)
        case None
        with step(2) st g n1 none show thesis by simp
      next
        case (Some b)
        obtain r1 mc' where "register_new_shard_block mce b (en_masterchain n) = (r1, mc')"
          by (metis prod.exhaust)
        with step(2) st g n1 Some made show thesis
          by (simp add: Let_def set_last_time_def)
      qed
    qed
  qed
qed

lemma masterchain_block_cases:
  assumes "masterchain_block mce k t (n, w) = Some (r, (n', w'))"
  obtains (failed) e mc' where "mc_generate_block mce k t (time_mode n) (en_masterchain n, w) =
        Some (Inl e, (mc', w'))" "r = Inl e" "n' = n\<lparr>en_masterchain := mc'\<rparr>"
  | (none) mc' where "mc_generate_block mce k t (time_mode n) (en_masterchain n, w) =
        Some (Inr None, (mc', w'))" "r = Inr False" "n' = n\<lparr>en_masterchain := mc'\<rparr>"
  | (made) b mc' where "mc_generate_block mce k t (time_mode n) (en_masterchain n, w) =
        Some (Inr (Some b), (mc', w'))" "r = Inr True"
      "n' = n\<lparr>en_masterchain := mc', en_time := set_last t (en_time n)\<rparr>"
proof -
  let ?g = "on_masterchain (mc_generate_block mce k t (time_mode n))"
  from assms have "bindO ?g (\<lambda>block (n, w).
       case block of
         None \<Rightarrow> Some (Inr False, (n, w))
       | Some _ \<Rightarrow> Some (Inr True, (set_last_time t n, w))) (n, w) = Some (r, (n', w'))"
    by (simp add: masterchain_block_def)
  then show thesis
  proof (cases rule: bindO_cases)
    case (fail e)
    then show thesis using failed by (auto elim: on_masterchain_cases)
  next
    case (step x st)
    obtain n1 w1 where st: "st = (n1, w1)" by (cases st)
    from step(1) [unfolded st] show thesis
    proof (rule on_masterchain_cases)
      fix mc' assume "mc_generate_block mce k t (time_mode n) (en_masterchain n, w) = Some (Inr x, (mc', w1))"
        and "n1 = n\<lparr>en_masterchain := mc'\<rparr>"
      with step(2) st none made show thesis by (cases x) (simp_all add: set_last_time_def)
    qed
  qed
qed

text \<open>A relation that every block of the workchain keeps, and the clock, is kept by the loop;
  what the step without a block establishes holds at its end.\<close>

lemma workchain_blocks_rule:
  assumes "workchain_blocks mce wce k t again st = Some (r, st')" "I st"
    and block: "\<And>t n w r n' w'. workchain_block mce wce k t (n, w) = Some (r, (n', w')) \<Longrightarrow> I (n, w) \<Longrightarrow>
      (case r of Inl e \<Rightarrow> E (n', w') | Inr made \<Rightarrow> I (n', w') \<and> (\<not> made \<longrightarrow> D (n', w')))"
    and clock: "\<And>n w. I (n, w) \<Longrightarrow> I (n, snd (get_next_time n w))"
  shows "case r of Inl e \<Rightarrow> E st' | Inr _ \<Rightarrow> I st' \<and> D st'"
  using assms
proof (induction mce wce k t again st "(r, st')" arbitrary: r st' rule: workchain_blocks_induct)
  case (loop wb mce wce k t again st)
  obtain n w where st: "st = (n, w)" by (cases st)
  obtain r1 n1 w1 where b: "workchain_block mce wce k t (n, w) = Some (r1, (n1, w1))"
    using loop.hyps(2) st by (auto simp: bind_eq_Some_conv)
  note I = loop.prems(2) [OF b loop.prems(1) [unfolded st]]
  show ?case
  proof (cases "\<exists>e. r1 = Inl e \<or> r1 = Inr False")
    case True
    with loop.hyps(2) st b I show ?thesis by auto
  next
    case False
    then have r1: "r1 = Inr True" by (cases r1) auto
    obtain t2 w2 where next_time: "get_next_time n1 w1 = (t2, w2)" by (metis prod.exhaust)
    with loop.hyps(2) st b r1 have "wb mce wce k t2 True (n1, w2) = Some (r, st')" by simp
    moreover have "I (n1, w2)" using loop.prems(3) [of n1 w1] I r1 next_time by simp
    ultimately show ?thesis using loop.hyps(1) loop.prems(2,3) by blast
  qed
qed

text \<open>The same for the rounds: what a round without a block establishes holds at the end.\<close>

lemma execute_rounds_rule:
  assumes "execute_rounds mce wce t st = Some (r, st')" "I st"
    and round: "\<And>t st r st'. chain_round mce wce t st = Some (r, st') \<Longrightarrow> I st \<Longrightarrow>
      (case r of Inl e \<Rightarrow> E st' | Inr x \<Rightarrow> I st' \<and> (\<not> fst x \<longrightarrow> D st'))"
  shows "case r of Inl e \<Rightarrow> E st' | Inr _ \<Rightarrow> I st' \<and> D st'"
  using assms
proof (induction mce wce t st "(r, st')" arbitrary: r st' rule: execute_rounds_induct)
  case (loop er mce wce t st)
  obtain r1 st1 where b: "chain_round mce wce t st = Some (r1, st1)"
    using loop.hyps(2) by (auto simp: bind_eq_Some_conv)
  note I = loop.prems(2) [OF b loop.prems(1)]
  show ?case
  proof (cases r1)
    case (Inl e)
    with loop.hyps(2) b I show ?thesis by auto
  next
    case (Inr x)
    then obtain more t2 where x: "r1 = Inr (more, t2)" by (cases x) auto
    show ?thesis
    proof (cases more)
      case True
      with loop.hyps(2) b x have "er mce wce t2 st1 = Some (r, st')" by simp
      moreover have "I st1" using I x by simp
      ultimately show ?thesis using loop.hyps(1) loop.prems(2) by blast
    next
      case False
      with loop.hyps(2) b x I show ?thesis by auto
    qed
  qed
qed

section \<open>What a successful run leaves\<close>

definition nothing_to_do where
  "nothing_to_do mce wce = (\<lambda>(n, w).
     sc_idle wce (en_workchain n) w \<and> sc_idle mce (mc_shardchain (en_masterchain n)) w \<and>
     \<not> mc_shards_has_been_changed (en_masterchain n))"

lemma sc_idle_queue: "nw_queue w' = nw_queue w \<Longrightarrow> sc_idle ce sc w' = sc_idle ce sc w"
  by (simp add: sc_idle_def)

text \<open>The clock and the messages that come do not change what a chain is.\<close>

lemma chain_round_cases:
  assumes "chain_round mce wce t (n, w) = Some (r, (n', w'))"
  obtains (no_number) e where "mc_next_seq_no mce (en_masterchain n) = Inl e"
      "r = Inl e" "n' = n" "w' = w"
  | (failed) k e where "mc_next_seq_no mce (en_masterchain n) = Inr k"
      "workchain_blocks mce wce k t False (n, w) = Some (Inl e, (n', w'))" "r = Inl e"
  | (rest) k again t1 n1 w1 r1 where "mc_next_seq_no mce (en_masterchain n) = Inr k"
      "workchain_blocks mce wce k t False (n, w) = Some (Inr (again, t1), (n1, w1))"
      "masterchain_block mce k t1 (n1, w1) = Some (r1, (n', w'))"
      "r = bindR r1 (\<lambda>made. Inr (again \<or> made, t1))"
proof (cases "mc_next_seq_no mce (en_masterchain n)")
  case (Inl e)
  with assms show thesis by (intro no_number) (auto simp: chain_round_def)
next
  case (Inr k)
  with assms have "bindO (workchain_blocks mce wce k t False) (\<lambda>(again, t).
      bindO (masterchain_block mce k t) (\<lambda>made. returns (retS (again \<or> made, t)))) (n, w) = Some (r, (n', w'))"
    by (simp add: chain_round_def)
  then show thesis
  proof (cases rule: bindO_cases)
    case (fail e)
    with Inr show thesis by (intro failed) simp_all
  next
    case (step x st)
    obtain again t1 n1 w1 where x: "x = (again, t1)" "st = (n1, w1)" by (metis prod.exhaust)
    with step have "bindO (masterchain_block mce k t1) (\<lambda>made. returns (retS (again \<or> made, t1))) (n1, w1) =
        Some (r, (n', w'))" by simp
    then obtain r1 where "masterchain_block mce k t1 (n1, w1) = Some (r1, (n', w'))"
        "r = bindR r1 (\<lambda>made. Inr (again \<or> made, t1))"
      by (cases rule: bindO_cases) auto
    with step x Inr show thesis by (intro rest) simp_all
  qed
qed

lemma workchain_blocks_idle:
  assumes "workchain_blocks mce wce k t again st = Some (Inr x, (n', w'))"
  shows "sc_idle wce (en_workchain n') w'"
proof -
  have "case (Inr x :: fault + _) of Inl e \<Rightarrow> True | Inr _ \<Rightarrow> True \<and> (\<lambda>(n, w). sc_idle wce (en_workchain n) w) (n', w')"
  proof (rule workchain_blocks_rule [where I = "\<lambda>_. True" and E = "\<lambda>_. True", OF assms])
    fix t n w r n' w'
    assume "workchain_block mce wce k t (n, w) = Some (r, (n', w'))"
    then show "case r of Inl e \<Rightarrow> True | Inr made \<Rightarrow> True \<and>
        (\<not> made \<longrightarrow> (case (n', w') of (n, w) \<Rightarrow> sc_idle wce (en_workchain n) w))"
    proof (cases rule: workchain_block_cases)
      case (none sc')
      from sc_generate_None [OF none(1)] none(2,3) show ?thesis by (simp add: sc_idle_queue [of w' w])
    next
      case (made b sc' r1 mc')
      then show ?thesis by (cases r1) auto
    qed auto
  qed auto
  then show ?thesis by simp
qed

lemma chain_round_done:
  assumes "chain_round mce wce t (n, w) = Some (Inr (False, t'), (n', w'))"
  shows "nothing_to_do mce wce (n', w')"
  using assms
proof (cases rule: chain_round_cases)
  case (rest k again t1 n1 w1 r1)
  then have r1: "r1 = Inr False" "\<not> again" by (cases r1; auto)+
  have idle: "sc_idle wce (en_workchain n1) w1" using workchain_blocks_idle [OF rest(2)] .
  from rest(3) [unfolded r1(1)] show ?thesis
  proof (cases rule: masterchain_block_cases)
    case (none mc')
    from mc_generate_None [OF none(1)] none(3) idle show ?thesis
      by (simp add: nothing_to_do_def sc_idle_queue [of w' w1])
  qed auto
qed auto

lemma execute_done:
  assumes "execute_queued_messages mce wce (n, w) = Some (Inr (), st')"
  shows "nothing_to_do mce wce st'"
proof -
  obtain t w1 where run: "execute_rounds mce wce t (n, w1) = Some (Inr (), st')"
    using assms by (auto simp: execute_queued_messages_def split: prod.splits)
  have "case (Inr () :: fault + _) of Inl e \<Rightarrow> True | Inr _ \<Rightarrow> True \<and> nothing_to_do mce wce st'"
  proof (rule execute_rounds_rule [where I = "\<lambda>_. True" and E = "\<lambda>_. True", OF run])
    fix t st r st'
    assume b: "chain_round mce wce t st = Some (r, st')"
    obtain n w n' w' where st: "st = (n, w)" "st' = (n', w')" by (metis prod.exhaust)
    show "case r of Inl e \<Rightarrow> True | Inr x \<Rightarrow> True \<and> (\<not> fst x \<longrightarrow> nothing_to_do mce wce st')"
      using chain_round_done [of mce wce t n w _ n' w'] b st by (cases r) auto
  qed auto
  then show ?thesis by simp
qed

text \<open>The masterchain has the description of the workchain's current block, and its own current
  block carries the descriptions that it has.\<close>

definition head_described where
  "head_described mce n \<longleftrightarrow>
     (\<exists>info cell boc. bl_read_info (ce_blocks mce) (sc_block (en_workchain n)) = Inr info \<and>
        bl_block_cell (ce_blocks mce) (sc_block (en_workchain n)) = Inr cell \<and>
        bl_write_boc (ce_blocks mce) cell = Inr boc \<and>
        mc_shards (en_masterchain n) (bi_shard info) = Some (shard_descr_of mce info cell boc))"

definition shards_carried where
  "shards_carried mce mc \<longleftrightarrow>
     (\<exists>block. master_block mce (mc_shards mc) block = Inr (sc_block (mc_shardchain mc)))"

text \<open>Relative to the engine \<open>n0\<close> that the run starts from.\<close>

definition registers where
  "registers mce n0 n \<longleftrightarrow>
     (en_workchain n = en_workchain n0 \<or> head_described mce n) \<and>
     (mc_shards_has_been_changed (en_masterchain n) \<or> shards_carried mce (en_masterchain n) \<or>
      en_workchain n = en_workchain n0 \<and> en_masterchain n = en_masterchain n0)"

lemma workchain_block_registers:
  assumes "workchain_block mce wce k t (n, w) = Some (Inr made, (n', w'))" "registers mce n0 n"
  shows "registers mce n0 n'"
  using assms(1)
proof (cases rule: workchain_block_cases)
  case (none sc')
  with sc_generate_None [OF none(1)] assms(2) show ?thesis
    by (simp add: registers_def head_described_def)
next
  case (made b sc' r1 mc')
  have "sc_block sc' = b" using made(1) by (rule sc_generate_built)
  moreover have "r1 = Inr ()" using made(3) by (cases r1) auto
  with made(2) have "register_new_shard_block mce b (en_masterchain n) = (Inr (), mc')" by simp
  then obtain info cell boc where "bl_read_info (ce_blocks mce) b = Inr info"
      "bl_block_cell (ce_blocks mce) b = Inr cell" "bl_write_boc (ce_blocks mce) cell = Inr boc"
      "mc_shards mc' (bi_shard info) = Some (shard_descr_of mce info cell boc)" "mc_shards_has_been_changed mc'"
    by (cases rule: register_cases) auto
  ultimately show ?thesis using made(4) by (auto simp: registers_def head_described_def)
qed simp

lemma masterchain_block_registers:
  assumes "masterchain_block mce k t (n, w) = Some (Inr made, (n', w'))" "registers mce n0 n"
  shows "registers mce n0 n'"
  using assms(1)
proof (cases rule: masterchain_block_cases)
  case (none mc')
  with mc_generate_None [OF none(1)] assms(2) show ?thesis
    by (simp add: registers_def head_described_def)
next
  case (made b mc')
  obtain block where "master_block mce (mc_shards (en_masterchain n)) block = Inr b"
      "sc_block (mc_shardchain mc') = b" "mc_shards mc' = mc_shards (en_masterchain n)"
    using made(1) by (rule mc_generate_built) blast
  with assms(2) made(3) show ?thesis
    by (auto simp: registers_def head_described_def shards_carried_def)
qed simp

lemma chain_round_registers:
  assumes "chain_round mce wce t (n, w) = Some (Inr x, (n', w'))" "registers mce n0 n"
  shows "registers mce n0 n'"
  using assms(1)
proof (cases rule: chain_round_cases)
  case (rest k again t1 n1 w1 r1)
  then obtain made where r1: "r1 = Inr made" by (cases r1) auto
  have "case (Inr (again, t1) :: fault + _) of Inl e \<Rightarrow> True
      | Inr _ \<Rightarrow> (\<lambda>(n, w). registers mce n0 n) (n1, w1) \<and> True"
  proof (rule workchain_blocks_rule [where E = "\<lambda>_. True" and D = "\<lambda>_. True", OF rest(2)])
    show "(\<lambda>(n, w). registers mce n0 n) (n, w)" using assms(2) by simp
    fix t n w r n' w'
    assume "workchain_block mce wce k t (n, w) = Some (r, (n', w'))" "(\<lambda>(n, w). registers mce n0 n) (n, w)"
    then show "case r of Inl e \<Rightarrow> True
      | Inr made \<Rightarrow> (\<lambda>(n, w). registers mce n0 n) (n', w') \<and> (\<not> made \<longrightarrow> True)"
      by (cases r) (auto intro: workchain_block_registers)
  qed simp
  then have "registers mce n0 n1" by simp
  with masterchain_block_registers [OF rest(3) [unfolded r1]] show ?thesis .
qed simp_all

lemma execute_registers:
  assumes "execute_queued_messages mce wce (n, w) = Some (Inr (), (n', w'))"
  shows "registers mce n n'"
proof -
  obtain t w1 where run: "execute_rounds mce wce t (n, w1) = Some (Inr (), (n', w'))"
    using assms by (auto simp: execute_queued_messages_def split: prod.splits)
  have "case (Inr () :: fault + _) of Inl e \<Rightarrow> True
      | Inr _ \<Rightarrow> (\<lambda>(n1, w). registers mce n n1) (n', w') \<and> True"
  proof (rule execute_rounds_rule [where E = "\<lambda>_. True" and D = "\<lambda>_. True", OF run])
    show "(\<lambda>(n1, w). registers mce n n1) (n, w1)" by (simp add: registers_def)
    fix t st r st'
    assume "chain_round mce wce t st = Some (r, st')" "(\<lambda>(n1, w). registers mce n n1) st"
    then show "case r of Inl e \<Rightarrow> True
      | Inr x \<Rightarrow> (\<lambda>(n1, w). registers mce n n1) st' \<and> (\<not> fst x \<longrightarrow> True)"
      by (cases r; cases st; cases st') (auto intro: chain_round_registers)
  qed
  then show ?thesis by simp
qed

text \<open>\<^bold>\<open>C23\<close>. When a call of \<open>execute_queued_messages\<close> succeeds nothing is left to do: the
  inbound queue holds no message for the workchain or the masterchain, the outbound queues
  of both are empty, and the last block of the workchain is registered: unless the call made
  no block, the masterchain has the description of the workchain's current block (with its
  number, times and hashes) and its own current block carries the descriptions that it has.\<close>

theorem successful_run_leaves_nothing_to_do:
  assumes "execute_queued_messages mce wce (n, w) = Some (Inr (), (n', w'))"
  shows "pending (bx_dst_workchain (ce_builder wce)) (nw_queue w') (sc_workchain wce (en_workchain n')) = [] \<and>
    pending (bx_dst_workchain (ce_builder mce)) (nw_queue w')
      (sc_workchain mce (mc_shardchain (en_masterchain n'))) = [] \<and>
    (\<exists>q. bx_read_out_queue (ce_builder wce) (sc_head (en_workchain n')) = Inr q \<and>
       bx_queue_iter (ce_builder wce) q = []) \<and>
    (\<exists>q. bx_read_out_queue (ce_builder mce) (sc_head (mc_shardchain (en_masterchain n'))) = Inr q \<and>
       bx_queue_iter (ce_builder mce) q = []) \<and>
    \<not> mc_shards_has_been_changed (en_masterchain n') \<and>
    (en_workchain n' = en_workchain n \<or> head_described mce n') \<and>
    (en_workchain n' = en_workchain n \<and> en_masterchain n' = en_masterchain n \<or>
     shards_carried mce (en_masterchain n'))"
  using execute_done [OF assms] execute_registers [OF assms]
  by (auto simp: nothing_to_do_def sc_idle_def registers_def)

section \<open>What every run keeps\<close>

text \<open>The two chains use one block library; the laws of the library are those of \<open>Chain_Props\<close>.\<close>

definition engine_env_ok where
  "engine_env_ok mce wce \<longleftrightarrow>
     chain_env_ok mce \<and> chain_env_ok wce \<and> ce_blocks mce = ce_blocks wce \<and>
     bx_dst_workchain (ce_builder mce) = bx_dst_workchain (ce_builder wce)"

definition engine_wf where
  "engine_wf mce wce n \<longleftrightarrow>
     sc_wf mce (mc_shardchain (en_masterchain n)) \<and> sc_wf wce (en_workchain n)"

text \<open>The masterchain's description of the workchain is that of its current block.\<close>

definition head_registered where
  "head_registered wce n \<longleftrightarrow>
     (case mc_shards (en_masterchain n) (sc_shard wce (en_workchain n)) of
        None \<Rightarrow> True
      | Some d \<Rightarrow> sd_seq_no d = sc_seq_no wce (en_workchain n))"

definition same_engine where
  "same_engine mce wce n n' \<longleftrightarrow>
     same_chain mce (mc_shardchain (en_masterchain n)) (mc_shardchain (en_masterchain n')) \<and>
     same_chain wce (en_workchain n) (en_workchain n')"

definition served where
  "served mce wce n =
     {sc_workchain mce (mc_shardchain (en_masterchain n)), sc_workchain wce (en_workchain n)}"

text \<open>The queue lost nothing but messages of the two chains, the oldest of each first.\<close>

definition took_served where
  "took_served mce wce n q q' \<longleftrightarrow>
     mq_capacity q' = mq_capacity q \<and> mq_stopped q' = mq_stopped q \<and>
     (\<forall>wc. \<exists>taken. pending (bx_dst_workchain (ce_builder wce)) q wc =
        taken @ pending (bx_dst_workchain (ce_builder wce)) q' wc) \<and>
     (\<forall>wc. wc \<notin> served mce wce n \<longrightarrow>
        pending (bx_dst_workchain (ce_builder wce)) q' wc = pending (bx_dst_workchain (ce_builder wce)) q wc)"

lemma same_chain_trans: "same_chain ce a b \<Longrightarrow> same_chain ce b c \<Longrightarrow> same_chain ce a c"
  by (simp add: same_chain_def)

lemma same_engine_served: "same_engine mce wce n n' \<Longrightarrow> served mce wce n' = served mce wce n"
  by (simp add: same_engine_def same_chain_def served_def sc_workchain_def)

lemma took_served_refl [simp]: "took_served mce wce n q q"
  by (simp add: took_served_def)

lemma took_served_trans:
  assumes "took_served mce wce n q q1" "took_served mce wce n q1 q2"
  shows "took_served mce wce n q q2"
proof -
  let ?p = "pending (bx_dst_workchain (ce_builder wce))"
  have "\<exists>taken. ?p q wc = taken @ ?p q2 wc" for wc
  proof -
    have "\<exists>a. ?p q wc = a @ ?p q1 wc" "\<exists>b. ?p q1 wc = b @ ?p q2 wc"
      using assms by (simp_all add: took_served_def)
    then obtain a b where "?p q wc = a @ ?p q1 wc" "?p q1 wc = b @ ?p q2 wc" by blast
    then have "?p q wc = (a @ b) @ ?p q2 wc" by simp
    then show ?thesis by blast
  qed
  with assms show ?thesis by (simp add: took_served_def)
qed

lemma took_is_served:
  assumes "took (bx_dst_workchain (ce_builder wce)) wc q q'" "wc \<in> served mce wce n"
  shows "took_served mce wce n q q'"
proof -
  have "\<exists>taken. pending (bx_dst_workchain (ce_builder wce)) q wc' =
      taken @ pending (bx_dst_workchain (ce_builder wce)) q' wc'" for wc'
    using assms(1) by (cases "wc' = wc") (auto simp: took_def)
  moreover have "wc' \<noteq> wc" if "wc' \<notin> served mce wce n" for wc'
    using that assms(2) by blast
  ultimately show ?thesis
    using assms(1) by (simp add: took_served_def took_def)
qed

text \<open>The invariant of the loops, relative to the state \<open>(n0, w0)\<close> they start from; the second part
  only when it holds there.\<close>

definition run_keeps where
  "run_keeps mce wce n0 w0 = (\<lambda>(n, w :: ('m, 'd) node_world).
     engine_wf mce wce n \<and> same_engine mce wce n0 n \<and>
     took_served mce wce n0 (nw_queue w0) (nw_queue w))"

definition run_inv where
  "run_inv mce wce known n0 w0 =
     (\<lambda>(n, w). run_keeps mce wce n0 w0 (n, w) \<and> (known \<longrightarrow> head_registered wce n))"

lemma run_keeps_served:
  "run_keeps mce wce n0 w0 (n, w) \<Longrightarrow> served mce wce n = served mce wce n0"
  by (simp add: run_keeps_def same_engine_served)

lemma run_keeps_step:
  assumes "run_keeps mce wce n0 w0 (n, w)" "engine_wf mce wce n'" "same_engine mce wce n n'"
    and "took (bx_dst_workchain (ce_builder wce)) wc (nw_queue w) (nw_queue w')"
    and "wc \<in> served mce wce n"
  shows "run_keeps mce wce n0 w0 (n', w')"
proof -
  have "took_served mce wce n0 (nw_queue w) (nw_queue w')"
    using took_is_served [OF assms(4)] assms(1,5) run_keeps_served by blast
  with assms(1-3) show ?thesis
    by (auto simp: run_keeps_def same_engine_def intro: took_served_trans same_chain_trans)
qed

lemma workchain_block_keeps:
  assumes "engine_env_ok mce wce" "workchain_block mce wce k t (n, w) = Some (r, (n', w'))"
    and "run_inv mce wce known n0 w0 (n, w)"
  shows "case r of Inl e \<Rightarrow> run_keeps mce wce n0 w0 (n', w') | Inr _ \<Rightarrow> run_inv mce wce known n0 w0 (n', w')"
proof -
  have ok: "chain_env_ok wce" "ce_blocks mce = ce_blocks wce"
    using assms(1) by (simp_all add: engine_env_ok_def)
  have wf: "engine_wf mce wce n" "run_keeps mce wce n0 w0 (n, w)" "known \<Longrightarrow> head_registered wce n"
    using assms(3) by (simp_all add: run_inv_def run_keeps_def)
  have mine: "sc_workchain wce (en_workchain n) \<in> served mce wce n" by (simp add: served_def)
  note keeps = sc_generate_keeps [OF ok(1), of "en_workchain n"]
  from assms(2) show ?thesis
  proof (cases rule: workchain_block_cases)
    case (failed e sc')
    from keeps [OF _ failed(1)] wf(1) failed(3)
    have "engine_wf mce wce n'" "same_engine mce wce n n'"
        "took (bx_dst_workchain (ce_builder wce)) (sc_workchain wce (en_workchain n)) (nw_queue w) (nw_queue w')"
      by (simp_all add: engine_wf_def same_engine_def)
    from run_keeps_step [OF wf(2) this mine] failed(2) show ?thesis by simp
  next
    case (none sc')
    with sc_generate_None [OF none(1)] wf show ?thesis
      by (simp add: run_inv_def run_keeps_def)
  next
    case (made b sc' r1 mc')
    note g = keeps [OF _ made(1)]
    have wc: "sc_wf wce sc'" "same_chain wce (en_workchain n) sc'"
        "took (bx_dst_workchain (ce_builder wce)) (sc_workchain wce (en_workchain n)) (nw_queue w) (nw_queue w')"
      using g wf(1) by (simp_all add: engine_wf_def)
    obtain info where info: "bl_read_info (ce_blocks wce) b = Inr info"
        "bi_seq_no info = sc_seq_no wce sc'" "bi_shard info = sc_shard wce sc'"
      using g wf(1) wc(2) by (auto simp: engine_wf_def same_chain_def)
    have "mc_shardchain mc' = mc_shardchain (en_masterchain n)"
      using made(2) by (cases rule: register_cases) auto
    with wf(1) wc made(4) have "engine_wf mce wce n'" "same_engine mce wce n n'"
      by (simp_all add: engine_wf_def same_engine_def)
    note keep = run_keeps_step [OF wf(2) this wc(3) mine]
    from made(2) show ?thesis
    proof (cases rule: register_cases)
      case (fail e)
      with made(3) keep show ?thesis by simp
    next
      case (entered i d)
      with info ok(2) made(3,4) keep show ?thesis
        by (simp add: run_inv_def head_registered_def)
    qed
  qed
qed

lemma masterchain_block_keeps:
  assumes "engine_env_ok mce wce" "masterchain_block mce k t (n, w) = Some (r, (n', w'))"
    and "run_inv mce wce known n0 w0 (n, w)"
  shows "run_inv mce wce known n0 w0 (n', w')"
proof -
  have ok: "chain_env_ok mce" "bx_dst_workchain (ce_builder mce) = bx_dst_workchain (ce_builder wce)"
    using assms(1) by (simp_all add: engine_env_ok_def)
  have wf: "engine_wf mce wce n" "run_keeps mce wce n0 w0 (n, w)" "known \<Longrightarrow> head_registered wce n"
    using assms(3) by (simp_all add: run_inv_def run_keeps_def)
  have mine: "sc_workchain mce (mc_shardchain (en_masterchain n)) \<in> served mce wce n"
    by (simp add: served_def)
  have step: "run_inv mce wce known n0 w0 (n1, w')"
    if "mc_generate_block mce k t (time_mode n) (en_masterchain n, w) = Some (r1, (mc', w'))"
      and "en_masterchain n1 = mc'" "en_workchain n1 = en_workchain n" for r1 mc' n1
  proof -
    note g = mc_generate_keeps [OF ok(1) _ that(1)]
    have mc: "sc_wf mce (mc_shardchain mc')"
        "same_chain mce (mc_shardchain (en_masterchain n)) (mc_shardchain mc')"
        "mc_shards mc' = mc_shards (en_masterchain n)"
        "took (bx_dst_workchain (ce_builder wce)) (sc_workchain mce (mc_shardchain (en_masterchain n)))
           (nw_queue w) (nw_queue w')"
      using g wf(1) ok(2) by (simp_all add: engine_wf_def)
    with wf(1) that(2,3) have "engine_wf mce wce n1" "same_engine mce wce n n1"
      by (simp_all add: engine_wf_def same_engine_def)
    from run_keeps_step [OF wf(2) this mc(4) mine] wf(3) mc(3) that(2,3) show ?thesis
      by (simp add: run_inv_def head_registered_def cong: option.case_cong)
  qed
  from assms(2) show ?thesis
    by (cases rule: masterchain_block_cases) (auto intro: step)
qed

lemma run_inv_clock:
  "run_inv mce wce known n0 w0 (n, w) \<Longrightarrow> run_inv mce wce known n0 w0 (n, snd (get_next_time n w))"
  by (simp add: run_inv_def run_keeps_def get_next_time_def)

lemma run_inv_keeps: "run_inv mce wce known n0 w0 st \<Longrightarrow> run_keeps mce wce n0 w0 st"
  by (cases st) (simp add: run_inv_def)

lemma chain_round_keeps:
  assumes "engine_env_ok mce wce" "chain_round mce wce t st = Some (r, st')"
    and "run_inv mce wce known n0 w0 st"
  shows "case r of Inl e \<Rightarrow> run_keeps mce wce n0 w0 st' | Inr _ \<Rightarrow> run_inv mce wce known n0 w0 st'"
proof -
  obtain n w n' w' where st: "st = (n, w)" "st' = (n', w')" by (metis prod.exhaust)
  have blocks: "case r of Inl e \<Rightarrow> run_keeps mce wce n0 w0 st1 | Inr _ \<Rightarrow> run_inv mce wce known n0 w0 st1 \<and> True"
    if "workchain_blocks mce wce k t False st = Some (r, st1)" for k r st1
    using that assms(3)
  proof (rule workchain_blocks_rule [where D = "\<lambda>_. True"])
    fix t n w r n' w'
    assume "workchain_block mce wce k t (n, w) = Some (r, (n', w'))" "run_inv mce wce known n0 w0 (n, w)"
    from workchain_block_keeps [OF assms(1) this]
    show "case r of Inl e \<Rightarrow> run_keeps mce wce n0 w0 (n', w')
      | Inr made \<Rightarrow> run_inv mce wce known n0 w0 (n', w') \<and> (\<not> made \<longrightarrow> True)"
      by (cases r) auto
  qed (rule run_inv_clock)
  from assms(2) [unfolded st] show ?thesis
  proof (cases rule: chain_round_cases)
    case (no_number e)
    with assms(3) st show ?thesis by (auto intro: run_inv_keeps)
  next
    case (failed k e)
    with blocks [of k "Inl e" "(n', w')"] st show ?thesis by simp
  next
    case (rest k again t1 n1 w1 r1)
    then have "run_inv mce wce known n0 w0 (n1, w1)"
      using blocks [of k "Inr (again, t1)" "(n1, w1)"] st by simp
    from masterchain_block_keeps [OF assms(1) rest(3) this] st rest(4) show ?thesis
      by (cases r1) (auto intro: run_inv_keeps)
  qed
qed

lemma execute_keeps:
  assumes "engine_env_ok mce wce" "execute_queued_messages mce wce (n, w) = Some (r, st')"
    and "engine_wf mce wce n" "known \<Longrightarrow> head_registered wce n"
  shows "case r of Inl e \<Rightarrow> run_keeps mce wce n w st' | Inr _ \<Rightarrow> run_inv mce wce known n w st'"
proof -
  obtain t w1 where run: "get_next_time n w = (t, w1)" "execute_rounds mce wce t (n, w1) = Some (r, st')"
    using assms(2) by (auto simp: execute_queued_messages_def split: prod.splits)
  have "run_inv mce wce known n w (n, w)"
    using assms(3,4) by (simp add: run_inv_def run_keeps_def same_engine_def)
  from run_inv_clock [OF this] run(1) have start: "run_inv mce wce known n w (n, w1)" by simp
  from run(2) start have "case r of Inl e \<Rightarrow> run_keeps mce wce n w st'
      | Inr _ \<Rightarrow> run_inv mce wce known n w st' \<and> True"
  proof (rule execute_rounds_rule)
    fix t st r st1
    assume "chain_round mce wce t st = Some (r, st1)" "run_inv mce wce known n w st"
    from chain_round_keeps [OF assms(1) this]
    show "case r of Inl e \<Rightarrow> run_keeps mce wce n w st1
      | Inr x \<Rightarrow> run_inv mce wce known n w st1 \<and> (\<not> fst x \<longrightarrow> True)"
      by (cases r) auto
  qed
  then show ?thesis by (cases r) auto
qed

text \<open>\<^bold>\<open>C24\<close>. Every call of \<open>execute_queued_messages\<close>, failed or not, keeps both chains well
  formed (the current block can be read and has the number of its state) and takes from
  the inbound queue nothing but messages of the two chains, the oldest first. A call that
  succeeds also keeps the masterchain's description of the workchain that of its head; one that
  fails may leave a head that the masterchain does not know.\<close>

theorem run_keeps_the_chains:
  assumes "engine_env_ok mce wce" "engine_wf mce wce n" "head_registered wce n"
    and "execute_queued_messages mce wce (n, w) = Some (r, (n', w'))"
  shows "engine_wf mce wce n' \<and> served mce wce n' = served mce wce n \<and>
    took_served mce wce n (nw_queue w) (nw_queue w') \<and>
    \<not> ((\<exists>x. r = Inr x) \<and> \<not> head_registered wce n')"
proof -
  note k = execute_keeps [OF assms(1,4,2), of True, OF assms(3)]
  then have "run_keeps mce wce n w (n', w')" by (cases r) (auto intro: run_inv_keeps)
  with k show ?thesis
    by (cases r) (auto simp: run_keeps_def run_inv_def same_engine_served)
qed

section \<open>Messages nobody serves\<close>

definition holds_foreign where
  "holds_foreign mce wce wc ms n w \<longleftrightarrow>
     engine_wf mce wce n \<and> wc \<notin> served mce wce n \<and>
     (\<exists>later. pending (bx_dst_workchain (ce_builder wce)) (nw_queue w) wc = ms @ later)"

lemma execute_holds_foreign:
  assumes "engine_env_ok mce wce" "execute_queued_messages mce wce (n, w) = Some (r, (n', w'))"
    and "holds_foreign mce wce wc ms n w"
  shows "holds_foreign mce wce wc ms n' w'"
proof -
  have "case r of Inl e \<Rightarrow> run_keeps mce wce n w (n', w') | Inr _ \<Rightarrow> run_inv mce wce False n w (n', w')"
    using execute_keeps [OF assms(1,2), of False] assms(3) by (simp add: holds_foreign_def)
  then have "run_keeps mce wce n w (n', w')" by (cases r) (auto intro: run_inv_keeps)
  with assms(3) show ?thesis
    by (auto simp: run_keeps_def holds_foreign_def same_engine_served took_served_def)
qed

lemma holds_foreign_waits:
  "holds_foreign mce wce wc (m # ms) n w \<Longrightarrow> \<not> message_queues_are_empty mce wce (n, w)"
  by (auto simp: holds_foreign_def message_queues_are_empty_def mq_is_empty_def pending_def)

lemma holds_foreign_time [simp]:
  "holds_foreign mce wce wc ms (set_time_mode mode n) w = holds_foreign mce wce wc ms n w"
  "holds_foreign mce wce wc ms (increase_time_delta d n) w = holds_foreign mce wce wc ms n w"
  "holds_foreign mce wce wc ms (reset_time_delta n) w = holds_foreign mce wce wc ms n w"
  by (simp_all add: holds_foreign_def engine_wf_def served_def set_time_mode_def
      increase_time_delta_def reset_time_delta_def)

lemma enqueue_message_Inr:
  assumes "enqueue_message m (n, w) = (Inr (), (n', w'))"
  shows "n' = n" "nw_queue w' = (nw_queue w)\<lparr>mq_storage := mq_storage (nw_queue w) @ [m]\<rparr>"
proof -
  obtain r q where mq: "mq_queue m (nw_queue w) = (r, q)" by (metis prod.exhaust)
  have r: "r = Inr ()" using assms mq by (cases r) (simp_all add: enqueue_message_def)
  have q: "q = (nw_queue w)\<lparr>mq_storage := mq_storage (nw_queue w) @ [m]\<rparr>"
    using mq unfolding r mq_queue_def by (auto split: if_splits)
  have "(Inr () :: unit res, (n, w\<lparr>nw_queue := q\<rparr>)) = (Inr (), (n', w'))"
    using assms mq r by (simp add: enqueue_message_def)
  then have "n' = n" "w' = w\<lparr>nw_queue := q\<rparr>" by simp_all
  with q show "n' = n" "nw_queue w' = (nw_queue w)\<lparr>mq_storage := mq_storage (nw_queue w) @ [m]\<rparr>"
    by simp_all
qed

lemma holds_foreign_enqueue:
  assumes "holds_foreign mce wce wc ms n w" "enqueue_message m (n, w) = (Inr (), (n', w'))"
  shows "holds_foreign mce wce wc ms n' w'"
proof -
  obtain later where "pending (bx_dst_workchain (ce_builder wce)) (nw_queue w) wc = ms @ later"
    using assms(1) by (auto simp: holds_foreign_def)
  then have "pending (bx_dst_workchain (ce_builder wce)) (nw_queue w') wc =
      ms @ later @ (if bx_dst_workchain (ce_builder wce) m = Some wc then [m] else [])"
    using enqueue_message_Inr(2) [OF assms(2)] by (simp add: pending_def)
  with assms(1) enqueue_message_Inr(1) [OF assms(2)] show ?thesis
    by (auto simp: holds_foreign_def)
qed

lemma foreign_step:
  assumes "engine_env_ok mce wce" "run_step mce wce (Running, (n, w)) (p, (n', w'))"
    and "holds_foreign mce wce wc (m # ms) n w"
  shows "p = Running \<and> holds_foreign mce wce wc (m # ms) n' w'"
  using assms(2)
proof (cases rule: run_step.cases)
  case round_again
  then obtain r where "execute_queued_messages mce wce (n, w) = Some (r, (n', w'))" "p = Running"
    by auto
  with execute_holds_foreign [OF assms(1) _ assms(3)] show ?thesis by blast
next
  case round_wait
  then have "holds_foreign mce wce wc (m # ms) n' w'"
    using execute_holds_foreign [OF assms(1) _ assms(3)] by auto
  with round_wait holds_foreign_waits [of mce wce wc m ms n' w'] show ?thesis by simp
next
  case api_queue
  with holds_foreign_enqueue [OF assms(3)] show ?thesis by auto
next
  case api_stop
  with assms(3) show ?thesis by (simp add: holds_foreign_def pending_def mq_stop_def)
qed (use assms(3) in auto)

text \<open>\<^bold>\<open>C25\<close>. A message for a workchain that the node does not serve is accepted into the
  inbound queue and never leaves it, and from then on the engine's thread neither waits nor
  returns: it runs in a busy loop, and not even a stop of the queue ends it, so that the
  thread that joins it (a reset or a fork) waits for ever.\<close>

theorem unserved_message_keeps_engine_busy:
  assumes "engine_env_ok mce wce" "engine_wf mce wce n" "wc \<notin> served mce wce n"
    and "pending (bx_dst_workchain (ce_builder wce)) (nw_queue w) wc = m # ms"
    and "run_reaches mce wce (Running, (n, w)) (p, (n', w'))"
  shows "p = Running \<and> m \<in> set (mq_storage (nw_queue w'))"
proof -
  have "fst x = Running \<and> holds_foreign mce wce wc [m] (fst (snd x)) (snd (snd x))"
    if "run_reaches mce wce (Running, (n, w)) x" for x
    using that
  proof (induction "(Running, (n, w))" x rule: run_reaches.induct)
    case start
    from assms(2-4) show ?case by (simp add: holds_foreign_def)
  next
    case (step y z)
    obtain n1 w1 p2 n2 w2 where y: "y = (Running, (n1, w1))" "z = (p2, (n2, w2))"
      using step.hyps(2) by (metis prod.collapse)
    with foreign_step [OF assms(1) step.hyps(3) [unfolded y]] step.hyps(2) show ?case by simp
  qed
  from this [OF assms(5)] have "p = Running" "holds_foreign mce wce wc [m] n' w'" by simp_all
  then show ?thesis
    by (auto simp: holds_foreign_def pending_def filter_eq_Cons_iff)
qed

section \<open>A restart with another configuration\<close>

text \<open>\<^bold>\<open>C27\<close>. When the node is restarted with a configuration that differs from the one in
  the last masterchain block, the masterchain makes a block at once (with the restored
  shards) to record the new one: its number is the next, and its generation time is zero,
  not the time of the node's clock.\<close>

theorem new_configuration_makes_block_at_time_zero:
  assumes "chain_env_ok ce" "sc_wf ce (mc_shardchain mc)" "sc_finality_was_loaded (mc_shardchain mc)"
    and "get_last_finalized_mc_extra ce mc = Some extra" "ch_config (ce_lib ce) extra = Some config"
    and "config \<noteq> ce_raw_config ce"
    and "restore_state ce (mc, w) = Some (Inr (), (mc', w'))"
  shows "\<exists>info. sc_info ce (mc_shardchain mc') = Inr info \<and> bi_gen_utime info = 0 \<and>
    bi_seq_no info = sc_seq_no ce (mc_shardchain mc) + 1 \<and> \<not> mc_shards_has_been_changed mc'"
proof -
  obtain r shards where rs: "restore_shards (ce_lib ce) (ch_shards (ce_lib ce) extra) (mc_shards mc) = (r, shards)"
    by (metis prod.exhaust)
  have r: "r = Inr ()"
    using assms(3,4,7) rs by (cases r) (auto simp: restore_state_def)
  let ?mc = "mc\<lparr>mc_shards := shards, mc_shards_has_been_changed := True\<rparr>"
  have "mc_next_seq_no ce ?mc = Inr (sc_seq_no ce (mc_shardchain mc) + 1)"
    using next_seq_no_wf [OF assms(2)] by (simp add: mc_next_seq_no_def)
  then have "bindO (mc_generate_block ce (sc_seq_no ce (mc_shardchain mc) + 1) 0 System)
      (\<lambda>_. returns (retS ())) (?mc, w) = Some (Inr (), (mc', w'))"
    using assms(3-7) rs r by (simp add: restore_state_def)
  then obtain x where
    gen: "mc_generate_block ce (sc_seq_no ce (mc_shardchain mc) + 1) 0 System (?mc, w) = Some (Inr x, (mc', w'))"
    by (cases rule: bindO_cases) auto
  have "x \<noteq> None"
  proof
    assume "x = None"
    from mc_generate_None [OF gen [unfolded this]] show False by simp
  qed
  then obtain blk where x: "x = Some blk" by blast
  have "sc_wf ce (mc_shardchain ?mc)" using assms(2) by simp
  note k = mc_generate_keeps [OF assms(1) this gen]
  then show ?thesis unfolding x by fastforce
qed

section \<open>An engine that rests\<close>

lemma workchain_block_idle:
  assumes "sc_idle wce (en_workchain n) w" "can_build wce (en_workchain n)"
  shows "\<exists>w'. workchain_block mce wce k t (n, w) = Some (Inr False, (n, w')) \<and>
    nw_queue w' = nw_queue w \<and> same_outside w w'"
proof -
  obtain w' where g: "sc_generate_block wce k t (time_mode n) (en_workchain n, w) =
      Some (Inr None, (en_workchain n, w'))"
    using sc_generate_idle [OF assms] by blast
  have "on_workchain (sc_generate_block wce k t (time_mode n)) (n, w) = Some (Inr None, (n, w'))"
    using g by (simp add: on_workchain_def)
  then show ?thesis
    using sc_generate_None [OF g] by (simp add: workchain_block_def)
qed

lemma masterchain_block_idle:
  assumes "sc_idle mce (mc_shardchain (en_masterchain n)) w" "can_build mce (mc_shardchain (en_masterchain n))"
    and "\<not> mc_shards_has_been_changed (en_masterchain n)"
  shows "\<exists>w'. masterchain_block mce k t (n, w) = Some (Inr False, (n, w')) \<and>
    nw_queue w' = nw_queue w \<and> same_outside w w'"
proof -
  obtain w' where g: "mc_generate_block mce k t (time_mode n) (en_masterchain n, w) =
      Some (Inr None, (en_masterchain n, w'))"
    using mc_generate_idle [OF assms] by blast
  have "on_masterchain (mc_generate_block mce k t (time_mode n)) (n, w) = Some (Inr None, (n, w'))"
    using g by (simp add: on_masterchain_def)
  then show ?thesis
    using mc_generate_None [OF g] by (simp add: masterchain_block_def)
qed

lemma execute_idle:
  assumes "nothing_to_do mce wce (n, w)" "can_build wce (en_workchain n)"
    and "can_build mce (mc_shardchain (en_masterchain n))"
  shows "\<exists>w'. execute_queued_messages mce wce (n, w) = Some (Inr (), (n, w')) \<and>
    nw_queue w' = nw_queue w \<and> nw_docs w' = nw_docs w"
proof -
  obtain t w1 where w1: "get_next_time n w = (t, w1)" by (metis prod.exhaust)
  then have q1: "nw_queue w1 = nw_queue w" "nw_docs w1 = nw_docs w"
    by (auto simp: get_next_time_def)
  obtain prev where "get_last_info (ce_blocks mce) (sc_block_finality (mc_shardchain (en_masterchain n))) =
      Inr (sc_head (mc_shardchain (en_masterchain n)), prev)"
    using assms(3) unfolding can_build_def by blast
  then obtain k where k: "mc_next_seq_no mce (en_masterchain n) = Inr k"
    by (simp add: mc_next_seq_no_def next_seq_no_def)
  have "sc_idle wce (en_workchain n) w1"
    using assms(1) by (simp add: nothing_to_do_def sc_idle_queue [OF q1(1)])
  from workchain_block_idle [OF this assms(2), where mce = mce and k = k and t = t]
  obtain w2 where w2: "workchain_block mce wce k t (n, w1) = Some (Inr False, (n, w2))"
      "nw_queue w2 = nw_queue w1" "same_outside w1 w2" by blast
  have blocks: "workchain_blocks mce wce k t False (n, w1) = Some (Inr (False, t), (n, w2))"
    by (subst workchain_blocks.simps) (simp add: w2)
  have "sc_idle mce (mc_shardchain (en_masterchain n)) w2" "\<not> mc_shards_has_been_changed (en_masterchain n)"
    using assms(1) w2(2) q1(1) by (simp_all add: nothing_to_do_def sc_idle_queue [of w2 w])
  from masterchain_block_idle [OF this(1) assms(3) this(2), where k = k and t = t]
  obtain w3 where w3: "masterchain_block mce k t (n, w2) = Some (Inr False, (n, w3))"
      "nw_queue w3 = nw_queue w2" "same_outside w2 w3" by blast
  have "chain_round mce wce t (n, w1) = Some (Inr (False, t), (n, w3))"
    by (simp add: chain_round_def k blocks bindO_def w3(1) returns_def retS_def)
  then have "execute_rounds mce wce t (n, w1) = Some (Inr (), (n, w3))"
    by (subst execute_rounds.simps) simp
  then show ?thesis
    using w1 w2 w3 q1 by (simp add: execute_queued_messages_def same_outside_def)
qed

text \<open>An engine that has nothing to do rests: a further call of
  \<open>execute_queued_messages\<close> returns, succeeds, makes no block (both chains, their storages
  and the documents stay as they are) and takes nothing from the queue.\<close>

theorem idle_engine_rests:
  assumes "nothing_to_do mce wce (n, w)" "can_build wce (en_workchain n)"
    and "can_build mce (mc_shardchain (en_masterchain n))"
  shows "\<exists>w'. execute_queued_messages mce wce (n, w) = Some (Inr (), (n, w')) \<and>
    nw_queue w' = nw_queue w \<and> nw_docs w' = nw_docs w"
  using assms by (rule execute_idle)

end
