(* ===== verification/Run_Log.thy ===== *)
theory Run_Log
  imports Engine_Props
begin

text \<open>
  The blocks of a call of \<open>execute_queued_messages\<close>: which messages each of them was made of,
  in which chain and with which time. The log is no part of the code; it is the history that the
  call's result is compared with.
\<close>

section \<open>The messages that the collator executes\<close>

text \<open>The external messages \<open>ms\<close> executed one after another, errors included.\<close>

fun execute_all ::
  "('s, 'b, 'c, 'm, 't, 'v, 'q) builder_lib \<Rightarrow> 'm list \<Rightarrow> ('s, 'c, 'm, 'v, 'q) block_builder \<Rightarrow>
   ('s, 'c, 'm, 'v, 'q) block_builder" where
  "execute_all bx [] bb = bb"
| "execute_all bx (m # ms) bb =
     execute_all bx ms (snd (builder_execute bx m (the (bx_dst_account bx m)) bb))"

lemma dequeued_pending:
  assumes "mq_dequeue wc_of wc q = (Some m, q')"
  shows "pending wc_of q wc = m # pending wc_of q' wc"
  using assms by (cases rule: mq_dequeue_cases [of wc_of q wc]) (auto simp: pending_def filter_empty_conv)

lemma import_external_executes:
  assumes "import_external bx wc e (bb, q) = (Inr (e', full), (bb', q'))"
  shows "\<exists>ms. pending (bx_dst_workchain bx) q wc = ms @ pending (bx_dst_workchain bx) q' wc \<and>
    bb' = execute_all bx ms bb \<and> e' = (e \<and> ms = []) \<and> full = (ms \<noteq> [] \<and> is_limits_reached bb')"
  using assms
proof (induction "mq_len q" arbitrary: e bb q rule: less_induct)
  case less
  from less.prems show ?case
  proof (cases rule: import_external_cases)
    case none
    then have "q' = q" by (cases rule: mq_dequeue_cases [of "bx_dst_workchain bx" q wc]) auto
    with none show ?thesis by (intro exI [of _ "[]"]) simp
  next
    case (full m a r1)
    then show ?thesis
      by (intro exI [of _ "[m]"]) (simp add: dequeued_pending [OF full(1)])
  next
    case (more m a r1 bb1 q1)
    from less.hyps [OF mq_dequeue_shrinks [OF more(1)] more(5)] obtain ms where
      ms: "pending (bx_dst_workchain bx) q1 wc = ms @ pending (bx_dst_workchain bx) q' wc"
        "bb' = execute_all bx ms bb1" "e' = (False \<and> ms = [])" "full = (ms \<noteq> [] \<and> is_limits_reached bb')" by blast
    with more(2-4) show ?thesis
      by (intro exI [of _ "m # ms"]) (auto simp: dequeued_pending [OF more(1)])
  qed simp_all
qed

text \<open>The block that a builder makes of the outbound queue and of the external messages \<open>ms\<close>.\<close>

definition made_of ::
  "('s, 'b, 'c, 'm, 't, 'v, 'q) builder_lib \<Rightarrow> ('s, 'c, 'm, 'v, 'q) block_builder \<Rightarrow> 'm list \<Rightarrow>
   ('s, 'b) prepared_block \<Rightarrow> bool" where
  "made_of bx bb ms p \<longleftrightarrow>
     (\<exists>outs empty full bb1 bb2. sorted_out_queue bx (bb_out_queue_info bb) = Inr outs \<and>
        import_internal bx outs True bb = (Inr (empty, full), bb1) \<and> (full \<longrightarrow> ms = []) \<and>
        process_new bx (empty \<and> ms = []) (full \<or> ms \<noteq> [] \<and> is_limits_reached (execute_all bx ms bb1))
          (execute_all bx ms bb1) = Some (Inr (prep_is_empty p), bb2) \<and>
        finalize_block bx (bb2\<lparr>bb_transaction_traces := Map.empty\<rparr>) = Inr (prep_block p, prep_state p) \<and>
        prep_traces p = bb_transaction_traces bb2)"

lemma build_block_made:
  assumes "build_block bx bb q = Some (Inr p, q')"
  shows "\<exists>ms. made_of bx bb ms p \<and> pending (bx_dst_workchain bx) q (si_workchain_id (bb_shard_ident bx bb)) =
    ms @ pending (bx_dst_workchain bx) q' (si_workchain_id (bb_shard_ident bx bb))"
proof -
  let ?wc = "si_workchain_id (bb_shard_ident bx bb)"
  obtain bb' where b: "build_messages bx (bb, q) = Some (Inr (prep_is_empty p), (bb', q'))"
      "finalize_block bx (bb'\<lparr>bb_transaction_traces := Map.empty\<rparr>) = Inr (prep_block p, prep_state p)"
      "prep_traces p = bb_transaction_traces bb'"
    using build_block_parts [OF assms] .
  then obtain empty2 full2 bb2 where import2: "import_messages bx (bb, q) = (Inr (empty2, full2), (bb2, q'))"
      "process_new bx empty2 full2 bb2 = Some (Inr (prep_is_empty p), bb')"
    by (auto simp: build_messages_def split: prod.splits sum.splits)
  then obtain outs empty1 full1 bb1 where internal: "sorted_out_queue bx (bb_out_queue_info bb) = Inr outs"
      "import_internal bx outs True bb = (Inr (empty1, full1), bb1)"
      "if full1 then (empty2, full2, bb2, q') = (empty1, True, bb1, q)
       else import_external bx (si_workchain_id (bb_shard_ident bx bb1)) empty1 (bb1, q) =
         (Inr (empty2, full2), (bb2, q'))"
    by (auto simp: import_messages_def split: sum.splits prod.splits if_splits)
  have wc: "si_workchain_id (bb_shard_ident bx bb1) = ?wc"
    using block.keepsD [OF block_import_internal internal(2)] by (simp add: same_block_def bb_shard_ident_def)
  show ?thesis
  proof (cases full1)
    case True
    with internal(3) have "empty2 = empty1" "full2" "bb2 = bb1" by simp_all
    with internal(1,2) import2(2) b(2,3) True have "made_of bx bb [] p"
      unfolding made_of_def
      by (intro exI [of _ outs] exI [of _ empty1] exI [of _ full1] exI [of _ bb1] exI [of _ bb'] conjI) simp_all
    with True internal(3) show ?thesis by (intro exI [of _ "[]"]) simp
  next
    case False
    with internal(3) wc have "import_external bx ?wc empty1 (bb1, q) = (Inr (empty2, full2), (bb2, q'))" by simp
    from import_external_executes [OF this] obtain ms where
      ms: "pending (bx_dst_workchain bx) q ?wc = ms @ pending (bx_dst_workchain bx) q' ?wc"
        "bb2 = execute_all bx ms bb1" "empty2 = (empty1 \<and> ms = [])" "full2 = (ms \<noteq> [] \<and> is_limits_reached bb2)" by blast
    have "process_new bx (empty1 \<and> ms = []) (full1 \<or> ms \<noteq> [] \<and> is_limits_reached (execute_all bx ms bb1))
        (execute_all bx ms bb1) = Some (Inr (prep_is_empty p), bb')"
      using import2(2) False by (simp only: ms(2-4) simp_thms)
    with False internal(1,2) b(2,3) have "made_of bx bb ms p"
      unfolding made_of_def
      by (intro exI [of _ outs] exI [of _ empty1] exI [of _ full1] exI [of _ bb1] exI [of _ bb'] conjI) simp_all
    with ms(1) show ?thesis by blast
  qed
qed

text \<open>The chain collates the block \<open>p\<close> on its current block, of the messages \<open>ms\<close>.\<close>

definition collated where
  "collated ce t mode sc ms p \<longleftrightarrow>
     (\<exists>prev seed bb. get_last_info (ce_blocks ce) (sc_block_finality sc) = Inr (sc_head sc, prev) \<and>
        builder_with_params (ce_builder ce) seed (sc_head sc) prev t mode (sc_block_gas_limit sc)
          (sc_accounts_provider sc) = Inr bb \<and>
        made_of (ce_builder ce) bb ms p)"

lemma sc_build_block_collated:
  assumes "sc_build_block ce t mode sc w = Some (Inr p, w')"
  shows "\<exists>ms. collated ce t mode sc ms p \<and>
    pending (bx_dst_workchain (ce_builder ce)) (nw_queue w) (sc_workchain ce sc) =
      ms @ pending (bx_dst_workchain (ce_builder ce)) (nw_queue w') (sc_workchain ce sc)"
  using assms
proof (cases rule: sc_build_block_cases)
  case (build prev seed bb)
  have "si_workchain_id (bb_shard_ident (ce_builder ce) bb) = sc_workchain ce sc"
    using builder_new_ident [OF build(2)] by (simp add: sc_workchain_def sc_shard_def)
  with build_block_made [OF build(3)] build(1,2) show ?thesis unfolding collated_def by metis
qed simp

section \<open>The log of a run\<close>

record ('m, 'b) log_entry =
  lg_master :: bool
  lg_workchain :: i32
  lg_time :: u32
  lg_messages :: "'m list"
  lg_block :: 'b

text \<open>The blocks of the log were made one after another: each was collated on the block that its
  chain had then, and became the chain's current block.\<close>

inductive grows for mce wce where
  start: "grows mce wce n [] n"
| workchain: "grows mce wce n log n1 \<Longrightarrow> collated wce t (time_mode n1) (en_workchain n1) ms p \<Longrightarrow>
    sc_block (en_workchain n2) = prep_block p \<Longrightarrow> sc_head (en_workchain n2) = prep_state p \<Longrightarrow>
    mc_shardchain (en_masterchain n2) = mc_shardchain (en_masterchain n1) \<Longrightarrow>
    grows mce wce n (log @ [\<lparr>lg_master = False, lg_workchain = sc_workchain wce (en_workchain n1), lg_time = t,
       lg_messages = ms, lg_block = prep_block p\<rparr>]) n2"
| master: "grows mce wce n log n1 \<Longrightarrow> collated mce t (time_mode n1) (mc_shardchain (en_masterchain n1)) ms p \<Longrightarrow>
    master_block mce (mc_shards (en_masterchain n1)) (prep_block p) = Inr b \<Longrightarrow>
    sc_block (mc_shardchain (en_masterchain n2)) = b \<Longrightarrow>
    sc_head (mc_shardchain (en_masterchain n2)) = prep_state p \<Longrightarrow> en_workchain n2 = en_workchain n1 \<Longrightarrow>
    grows mce wce n (log @ [\<lparr>lg_master = True, lg_workchain = sc_workchain mce (mc_shardchain (en_masterchain n1)),
       lg_time = t, lg_messages = ms, lg_block = b\<rparr>]) n2"

definition log_messages :: "i32 \<Rightarrow> ('m, 'b) log_entry list \<Rightarrow> 'm list" where
  "log_messages wc log = concat (map lg_messages (filter (\<lambda>e. lg_workchain e = wc) log))"

lemma log_messages_snoc [simp]:
  "log_messages wc (log @ [e]) = log_messages wc log @ (if lg_workchain e = wc then lg_messages e else [])"
  by (simp add: log_messages_def)

lemma log_messages_Nil [simp]: "log_messages wc [] = []"
  by (simp add: log_messages_def)

text \<open>The number of the workchain's blocks.\<close>

definition workchain_count :: "('m, 'b) log_entry list \<Rightarrow> nat" where
  "workchain_count log = length (filter (\<lambda>e. \<not> lg_master e) log)"

lemma workchain_count_snoc [simp]:
  "workchain_count (log @ [e]) = workchain_count log + (if lg_master e then 0 else 1)"
  by (simp add: workchain_count_def)

lemma workchain_count_Nil [simp]: "workchain_count [] = 0"
  by (simp add: workchain_count_def)

text \<open>A block has the time that comes as many seconds after \<open>t0\<close> as there are blocks of the
  workchain before it, as long as the 32-bit clock does not run over.\<close>

definition seconds_from where
  "seconds_from t0 log \<longleftrightarrow>
     (\<forall>i < length log. unat t0 + workchain_count (take i log) < 2 ^ 32 \<longrightarrow>
        lg_time (log ! i) = t0 + of_nat (workchain_count (take i log)))"

lemma seconds_from_snoc [simp]:
  "seconds_from t0 (log @ [e]) \<longleftrightarrow> seconds_from t0 log \<and>
     (unat t0 + workchain_count log < 2 ^ 32 \<longrightarrow> lg_time e = t0 + of_nat (workchain_count log))"
  by (auto simp: seconds_from_def less_Suc_eq nth_append)

lemma seconds_from_Nil [simp]: "seconds_from t0 []"
  by (simp add: seconds_from_def)

definition headers_tell_time where
  "headers_tell_time lib log \<longleftrightarrow>
     (\<forall>e \<in> set log. \<exists>info. bl_read_info lib (lg_block e) = Inr info \<and> bi_gen_utime info = lg_time e)"

lemma headers_tell_time_snoc [simp]:
  "headers_tell_time lib (log @ [e]) \<longleftrightarrow> headers_tell_time lib log \<and>
     (\<exists>info. bl_read_info lib (lg_block e) = Inr info \<and> bi_gen_utime info = lg_time e)"
  by (auto simp: headers_tell_time_def)

lemma headers_tell_time_Nil [simp]: "headers_tell_time lib []"
  by (simp add: headers_tell_time_def)

section \<open>The log of a call\<close>

text \<open>Relations that the blocks of the loops keep together with the time for the next block, for a
  call that succeeds.\<close>

lemma workchain_blocks_timed:
  assumes "workchain_blocks mce wce k t again st = Some (Inr (again', t'), st')" "I t st"
    and made: "\<And>t n w n' w'. workchain_block mce wce k t (n, w) = Some (Inr True, (n', w')) \<Longrightarrow> I t (n, w) \<Longrightarrow>
      I (fst (get_next_time n' w')) (n', snd (get_next_time n' w'))"
    and rest: "\<And>t n w n' w'. workchain_block mce wce k t (n, w) = Some (Inr False, (n', w')) \<Longrightarrow> I t (n, w) \<Longrightarrow>
      I t (n', w')"
  shows "I t' st'"
  using assms
proof (induction mce wce k t again st "(Inr (again', t') :: (bool \<times> u32) res, st')" rule: workchain_blocks_induct)
  case (loop wb mce wce k t again st)
  obtain n w where st: "st = (n, w)" by (cases st)
  obtain r1 n1 w1 where b: "workchain_block mce wce k t (n, w) = Some (r1, (n1, w1))"
    using loop.hyps(2) st by (auto simp: bind_eq_Some_conv)
  obtain x where r1: "r1 = Inr x" using loop.hyps(2) st b by (cases r1) simp_all
  show ?case
  proof (cases x)
    case False
    with loop.hyps(2) st b r1 have "t' = t" "st' = (n1, w1)" by simp_all
    with loop.prems(3) b r1 False loop.prems(1) st show ?thesis by simp
  next
    case True
    obtain t2 w2 where next_time: "get_next_time n1 w1 = (t2, w2)" by (metis prod.exhaust)
    with loop.hyps(2) st b r1 True have "wb mce wce k t2 True (n1, w2) = Some (Inr (again', t'), st')" by simp
    moreover have "I t2 (n1, w2)"
      using loop.prems(2) [of t n w n1 w1] b r1 True loop.prems(1) st next_time by simp
    ultimately show ?thesis using loop.hyps(1) loop.prems(2,3) by blast
  qed
qed

lemma execute_rounds_timed:
  assumes "execute_rounds mce wce t st = Some (Inr (), st')" "I t st"
    and round: "\<And>t st more t' st'. chain_round mce wce t st = Some (Inr (more, t'), st') \<Longrightarrow> I t st \<Longrightarrow> I t' st'"
  shows "\<exists>t'. I t' st'"
  using assms
proof (induction mce wce t st "(Inr () :: unit res, st')" rule: execute_rounds_induct)
  case (loop er mce wce t st)
  obtain r1 st1 where b: "chain_round mce wce t st = Some (r1, st1)"
    using loop.hyps(2) by (auto simp: bind_eq_Some_conv)
  obtain again t2 where r1: "r1 = Inr (again, t2)" using loop.hyps(2) b by (cases r1) auto
  have "I t2 st1" using loop.prems(2) [of t st again t2 st1] b r1 loop.prems(1) by simp
  with loop.hyps b r1 loop.prems(2) show ?case by (cases again) auto
qed

text \<open>The log explains the state reached from \<open>(n0, w0)\<close>: which messages are gone, and in
  sequential mode which time is next.\<close>

definition logged where
  "logged mce wce n0 w0 t0 log t = (\<lambda>(n, w :: ('m, 'd) node_world).
     grows mce wce n0 log n \<and>
     (\<forall>wc. pending (bx_dst_workchain (ce_builder wce)) (nw_queue w0) wc =
        log_messages wc log @ pending (bx_dst_workchain (ce_builder wce)) (nw_queue w) wc) \<and>
     headers_tell_time (ce_blocks wce) log \<and>
     time_mode n = time_mode n0 \<and> time_delta n = time_delta n0 \<and> time_wf (en_time n) = time_wf (en_time n0) \<and>
     (time_mode n0 = Seq \<and> time_wf (en_time n0) \<and> time_delta n0 \<le> t0 \<longrightarrow> seconds_from t0 log \<and>
        (unat t0 + workchain_count log < 2 ^ 32 \<longrightarrow> t = t0 + of_nat (workchain_count log))))"

lemma next_second:
  assumes "time_mode n = Seq" "time_wf (en_time n)" "time_delta n \<le> t"
  shows "fst (get_next_time (set_last_time t n) w) = t + 1"
  using get_next_set_last_exact [OF assms(2)] assms(1,3)
  by (simp add: get_next_time_def set_last_time_def time_mode_def time_delta_def)

lemma get_next_time_cong:
  "en_time n = en_time n' \<Longrightarrow> fst (get_next_time n w) = fst (get_next_time n' w)"
  by (simp add: get_next_time_def)

lemma le_plus_of_nat:
  fixes t :: u32
  assumes "unat t + k < 2 ^ 32"
  shows "t \<le> t + of_nat k"
proof -
  have k: "unat (of_nat k :: u32) = k" using assms by (simp add: unat_of_nat)
  have "unat (t + of_nat k) = unat t + k"
    using assms by (simp add: unat_add_lem [THEN iffD1] k)
  then show ?thesis by (simp add: word_le_nat_alt)
qed

lemma sc_build_queue:
  assumes "sc_build_block ce t mode sc w = Some (Inr p, w1)"
  shows "\<exists>ms. collated ce t mode sc ms p \<and>
    (\<forall>wc. pending (bx_dst_workchain (ce_builder ce)) (nw_queue w) wc =
       (if wc = sc_workchain ce sc then ms else []) @ pending (bx_dst_workchain (ce_builder ce)) (nw_queue w1) wc)"
  using sc_build_block_collated [OF assms] sc_build_block_took [OF assms] by (auto simp: took_def)

lemma workchain_block_logged:
  assumes "engine_env_ok mce wce" "workchain_block mce wce k t (n, w) = Some (Inr True, (n', w'))"
    and "logged mce wce n0 w0 t0 log t (n, w)"
  shows "\<exists>log. logged mce wce n0 w0 t0 log (fst (get_next_time n' w')) (n', snd (get_next_time n' w'))"
  using assms(2)
proof (cases rule: workchain_block_cases)
  case (made b sc' r1 mc')
  have ok: "chain_env_ok wce" using assms(1) by (simp add: engine_env_ok_def)
  obtain p w1 where built: "sc_build_block wce t (time_mode n) (en_workchain n) w = Some (Inr p, w1)" "b = prep_block p"
      "sc_block sc' = b" "sc_head sc' = prep_state p" "nw_queue w' = nw_queue w1"
    using made(1) by (rule sc_generate_built)
  obtain ms where ms: "collated wce t (time_mode n) (en_workchain n) ms p"
      "\<And>wc. pending (bx_dst_workchain (ce_builder wce)) (nw_queue w) wc =
        (if wc = sc_workchain wce (en_workchain n) then ms else []) @
        pending (bx_dst_workchain (ce_builder wce)) (nw_queue w') wc"
    using sc_build_queue [OF built(1)] built(5) by auto
  have "mc_shardchain mc' = mc_shardchain (en_masterchain n)" using made(2) by (cases rule: register_cases) auto
  moreover obtain info where "bl_read_info (ce_blocks wce) (prep_block p) = Inr info" "bi_gen_utime info = t"
    using sc_build_block_header [OF ok built(1)] by (auto simp: extends_head_def)
  moreover let ?e = "\<lparr>lg_master = False, lg_workchain = sc_workchain wce (en_workchain n), lg_time = t,
      lg_messages = ms, lg_block = prep_block p\<rparr>"
  have "grows mce wce n0 (log @ [?e]) n'"
    using grows.workchain [OF _ ms(1), of mce n0 log n'] assms(3) built(2-4) made(4) calculation
    by (simp add: logged_def)
  moreover have "fst (get_next_time n' w') = t + 1"
    if "time_mode n = Seq" "time_wf (en_time n)" "time_delta n \<le> t"
    using next_second [OF that, of w'] get_next_time_cong [of n' "set_last_time t n" w'] made(4)
    by (simp add: set_last_time_def)
  moreover have "time_delta n0 \<le> t" if "t = t0 + of_nat (workchain_count log)" "time_delta n0 \<le> t0"
      "unat t0 + workchain_count log < 2 ^ 32"
    using that le_plus_of_nat [OF that(3)] by (auto intro: order_trans)
  ultimately have "logged mce wce n0 w0 t0 (log @ [?e]) (fst (get_next_time n' w')) (n', snd (get_next_time n' w'))"
    using assms(3) ms(2) made(4)
    by (auto simp: logged_def get_next_time_def time_mode_def time_delta_def)
  then show ?thesis by blast
qed simp_all

lemma workchain_block_rests:
  assumes "workchain_block mce wce k t (n, w) = Some (Inr False, (n', w'))" "logged mce wce n0 w0 t0 log t (n, w)"
  shows "logged mce wce n0 w0 t0 log t (n', w')"
  using assms(1)
proof (cases rule: workchain_block_cases)
  case (none sc')
  with sc_generate_None [OF none(1)] assms(2) show ?thesis by (simp add: logged_def)
next
  case (made b sc' r1 mc')
  then show ?thesis by (cases r1) simp_all
qed simp_all

lemma masterchain_block_logged:
  assumes "engine_env_ok mce wce" "masterchain_block mce k t (n, w) = Some (Inr x, (n', w'))"
    and "logged mce wce n0 w0 t0 log t (n, w)"
  shows "\<exists>log. logged mce wce n0 w0 t0 log t (n', w')"
  using assms(2)
proof (cases rule: masterchain_block_cases)
  case (none mc')
  with mc_generate_None [OF none(1)] assms(3) show ?thesis by (auto simp: logged_def)
next
  case (made b mc')
  have ok: "chain_env_ok mce" "ce_blocks mce = ce_blocks wce"
      "bx_dst_workchain (ce_builder mce) = bx_dst_workchain (ce_builder wce)"
    using assms(1) by (simp_all add: engine_env_ok_def)
  obtain p w1 where built: "sc_build_block mce t (time_mode n) (mc_shardchain (en_masterchain n)) w = Some (Inr p, w1)"
      "master_block mce (mc_shards (en_masterchain n)) (prep_block p) = Inr b"
      "sc_block (mc_shardchain mc') = b" "sc_head (mc_shardchain mc') = prep_state p" "nw_queue w' = nw_queue w1"
    using made(1) by (rule mc_generate_built)
  obtain ms where ms: "collated mce t (time_mode n) (mc_shardchain (en_masterchain n)) ms p"
      "\<And>wc. pending (bx_dst_workchain (ce_builder wce)) (nw_queue w) wc =
        (if wc = sc_workchain mce (mc_shardchain (en_masterchain n)) then ms else []) @
        pending (bx_dst_workchain (ce_builder wce)) (nw_queue w') wc"
    using sc_build_queue [OF built(1)] built(5) ok(3) by auto
  obtain info where info: "bl_read_info (ce_blocks wce) b = Inr info" "bi_gen_utime info = t"
    using master_block_header [OF ok(1) built(2) sc_build_block_header [OF ok(1) built(1)]] ok(2)
    by (auto simp: extends_head_def)
  let ?e = "\<lparr>lg_master = True, lg_workchain = sc_workchain mce (mc_shardchain (en_masterchain n)), lg_time = t,
      lg_messages = ms, lg_block = b\<rparr>"
  have "grows mce wce n0 (log @ [?e]) n'"
    using grows.master [OF _ ms(1) built(2), of wce n0 log n'] assms(3) built(3,4) made(3)
    by (simp add: logged_def)
  with assms(3) ms(2) info made(3) have "logged mce wce n0 w0 t0 (log @ [?e]) t (n', w')"
    by (auto simp: logged_def time_mode_def time_delta_def)
  then show ?thesis by blast
qed simp

lemma chain_round_logged:
  assumes "engine_env_ok mce wce" "chain_round mce wce t (n, w) = Some (Inr (more_work, t'), (n', w'))"
    and "\<exists>log. logged mce wce n0 w0 t0 log t (n, w)"
  shows "\<exists>log. logged mce wce n0 w0 t0 log t' (n', w')"
  using assms(2)
proof (cases rule: chain_round_cases)
  case (rest k again t1 n1 w1 r1)
  then obtain x where r1: "r1 = Inr x" "t' = t1" by (cases r1) auto
  have "\<exists>log. logged mce wce n0 w0 t0 log t1 (n1, w1)"
    by (rule workchain_blocks_timed [where I = "\<lambda>t st. \<exists>log. logged mce wce n0 w0 t0 log t st", OF rest(2) assms(3)])
      (auto intro: workchain_block_logged [OF assms(1)] workchain_block_rests)
  with masterchain_block_logged [OF assms(1) rest(3) [unfolded r1(1)]] r1(2) show ?thesis by blast
qed simp_all

lemma execute_logged:
  assumes "engine_env_ok mce wce" "execute_queued_messages mce wce (n, w) = Some (Inr (), (n', w'))"
  shows "\<exists>log t. logged mce wce n w (fst (get_next_time n w)) log t (n', w')"
proof -
  obtain t0 w1 where t0: "get_next_time n w = (t0, w1)" by (metis prod.exhaust)
  then have run: "execute_rounds mce wce t0 (n, w1) = Some (Inr (), (n', w'))"
    using assms(2) by (simp add: execute_queued_messages_def)
  have "nw_queue w1 = nw_queue w" using t0 by (auto simp: get_next_time_def)
  then have start: "\<exists>log. logged mce wce n w t0 log t0 (n, w1)"
    by (intro exI [of _ "[]"]) (simp add: logged_def grows.start)
  have "\<exists>t. \<exists>log. logged mce wce n w t0 log t (n', w')"
  proof (rule execute_rounds_timed [where I = "\<lambda>t st. \<exists>log. logged mce wce n w t0 log t st", OF run start])
    fix t st again t' st'
    assume "chain_round mce wce t st = Some (Inr (again, t'), st')" "\<exists>log. logged mce wce n w t0 log t st"
    then show "\<exists>log. logged mce wce n w t0 log t' st'"
      by (cases st; cases st') (auto dest: chain_round_logged [OF assms(1)])
  qed
  with t0 show ?thesis by auto
qed


end
