(* ===== verification/Example_Node.thy ===== *)
theory Example_Node
  imports Run_Log
begin

text \<open>
  A small block library that behaves as documented, for the concrete runs of the collator and
  of the engine: a message names its workchain, the gas it uses and the messages that its
  transaction sends; a shard state is its number, its workchain and its outbound queue; a
  block is its header. The storage is the in-memory one of the code.
\<close>

datatype toy_msg = ToyMsg (tm_wc: "32 word") (tm_internal: bool) (tm_gas: "64 word") (tm_outs: "toy_msg list")

datatype toy_v = TvUnit | TvNat nat | TvMsg toy_msg | TvEnq toy_msg "64 word"

record toy_state =
  ts_seq_no :: u32
  ts_shard :: shard_ident
  ts_out :: "(toy_v \<times> toy_msg \<times> u64) list"

fun toy_enq :: "toy_v \<Rightarrow> any_error + toy_v \<times> u64" where
  "toy_enq (TvEnq m lt) = Inr (TvMsg m, lt)"
| "toy_enq _ = Inl (LibError ''value'')"

fun toy_read_msg :: "toy_v \<Rightarrow> any_error + toy_msg" where
  "toy_read_msg (TvMsg m) = Inr m"
| "toy_read_msg _ = Inl (LibError ''message'')"

fun toy_queue_set ::
  "toy_v \<Rightarrow> toy_v \<Rightarrow> (toy_v \<times> toy_msg \<times> u64) list \<Rightarrow> (any_error + unit) \<times> (toy_v \<times> toy_msg \<times> u64) list" where
  "toy_queue_set k (TvEnq m lt) q = (Inr (), q @ [(k, m, lt)])"
| "toy_queue_set k _ q = (Inl (LibError ''value''), q)"

definition toy_info :: block_info where
  "toy_info =
     \<lparr>bi_seq_no = 0, bi_vert_seq_no = 0, bi_start_lt = 0, bi_end_lt = 0, bi_gen_utime = 0,
      bi_shard = \<lparr>si_workchain_id = 0, si_prefix = 0x8000000000000000\<rparr>, bi_prev = None,
      bi_key_block = False, bi_before_split = False, bi_want_split = False,
      bi_want_merge = False, bi_flags = 0, bi_min_ref_mc_seqno = 0\<rparr>"

definition toy_bx ::
  "(toy_state, block_info, toy_v, toy_msg, toy_msg, toy_v, (toy_v \<times> toy_msg \<times> u64) list) builder_lib" where
  "toy_bx =
     \<lparr>bx_read_accounts = (\<lambda>_. Inr TvUnit), bx_read_out_queue = (\<lambda>s. Inr (ts_out s)),
      bx_state_seq_no = ts_seq_no, bx_state_shard = ts_shard,
      bx_state_global_id = (\<lambda>_. 0), bx_state_set_seq_no = (\<lambda>n s. s\<lparr>ts_seq_no := n\<rparr>),
      bx_write_accounts = (\<lambda>_ s. Inr s), bx_write_out_queue = (\<lambda>q s. Inr (s\<lparr>ts_out := q\<rparr>)),
      bx_default_info = toy_info, bx_info_set_seq_no = (\<lambda>n i. Inr (i\<lparr>bi_seq_no := n\<rparr>)),
      bx_info_set_prev = (\<lambda>p i. Inr (i\<lparr>bi_prev := Some p\<rparr>)), bx_block_extra = (\<lambda>_ _ _ _. Inr TvUnit),
      bx_block = (\<lambda>_ i _ _. Inr i),
      bx_full_balance = (\<lambda>_. TvUnit), bx_account = (\<lambda>_ _. Inr None),
      bx_accounts_set = (\<lambda>_ _ _ v. (Inr (), v)), bx_accounts_remove = (\<lambda>_ v. (Inr (), v)),
      bx_default_in_descr = TvUnit, bx_default_out_descr = TvUnit, bx_default_account_blocks = TvUnit,
      bx_default_copyleft = TvUnit, bx_in_set = (\<lambda>_ _ _ v. (Inr (), v)),
      bx_out_set = (\<lambda>_ _ _ v. (Inr (), v)), bx_add_transaction = (\<lambda>_ _ v. (Inr (), v)),
      bx_add_copyleft = (\<lambda>_ _ v. (Inr (), v)), bx_in_fees = (\<lambda>_. TvUnit), bx_in_value = (\<lambda>_. TvUnit),
      bx_blocks_extra = (\<lambda>_. TvUnit), bx_out_extra = (\<lambda>_. TvUnit), bx_add_grams = (\<lambda>_ _. Inr TvUnit),
      bx_queue_len = (\<lambda>q. Inr (length q)),
      bx_queue_iter = map (\<lambda>(k, m, lt). Inr (k, TvEnq m lt)), bx_key_cell = Inr,
      bx_value_aug = toy_enq, bx_load_cell = Inr,
      bx_queue_remove = (\<lambda>k q. (Inr (), filter (\<lambda>x. fst x \<noteq> k) q)),
      bx_queue_key = (\<lambda>_ _ h. TvNat (unat h)), bx_queue_set = (\<lambda>k e _ q. toy_queue_set k e q),
      bx_enq_out_msg = Inr, bx_env_message = toy_read_msg,
      bx_enqueued = (\<lambda>lt env. map_sum id (\<lambda>m. TvEnq m lt) (toy_read_msg env)),
      bx_dst_workchain = (\<lambda>m. Some (tm_wc m)), bx_dst_account = (\<lambda>_. Some TvUnit),
      bx_default_account_id = TvUnit,
      bx_int_header = (\<lambda>m. if tm_internal m
        then Some \<lparr>ih_fwd_fee = TvUnit, ih_created_lt = 7, ih_dst = TvMsg m\<rparr> else None),
      bx_msg_lt = (\<lambda>_. None), bx_msg_cell = (\<lambda>m. Inr (TvMsg m)), bx_msg_of_cell = toy_read_msg,
      bx_envelope = (\<lambda>m _. Inr (TvMsg m)), bx_envelope_cell = Inr,
      bx_in_immediate = (\<lambda>_ _ _. TvUnit), bx_in_external = (\<lambda>_ _. TvUnit),
      bx_out_external = (\<lambda>_ _. TvUnit), bx_out_new = (\<lambda>_ _. TvUnit), bx_in_aug = Inr, bx_out_aug = Inr,
      bx_enq_aug = Inr, bx_acc_aug = Inr, bx_next_u64 = (\<lambda>_. Inr 0),
      bx_contains_address = (\<lambda>s a. map_sum id (\<lambda>m. tm_wc m = si_workchain_id s) (toy_read_msg a)),
      bx_std_address = (\<lambda>_. Inr),
      bx_default_shard_account = TvUnit, bx_account_cell = (\<lambda>v. v), bx_last_trans_lt = (\<lambda>_. 0),
      bx_last_trans_hash = (\<lambda>_. 0), bx_account_of_cell = Inr, bx_account_to_cell = Inr,
      bx_account_is_none = (\<lambda>_. False), bx_last_tr_time = (\<lambda>_. None),
      bx_set_last_tr_time = (\<lambda>_ v. v), bx_shard_account = (\<lambda>_ _ _. TvUnit), bx_new_cell = Inr,
      bx_repr_hash = (\<lambda>c. case c of TvMsg m \<Rightarrow> ucast (tm_gas m) | _ \<Rightarrow> 0),
      bx_execute = (\<lambda>m c ps. \<lparr>er_result = Inr m, er_acc_root = c, er_lt = ep_last_tr_lt ps + 1, er_trace = []\<rparr>),
      bx_item_i32 = (\<lambda>_. Inr 0), bx_gas_used = (\<lambda>m. Some (min 8 (tm_gas m))), bx_is_aborted = (\<lambda>_. Inr False),
      bx_new_transaction = (\<lambda>_ m _. Inr m), bx_set_now = (\<lambda>_ m. m), bx_write_description = (\<lambda>_. Inr),
      bx_write_state_update = (\<lambda>_ _. Inr), bx_set_prev_trans = (\<lambda>_ _ m. m),
      bx_transaction_cell = (\<lambda>m. Inr (TvMsg m)), bx_logical_time = (\<lambda>_. 0),
      bx_copyleft_reward = (\<lambda>_. None), bx_in_msg_cell = (\<lambda>m. Some (TvMsg m)),
      bx_out_msgs = (\<lambda>m. map (\<lambda>x. Inr (Std x)) (tm_outs m))\<rparr>"

lemmas toy_defs = toy_bx_def toy_info_def

definition toy_workchain :: shard_ident where
  "toy_workchain = \<lparr>si_workchain_id = 0, si_prefix = 0x8000000000000000\<rparr>"

definition toy_masterchain :: shard_ident where
  "toy_masterchain = \<lparr>si_workchain_id = - 1, si_prefix = 0x8000000000000000\<rparr>"

text \<open>The block after the zero state, with gas limit 10.\<close>

definition toy_prev :: blk_prev_info where
  "toy_prev = PrevBlock \<lparr>ebr_end_lt = 4, ebr_seq_no = 0, ebr_root_hash = 1, ebr_file_hash = 1\<rparr>"

definition toy_zero :: toy_state where
  "toy_zero = \<lparr>ts_seq_no = 0, ts_shard = toy_workchain, ts_out = []\<rparr>"

definition toy_builder where
  "toy_builder mode = projr (builder_with_params toy_bx 9 toy_zero toy_prev 100 mode 10 None)"

lemma toy_builder_new: "builder_with_params toy_bx 9 toy_zero toy_prev 100 mode 10 None = Inr (toy_builder mode)"
  by (simp add: toy_builder_def builder_with_params_def toy_defs Let_def)

text \<open>An external message whose transaction sends an internal one to the same workchain.\<close>

definition toy_inner :: toy_msg where
  "toy_inner = ToyMsg 0 True 3 []"

definition toy_outer :: toy_msg where
  "toy_outer = ToyMsg 0 False 5 [toy_inner]"

definition toy_queue :: "toy_msg in_messages_queue" where
  "toy_queue = (mq_new 10)\<lparr>mq_storage := [toy_outer]\<rparr>"

lemmas run_defs = build_block_def build_messages_def import_messages_def sorted_out_queue_def
  mq_dequeue_def dequeue_loop.simps builder_execute_def find_account_def try_prepare_transaction_def
  at_and_lt_def store_account_def add_raw_transaction_def add_in_msg_def on_accounts_def on_in_descr_def
  on_out_descr_def on_account_blocks_def on_copyleft_def on_out_queue_def bindS_def liftS_def retS_def
  is_limits_reached_def finalize_block_def bb_shard_ident_def enqueue_new_def out_msg_key_def

lemmas toy_values = toy_builder_def builder_with_params_def toy_defs Let_def toy_queue_def
  toy_outer_def toy_inner_def mq_new_def toy_zero_def toy_workchain_def toy_masterchain_def
  toy_prev_def prev1_end_lt_def

definition toy_block1 :: "(toy_state, block_info) prepared_block" where
  "toy_block1 =
     \<lparr>prep_block = toy_info\<lparr>bi_seq_no := 1, bi_start_lt := 5, bi_end_lt := 6, bi_gen_utime := 100,
        bi_prev := Some toy_prev\<rparr>,
      prep_state = toy_zero\<lparr>ts_seq_no := 1, ts_out := [(TvNat 3, toy_inner, 7)]\<rparr>,
      prep_is_empty = False, prep_traces = Map.empty\<rparr>"

lemma toy_seq_run:
  "build_block toy_bx (toy_builder Seq) toy_queue = Some (Inr toy_block1, toy_queue\<lparr>mq_storage := []\<rparr>)"
  by (simp add: run_defs toy_values import_external.simps process_new.simps toy_block1_def)

definition toy_lib :: "(toy_state, block_info, toy_v) block_lib" where
  "toy_lib =
     \<lparr>bl_default_state = toy_zero, bl_state_set_global_id = (\<lambda>_ s. s),
      bl_state_set_shard = (\<lambda>sh s. s\<lparr>ts_shard := sh\<rparr>), bl_state_seq_no = ts_seq_no,
      bl_state_out_queue_empty = (\<lambda>s. Inr (ts_out s = [])), bl_write_state = (\<lambda>_. Inr []),
      bl_parse_state = (\<lambda>_. Inl (LibError ''boc'')), bl_read_state_boc = (\<lambda>_. Inl (LibError ''boc'')),
      bl_default_block = toy_info, bl_block_set_global_id = (\<lambda>_ b. b), bl_block_global_id = (\<lambda>_. 0),
      bl_read_info = Inr, bl_state_update_hash = (\<lambda>_. Inr 1), bl_block_cell = (\<lambda>_. Inr TvUnit),
      bl_cell_hash = (\<lambda>_. 1), bl_write_boc = (\<lambda>_. Inr []), bl_file_hash = (\<lambda>_. 1),
      bl_write_block = (\<lambda>_. Inr []), bl_read_block_boc = (\<lambda>_. Inl (LibError ''boc'')),
      bl_rd_le_u64 = (\<lambda>_. Inl UnexpectedEof), bl_rd_le_u32 = (\<lambda>_. Inl UnexpectedEof),
      bl_rd_u256 = (\<lambda>_. Inl UnexpectedEof), bl_hex = (\<lambda>_. ''0'')\<rparr>"

lemma toy_header_ok: "header_ok toy_lib toy_bx"
  by (simp add: header_ok_def toy_lib_def toy_bx_def)

theorem built_block_follows_previous_witness:
  "\<exists>info. bl_read_info toy_lib (prep_block toy_block1) = Inr info \<and> bi_seq_no info = 1 \<and>
     bi_gen_utime info = 100 \<and> bi_start_lt info = 5 \<and> bi_start_lt info < bi_end_lt info"
  using built_block_follows_previous [OF toy_header_ok _ toy_builder_new toy_seq_run]
  by (auto simp add: toy_prev_def prev1_end_lt_def toy_zero_def toy_bx_def)

theorem block_is_empty_iff_no_message_witness:
  "prep_is_empty toy_block1 =
     (pending (bx_dst_workchain toy_bx) toy_queue 0 = [])"
  using block_is_empty_iff_no_message [OF toy_builder_new _ toy_seq_run, of "[]"]
  by (simp add: toy_zero_def toy_bx_def toy_workchain_def)

lemma toy_gas_bound: "gas_bound toy_bx 8"
  by (auto simp: gas_bound_def toy_bx_def)

theorem block_limits_are_kept_witness:
  "\<exists>r bb'. build_messages toy_bx (toy_builder Seq, toy_queue) =
      Some (r, (bb', toy_queue\<lparr>mq_storage := []\<rparr>)) \<and>
    unat (bb_total_gas_used bb') \<le> 18 \<and> bb_total_message_processed bb' \<le> 1"
proof -
  obtain r bb' where run: "build_messages toy_bx (toy_builder Seq, toy_queue) =
      Some (r, (bb', toy_queue\<lparr>mq_storage := []\<rparr>))"
    using toy_seq_run by (auto simp: build_block_def)
  from block_limits_are_kept [OF toy_gas_bound _ toy_builder_new run] run show ?thesis
    by (simp add: toy_values not_less)
qed

theorem sequential_block_is_always_built_witness:
  "\<exists>r q'. build_block toy_bx (toy_builder Seq) toy_queue = Some (r, q')"
  by (rule sequential_block_is_always_built [OF toy_builder_new])

definition toy_keys :: "(toy_v \<times> toy_msg \<times> u64) list \<Rightarrow> toy_v set" where
  "toy_keys q = fst ` set q"

lemma toy_queue_keys_ok: "queue_keys_ok toy_bx toy_keys"
  unfolding queue_keys_ok_def
proof (intro allI impI)
  fix k e a q q'
  assume "bx_queue_set toy_bx k e a q = (Inr (), q')"
  then show "toy_keys q' = insert k (toy_keys q)"
    by (cases e) (auto simp: toy_bx_def toy_keys_def)
qed

theorem full_block_forwards_all_new_messages_witness:
  "\<exists>r bb'. process_new toy_bx False True ((toy_builder Seq)\<lparr>bb_new_messages := [(toy_inner, TvUnit)]\<rparr>) =
      Some (r, bb') \<and> bb_new_messages bb' = []"
  using full_block_forwards_all_new_messages [OF toy_queue_keys_ok, of False
      "(toy_builder Seq)\<lparr>bb_new_messages := [(toy_inner, TvUnit)]\<rparr>"] by blast

section \<open>Two chains\<close>

definition toy_json :: "(toy_state, block_info, toy_v, unit) json_lib" where
  "toy_json =
     \<lparr>jl_read_single_root = (\<lambda>_. Inl (LibError ''boc'')), jl_parse = (\<lambda>_. Inl (LibError ''json'')),
      jl_object = (\<lambda>_. ()), jl_hash_from_str = (\<lambda>_. Inl (LibError ''hash'')), jl_trace_value = (\<lambda>_. Inr ())\<rparr>"

definition toy_env :: "(mem_kv_storage, toy_state, block_info, toy_v, unit, unit) node_env" where
  "toy_env =
     \<lparr>env_lib = toy_lib, env_kv = mem_kv, env_json = toy_json, env_docs = documents_db_mock,
      env_default_shard = toy_workchain, env_iter = (\<lambda>_. [])\<rparr>"

definition toy_chain_lib :: "(block_info, block_info, nat, nat, shard_ident) chain_lib" where
  "toy_chain_lib =
     \<lparr>ch_block_gas_limit = (\<lambda>_. 10), ch_read_extra = Inr, ch_in_msg_count = (\<lambda>_. Inr 0),
      ch_out_msg_count = (\<lambda>_. Inr 0), ch_account_blocks_count = (\<lambda>_. Inr 0),
      ch_write_info = (\<lambda>i _. Inr i), ch_write_extra = (\<lambda>_. Inr), ch_write_custom = (\<lambda>_. Inr),
      ch_read_custom = (\<lambda>_. Inr (Some 1)), ch_default_mc_extra = 0, ch_set_config = (\<lambda>g _. g),
      ch_config = Some, ch_shards_set = (\<lambda>_ _. Inr), ch_shards = (\<lambda>_. []),
      ch_with_prefix_slice = (\<lambda>_. Inr), ch_prefix_with_tag = si_prefix, ch_iter_shards = (\<lambda>_. [])\<rparr>"

definition toy_ce where
  "toy_ce = \<lparr>ce_builder = toy_bx, ce_node = toy_env, ce_lib = toy_chain_lib, ce_raw_config = 2\<rparr>"

definition toy_chain :: "shard_ident \<Rightarrow> (mem_kv_storage, toy_state, block_info, toy_v) shardchain" where
  "toy_chain shard =
     \<lparr>sc_finality_was_loaded = True,
      sc_block_finality = finality_with_params toy_lib 0 shard Map.empty True,
      sc_block_gas_limit = 10, sc_accounts_provider = None\<rparr>"

definition toy_engine where
  "toy_engine mode =
     \<lparr>en_time = block_time_new\<lparr>bt_mode := mode\<rparr>,
      en_masterchain = \<lparr>mc_shardchain = toy_chain toy_masterchain, mc_shards = Map.empty,
        mc_shards_has_been_changed = False\<rparr>,
      en_workchain = toy_chain toy_workchain\<rparr>"

definition toy_world :: "toy_msg list \<Rightarrow> (toy_msg, unit) node_world" where
  "toy_world ms = \<lparr>nw_queue = (mq_new 10)\<lparr>mq_storage := ms\<rparr>, nw_docs = (), nw_clock = sconst 50, nw_seeds = sconst 9\<rparr>"

lemma toy_engine_env_ok: "engine_env_ok toy_ce toy_ce"
  using toy_header_ok
  by (simp add: engine_env_ok_def chain_env_ok_def state_ok_def toy_ce_def toy_env_def toy_chain_lib_def
      toy_bx_def toy_lib_def)

lemmas chain_defs = toy_ce_def toy_env_def toy_engine_def toy_chain_def toy_lib_def toy_chain_lib_def
  sb_new_def finality_with_params_def

lemma toy_engine_wf: "engine_wf toy_ce toy_ce (toy_engine mode)"
  by (simp add: engine_wf_def sc_wf_def sc_seq_no_def sc_head_def get_last_shard_state_def chain_defs toy_bx_def
      toy_info_def toy_zero_def)

lemma toy_head_registered: "head_registered toy_ce (toy_engine mode)"
  by (simp add: head_registered_def toy_engine_def)

lemma toy_idle: "nothing_to_do toy_ce toy_ce (toy_engine mode, toy_world [])"
  by (simp add: nothing_to_do_def sc_idle_def sc_head_def get_last_shard_state_def chain_defs toy_bx_def
      toy_zero_def toy_world_def pending_def mq_new_def)

lemma toy_can_build: "can_build toy_ce (toy_chain shard)"
  by (simp add: can_build_def get_last_info_def get_last_block_info_def get_last_shard_state_def sc_head_def
      chain_defs toy_bx_def builder_with_params_def finalize_block_def Let_def prev1_end_lt_def)


definition toy_plain :: toy_msg where
  "toy_plain = ToyMsg 0 False 3 []"

lemmas engine_run_defs = workchain_block_def on_workchain_def sc_generate_block_def sc_build_block_def
  print_block_info_def finality_and_apply_block_def put_block_with_info_def sb_with_block_and_state_def
  finality_blocks_def stored_to_loaded_def save_serialized_shardstate_ex_def save_raw_block_def ss_set_def
  on_storage_def remove_by_no_def reflect_finalized_def reflect_block_in_db_def save_finality_def
  save_block_entry_def save_non_finalized_block_def save_index_def sb_serialize_def
  register_new_shard_block_def shard_descr_of_def bindO_def returns_def time_mode_def
  get_last_info_def get_last_block_info_def get_last_shard_state_def set_last_time_def
  mem_set_def documents_db_mock_def

text \<open>The value is computed before what follows it.\<close>

lemma bind_first: "x = y \<Longrightarrow> Option.bind x f = Option.bind y f"
  by simp

lemmas round_defs = execute_queued_messages_def get_next_time_def chain_round_def mc_next_seq_no_def
  next_seq_no_def masterchain_block_def on_masterchain_def mc_generate_block_def master_block_def
  on_shardchain_def get_next_def set_last_def saturating_sub_def

lemma toy_run:
  "\<exists>st. execute_queued_messages toy_ce toy_ce (toy_engine System, toy_world [toy_plain]) =
     Some (Inr (), st)"
  by (simp add: round_defs engine_run_defs chain_defs run_defs toy_values toy_world_def toy_plain_def
      block_time_new_def toy_json_def import_external.simps process_new.simps workchain_blocks.simps
      execute_rounds.simps cong: bind_first)

lemma toy_seq_round:
  "\<exists>n' w'. execute_queued_messages toy_ce toy_ce (toy_engine Seq, toy_world [toy_plain]) =
     Some (Inr (), (n', w')) \<and> n' \<noteq> toy_engine Seq"
proof -
  have "\<exists>n' w'. execute_queued_messages toy_ce toy_ce (toy_engine Seq, toy_world [toy_plain]) =
     Some (Inr (), (n', w')) \<and> unat (ts_seq_no (sc_head (en_workchain n'))) = 1"
    by (simp add: round_defs engine_run_defs chain_defs run_defs toy_values toy_world_def toy_plain_def
        block_time_new_def toy_json_def import_external.simps process_new.simps workchain_blocks.simps
        execute_rounds.simps sc_head_def cong: bind_first)
  then show ?thesis
    by (auto simp: sc_head_def get_last_shard_state_def chain_defs toy_zero_def)
qed

lemma toy_restore:
  "\<exists>mc' w'. restore_state toy_ce (en_masterchain (toy_engine System), toy_world []) =
     Some (Inr (), (mc', w'))"
  by (simp add: restore_state_def get_last_finalized_mc_extra_def get_last_finalized_block_def
      round_defs engine_run_defs chain_defs run_defs toy_values toy_world_def
      block_time_new_def toy_json_def import_external.simps process_new.simps)

theorem successful_run_leaves_nothing_to_do_witness:
  "\<exists>n' w'. execute_queued_messages toy_ce toy_ce (toy_engine System, toy_world [toy_plain]) =
      Some (Inr (), (n', w')) \<and>
    pending (bx_dst_workchain toy_bx) (nw_queue w') (sc_workchain toy_ce (en_workchain n')) = []"
proof -
  obtain n' w' where run: "execute_queued_messages toy_ce toy_ce (toy_engine System, toy_world [toy_plain]) =
      Some (Inr (), (n', w'))" using toy_run by auto
  from successful_run_leaves_nothing_to_do [OF run] run show ?thesis by (simp add: toy_ce_def)
qed

theorem run_keeps_the_chains_witness:
  "\<exists>n' w'. execute_queued_messages toy_ce toy_ce (toy_engine System, toy_world [toy_plain]) =
      Some (Inr (), (n', w')) \<and> engine_wf toy_ce toy_ce n' \<and> head_registered toy_ce n'"
proof -
  obtain n' w' where run: "execute_queued_messages toy_ce toy_ce (toy_engine System, toy_world [toy_plain]) =
      Some (Inr (), (n', w'))" using toy_run by auto
  from run_keeps_the_chains [OF toy_engine_env_ok toy_engine_wf toy_head_registered run] run
  show ?thesis by simp
qed

text \<open>A message for workchain 5, and a stop.\<close>

theorem unserved_message_keeps_engine_busy_witness:
  "\<exists>w'. run_reaches toy_ce toy_ce (Running, (toy_engine System, toy_world [ToyMsg 5 False 3 []]))
      (Running, (toy_engine System, w')) \<and> mq_stopped (nw_queue w') \<and>
    ToyMsg 5 False 3 [] \<in> set (mq_storage (nw_queue w'))"
proof -
  let ?n = "toy_engine System" and ?w = "toy_world [ToyMsg 5 False 3 []]"
  let ?w' = "?w\<lparr>nw_queue := mq_stop (nw_queue ?w)\<rparr>"
  have run: "run_reaches toy_ce toy_ce (Running, (?n, ?w)) (Running, (?n, ?w'))"
    by (rule run_reaches.step [OF run_reaches.start run_step.api_stop])
  have wc: "5 \<notin> served toy_ce toy_ce ?n"
    by (simp add: served_def sc_workchain_def sc_shard_def sc_head_def get_last_shard_state_def chain_defs
        toy_bx_def toy_zero_def toy_workchain_def toy_masterchain_def)
  have "pending (bx_dst_workchain (ce_builder toy_ce)) (nw_queue ?w) 5 = ToyMsg 5 False 3 [] # []"
    by (simp add: pending_def toy_world_def mq_new_def toy_ce_def toy_bx_def)
  from unserved_message_keeps_engine_busy [OF toy_engine_env_ok toy_engine_wf wc this run] run
  show ?thesis by (intro exI [of _ ?w']) (simp add: mq_stop_def)
qed


theorem new_configuration_makes_block_at_time_zero_witness:
  "\<exists>mc' w' info. restore_state toy_ce (en_masterchain (toy_engine System), toy_world []) =
      Some (Inr (), (mc', w')) \<and> sc_info toy_ce (mc_shardchain mc') = Inr info \<and>
    bi_gen_utime info = 0"
proof -
  obtain mc' w' where run: "restore_state toy_ce (en_masterchain (toy_engine System), toy_world []) =
      Some (Inr (), (mc', w'))" using toy_restore by auto
  have "chain_env_ok toy_ce" "sc_wf toy_ce (mc_shardchain (en_masterchain (toy_engine System)))"
      "sc_finality_was_loaded (mc_shardchain (en_masterchain (toy_engine System)))"
      "get_last_finalized_mc_extra toy_ce (en_masterchain (toy_engine System)) = Some 1"
      "ch_config (ce_lib toy_ce) 1 = Some 1" "1 \<noteq> ce_raw_config toy_ce"
    using toy_engine_env_ok toy_engine_wf [of System]
    by (simp_all add: engine_env_ok_def engine_wf_def get_last_finalized_mc_extra_def
        get_last_finalized_block_def chain_defs)
  from new_configuration_makes_block_at_time_zero [OF this run] run show ?thesis by blast
qed

theorem idle_engine_rests_witness:
  "\<exists>w'. execute_queued_messages toy_ce toy_ce (toy_engine System, toy_world []) =
     Some (Inr (), (toy_engine System, w'))"
proof -
  have "can_build toy_ce (en_workchain (toy_engine System))"
      "can_build toy_ce (mc_shardchain (en_masterchain (toy_engine System)))"
    by (simp_all add: toy_engine_def toy_can_build)
  from idle_engine_rests [OF toy_idle this] show ?thesis by blast
qed

end
