(* ===== verification/Json_Http.thy ===== *)
theory Json_Http
  imports Byte_Codec
begin

text \<open>
  What the node uses of \<^verbatim>\<open>serde_json\<close> and of its HTTP client, both outside the repository.
  A JSON value has type \<open>'j\<close> and is seen through the accessors of \<^verbatim>\<open>serde_json::Value\<close>; a
  server is a function from a request and its state to a reply and its next state.
\<close>

record 'j json_access =
  ja_as_object :: "'j \<Rightarrow> (string \<Rightarrow> 'j option) option"
  ja_as_array :: "'j \<Rightarrow> 'j list option"
  ja_as_str :: "'j \<Rightarrow> string option"
  ja_as_integer :: "'j \<Rightarrow> int option"
  ja_is_null :: "'j \<Rightarrow> bool"
  ja_string :: "string \<Rightarrow> 'j"
  ja_object :: "(string \<Rightarrow> 'j option) \<Rightarrow> 'j"
  ja_null :: 'j
  ja_from_str :: "string \<Rightarrow> any_error + 'j"
  ja_to_string :: "'j \<Rightarrow> string"
  ja_to_pretty_string :: "'j \<Rightarrow> string"

text \<open>\<^verbatim>\<open>Value::get\<close> with a name; the token of a pointer that is a number names a field of an object
  too.\<close>

definition json_get :: "'j json_access \<Rightarrow> string \<Rightarrow> 'j \<Rightarrow> 'j option" where
  "json_get ja key v = (case ja_as_object ja v of Some m \<Rightarrow> m key | None \<Rightarrow> None)"

definition json_index :: "'j json_access \<Rightarrow> nat \<Rightarrow> 'j \<Rightarrow> 'j option" where
  "json_index ja i v =
     (case ja_as_array ja v of
        Some xs \<Rightarrow> if i < length xs then Some (xs ! i) else None
      | None \<Rightarrow> json_get ja (show_nat i) v)"

text \<open>A step of \<^verbatim>\<open>Value::pointer\<close>.\<close>

datatype json_step = Key string | Index nat

fun json_pointer :: "'j json_access \<Rightarrow> json_step list \<Rightarrow> 'j \<Rightarrow> 'j option" where
  "json_pointer ja [] v = Some v"
| "json_pointer ja (Key k # ps) v = Option.bind (json_get ja k v) (json_pointer ja ps)"
| "json_pointer ja (Index i # ps) v = Option.bind (json_index ja i v) (json_pointer ja ps)"

section \<open>Requests\<close>

datatype http_method = Post | Put

record http_request =
  rq_method :: http_method
  rq_url :: string
  rq_query :: "(string \<times> string) list"
  rq_headers :: "(string \<times> string) list"
  rq_body :: string

text \<open>A reply has its status and the library's text of the reason that belongs to it.\<close>

datatype http_reply = Status nat string | NoReply string

definition is_server_error :: "nat \<Rightarrow> bool" where
  "is_server_error s \<longleftrightarrow> 500 \<le> s \<and> s < 600"

definition is_client_error :: "nat \<Rightarrow> bool" where
  "is_client_error s \<longleftrightarrow> 400 \<le> s \<and> s < 500"

type_synonym 'n server = "http_request \<Rightarrow> 'n \<Rightarrow> http_reply \<times> 'n"

definition accepted :: "http_reply \<Rightarrow> bool" where
  "accepted r = (case r of Status s _ \<Rightarrow> \<not> (is_server_error s \<or> is_client_error s) | NoReply _ \<Rightarrow> False)"

end
