(* ===== verification/Arango.thy ===== *)
theory Arango
  imports Json_Http Documents_Db
begin

text \<open>
  The documents database of the node (\<^verbatim>\<open>node/src/data/arango.rs\<close>): a put sends a record into
  a channel; a worker thread takes the records in order and posts each to the server, again
  and again until the server takes it. The channel is a list, the server a parameter; the
  pauses between the attempts are recorded.
\<close>

definition FIRST_TIMEOUT :: u64 where
  "FIRST_TIMEOUT = 1000"

definition MAX_TIMEOUT :: u64 where
  "MAX_TIMEOUT = 20000"

text \<open>The \<^verbatim>\<open>f64\<close> constant as a fraction; \<^verbatim>\<open>as u64\<close> binds tighter than the product and drops
  the fractional part.\<close>

definition TIMEOUT_BACKOFF_MULTIPLIER :: "nat \<times> nat" where
  "TIMEOUT_BACKOFF_MULTIPLIER = (12, 10)"

definition as_u64 :: "nat \<times> nat \<Rightarrow> u64" where
  "as_u64 x = of_nat (fst x div snd x)"

datatype arango_overwrite_mode = ModeIgnore | ModeReplace | ModeUpdate

fun mode_str :: "arango_overwrite_mode \<Rightarrow> string" where
  "mode_str ModeIgnore = ''ignore''"
| "mode_str ModeReplace = ''replace''"
| "mode_str ModeUpdate = ''update''"

datatype 'j arango_record =
    RBlock "'j serialized_item"
  | RTransaction "'j serialized_item"
  | RAccount "'j serialized_item"
  | RMessage "'j serialized_item"

record arango_config =
  ac_server :: string
  ac_database :: string
  ac_blocks_collection :: string
  ac_messages_collection :: string
  ac_transactions_collection :: string
  ac_accounts_collection :: string

text \<open>
  The helper and its worker share the channel and the flag \<^verbatim>\<open>has_delivery_problems\<close>; both are
  kept in the helper's record, and the worker works on it. \<open>ah_receiver\<close>: the worker still
  holds the other end of the channel.
\<close>

record 'j arango_helper =
  ah_channel :: "'j arango_record list"
  ah_receiver :: bool
  ah_has_delivery_problems :: bool
  ah_config :: arango_config

section \<open>The worker\<close>

definition replace_key :: "'j json_access \<Rightarrow> 'j serialized_item \<Rightarrow> string res" where
  "replace_key ja item =
     (case ja_as_object ja (item_data item) of
        Some m \<Rightarrow>
          Inr (ja_to_pretty_string ja (ja_object ja
            ((m(''id'' := None))(''_key'' \<mapsto> ja_string ja (item_id item)))))
      | None \<Rightarrow> Fail (InvalidData ''serialized item is not an object''))"

record ('j, 'n) arango_worker =
  aw_helper :: "'j arango_helper"
  aw_server :: 'n
  aw_pauses :: "u64 list"

definition set_delivery_problems :: "bool \<Rightarrow> ('j, 'n) arango_worker \<Rightarrow> ('j, 'n) arango_worker" where
  "set_delivery_problems problems w =
     w\<lparr>aw_helper := (aw_helper w)\<lparr>ah_has_delivery_problems := problems\<rparr>\<rparr>"

text \<open>\<^verbatim>\<open>receiver.recv()\<close> takes the record out of the channel.\<close>

definition take_record :: "('j, 'n) arango_worker \<Rightarrow> ('j, 'n) arango_worker" where
  "take_record w =
     w\<lparr>aw_helper := (aw_helper w)\<lparr>ah_channel := tl (ah_channel (aw_helper w))\<rparr>\<rparr>"

definition post_request ::
  "arango_config \<Rightarrow> string \<Rightarrow> string \<Rightarrow> arango_overwrite_mode \<Rightarrow> http_request" where
  "post_request cfg collection doc overwrite_mode =
     \<lparr>rq_method = Post,
      rq_url = ''http://'' @ ac_server cfg @ ''/_db/'' @ ac_database cfg @ ''/_api/document/'' @ collection,
      rq_query = [(''overwriteMode'', mode_str overwrite_mode), (''waitForSync'', ''true'')],
      rq_headers = [(''accept'', ''application/json'')], rq_body = doc\<rparr>"

text \<open>The loop of \<^verbatim>\<open>post_to_arango\<close>. Only an accepted request ends it.\<close>

partial_function (option) post_loop ::
  "'n server \<Rightarrow> http_request \<Rightarrow> u64 \<Rightarrow> ('j, 'n) arango_worker \<Rightarrow> ('j, 'n) arango_worker option" where
  "post_loop server rq timeout w =
     (case server rq (aw_server w) of
        (reply, n) \<Rightarrow>
          if accepted reply then Some (set_delivery_problems False (w\<lparr>aw_server := n\<rparr>))
          else post_loop server rq
                 (min MAX_TIMEOUT (timeout * as_u64 TIMEOUT_BACKOFF_MULTIPLIER))
                 (set_delivery_problems True (w\<lparr>aw_server := n, aw_pauses := aw_pauses w @ [timeout]\<rparr>)))"

definition post_to_arango where
  "post_to_arango server cfg collection doc overwrite_mode w =
     post_loop server (post_request cfg collection doc overwrite_mode) FIRST_TIMEOUT w"

definition process_item where
  "process_item ja server cfg collection item overwrite_mode w =
     (case replace_key ja item of
        Inl e \<Rightarrow> Some (Inl e, w)
      | Inr data \<Rightarrow>
          map_option (\<lambda>w. (Inr (), w)) (post_to_arango server cfg collection data overwrite_mode w))"

fun put_record where
  "put_record ja server cfg (RBlock item) =
     process_item ja server cfg (ac_blocks_collection cfg) item ModeReplace"
| "put_record ja server cfg (RTransaction item) =
     process_item ja server cfg (ac_transactions_collection cfg) item ModeReplace"
| "put_record ja server cfg (RAccount item) =
     process_item ja server cfg (ac_accounts_collection cfg) item ModeReplace"
| "put_record ja server cfg (RMessage item) =
     process_item ja server cfg (ac_messages_collection cfg) item ModeUpdate"

text \<open>The records in the channel, one by one; an error of a record is only logged.\<close>

fun put_records_worker ::
  "'j json_access \<Rightarrow> 'n server \<Rightarrow> arango_config \<Rightarrow> 'j arango_record list \<Rightarrow> ('j, 'n) arango_worker \<Rightarrow>
   ('j, 'n) arango_worker option" where
  "put_records_worker ja server cfg [] w = Some w"
| "put_records_worker ja server cfg (r # rs) w =
     Option.bind (put_record ja server cfg r (take_record w)) (\<lambda>(_, w). put_records_worker ja server cfg rs w)"

section \<open>The helper\<close>

definition arango_from_config ::
  "(string \<Rightarrow> string + arango_config) \<Rightarrow> string \<Rightarrow> 'j arango_helper res" where
  "arango_from_config parse config =
     (case parse config of
        Inl e \<Rightarrow> Fail (InvalidData (''can't deserialize ArangoHelperConfig: '' @ e))
      | Inr cfg \<Rightarrow> Inr \<lparr>ah_channel = [], ah_receiver = True, ah_has_delivery_problems = False, ah_config = cfg\<rparr>)"

definition send_record :: "'j arango_record \<Rightarrow> 'j arango_helper \<Rightarrow> unit res \<times> 'j arango_helper" where
  "send_record r h =
     (Inr (), if ah_receiver h then h\<lparr>ah_channel := ah_channel h @ [r]\<rparr> else h)"

definition arango_documents_db :: "('j arango_helper, 'j) documents_db" where
  "arango_documents_db =
     \<lparr>db_put_account = (\<lambda>item. send_record (RAccount item)),
      db_put_block = (\<lambda>item. send_record (RBlock item)),
      db_put_message = (\<lambda>item. send_record (RMessage item)),
      db_put_transaction = (\<lambda>item. send_record (RTransaction item)),
      db_has_delivery_problems = ah_has_delivery_problems\<rparr>"

interpretation arango_db: accepting_db arango_documents_db
proof
  fix c and i :: "'a serialized_item" and d
  show "fst (db_put arango_documents_db c i d) = Inr ()"
    by (cases c) (simp_all add: arango_documents_db_def send_record_def)
qed

definition truncate_request :: "arango_config \<Rightarrow> string \<Rightarrow> http_request" where
  "truncate_request cfg collection =
     \<lparr>rq_method = Put,
      rq_url = ''http://'' @ ac_server cfg @ ''/_db/'' @ ac_database cfg @ ''/_api/collection/'' @
        collection @ ''/truncate'',
      rq_query = [], rq_headers = [(''accept'', ''application/json'')], rq_body = []\<rparr>"

fun truncate_all :: "'n server \<Rightarrow> arango_config \<Rightarrow> string list \<Rightarrow> 'n \<Rightarrow> unit res \<times> 'n" where
  "truncate_all server cfg [] n = (Inr (), n)"
| "truncate_all server cfg (collection # rest) n =
     (case server (truncate_request cfg collection) n of
        (reply, n) \<Rightarrow>
          if accepted reply then truncate_all server cfg rest n
          else (Fail (DocumentDbError (''error on '' @ collection @ '' collection truncate ('' @
            (case reply of NoReply err \<Rightarrow> err | Status _ reason \<Rightarrow> reason) @ '')'')), n))"

definition arango_clear_db :: "'n server \<Rightarrow> arango_config \<Rightarrow> 'n \<Rightarrow> unit res \<times> 'n" where
  "arango_clear_db server cfg =
     truncate_all server cfg
       [ac_accounts_collection cfg, ac_blocks_collection cfg, ac_messages_collection cfg,
        ac_transactions_collection cfg]"

section \<open>Delivery\<close>

text \<open>The request of a record, unless its data is not an object.\<close>

definition item_request where
  "item_request ja cfg collection item mode =
     (case replace_key ja item of Inl _ \<Rightarrow> None | Inr doc \<Rightarrow> Some (post_request cfg collection doc mode))"

fun record_request :: "'j json_access \<Rightarrow> arango_config \<Rightarrow> 'j arango_record \<Rightarrow> http_request option" where
  "record_request ja cfg (RBlock item) = item_request ja cfg (ac_blocks_collection cfg) item ModeReplace"
| "record_request ja cfg (RTransaction item) =
     item_request ja cfg (ac_transactions_collection cfg) item ModeReplace"
| "record_request ja cfg (RAccount item) =
     item_request ja cfg (ac_accounts_collection cfg) item ModeReplace"
| "record_request ja cfg (RMessage item) =
     item_request ja cfg (ac_messages_collection cfg) item ModeUpdate"

lemma put_record_cases:
  obtains (skip) e where "record_request ja cfg r = None" "put_record ja server cfg r w = Some (Inl e, w)"
  | (post) rq where "record_request ja cfg r = Some rq"
      "put_record ja server cfg r w = map_option (\<lambda>w. (Inr (), w)) (post_loop server rq FIRST_TIMEOUT w)"
  by (cases r; cases "replace_key ja (case r of RBlock i \<Rightarrow> i | RTransaction i \<Rightarrow> i | RAccount i \<Rightarrow> i | RMessage i \<Rightarrow> i)")
    (auto simp: item_request_def process_item_def post_to_arango_def)

text \<open>The server may refuse a request for a while; \<open>taken\<close> is what it accepted so far.\<close>

definition takes_in_the_end ::
  "'n server \<Rightarrow> ('n \<Rightarrow> http_request list) \<Rightarrow> ('n \<Rightarrow> nat) \<Rightarrow> bool" where
  "takes_in_the_end server taken patience \<longleftrightarrow>
     (\<forall>rq n reply n'. server rq n = (reply, n') \<longrightarrow>
        (if accepted reply then taken n' = taken n @ [rq]
         else taken n' = taken n \<and> patience n' < patience n))"

lemma pause_stays: "min MAX_TIMEOUT (1000 * as_u64 TIMEOUT_BACKOFF_MULTIPLIER) = 1000"
  by (simp add: MAX_TIMEOUT_def as_u64_def TIMEOUT_BACKOFF_MULTIPLIER_def)

abbreviation reports_problems :: "('j, 'n) arango_worker \<Rightarrow> bool" where
  "reports_problems w \<equiv> db_has_delivery_problems arango_documents_db (aw_helper w)"

lemma set_delivery_problems_sel [simp]:
  "aw_server (set_delivery_problems p w) = aw_server w" "aw_pauses (set_delivery_problems p w) = aw_pauses w"
  "reports_problems (set_delivery_problems p w) = p"
  "ah_channel (aw_helper (set_delivery_problems p w)) = ah_channel (aw_helper w)"
  by (simp_all add: set_delivery_problems_def arango_documents_db_def)

lemma take_record_sel [simp]:
  "aw_server (take_record w) = aw_server w" "aw_pauses (take_record w) = aw_pauses w"
  "reports_problems (take_record w) = reports_problems w"
  "ah_channel (aw_helper (take_record w)) = tl (ah_channel (aw_helper w))"
  by (simp_all add: take_record_def arango_documents_db_def)

lemma post_loop_takes:
  assumes "takes_in_the_end server taken patience"
  shows "\<exists>w'. post_loop server rq 1000 w = Some w' \<and>
    taken (aw_server w') = taken (aw_server w) @ [rq] \<and> \<not> reports_problems w' \<and>
    ah_channel (aw_helper w') = ah_channel (aw_helper w) \<and>
    set (aw_pauses w') \<subseteq> set (aw_pauses w) \<union> {1000}"
proof (induction "patience (aw_server w)" arbitrary: w rule: less_induct)
  case less
  obtain reply n where s: "server rq (aw_server w) = (reply, n)" by (metis prod.exhaust)
  note step = assms [unfolded takes_in_the_end_def, rule_format, OF s]
  show ?case
  proof (cases "accepted reply")
    case True
    then have "post_loop server rq 1000 w = Some (set_delivery_problems False (w\<lparr>aw_server := n\<rparr>))"
      using s by (subst post_loop.simps) simp
    with step True show ?thesis by (simp add: subset_insertI)
  next
    case False
    let ?w = "set_delivery_problems True (w\<lparr>aw_server := n, aw_pauses := aw_pauses w @ [1000]\<rparr>)"
    have "post_loop server rq 1000 w = post_loop server rq 1000 ?w"
      using s False pause_stays by (subst post_loop.simps) simp
    with less [of ?w] step False show ?thesis by auto
  qed
qed

lemma worker_takes:
  assumes "takes_in_the_end server taken patience"
  shows "\<exists>w'. put_records_worker ja server cfg rs w = Some w' \<and>
    taken (aw_server w') = taken (aw_server w) @ List.map_filter (record_request ja cfg) rs \<and>
    ah_channel (aw_helper w') = drop (length rs) (ah_channel (aw_helper w)) \<and>
    set (aw_pauses w') \<subseteq> set (aw_pauses w) \<union> {1000} \<and>
    reports_problems w' = (List.map_filter (record_request ja cfg) rs = [] \<and> reports_problems w)"
proof (induction rs arbitrary: w)
  case Nil
  then show ?case by (simp add: map_filter_simps subset_insertI)
next
  case (Cons r rs)
  show ?case
  proof (cases rule: put_record_cases [of ja cfg r server "take_record w"])
    case (skip e)
    with Cons.IH [of "take_record w"] show ?thesis by (auto simp: map_filter_simps drop_Suc)
  next
    case (post rq)
    obtain w1 where w1: "post_loop server rq 1000 (take_record w) = Some w1"
        "taken (aw_server w1) = taken (aw_server w) @ [rq]" "\<not> reports_problems w1"
        "ah_channel (aw_helper w1) = tl (ah_channel (aw_helper w))"
        "set (aw_pauses w1) \<subseteq> set (aw_pauses w) \<union> {1000}"
      using post_loop_takes [OF assms, of rq "take_record w"] by auto
    with Cons.IH [of w1] post show ?thesis
      by (auto simp: map_filter_simps FIRST_TIMEOUT_def drop_Suc)
  qed
qed

text \<open>A put of the node appends its record to the channel.\<close>

fun record_of :: "collection \<times> 'j serialized_item \<Rightarrow> 'j arango_record" where
  "record_of (Accounts, i) = RAccount i"
| "record_of (Blocks, i) = RBlock i"
| "record_of (Messages, i) = RMessage i"
| "record_of (Transactions, i) = RTransaction i"

lemma puts_channel:
  "ah_receiver h \<Longrightarrow> puts arango_documents_db xs h = h\<lparr>ah_channel := ah_channel h @ map record_of xs\<rparr>"
proof (induction xs arbitrary: h)
  case (Cons x xs)
  obtain c i where x: "x = (c, i)" by (cases x)
  show ?case
    using Cons.IH Cons.prems unfolding x
    by (cases c) (simp_all add: arango_documents_db_def send_record_def)
qed simp

text \<open>\<^bold>\<open>C33\<close>. What the node puts into the documents database reaches the server: as long as the
  server refuses each request only finitely often, the worker returns, the server has taken
  exactly the documents that were put (those that are JSON objects), each once and in the
  order of the puts, the channel is empty, the helper reports no delivery problem any more
  through the flag that it shares with the worker, and every pause before a new attempt lasted
  one second: the back-off of the code never grows.\<close>

theorem documents_are_delivered_in_order:
  assumes "takes_in_the_end server taken patience" "ah_receiver h" "ah_channel h = []"
  shows "\<exists>w'. put_records_worker ja server (ah_config h)
      (ah_channel (puts arango_documents_db xs h)) (w\<lparr>aw_helper := puts arango_documents_db xs h\<rparr>) = Some w' \<and>
    taken (aw_server w') =
      taken (aw_server w) @ List.map_filter (record_request ja (ah_config h) \<circ> record_of) xs \<and>
    set (aw_pauses w') \<subseteq> set (aw_pauses w) \<union> {1000} \<and> ah_channel (aw_helper w') = [] \<and>
    \<not> (List.map_filter (record_request ja (ah_config h) \<circ> record_of) xs \<noteq> [] \<and>
       db_has_delivery_problems arango_documents_db (aw_helper w'))"
proof -
  have channel: "ah_channel (puts arango_documents_db xs h) = map record_of xs"
    using puts_channel [OF assms(2)] assms(3) by simp
  have requests: "List.map_filter (record_request ja (ah_config h)) (map record_of xs) =
      List.map_filter (record_request ja (ah_config h) \<circ> record_of) xs"
    by (simp add: List.map_filter_def filter_map comp_def)
  from worker_takes [OF assms(1), of ja "ah_config h" "map record_of xs"
      "w\<lparr>aw_helper := puts arango_documents_db xs h\<rparr>"] show ?thesis
    unfolding requests by (auto simp: channel)
qed

section \<open>A document that the server refuses\<close>

lemma post_loop_refused:
  fixes w w' :: "('j, 'n) arango_worker"
  assumes "post_loop server rq timeout w = Some w'" "\<And>n. \<not> accepted (fst (server rq n))"
  shows False
proof -
  have "(\<forall>n. \<not> accepted (fst (server rq n))) \<longrightarrow> False"
  proof (rule post_loop.raw_induct [where P = "\<lambda>server rq timeout (w :: ('j, 'n) arango_worker) w'.
      (\<forall>n. \<not> accepted (fst (server rq n))) \<longrightarrow> False", OF _ assms(1)])
    fix pl :: "'n server \<Rightarrow> http_request \<Rightarrow> u64 \<Rightarrow> ('j, 'n) arango_worker \<Rightarrow> ('j, 'n) arango_worker option"
      and server rq timeout w w'
    assume IH: "\<And>server rq timeout w w'. pl server rq timeout w = Some w' \<Longrightarrow>
        (\<forall>n. \<not> accepted (fst (server rq n))) \<longrightarrow> False"
      and body: "(case server rq (aw_server w) of
        (reply, n) \<Rightarrow>
          if accepted reply then Some (set_delivery_problems False (w\<lparr>aw_server := n\<rparr>))
          else pl server rq (min MAX_TIMEOUT (timeout * as_u64 TIMEOUT_BACKOFF_MULTIPLIER))
                 (set_delivery_problems True (w\<lparr>aw_server := n, aw_pauses := aw_pauses w @ [timeout]\<rparr>))) = Some w'"
    show "(\<forall>n. \<not> accepted (fst (server rq n))) \<longrightarrow> False"
    proof
      assume no: "\<forall>n. \<not> accepted (fst (server rq n))"
      obtain reply n where s: "server rq (aw_server w) = (reply, n)" by (metis prod.exhaust)
      with no have "\<not> accepted reply" by (metis fst_conv)
      with body s have "pl server rq (min MAX_TIMEOUT (timeout * as_u64 TIMEOUT_BACKOFF_MULTIPLIER))
          (set_delivery_problems True (w\<lparr>aw_server := n, aw_pauses := aw_pauses w @ [timeout]\<rparr>)) = Some w'"
        by simp
      from IH [OF this] no show False by blast
    qed
  qed
  with assms(2) show False by blast
qed

text \<open>\<^bold>\<open>C34\<close>. One document that the server refuses for good (say with a client error, because
  it cannot be stored) stops the delivery: the worker posts it again and again and nothing
  that was put after it is ever sent.\<close>

theorem refused_document_blocks_all_later_ones:
  assumes "record_request ja cfg r = Some rq" "\<And>n. \<not> accepted (fst (server rq n))"
  shows "put_records_worker ja server cfg (r # rs) w = None"
proof (cases rule: put_record_cases [of ja cfg r server "take_record w"])
  case (skip e)
  with assms(1) show ?thesis by simp
next
  case (post rq')
  with assms post_loop_refused [of server rq FIRST_TIMEOUT "take_record w"] show ?thesis
    by (cases "post_loop server rq FIRST_TIMEOUT (take_record w)") auto
qed

section \<open>Clearing the database\<close>

lemma truncate_all_log:
  assumes "\<And>rq n. log (snd (server rq n)) = log n @ [(rq, fst (server rq n))]"
    and "truncate_all server cfg cs n = (r, n')"
  shows "\<exists>sent. log n' = log n @ sent \<and>
    (\<exists>rest. map (truncate_request cfg) cs = map fst sent @ rest \<and>
       (if list_all (\<lambda>x. accepted (snd x)) sent then r = Inr () \<and> rest = []
        else (\<exists>e. r = Inl (Err (DocumentDbError e))) \<and> list_all (\<lambda>x. accepted (snd x)) (butlast sent)))"
  using assms(2)
proof (induction cs arbitrary: n)
  case Nil
  then show ?case by simp
next
  case (Cons c cs)
  obtain reply n1 where s: "server (truncate_request cfg c) n = (reply, n1)" by (metis prod.exhaust)
  have log: "log n1 = log n @ [(truncate_request cfg c, reply)]"
    using assms(1) [of "truncate_request cfg c" n] s by simp
  show ?case
  proof (cases "accepted reply")
    case True
    with Cons.prems s have "truncate_all server cfg cs n1 = (r, n')" by simp
    from Cons.IH [OF this] obtain sent rest where IH: "log n' = log n1 @ sent"
        "map (truncate_request cfg) cs = map fst sent @ rest"
        "if list_all (\<lambda>x. accepted (snd x)) sent then r = Inr () \<and> rest = []
         else (\<exists>e. r = Inl (Err (DocumentDbError e))) \<and> list_all (\<lambda>x. accepted (snd x)) (butlast sent)" by blast
    with True log show ?thesis
      by (intro exI [of _ "(truncate_request cfg c, reply) # sent"] conjI exI [of _ rest])
        (auto split: if_splits)
  next
    case False
    with Cons.prems s log show ?thesis
      by (intro exI [of _ "[(truncate_request cfg c, reply)]"] conjI
          exI [of _ "map (truncate_request cfg) cs"]) auto
  qed
qed

text \<open>Clearing the database truncates the collections of accounts, blocks, messages
  and transactions in this order and stops at the first refusal: it succeeds exactly when
  the server accepts all four, and reports an error when it refuses one.\<close>

theorem clear_db_stops_at_first_refusal:
  assumes "\<And>rq n. log (snd (server rq n)) = log n @ [(rq, fst (server rq n))]"
    and "arango_clear_db server cfg n = (r, n')"
  shows "\<exists>sent rest. log n' = log n @ sent \<and>
    map (truncate_request cfg) [ac_accounts_collection cfg, ac_blocks_collection cfg,
      ac_messages_collection cfg, ac_transactions_collection cfg] = map fst sent @ rest \<and>
    (if list_all (\<lambda>x. accepted (snd x)) sent then r = Inr () \<and> rest = []
     else (\<exists>e. r = Fail (DocumentDbError e)) \<and> list_all (\<lambda>x. accepted (snd x)) (butlast sent))"
  using truncate_all_log [where log = log, OF assms(1) assms(2) [unfolded arango_clear_db_def]] by blast

section \<open>Concrete servers\<close>

text \<open>JSON values for the examples: texts, and objects without fields.\<close>

definition text_json :: "string json_access" where
  "text_json =
     \<lparr>ja_as_object = (\<lambda>v. if v = ''null'' then None else Some Map.empty), ja_as_array = (\<lambda>_. None),
      ja_as_str = Some, ja_as_integer = (\<lambda>_. None), ja_is_null = (\<lambda>v. v = ''null''), ja_string = (\<lambda>s. s),
      ja_object = (\<lambda>m. case m ''_key'' of Some k \<Rightarrow> k | None \<Rightarrow> ''''), ja_null = ''null'',
      ja_from_str = Inr, ja_to_string = (\<lambda>s. s), ja_to_pretty_string = (\<lambda>s. s)\<rparr>"

definition example_config :: arango_config where
  "example_config =
     \<lparr>ac_server = ''db'', ac_database = ''blockchain'', ac_blocks_collection = ''blocks'',
      ac_messages_collection = ''messages'', ac_transactions_collection = ''transactions'',
      ac_accounts_collection = ''accounts''\<rparr>"

text \<open>A server that is out of order for its first requests, then takes everything.\<close>

fun starting_server :: "(http_request list \<times> nat) server" where
  "starting_server rq (log, Suc k) = (Status 503 ''Service Unavailable'', (log, k))"
| "starting_server rq (log, 0) = (Status 201 ''Created'', (log @ [rq], 0))"

lemma starting_server_takes: "takes_in_the_end starting_server fst snd"
  unfolding takes_in_the_end_def
proof (intro allI impI)
  fix rq and n :: "http_request list \<times> nat" and reply n'
  assume "starting_server rq n = (reply, n')"
  then show "if accepted reply then fst n' = fst n @ [rq] else fst n' = fst n \<and> snd n' < snd n"
    by (cases "(rq, n)" rule: starting_server.cases)
      (auto simp: accepted_def is_server_error_def is_client_error_def)
qed

definition example_helper :: "string arango_helper" where
  "example_helper = \<lparr>ah_channel = [], ah_receiver = True, ah_has_delivery_problems = False, ah_config = example_config\<rparr>"

theorem documents_are_delivered_in_order_witness:
  "\<exists>w'. put_records_worker text_json starting_server example_config
      (ah_channel (puts arango_documents_db
         [(Blocks, \<lparr>item_id = ''b1'', item_data = ''{}''\<rparr>), (Accounts, \<lparr>item_id = ''a1'', item_data = ''{}''\<rparr>)]
         example_helper))
      \<lparr>aw_helper = puts arango_documents_db
         [(Blocks, \<lparr>item_id = ''b1'', item_data = ''{}''\<rparr>), (Accounts, \<lparr>item_id = ''a1'', item_data = ''{}''\<rparr>)]
         example_helper, aw_server = ([], 2), aw_pauses = []\<rparr> = Some w' \<and>
    map rq_body (fst (aw_server w')) = [''b1'', ''a1'']"
proof -
  let ?xs = "[(Blocks, \<lparr>item_id = ''b1'', item_data = ''{}''\<rparr>), (Accounts, \<lparr>item_id = ''a1'', item_data = ''{}''\<rparr>)]"
  let ?w = "\<lparr>aw_helper = puts arango_documents_db ?xs example_helper, aw_server = ([], 2), aw_pauses = []\<rparr>"
  have "ah_receiver example_helper" "ah_channel example_helper = []"
      and cfg: "ah_config example_helper = example_config"
    by (simp_all add: example_helper_def)
  from documents_are_delivered_in_order [OF starting_server_takes this(1,2), of text_json ?xs ?w]
  show ?thesis
    unfolding cfg
    by (auto simp: map_filter_simps item_request_def replace_key_def text_json_def post_request_def)
qed

theorem refused_document_blocks_all_later_ones_witness:
  "put_records_worker text_json (\<lambda>rq n :: unit. (Status 400 ''Bad Request'', n)) example_config
     [RBlock \<lparr>item_id = ''b1'', item_data = ''{}''\<rparr>]
     \<lparr>aw_helper = example_helper, aw_server = (), aw_pauses = []\<rparr> = None"
  by (rule refused_document_blocks_all_later_ones
      [where rq = "post_request example_config ''blocks'' ''b1'' ModeReplace"])
    (simp_all add: item_request_def replace_key_def text_json_def example_config_def accepted_def
      is_client_error_def)

text \<open>A server that logs every request and refuses the third.\<close>

definition third_refused :: "(http_request \<times> http_reply) list server" where
  "third_refused rq n =
     (let reply = (if length n = 2 then Status 404 ''Not Found'' else Status 200 ''OK'') in (reply, n @ [(rq, reply)]))"

theorem clear_db_stops_at_first_refusal_witness:
  "\<exists>sent. snd (arango_clear_db third_refused example_config []) = sent \<and>
     list_all (\<lambda>x. accepted (snd x)) (butlast sent)"
proof -
  obtain r n' where run: "arango_clear_db third_refused example_config [] = (r, n')"
    by (metis prod.exhaust)
  from clear_db_stops_at_first_refusal [where log = "\<lambda>n. n", OF _ run] have "list_all (\<lambda>x. accepted (snd x)) (butlast n')"
    by (auto simp: third_refused_def Let_def list_all_iff split: if_splits dest: in_set_butlastD)
  with run show ?thesis by simp
qed

end
