(* ===== verification/Node_Config.thy ===== *)
theory Node_Config
  imports Json_Http KV_Storage
begin

text \<open>
  The configuration of the node (\<^verbatim>\<open>node/src/config.rs\<close>): its records, the defaults of the
  fields that may be left out, and the reader that \<^verbatim>\<open>derive(Deserialize)\<close> makes of the
  records and their \<^verbatim>\<open>serde\<close> attributes. Such a reader takes an object, whose unknown
  fields it ignores, or an array with the fields in their order; a value that occurs twice
  in an object and the wording of its errors are not modelled.
\<close>

record shard_id_config =
  sic_workchain :: i32
  sic_shardchain_pfx :: u64
  sic_shardchain_pfx_len :: u8

text \<open>\<^verbatim>\<open>ShardIdent::with_prefix_len\<close> is the block library's; its error is unwrapped.\<close>

definition config_shard_ident ::
  "(u8 \<Rightarrow> i32 \<Rightarrow> u64 \<Rightarrow> any_error + shard_ident) \<Rightarrow> shard_id_config \<Rightarrow> shard_ident res" where
  "config_shard_ident with_prefix_len c =
     unwrap_or_panic ''shard_ident''
       (with_prefix_len (sic_shardchain_pfx_len c) (sic_workchain c) (sic_shardchain_pfx c))"

record node_api_config =
  nac_messages :: string
  nac_live_control :: string
  nac_address :: string
  nac_port :: u32

definition default_messages :: string where "default_messages = ''topics/messages''"

definition default_live_control :: string where "default_live_control = ''se''"

definition default_address :: string where "default_address = ''127.0.0.1''"

definition default_port :: u32 where "default_port = 3000"

definition default_api_config :: node_api_config where
  "default_api_config =
     \<lparr>nac_messages = default_messages, nac_live_control = default_live_control,
      nac_address = default_address, nac_port = default_port\<rparr>"

record fork_config =
  fc_endpoint :: string
  fc_auth :: "string option"

record 'j node_config =
  nc_node_index :: u8
  nc_port :: "16 word"
  nc_private_key :: string
  nc_keys :: "string list"
  nc_boot :: "string list"
  nc_global_id :: i32
  nc_shard_id :: shard_id_config
  nc_document_db :: 'j
  nc_log_path :: string
  nc_api :: node_api_config
  nc_fork :: "fork_config option"

definition default_global_id :: i32 where "default_global_id = 0"

definition default_log_path :: string where "default_log_path = ''./log_cfg.yml''"

definition document_db_config :: "'j json_access \<Rightarrow> 'j node_config \<Rightarrow> string" where
  "document_db_config ja c = ja_to_string ja (nc_document_db c)"

section \<open>The derived readers\<close>

type_synonym 'a read = "string + 'a"

definition read_int :: "'j json_access \<Rightarrow> int \<Rightarrow> int \<Rightarrow> 'j \<Rightarrow> int read" where
  "read_int ja low high v =
     (case ja_as_integer ja v of
        Some i \<Rightarrow> if low \<le> i \<and> i \<le> high then Inr i else Inl ''integer out of range''
      | None \<Rightarrow> Inl ''not an integer'')"

definition read_unsigned :: "'j json_access \<Rightarrow> 'j \<Rightarrow> ('w :: len word) read" where
  "read_unsigned ja v = map_sum id of_int (read_int ja 0 (2 ^ LENGTH('w) - 1) v)"

definition read_signed :: "'j json_access \<Rightarrow> 'j \<Rightarrow> ('w :: len word) read" where
  "read_signed ja v =
     map_sum id of_int (read_int ja (- (2 ^ (LENGTH('w) - 1))) (2 ^ (LENGTH('w) - 1) - 1) v)"

definition read_string :: "'j json_access \<Rightarrow> 'j \<Rightarrow> string read" where
  "read_string ja v = (case ja_as_str ja v of Some s \<Rightarrow> Inr s | None \<Rightarrow> Inl ''not a string'')"

fun read_all :: "('j \<Rightarrow> 'a read) \<Rightarrow> 'j list \<Rightarrow> 'a list read" where
  "read_all rd [] = Inr []"
| "read_all rd (v # vs) = bindR (rd v) (\<lambda>x. bindR (read_all rd vs) (\<lambda>xs. Inr (x # xs)))"

definition read_list :: "'j json_access \<Rightarrow> ('j \<Rightarrow> 'a read) \<Rightarrow> 'j \<Rightarrow> 'a list read" where
  "read_list ja rd v =
     (case ja_as_array ja v of Some vs \<Rightarrow> read_all rd vs | None \<Rightarrow> Inl ''not an array'')"

definition read_option :: "'j json_access \<Rightarrow> ('j \<Rightarrow> 'a read) \<Rightarrow> 'j \<Rightarrow> 'a option read" where
  "read_option ja rd v = (if ja_is_null ja v then Inr None else map_sum id Some (rd v))"

text \<open>The fields of a record: of an object by name, of an array by position. A field of an
  object that is left out is an error, or \<^verbatim>\<open>None\<close> where it is optional, or the default of
  its attribute; an array may only leave out fields with a default.\<close>

datatype 'j fields = Named "string \<Rightarrow> 'j option" | Listed "'j list"

definition fields_of :: "'j json_access \<Rightarrow> nat \<Rightarrow> 'j \<Rightarrow> 'j fields read" where
  "fields_of ja n v =
     (case ja_as_object ja v of
        Some m \<Rightarrow> Inr (Named m)
      | None \<Rightarrow>
          (case ja_as_array ja v of
             Some vs \<Rightarrow> if length vs \<le> n then Inr (Listed vs) else Inl ''trailing elements''
           | None \<Rightarrow> Inl ''not a record''))"

datatype 'a absent = Required | Optional 'a | Default 'a

fun field :: "'j fields \<Rightarrow> nat \<Rightarrow> string \<Rightarrow> 'a absent \<Rightarrow> ('j \<Rightarrow> 'a read) \<Rightarrow> 'a read" where
  "field (Named m) i name absent rd =
     (case m name of
        Some v \<Rightarrow> rd v
      | None \<Rightarrow>
          (case absent of
             Required \<Rightarrow> Inl (''missing field '' @ name) | Optional d \<Rightarrow> Inr d | Default d \<Rightarrow> Inr d))"
| "field (Listed vs) i name absent rd =
     (if i < length vs then rd (vs ! i)
      else (case absent of Default d \<Rightarrow> Inr d | _ \<Rightarrow> Inl ''invalid length''))"

definition read_shard_id :: "'j json_access \<Rightarrow> 'j \<Rightarrow> shard_id_config read" where
  "read_shard_id ja v =
     bindR (fields_of ja 3 v) (\<lambda>fs.
     bindR (field fs 0 ''workchain'' Required (read_signed ja)) (\<lambda>workchain.
     bindR (field fs 1 ''shardchain_pfx'' Required (read_unsigned ja)) (\<lambda>pfx.
     bindR (field fs 2 ''shardchain_pfx_len'' Required (read_unsigned ja)) (\<lambda>pfx_len.
     Inr \<lparr>sic_workchain = workchain, sic_shardchain_pfx = pfx, sic_shardchain_pfx_len = pfx_len\<rparr>))))"

definition read_api :: "'j json_access \<Rightarrow> 'j \<Rightarrow> node_api_config read" where
  "read_api ja v =
     bindR (fields_of ja 4 v) (\<lambda>fs.
     bindR (field fs 0 ''messages'' (Default default_messages) (read_string ja)) (\<lambda>messages.
     bindR (field fs 1 ''live_control'' (Default default_live_control) (read_string ja)) (\<lambda>control.
     bindR (field fs 2 ''address'' (Default default_address) (read_string ja)) (\<lambda>address.
     bindR (field fs 3 ''port'' (Default default_port) (read_unsigned ja)) (\<lambda>port.
     Inr \<lparr>nac_messages = messages, nac_live_control = control, nac_address = address, nac_port = port\<rparr>)))))"

definition read_fork :: "'j json_access \<Rightarrow> 'j \<Rightarrow> fork_config read" where
  "read_fork ja v =
     bindR (fields_of ja 2 v) (\<lambda>fs.
     bindR (field fs 0 ''endpoint'' Required (read_string ja)) (\<lambda>endpoint.
     bindR (field fs 1 ''auth'' (Optional None) (read_option ja (read_string ja))) (\<lambda>auth.
     Inr \<lparr>fc_endpoint = endpoint, fc_auth = auth\<rparr>)))"

definition read_node :: "'j json_access \<Rightarrow> 'j \<Rightarrow> 'j node_config read" where
  "read_node ja v =
     bindR (fields_of ja 11 v) (\<lambda>fs.
     bindR (field fs 0 ''node_index'' Required (read_unsigned ja)) (\<lambda>node_index.
     bindR (field fs 1 ''port'' Required (read_unsigned ja)) (\<lambda>port.
     bindR (field fs 2 ''private_key'' Required (read_string ja)) (\<lambda>private_key.
     bindR (field fs 3 ''keys'' Required (read_list ja (read_string ja))) (\<lambda>keys.
     bindR (field fs 4 ''boot'' Required (read_list ja (read_string ja))) (\<lambda>boot.
     bindR (field fs 5 ''global_id'' (Default default_global_id) (read_signed ja)) (\<lambda>global_id.
     bindR (field fs 6 ''shard_id'' Required (read_shard_id ja)) (\<lambda>shard_id.
     bindR (field fs 7 ''document_db'' Required Inr) (\<lambda>document_db.
     bindR (field fs 8 ''log_path'' (Default default_log_path) (read_string ja)) (\<lambda>log_path.
     bindR (field fs 9 ''api'' (Default default_api_config) (read_api ja)) (\<lambda>api.
     bindR (field fs 10 ''fork'' (Optional None) (read_option ja (read_fork ja))) (\<lambda>fork.
     Inr \<lparr>nc_node_index = node_index, nc_port = port, nc_private_key = private_key, nc_keys = keys,
          nc_boot = boot, nc_global_id = global_id, nc_shard_id = shard_id,
          nc_document_db = document_db, nc_log_path = log_path, nc_api = api, nc_fork = fork\<rparr>))))))))))))"

definition config_parse :: "'j json_access \<Rightarrow> (any_error \<Rightarrow> string) \<Rightarrow> string \<Rightarrow> 'j node_config read" where
  "config_parse ja show_error json =
     bindR (map_sum show_error id (ja_from_str ja json)) (read_node ja)"

section \<open>Reading back\<close>

text \<open>A configuration as the object with its fields, without the fields in \<open>out\<close>; numbers and
  arrays are written by \<open>num\<close> and \<open>arr\<close>.\<close>

definition json_ok :: "'j json_access \<Rightarrow> (int \<Rightarrow> 'j) \<Rightarrow> ('j list \<Rightarrow> 'j) \<Rightarrow> bool" where
  "json_ok ja num arr \<longleftrightarrow>
     (\<forall>m. ja_as_object ja (ja_object ja m) = Some m \<and> \<not> ja_is_null ja (ja_object ja m)) \<and>
     (\<forall>s. ja_as_str ja (ja_string ja s) = Some s \<and> \<not> ja_is_null ja (ja_string ja s)) \<and>
     (\<forall>i. ja_as_integer ja (num i) = Some i) \<and> (\<forall>vs. ja_as_array ja (arr vs) = Some vs) \<and>
     ja_is_null ja (ja_null ja)"

definition write_option :: "'j json_access \<Rightarrow> ('a \<Rightarrow> 'j) \<Rightarrow> 'a option \<Rightarrow> 'j" where
  "write_option ja wr x = (case x of None \<Rightarrow> ja_null ja | Some y \<Rightarrow> wr y)"

definition write_fields :: "'j json_access \<Rightarrow> string set \<Rightarrow> (string \<times> 'j) list \<Rightarrow> 'j" where
  "write_fields ja out kvs = ja_object ja ((map_of kvs) |` (- out))"

definition write_shard_id :: "'j json_access \<Rightarrow> (int \<Rightarrow> 'j) \<Rightarrow> shard_id_config \<Rightarrow> 'j" where
  "write_shard_id ja num c =
     write_fields ja {} [(''workchain'', num (sint (sic_workchain c))),
       (''shardchain_pfx'', num (uint (sic_shardchain_pfx c))),
       (''shardchain_pfx_len'', num (uint (sic_shardchain_pfx_len c)))]"

definition write_api :: "'j json_access \<Rightarrow> (int \<Rightarrow> 'j) \<Rightarrow> string set \<Rightarrow> node_api_config \<Rightarrow> 'j" where
  "write_api ja num out c =
     write_fields ja out [(''messages'', ja_string ja (nac_messages c)),
       (''live_control'', ja_string ja (nac_live_control c)), (''address'', ja_string ja (nac_address c)),
       (''port'', num (uint (nac_port c)))]"

definition write_fork :: "'j json_access \<Rightarrow> fork_config \<Rightarrow> 'j" where
  "write_fork ja c =
     write_fields ja {} [(''endpoint'', ja_string ja (fc_endpoint c)),
       (''auth'', write_option ja (ja_string ja) (fc_auth c))]"

definition write_node ::
  "'j json_access \<Rightarrow> (int \<Rightarrow> 'j) \<Rightarrow> ('j list \<Rightarrow> 'j) \<Rightarrow> string set \<Rightarrow> string set \<Rightarrow> 'j node_config \<Rightarrow> 'j" where
  "write_node ja num arr out api_out c =
     write_fields ja out [(''node_index'', num (uint (nc_node_index c))), (''port'', num (uint (nc_port c))),
       (''private_key'', ja_string ja (nc_private_key c)),
       (''keys'', arr (map (ja_string ja) (nc_keys c))), (''boot'', arr (map (ja_string ja) (nc_boot c))),
       (''global_id'', num (sint (nc_global_id c))), (''shard_id'', write_shard_id ja num (nc_shard_id c)),
       (''document_db'', nc_document_db c), (''log_path'', ja_string ja (nc_log_path c)),
       (''api'', write_api ja num api_out (nc_api c)),
       (''fork'', write_option ja (write_fork ja) (nc_fork c))]"

text \<open>What may be left out: fields that have their default.\<close>

definition api_defaults :: "node_api_config \<Rightarrow> string set" where
  "api_defaults c =
     {f. f = ''messages'' \<and> nac_messages c = default_messages \<or>
         f = ''live_control'' \<and> nac_live_control c = default_live_control \<or>
         f = ''address'' \<and> nac_address c = default_address \<or> f = ''port'' \<and> nac_port c = default_port}"

definition node_defaults :: "'j node_config \<Rightarrow> string set" where
  "node_defaults c =
     {f. f = ''global_id'' \<and> nc_global_id c = default_global_id \<or>
         f = ''log_path'' \<and> nc_log_path c = default_log_path \<or>
         f = ''api'' \<and> nc_api c = default_api_config \<or> f = ''fork'' \<and> nc_fork c = None}"

lemma read_unsigned_num: "json_ok ja num arr \<Longrightarrow> read_unsigned ja (num (uint w)) = Inr w"
  for w :: "'w :: len word"
  using uint_lt2p [of w] by (simp add: json_ok_def read_unsigned_def read_int_def)

lemma read_signed_num: "json_ok ja num arr \<Longrightarrow> read_signed ja (num (sint w)) = Inr w"
  for w :: "'w :: len word"
  using sint_lt [of w] sint_ge [of w] by (simp add: json_ok_def read_signed_def read_int_def)

lemma read_all_strings: "json_ok ja num arr \<Longrightarrow> read_all (read_string ja) (map (ja_string ja) ss) = Inr ss"
  by (induction ss) (simp_all add: json_ok_def read_string_def)

lemma read_simps:
  assumes "json_ok ja num arr"
  shows "read_string ja (ja_string ja s) = Inr s"
    and "read_list ja (read_string ja) (arr (map (ja_string ja) ss)) = Inr ss"
    and "fields_of ja n (write_fields ja out kvs) = Inr (Named ((map_of kvs) |` (- out)))"
    and "read_option ja (read_string ja) (write_option ja (ja_string ja) s') = Inr s'"
  using assms read_all_strings [OF assms]
  by (auto simp: json_ok_def read_string_def read_list_def fields_of_def write_fields_def read_option_def
      write_option_def split: option.split)

lemma read_shard_id_back: "json_ok ja num arr \<Longrightarrow> read_shard_id ja (write_shard_id ja num c) = Inr c"
  by (simp add: read_shard_id_def write_shard_id_def read_simps read_signed_num read_unsigned_num)

text \<open>A field that was written, or left out although it has its default.\<close>

lemma field_back:
  assumes "map_of kvs name = Some v" "rd v = Inr x" "name \<in> out \<Longrightarrow> absent = Default x \<or> absent = Optional x"
  shows "field (Named ((map_of kvs) |` (- out))) i name absent rd = Inr x"
  using assms by (cases "name \<in> out") auto

lemma api_defaults_simps:
  "''messages'' \<in> api_defaults c \<longleftrightarrow> nac_messages c = default_messages"
  "''live_control'' \<in> api_defaults c \<longleftrightarrow> nac_live_control c = default_live_control"
  "''address'' \<in> api_defaults c \<longleftrightarrow> nac_address c = default_address"
  "''port'' \<in> api_defaults c \<longleftrightarrow> nac_port c = default_port"
  by (simp_all add: api_defaults_def)

lemma node_defaults_simps:
  "''global_id'' \<in> node_defaults c \<longleftrightarrow> nc_global_id c = default_global_id"
  "''log_path'' \<in> node_defaults c \<longleftrightarrow> nc_log_path c = default_log_path"
  "''api'' \<in> node_defaults c \<longleftrightarrow> nc_api c = default_api_config"
  "''fork'' \<in> node_defaults c \<longleftrightarrow> nc_fork c = None"
  "''node_index'' \<notin> node_defaults c" "''port'' \<notin> node_defaults c" "''private_key'' \<notin> node_defaults c"
  "''keys'' \<notin> node_defaults c" "''boot'' \<notin> node_defaults c" "''shard_id'' \<notin> node_defaults c"
  "''document_db'' \<notin> node_defaults c"
  by (simp_all add: node_defaults_def)

lemma read_api_back:
  assumes ok: "json_ok ja num arr" and "out \<subseteq> api_defaults c"
  shows "read_api ja (write_api ja num out c) = Inr c"
proof -
  note left = subsetD [OF assms(2)]
  let ?fs = "Named ((map_of [(''messages'', ja_string ja (nac_messages c)),
       (''live_control'', ja_string ja (nac_live_control c)), (''address'', ja_string ja (nac_address c)),
       (''port'', num (uint (nac_port c)))]) |` (- out))"
  have "field ?fs 0 ''messages'' (Default default_messages) (read_string ja) = Inr (nac_messages c)"
    by (rule field_back, simp, rule read_simps(1) [OF ok]) (auto simp: api_defaults_simps dest!: left)
  moreover have "field ?fs 1 ''live_control'' (Default default_live_control) (read_string ja) =
      Inr (nac_live_control c)"
    by (rule field_back, simp, rule read_simps(1) [OF ok]) (auto simp: api_defaults_simps dest!: left)
  moreover have "field ?fs 2 ''address'' (Default default_address) (read_string ja) = Inr (nac_address c)"
    by (rule field_back, simp, rule read_simps(1) [OF ok]) (auto simp: api_defaults_simps dest!: left)
  moreover have "field ?fs 3 ''port'' (Default default_port) (read_unsigned ja) = Inr (nac_port c)"
    by (rule field_back, simp, rule read_unsigned_num [OF ok]) (auto simp: api_defaults_simps dest!: left)
  ultimately show ?thesis
    by (simp only: read_api_def write_api_def read_simps(3) [OF ok] bindR_simps) simp
qed

lemma read_fork_back: "json_ok ja num arr \<Longrightarrow> read_fork ja (write_fork ja c) = Inr c"
  by (simp add: read_fork_def write_fork_def read_simps)

lemma read_forks_back:
  "json_ok ja num arr \<Longrightarrow> read_option ja (read_fork ja) (write_option ja (write_fork ja) c) = Inr c"
  using read_fork_back [of ja num arr]
  by (auto simp: read_option_def write_option_def write_fork_def write_fields_def json_ok_def split: option.split)

abbreviation node_fields where
  "node_fields ja num arr api_out c \<equiv>
     [(''node_index'', num (uint (nc_node_index c))), (''port'', num (uint (nc_port c))),
       (''private_key'', ja_string ja (nc_private_key c)),
       (''keys'', arr (map (ja_string ja) (nc_keys c))), (''boot'', arr (map (ja_string ja) (nc_boot c))),
       (''global_id'', num (sint (nc_global_id c))), (''shard_id'', write_shard_id ja num (nc_shard_id c)),
       (''document_db'', nc_document_db c), (''log_path'', ja_string ja (nc_log_path c)),
       (''api'', write_api ja num api_out (nc_api c)),
       (''fork'', write_option ja (write_fork ja) (nc_fork c))]"

lemma node_fields_back:
  assumes ok: "json_ok ja num arr" and "out \<subseteq> node_defaults c" "api_out \<subseteq> api_defaults (nc_api c)"
  defines "fs \<equiv> Named ((map_of (node_fields ja num arr api_out c)) |` (- out))"
  shows "field fs 0 ''node_index'' Required (read_unsigned ja) = Inr (nc_node_index c)"
    and "field fs 1 ''port'' Required (read_unsigned ja) = Inr (nc_port c)"
    and "field fs 2 ''private_key'' Required (read_string ja) = Inr (nc_private_key c)"
    and "field fs 3 ''keys'' Required (read_list ja (read_string ja)) = Inr (nc_keys c)"
    and "field fs 4 ''boot'' Required (read_list ja (read_string ja)) = Inr (nc_boot c)"
    and "field fs 5 ''global_id'' (Default default_global_id) (read_signed ja) = Inr (nc_global_id c)"
    and "field fs 6 ''shard_id'' Required (read_shard_id ja) = Inr (nc_shard_id c)"
    and "field fs 7 ''document_db'' Required Inr = Inr (nc_document_db c)"
    and "field fs 8 ''log_path'' (Default default_log_path) (read_string ja) = Inr (nc_log_path c)"
    and "field fs 9 ''api'' (Default default_api_config) (read_api ja) = Inr (nc_api c)"
    and "field fs 10 ''fork'' (Optional None) (read_option ja (read_fork ja)) = Inr (nc_fork c)"
proof -
  note left = subsetD [OF assms(2)]
  show "field fs 0 ''node_index'' Required (read_unsigned ja) = Inr (nc_node_index c)"
    unfolding fs_def by (rule field_back, simp, rule read_unsigned_num [OF ok]) (auto simp: node_defaults_simps dest!: left)
  show "field fs 1 ''port'' Required (read_unsigned ja) = Inr (nc_port c)"
    unfolding fs_def by (rule field_back, simp, rule read_unsigned_num [OF ok]) (auto simp: node_defaults_simps dest!: left)
  show "field fs 2 ''private_key'' Required (read_string ja) = Inr (nc_private_key c)"
    unfolding fs_def by (rule field_back, simp, rule read_simps(1) [OF ok]) (auto simp: node_defaults_simps dest!: left)
  show "field fs 3 ''keys'' Required (read_list ja (read_string ja)) = Inr (nc_keys c)"
    unfolding fs_def by (rule field_back, simp, rule read_simps(2) [OF ok]) (auto simp: node_defaults_simps dest!: left)
  show "field fs 4 ''boot'' Required (read_list ja (read_string ja)) = Inr (nc_boot c)"
    unfolding fs_def by (rule field_back, simp, rule read_simps(2) [OF ok]) (auto simp: node_defaults_simps dest!: left)
  show "field fs 5 ''global_id'' (Default default_global_id) (read_signed ja) = Inr (nc_global_id c)"
    unfolding fs_def by (rule field_back, simp, rule read_signed_num [OF ok]) (auto simp: node_defaults_simps dest!: left)
  show "field fs 6 ''shard_id'' Required (read_shard_id ja) = Inr (nc_shard_id c)"
    unfolding fs_def by (rule field_back, simp, rule read_shard_id_back [OF ok]) (auto simp: node_defaults_simps dest!: left)
  show "field fs 7 ''document_db'' Required Inr = Inr (nc_document_db c)"
    unfolding fs_def by (rule field_back, simp, rule refl) (auto simp: node_defaults_simps dest!: left)
  show "field fs 8 ''log_path'' (Default default_log_path) (read_string ja) = Inr (nc_log_path c)"
    unfolding fs_def by (rule field_back, simp, rule read_simps(1) [OF ok]) (auto simp: node_defaults_simps dest!: left)
  show "field fs 9 ''api'' (Default default_api_config) (read_api ja) = Inr (nc_api c)"
    unfolding fs_def by (rule field_back, simp, rule read_api_back [OF ok assms(3)]) (auto simp: node_defaults_simps dest!: left)
  show "field fs 10 ''fork'' (Optional None) (read_option ja (read_fork ja)) = Inr (nc_fork c)"
    unfolding fs_def by (rule field_back, simp, rule read_forks_back [OF ok]) (auto simp: node_defaults_simps dest!: left)
qed

lemma config_parse_back:
  assumes "json_ok ja num arr" "out \<subseteq> node_defaults c" "api_out \<subseteq> api_defaults (nc_api c)"
    and "ja_from_str ja json = Inr (write_node ja num arr out api_out c)"
  shows "config_parse ja show_error json = Inr c"
  by (simp only: config_parse_def assms(4) map_sum.simps id_apply bindR_simps read_node_def write_node_def
      read_simps(3) [OF assms(1)] node_fields_back [OF assms(1-3)]) simp

text \<open>\<^bold>\<open>C38\<close>. Reading a configuration file gives back the configuration it holds, whichever of
  the fields with a default value (the identifier of the network, the path of the log, the
  interface as a whole or single fields of it, the fork) are left out of the file.\<close>

theorem configuration_reads_back:
  assumes "json_ok ja num arr" "out \<subseteq> node_defaults c" "api_out \<subseteq> api_defaults (nc_api c)"
    and "ja_from_str ja json = Inr (write_node ja num arr out api_out c)"
  shows "config_parse ja show_error json = Inr c"
  using assms by (rule config_parse_back)

text \<open>JSON values with their constructors.\<close>

datatype plain_json =
    PNull | PText string | PNumber int | PArray "plain_json list" | PObject "(string \<Rightarrow> plain_json option)"


definition plain_access :: "plain_json \<Rightarrow> plain_json json_access" where
  "plain_access content =
     \<lparr>ja_as_object = (\<lambda>v. case v of PObject m \<Rightarrow> Some m | _ \<Rightarrow> None),
      ja_as_array = (\<lambda>v. case v of PArray vs \<Rightarrow> Some vs | _ \<Rightarrow> None),
      ja_as_str = (\<lambda>v. case v of PText s \<Rightarrow> Some s | _ \<Rightarrow> None),
      ja_as_integer = (\<lambda>v. case v of PNumber i \<Rightarrow> Some i | _ \<Rightarrow> None),
      ja_is_null = (\<lambda>v. case v of PNull \<Rightarrow> True | _ \<Rightarrow> False),
      ja_string = PText, ja_object = PObject, ja_null = PNull, ja_from_str = (\<lambda>_. Inr content),
      ja_to_string = (\<lambda>_. []), ja_to_pretty_string = (\<lambda>_. [])\<rparr>"

lemma plain_sel [simp]:
  "ja_string (plain_access content) = PText" "ja_object (plain_access content) = PObject"
  "ja_null (plain_access content) = PNull" "ja_from_str (plain_access content) json = Inr content"
  by (simp_all add: plain_access_def)

lemma plain_ok: "json_ok (plain_access content) PNumber PArray"
  by (simp add: json_ok_def plain_access_def)

definition example_node :: "plain_json node_config" where
  "example_node =
     \<lparr>nc_node_index = 0, nc_port = 40301, nc_private_key = ''key'', nc_keys = [''pub''], nc_boot = [],
      nc_global_id = default_global_id,
      nc_shard_id = \<lparr>sic_workchain = 0, sic_shardchain_pfx = 0, sic_shardchain_pfx_len = 0\<rparr>,
      nc_document_db = PNull, nc_log_path = default_log_path,
      nc_api = default_api_config\<lparr>nac_port := 80\<rparr>, nc_fork = None\<rparr>"

text \<open>A file without identifier and fork, and with only the port of the interface.\<close>

theorem configuration_reads_back_witness:
  "config_parse (plain_access (write_node (plain_access PNull) PNumber PArray {''global_id'', ''fork''}
      {''messages'', ''live_control'', ''address''} example_node)) (\<lambda>_. []) ''{}'' = Inr example_node"
proof -
  let ?file = "write_node (plain_access PNull) PNumber PArray {''global_id'', ''fork''}
      {''messages'', ''live_control'', ''address''} example_node"
  have out: "{''global_id'', ''fork''} \<subseteq> node_defaults example_node"
      "{''messages'', ''live_control'', ''address''} \<subseteq> api_defaults (nc_api example_node)"
    by (simp_all add: node_defaults_def api_defaults_def example_node_def default_api_config_def)
  have same: "write_node (plain_access content) = write_node (plain_access PNull)" for content
    by (intro ext) (simp only: write_node_def write_fields_def write_shard_id_def write_api_def
        write_fork_def write_option_def plain_sel)
  have content: "ja_from_str (plain_access ?file) ''{}'' = Inr (write_node (plain_access ?file) PNumber PArray
      {''global_id'', ''fork''} {''messages'', ''live_control'', ''address''} example_node)"
    by (simp only: same [of ?file] plain_sel)
  from configuration_reads_back [OF plain_ok out content] show ?thesis .
qed

end
