(* ===== verification/Fork_Provider.thy ===== *)
theory Fork_Provider
  imports Json_Http Node_Config Block_Builder
begin

text \<open>
  The provider of accounts of a forked network (\<^verbatim>\<open>node/src/data/fork_provider.rs\<close>): GraphQL
  requests to an endpoint, whose answers are read as JSON. The endpoint is a parameter that
  answers a request always the same way: the first failure is that of \<^verbatim>\<open>send\<close>, the second
  that of reading the text. The decoders belong to libraries outside the repository; \<open>'y\<close> is
  the masterchain part of a block, \<open>'p\<close> its raw configuration, \<open>'g\<close> a \<^verbatim>\<open>BlockchainConfig\<close>.
\<close>

record ('j, 'b, 'y, 'p, 'g, 'c, 'v) fork_lib =
  fk_json :: "'j json_access"
  fk_send :: "http_request \<Rightarrow> string + (string + string)"
  fk_show_error :: "any_error \<Rightarrow> string"
  fk_block_from_base64 :: "string \<Rightarrow> any_error + 'b"
  fk_read_mc_extra :: "'b \<Rightarrow> any_error + 'y option"
  fk_config :: "'y \<Rightarrow> 'p option"
  fk_with_config :: "'p \<Rightarrow> any_error + 'g"
  fk_global_id :: "'b \<Rightarrow> i32"
  fk_address_text :: "'v \<Rightarrow> string"
  fk_base64_decode :: "string \<Rightarrow> any_error + bytes"
  fk_read_single_root :: "bytes \<Rightarrow> any_error + 'c"
  fk_account_with_root :: "'c \<Rightarrow> u256 \<Rightarrow> u64 \<Rightarrow> 'v"

record fork_provider =
  fp_url :: string
  fp_secret :: "string option"

definition fork_provider_new :: "fork_config \<Rightarrow> fork_provider" where
  "fork_provider_new config = \<lparr>fp_url = fc_endpoint config, fp_secret = fc_auth config\<rparr>"

abbreviation fetch_error :: "string \<Rightarrow> fault + 'a" where
  "fetch_error s \<equiv> Fail (ForkEndpointFetchError s)"

text \<open>\<^verbatim>\<open>map_err(|err| ForkEndpointFetchError(err.to_string()))?\<close>\<close>

definition fetched :: "(any_error \<Rightarrow> string) \<Rightarrow> any_error + 'a \<Rightarrow> 'a res" where
  "fetched show_error r = map_sum (\<lambda>e. Err (ForkEndpointFetchError (show_error e))) id r"

definition try_extract_graphql_error :: "'j json_access \<Rightarrow> 'j \<Rightarrow> string option" where
  "try_extract_graphql_error ja value =
     (let errors = (case json_get ja ''payload'' value of
                      Some payload \<Rightarrow> json_get ja ''errors'' payload
                    | None \<Rightarrow> json_get ja ''errors'' value)
      in map_option (ja_to_string ja) errors)"

definition query_request :: "'j json_access \<Rightarrow> fork_provider \<Rightarrow> string \<Rightarrow> 'j \<Rightarrow> http_request" where
  "query_request ja fp query variables =
     \<lparr>rq_method = Post, rq_url = fp_url fp, rq_query = [],
      rq_headers = (''content-type'', ''application/json'') #
        (case fp_secret fp of Some secret \<Rightarrow> [(''Authorization'', secret)] | None \<Rightarrow> []),
      rq_body = ja_to_string ja
        (ja_object ja [''query'' \<mapsto> ja_string ja query, ''variables'' \<mapsto> variables])\<rparr>"

definition fork_query ::
  "('j, 'b, 'y, 'p, 'g, 'c, 'v) fork_lib \<Rightarrow> fork_provider \<Rightarrow> string \<Rightarrow> 'j \<Rightarrow> 'j res" where
  "fork_query fk fp query variables =
     (case fk_send fk (query_request (fk_json fk) fp query variables) of
        Inl err \<Rightarrow> fetch_error err
      | Inr (Inl err) \<Rightarrow> fetch_error err
      | Inr (Inr text) \<Rightarrow>
          bindR (fetched (fk_show_error fk) (ja_from_str (fk_json fk) text)) (\<lambda>response.
          case try_extract_graphql_error (fk_json fk) response of
            Some err \<Rightarrow> fetch_error err
          | None \<Rightarrow> Inr response))"

definition ok_or_fetch :: "string \<Rightarrow> 'a option \<Rightarrow> 'a res" where
  "ok_or_fetch what x = (case x of Some y \<Rightarrow> Inr y | None \<Rightarrow> fetch_error what)"

definition boc_at :: "'j json_access \<Rightarrow> json_step list \<Rightarrow> 'j \<Rightarrow> string option" where
  "boc_at ja steps v = Option.bind (json_pointer ja steps v) (ja_as_str ja)"

definition get_blockchain_config ::
  "('j, 'b, 'y, 'p, 'g, 'c, 'v) fork_lib \<Rightarrow> fork_provider \<Rightarrow> ('g \<times> i32) res" where
  "get_blockchain_config fk fp =
     bindR (fork_query fk fp ''query{blockchain{key_blocks(last:1){edges{node{boc}}}}}'' (ja_null (fk_json fk)))
       (\<lambda>response.
     bindR (ok_or_fetch ''No key block found''
         (boc_at (fk_json fk) [Key ''data'', Key ''blockchain'', Key ''key_blocks'', Key ''edges'',
            Index 0, Key ''node'', Key ''boc''] response)) (\<lambda>boc.
     bindR (fetched (fk_show_error fk) (fk_block_from_base64 fk boc)) (\<lambda>block.
     bindR (fetched (fk_show_error fk) (fk_read_mc_extra fk block)) (\<lambda>mc_extra.
     bindR (ok_or_fetch ''Key block is not master block'' mc_extra) (\<lambda>mc_extra.
     bindR (ok_or_fetch ''Key block without config'' (fk_config fk mc_extra)) (\<lambda>config.
     bindR (fetched (fk_show_error fk) (fk_with_config fk config)) (\<lambda>blockchain_config.
     Inr (blockchain_config, fk_global_id fk block))))))))"

definition get_account ::
  "('j, 'b, 'y, 'p, 'g, 'c, 'v) fork_lib \<Rightarrow> fork_provider \<Rightarrow> 'v \<Rightarrow> 'v option res" where
  "get_account fk fp address =
     bindR (fork_query fk fp
         ''query account($address:String!){blockchain{account(address:$address){info{boc}}}}''
         (ja_object (fk_json fk) [''address'' \<mapsto> ja_string (fk_json fk) (fk_address_text fk address)]))
       (\<lambda>response.
     case boc_at (fk_json fk) [Key ''data'', Key ''blockchain'', Key ''account'', Key ''info'', Key ''boc'']
            response of
       Some boc \<Rightarrow>
         bindR (fetched (fk_show_error fk) (fk_base64_decode fk boc)) (\<lambda>bytes.
         bindR (fetched (fk_show_error fk) (fk_read_single_root fk bytes)) (\<lambda>cell.
         Inr (Some (fk_account_with_root fk cell 0 0))))
     | None \<Rightarrow> Inr None)"

section \<open>What the endpoint's answers become\<close>

text \<open>A result that is a value or a fetch error.\<close>

definition fetch_res :: "'a res \<Rightarrow> bool" where
  "fetch_res r = (case r of Inr _ \<Rightarrow> True | Inl (Err (ForkEndpointFetchError _)) \<Rightarrow> True | _ \<Rightarrow> False)"

lemma fetch_res_Inl: "fetch_res (Inl e) \<longleftrightarrow> (\<exists>s. e = Err (ForkEndpointFetchError s))"
  by (auto simp: fetch_res_def split: fault.splits node_error.splits)

named_theorems fetch_intros

lemma fetch_res_Inr [fetch_intros]: "fetch_res (Inr x)"
  by (simp add: fetch_res_def)

lemma fetch_res_error [fetch_intros]: "fetch_res (fetch_error s)"
  by (simp add: fetch_res_def)

lemma fetch_res_fetched [fetch_intros]: "fetch_res (fetched sh r)"
  by (cases r) (simp_all add: fetch_res_def fetched_def)

lemma fetch_res_ok_or [fetch_intros]: "fetch_res (ok_or_fetch what x)"
  by (cases x) (simp_all add: fetch_res_def ok_or_fetch_def)

lemma fetch_res_bindR [fetch_intros]:
  "fetch_res r \<Longrightarrow> (\<And>x. fetch_res (f x)) \<Longrightarrow> fetch_res (bindR r f)"
  by (cases r) (auto simp: fetch_res_def split: sum.splits fault.splits node_error.splits)

lemma fetch_res_option [fetch_intros]:
  "fetch_res a \<Longrightarrow> (\<And>x. fetch_res (f x)) \<Longrightarrow> fetch_res (case x of None \<Rightarrow> a | Some y \<Rightarrow> f y)"
  by (cases x) simp_all

lemma fork_query_fetch [fetch_intros]: "fetch_res (fork_query fk fp q v)"
  unfolding fork_query_def by (auto split: sum.split intro: fetch_intros)

lemma get_blockchain_config_fetch: "fetch_res (get_blockchain_config fk fp)"
  unfolding get_blockchain_config_def by (intro fetch_intros)

lemma get_account_fetch: "fetch_res (get_account fk fp address)"
  unfolding get_account_def by (intro fetch_intros)

lemma fork_query_Inr:
  "fork_query fk fp q v = Inr response \<longleftrightarrow>
     (\<exists>body. fk_send fk (query_request (fk_json fk) fp q v) = Inr (Inr body) \<and>
        ja_from_str (fk_json fk) body = Inr response \<and>
        try_extract_graphql_error (fk_json fk) response = None)"
proof (cases "fk_send fk (query_request (fk_json fk) fp q v)")
  case (Inl e)
  then show ?thesis by (simp add: fork_query_def)
next
  case (Inr sent)
  show ?thesis
  proof (cases sent)
    case (Inl e)
    with Inr show ?thesis by (simp add: fork_query_def)
  next
    case body: (Inr body)
    with Inr show ?thesis
      by (cases "ja_from_str (fk_json fk) body")
        (auto simp: fork_query_def fetched_def split: option.splits)
  qed
qed

text \<open>The query of an account.\<close>

definition account_query :: "string" where
  "account_query = ''query account($address:String!){blockchain{account(address:$address){info{boc}}}}''"

definition address_variables :: "('j, 'b, 'y, 'p, 'g, 'c, 'v) fork_lib \<Rightarrow> 'v \<Rightarrow> 'j" where
  "address_variables fk address =
     ja_object (fk_json fk) [''address'' \<mapsto> ja_string (fk_json fk) (fk_address_text fk address)]"

text \<open>The provider never panics: whatever the endpoint answers, and whatever the
  decoders make of it, the node gets the configuration or an error that says the fetch
  failed; an account is taken only from an answer that could be read as JSON and carries no
  GraphQL errors, and everything else is such an error.\<close>

theorem fork_fails_only_to_fetch:
  "fetch_res (get_blockchain_config fk fp) \<and>
    (case get_account fk fp address of
       Inl e \<Rightarrow> (\<exists>s. e = Err (ForkEndpointFetchError s))
     | Inr _ \<Rightarrow> (\<exists>body response.
         fk_send fk (query_request (fk_json fk) fp account_query (address_variables fk address)) =
           Inr (Inr body) \<and>
         ja_from_str (fk_json fk) body = Inr response \<and>
         try_extract_graphql_error (fk_json fk) response = None))"
proof (cases "get_account fk fp address")
  case (Inl e)
  with get_account_fetch [of fk fp address] get_blockchain_config_fetch show ?thesis
    by (simp add: fetch_res_Inl)
next
  case (Inr found)
  then obtain response where
      "fork_query fk fp account_query (address_variables fk address) = Inr response"
    by (auto simp: get_account_def account_query_def address_variables_def bindR_eq_Inr)
  then have "\<exists>body response.
         fk_send fk (query_request (fk_json fk) fp account_query (address_variables fk address)) =
           Inr (Inr body) \<and>
         ja_from_str (fk_json fk) body = Inr response \<and>
         try_extract_graphql_error (fk_json fk) response = None"
    unfolding fork_query_Inr by blast
  with Inr get_blockchain_config_fetch show ?thesis by simp
qed

end
