(* ===== verification/Engine_Manager.thy ===== *)
theory Engine_Manager
  imports Node_Engine FS_Storage Arango Fork_Provider
begin

text \<open>
  The manager of the engine (\<^verbatim>\<open>node/src/service/engine_manager.rs\<close>): it makes an engine from
  the configuration, runs it in a thread, and replaces it on a reset, a fork or an unfork.

  The chains of an engine carry their storage as a value, so each of them carries the file
  system, of which it writes its own directory; \<open>merge_disk\<close> puts them together. What an
  engine has done to the host is handed back when it was made and when its thread has ended;
  in between only the thread works on it. A
  database helper whose engine is gone still has its worker, which delivers what is left in
  the channel; \<open>ho_helpers\<close> keeps these helpers.
\<close>

record ('j, 'g) service_config =
  sv_node :: "'j node_config"
  sv_blockchain :: 'g

record ('s, 'b, 'c, 'm, 't, 'v, 'q, 'j, 'x, 'y, 'r, 'p, 'g, 'n) manager_env =
  me_shards :: shard_lib
  me_with_prefix_len :: "u8 \<Rightarrow> i32 \<Rightarrow> u64 \<Rightarrow> any_error + shard_ident"
  me_chain :: "'g \<Rightarrow> (fs, 's, 'b, 'c, 'm, 't, 'v, 'q, 'j, 'j arango_helper, 'x, 'y, 'r, 'p) chain_env"
  me_json :: "'j json_access"
  me_parse_db :: "string \<Rightarrow> string + arango_config"
  me_server :: "'n server"
  me_fork :: "('j, 'b, 'y, 'r, 'g, 'c, 'v) fork_lib"

record ('s, 'b, 'v, 'm, 'j, 'g) live_engine =
  le_blockchain :: 'g
  le_shard :: shard_ident
  le_state :: "(fs, 's, 'b, 'v) node_engine \<times> ('m, 'j arango_helper) node_world"

record ('s, 'b, 'v, 'm, 'j, 'g) manager =
  mg_original_config :: "('j, 'g) service_config"
  mg_engine :: "('s, 'b, 'v, 'm, 'j, 'g) live_engine"
  mg_thread :: "run_phase option"

record ('j, 'n) host =
  ho_disk :: fs
  ho_clock :: "u32 stream"
  ho_seeds :: "u256 stream"
  ho_server :: 'n
  ho_helpers :: "'j arango_helper list"

definition on_disk :: "(fs \<Rightarrow> 'a res \<times> fs) \<Rightarrow> ('j, 'n) host \<Rightarrow> 'a res \<times> ('j, 'n) host" where
  "on_disk m h = (case m (ho_disk h) of (r, d) \<Rightarrow> (r, h\<lparr>ho_disk := d\<rparr>))"

definition on_server :: "('n \<Rightarrow> 'a res \<times> 'n) \<Rightarrow> ('j, 'n) host \<Rightarrow> 'a res \<times> ('j, 'n) host" where
  "on_server m h = (case m (ho_server h) of (r, n) \<Rightarrow> (r, h\<lparr>ho_server := n\<rparr>))"

section \<open>The storages of the chains\<close>

text \<open>\<^verbatim>\<open>FSStorage::new("./")\<close>.\<close>

definition workchains_path :: path where
  "workchains_path = path_join [] ''workchains''"

text \<open>The chain of a shard works in the shard's directory and writes to the helper.\<close>

definition chain_at where
  "chain_at me blockchain shard =
     (let ce = me_chain me blockchain in
      ce\<lparr>ce_node := (ce_node ce)
           \<lparr>env_kv := fs_kv (shard_root (me_shards me) shard workchains_path),
            env_docs := arango_documents_db\<rparr>\<rparr>)"

definition open_storage :: "shard_lib \<Rightarrow> path \<Rightarrow> shard_ident \<Rightarrow> fs \<Rightarrow> fs res \<times> fs" where
  "open_storage sl root shard d =
     (case fs_shard_storage sl root shard d of (r, d) \<Rightarrow> (map_sum id (\<lambda>_. d) r, d))"

definition merge_disk :: "path \<Rightarrow> fs \<Rightarrow> fs \<Rightarrow> fs" where
  "merge_disk root a b =
     \<lparr>fs_files = (\<lambda>p. if take (length root) p = root then fs_files a p else fs_files b p),
      fs_dirs = fs_dirs a \<union> fs_dirs b\<rparr>"

definition chain_disk :: "('k, 's, 'b, 'v) shardchain \<Rightarrow> 'k" where
  "chain_disk sc = fin_storage (sc_block_finality sc)"

text \<open>What an engine leaves behind.\<close>

definition hand_back where
  "hand_back me st h =
     (case st of (n, w) \<Rightarrow>
        h\<lparr>ho_disk := merge_disk (shard_root (me_shards me) (sl_masterchain (me_shards me)) workchains_path)
            (chain_disk (mc_shardchain (en_masterchain n))) (chain_disk (en_workchain n)),
          ho_clock := nw_clock w, ho_seeds := nw_seeds w\<rparr>)"

definition keep_helper :: "'j arango_helper \<Rightarrow> ('j, 'n) host \<Rightarrow> ('j, 'n) host" where
  "keep_helper helper h = h\<lparr>ho_helpers := ho_helpers h @ [helper]\<rparr>"

section \<open>Making an engine\<close>

text \<open>The configuration of the chain, the network and the accounts: the node's own, or those
  of the network it is forked from.\<close>

definition chain_source where
  "chain_source me config =
     (case nc_fork (sv_node config) of
        Some fork \<Rightarrow>
          (let provider = fork_provider_new fork in
           bindR (get_blockchain_config (me_fork me) provider) (\<lambda>(blockchain, global_id).
           Inr (blockchain, global_id, Some (get_account (me_fork me) provider))))
      | None \<Rightarrow> Inr (sv_blockchain config, nc_global_id (sv_node config), None))"

definition engine_made where
  "engine_made me blockchain shard h made =
     (case made of
        (r, d) \<Rightarrow>
          (case r of
             Inr st \<Rightarrow> (Inr \<lparr>le_blockchain = blockchain, le_shard = shard, le_state = st\<rparr>, hand_back me st h)
           | Inl failed \<Rightarrow>
               (case failed of
                  (e, Some st) \<Rightarrow> (Inl e, keep_helper (nw_docs (snd st)) (hand_back me st h))
                | (e, None) \<Rightarrow> (Inl e, h\<lparr>ho_disk := d\<rparr>))))"

definition create_engine where
  "create_engine me config =
     bindO (returns (on_disk (fs_storage_new []))) (\<lambda>root.
     bindO (returns (liftS (chain_source me config))) (\<lambda>(blockchain, global_id, provider).
     bindO (returns (liftS (config_shard_ident (me_with_prefix_len me) (nc_shard_id (sv_node config)))))
       (\<lambda>shard.
     bindO (returns (liftS (arango_from_config (me_parse_db me)
         (document_db_config (me_json me) (sv_node config))))) (\<lambda>helper h.
     map_option (engine_made me blockchain shard h)
       (engine_with_params
          (chain_at me blockchain (sl_masterchain (me_shards me))) (chain_at me blockchain shard)
          (sl_masterchain (me_shards me)) global_id shard (open_storage (me_shards me) root)
          provider helper (ho_clock h) (ho_seeds h) (ho_disk h))))))"

section \<open>The manager\<close>

definition manager_new where
  "manager_new me config =
     bindO (create_engine me config) (\<lambda>engine.
     returns (retS \<lparr>mg_original_config = config, mg_engine = engine, mg_thread = None\<rparr>))"

definition manager_start where
  "manager_start mg = mg\<lparr>mg_thread := Some Running\<rparr>"

text \<open>\<^verbatim>\<open>run\<close> on a stopped queue: it goes on until the queues are empty, or until it panics.\<close>

partial_function (option) run_stopped where
  "run_stopped mce wce st =
     Option.bind (execute_queued_messages mce wce st) (\<lambda>(r, st').
       if calm_res r \<and> \<not> message_queues_are_empty mce wce st' then run_stopped mce wce st' else Some st')"

text \<open>\<^verbatim>\<open>stop\<close> waits for the thread; a thread that waits for messages is woken and returns.\<close>

definition engine_mce where
  "engine_mce me le = chain_at me (le_blockchain le) (sl_masterchain (me_shards me))"

definition engine_wce where
  "engine_wce me le = chain_at me (le_blockchain le) (le_shard le)"

definition manager_stop where
  "manager_stop me = (\<lambda>(mg, h).
     (let le = mg_engine mg;
          st = (case le_state le of (n, w) \<Rightarrow> (n, w\<lparr>nw_queue := mq_stop (nw_queue w)\<rparr>))
      in (case mg_thread mg of
            None \<Rightarrow> Some (Inr () :: unit res, (mg\<lparr>mg_engine := le\<lparr>le_state := st\<rparr>\<rparr>, h))
          | Some phase \<Rightarrow>
              map_option (\<lambda>st.
                  (Inr (), (mg\<lparr>mg_engine := le\<lparr>le_state := st\<rparr>, mg_thread := None\<rparr>, hand_back me st h)))
                (if phase = Running then run_stopped (engine_mce me le) (engine_wce me le) st
                 else Some st))))"

definition manager_clear_db where
  "manager_clear_db me config =
     bindS (liftS (arango_from_config (me_parse_db me) (document_db_config (me_json me) (sv_node config))))
       (\<lambda>arango :: 'j arango_helper.
     bindS (on_server (arango_clear_db (me_server me) (ah_config arango))) (\<lambda>_.
     bindS (on_disk (fs_storage_new [])) (\<lambda>root.
     bindS (liftS (config_shard_ident (me_with_prefix_len me) (nc_shard_id (sv_node config)))) (\<lambda>shard.
     bindS (on_disk (fs_clear_db (me_shards me) root shard)) (\<lambda>_.
     bindS (on_disk (fs_clear_db (me_shards me) root (sl_masterchain (me_shards me)))) (\<lambda>_.
     \<lambda>h :: ('j, 'n) host. (Inr (), h)))))))"

definition on_host where
  "on_host m = (\<lambda>(mg, h). case m h of (r, h) \<Rightarrow> (r, (mg, h)))"

text \<open>The assignment of a new engine drops the old one; its helper's worker lives on.\<close>

definition replace_engine where
  "replace_engine me config = (\<lambda>(mg, h).
     map_option (\<lambda>(r, h).
       (case r of
          Inl e \<Rightarrow> (Inl e, (mg, h))
        | Inr engine \<Rightarrow>
            (Inr (), (mg\<lparr>mg_engine := engine, mg_thread := None\<rparr>,
               keep_helper (nw_docs (snd (le_state (mg_engine mg)))) h))))
       (create_engine me config h))"

definition started where
  "started = (\<lambda>(mg, h). (Inr () :: unit res, (manager_start mg, h)))"

definition manager_reset where
  "manager_reset me = (\<lambda>(mg, h).
     bindO (manager_stop me) (\<lambda>_.
     bindO (returns (on_host (manager_clear_db me (mg_original_config mg)))) (\<lambda>_.
     bindO (replace_engine me (mg_original_config mg)) (\<lambda>_.
     returns started))) (mg, h))"

definition manager_fork where
  "manager_fork me endpoint auth reset = (\<lambda>(mg, h).
     bindO (manager_stop me) (\<lambda>_.
     bindO (returns (if reset then on_host (manager_clear_db me (mg_original_config mg)) else retS ())) (\<lambda>_.
     (let original = mg_original_config mg;
          config = original\<lparr>sv_node := (sv_node original)
            \<lparr>nc_fork := Some \<lparr>fc_endpoint = endpoint, fc_auth = auth\<rparr>\<rparr>\<rparr>
      in bindO (replace_engine me config) (\<lambda>_. returns started)))) (mg, h))"

definition manager_unfork where
  "manager_unfork me reset = (\<lambda>(mg, h).
     bindO (manager_stop me) (\<lambda>_.
     bindO (returns (if reset then on_host (manager_clear_db me (mg_original_config mg)) else retS ())) (\<lambda>_.
     bindO (replace_engine me (mg_original_config mg)) (\<lambda>_.
     returns started))) (mg, h))"

end
