(* ===== verification/Message_Api.thy ===== *)
theory Message_Api
  imports Json_Http Messages_Queue "HOL-Library.Stream"
begin

text \<open>
  The receiver of messages (\<^verbatim>\<open>node/src/service/message_api.rs\<close>): a request is a JSON object
  with records of a key (the hash of the message) and a value (the message). The decoders
  belong to libraries outside the repository. When the queue is full the handler sleeps and
  tries again, while other threads work on the queue.
\<close>

record ('c, 'm) message_lib =
  ml_base64_decode :: "string \<Rightarrow> any_error + bytes"
  ml_hash_from_str :: "string \<Rightarrow> any_error + u256"
  ml_read_single_root :: "bytes \<Rightarrow> any_error + 'c"
  ml_repr_hash :: "'c \<Rightarrow> u256"
  ml_message :: "'c \<Rightarrow> any_error + 'm"
  ml_error_text :: "any_error \<Rightarrow> string"

definition decode_or :: "('c, 'm) message_lib \<Rightarrow> string \<Rightarrow> any_error + 'a \<Rightarrow> string + 'a" where
  "decode_or ml what r = map_sum (\<lambda>e. what @ ml_error_text ml e) id r"

definition parse_message :: "('c, 'm) message_lib \<Rightarrow> string \<Rightarrow> string \<Rightarrow> string + 'm" where
  "parse_message ml id_b64 message_b64 =
     bindR (decode_or ml ''Error decoding base64-encoded message: '' (ml_base64_decode ml message_b64))
       (\<lambda>message_bytes.
     bindR (decode_or ml ''Error decoding base64-encoded message's id: '' (ml_hash_from_str ml id_b64))
       (\<lambda>msg_id.
     bindR (decode_or ml ''Error deserializing message: '' (ml_read_single_root ml message_bytes))
       (\<lambda>message_cell.
     if ml_repr_hash ml message_cell \<noteq> msg_id
     then Inl ''Error: calculated message's hash doesn't correspond given key''
     else decode_or ml ''Error parsing message's cells tree: '' (ml_message ml message_cell))))"

datatype http_status = StatusOk | StatusBadRequest | StatusInternalServerError

type_synonym response = "http_status \<times> string option"

text \<open>What the other threads (the engine, other requests) do to the queue between two calls of
  \<^verbatim>\<open>queue\<close> is the next function of a stream.\<close>

type_synonym 'm others = "('m in_messages_queue \<Rightarrow> 'm in_messages_queue) stream"

text \<open>The \<^verbatim>\<open>while let\<close> around \<^verbatim>\<open>queue\<close>; the result is whether the message was taken. A full
  queue hands the message back, a stopped one does not.\<close>

partial_function (option) submit ::
  "'m \<Rightarrow> 'm in_messages_queue \<Rightarrow> 'm others \<Rightarrow> (bool \<times> 'm in_messages_queue \<times> 'm others) option" where
  "submit message q others =
     (case mq_queue message (shd others q) of
        (r, q) \<Rightarrow>
          (case r of
             Inr _ \<Rightarrow> Some (True, q, stl others)
           | Inl msg \<Rightarrow>
               (case msg of
                  Some message \<Rightarrow> submit message q (stl others)
                | None \<Rightarrow> Some (False, q, stl others))))"

definition record_field :: "'j json_access \<Rightarrow> string \<Rightarrow> 'j \<Rightarrow> string option" where
  "record_field ja name r = Option.bind (json_get ja name r) (ja_as_str ja)"

fun process_records ::
  "'j json_access \<Rightarrow> ('c, 'm) message_lib \<Rightarrow> 'j list \<Rightarrow> 'm in_messages_queue \<Rightarrow> 'm others \<Rightarrow>
   (response \<times> 'm in_messages_queue \<times> 'm others) option" where
  "process_records ja ml [] q others = Some ((StatusOk, None), q, others)"
| "process_records ja ml (r # rs) q others =
     (case (record_field ja ''key'' r, record_field ja ''value'' r) of
        (Some key, Some value) \<Rightarrow>
          (case parse_message ml key value of
             Inl err \<Rightarrow> Some ((StatusBadRequest, Some (''Error parsing message: '' @ err)), q, others)
           | Inr message \<Rightarrow>
               Option.bind (submit message q others) (\<lambda>(taken, q, others).
               if taken then process_records ja ml rs q others
               else Some ((StatusInternalServerError, Some ''Node does not accept messages''), q, others)))
      | _ \<Rightarrow> process_records ja ml rs q others)"

text \<open>\<open>body\<close> is \<open>None\<close> when the request cannot be read as a text.\<close>

definition request_records :: "'j json_access \<Rightarrow> string option \<Rightarrow> 'j list option" where
  "request_records ja body =
     Option.bind body (\<lambda>text.
     (case ja_from_str ja text of
        Inl _ \<Rightarrow> None
      | Inr v \<Rightarrow> Option.bind (json_get ja ''records'' v) (ja_as_array ja)))"

definition process_message_request ::
  "'j json_access \<Rightarrow> ('c, 'm) message_lib \<Rightarrow> string option \<Rightarrow> 'm in_messages_queue \<Rightarrow> 'm others \<Rightarrow>
   (response \<times> 'm in_messages_queue \<times> 'm others) option" where
  "process_message_request ja ml body q others =
     (case request_records ja body of
        Some records \<Rightarrow> process_records ja ml records q others
      | None \<Rightarrow> Some ((StatusBadRequest, Some ''Error parsing request's body''), q, others))"

section \<open>What a request adds\<close>

text \<open>The reference: the messages of the records before the first one that cannot be parsed
  (records without a key or a value are skipped), and whether all could be.\<close>

fun record_message :: "'j json_access \<Rightarrow> ('c, 'm) message_lib \<Rightarrow> 'j \<Rightarrow> (string + 'm) option" where
  "record_message ja ml r =
     (case (record_field ja ''key'' r, record_field ja ''value'' r) of
        (Some key, Some value) \<Rightarrow> Some (parse_message ml key value)
      | _ \<Rightarrow> None)"

definition attempts :: "'j json_access \<Rightarrow> ('c, 'm) message_lib \<Rightarrow> 'j list \<Rightarrow> (string + 'm) list" where
  "attempts ja ml rs = List.map_filter (record_message ja ml) rs"

definition good_messages :: "(string + 'm) list \<Rightarrow> 'm list" where
  "good_messages xs = map projr (takeWhile (\<lambda>x. \<not> isl x) xs)"

lemma good_messages_simps [simp]:
  "good_messages [] = []" "good_messages (Inl e # xs) = []"
  "good_messages (Inr m # xs) = m # good_messages xs"
  by (simp_all add: good_messages_def)

section \<open>The other threads\<close>

text \<open>The queue after the next steps of the others.\<close>

fun meddle :: "nat \<Rightarrow> 'm others \<Rightarrow> 'm in_messages_queue \<Rightarrow> 'm in_messages_queue" where
  "meddle 0 others q = q"
| "meddle (Suc n) others q = meddle n (stl others) (shd others q)"

text \<open>Nobody stops the queue or changes its capacity, nobody starts it, and it is never full for
  ever.\<close>

definition running :: "'m in_messages_queue \<Rightarrow> bool" where
  "running q \<longleftrightarrow> \<not> mq_stopped q \<and> 0 < mq_capacity q"

definition never_stop :: "'m others \<Rightarrow> bool" where
  "never_stop others \<longleftrightarrow> (\<forall>f \<in> sset others. \<forall>q. running q \<longrightarrow> running (f q))"

definition never_start :: "'m others \<Rightarrow> bool" where
  "never_start others \<longleftrightarrow> (\<forall>f \<in> sset others. \<forall>q. mq_stopped q \<longrightarrow> mq_stopped (f q))"

definition make_room :: "'m others \<Rightarrow> bool" where
  "make_room others \<longleftrightarrow> (\<forall>n q. running q \<longrightarrow> (\<exists>k. \<not> mq_is_full (meddle (Suc k) (sdrop n others) q)))"

lemma never_stop_stl: "never_stop others \<Longrightarrow> never_stop (sdrop n others)"
  by (auto simp: never_stop_def sset_range sdrop_snth)

lemma never_stop_shd: "never_stop others \<Longrightarrow> running q \<Longrightarrow> running (shd others q)"
  unfolding never_stop_def by (meson shd_sset)

lemma never_start_shd: "never_start others \<Longrightarrow> mq_stopped q \<Longrightarrow> mq_stopped (shd others q)"
  unfolding never_start_def by (meson shd_sset)

lemma make_room_sdrop: "make_room others \<Longrightarrow> make_room (sdrop n others)"
  by (simp add: make_room_def sdrop_add)

lemma never_stop_meddle: "never_stop others \<Longrightarrow> running q \<Longrightarrow> running (meddle n others q)"
proof (induction n arbitrary: others q)
  case (Suc n)
  from Suc.IH [of "stl others" "shd others q"] never_stop_stl [OF Suc.prems(1), of 1] never_stop_shd [OF Suc.prems]
  show ?case by simp
qed simp

definition put_last :: "'m \<Rightarrow> 'm in_messages_queue \<Rightarrow> 'm in_messages_queue" where
  "put_last m q = q\<lparr>mq_storage := mq_storage q @ [m]\<rparr>"

lemma running_put_last [simp]: "running (put_last m q) = running q"
  by (simp add: put_last_def running_def)

text \<open>A message waits for as long as the queue is full.\<close>

lemma submit_step:
  "running (shd others q) \<Longrightarrow>
   submit m q others =
     (if mq_is_full (shd others q) then submit m (shd others q) (stl others)
      else Some (True, put_last m (shd others q), stl others))"
  by (subst submit.simps) (simp add: mq_queue_def mq_is_full_def mq_len_def put_last_def running_def)

lemma submit_waits:
  assumes "never_stop others" "running q" "\<not> mq_is_full (meddle (Suc k) others q)"
  shows "\<exists>k'. submit m q others = Some (True, put_last m (meddle (Suc k') others q), sdrop (Suc k') others)"
  using assms
proof (induction k arbitrary: others q)
  case 0
  with never_stop_shd [OF 0(1,2)] show ?case by (intro exI [of _ 0]) (simp add: submit_step)
next
  case (Suc k)
  note running = never_stop_shd [OF Suc.prems(1,2)]
  show ?case
  proof (cases "mq_is_full (shd others q)")
    case True
    from Suc.IH [of "stl others" "shd others q"] Suc.prems never_stop_stl [OF Suc.prems(1), of 1] running
    obtain k' where "submit m (shd others q) (stl others) =
        Some (True, put_last m (meddle (Suc k') (stl others) (shd others q)), sdrop (Suc k') (stl others))"
      by auto
    with True running show ?thesis by (intro exI [of _ "Suc k'"]) (simp add: submit_step)
  next
    case False
    with running show ?thesis by (intro exI [of _ 0]) (simp add: submit_step)
  qed
qed

lemma submit_returns:
  assumes "never_stop others" "make_room others" "running q"
  obtains k where "submit m q others = Some (True, put_last m (meddle (Suc k) others q), sdrop (Suc k) others)"
proof -
  have "running q \<longrightarrow> (\<exists>k. \<not> mq_is_full (meddle (Suc k) (sdrop 0 others) q))"
    using assms(2) unfolding make_room_def by (elim allE)
  with assms(3) obtain k where "\<not> mq_is_full (meddle (Suc k) others q)" by auto
  from submit_waits [OF assms(1,3) this, of m] that show thesis by (elim exE)
qed

lemma submit_stopped:
  "never_start others \<Longrightarrow> mq_stopped q \<Longrightarrow> submit m q others = Some (False, shd others q, stl others)"
  by (subst submit.simps) (simp add: mq_queue_def never_start_shd)

text \<open>The reference: each message is put behind the queue after the others made some steps.\<close>

fun put_between :: "(nat \<times> 'm) list \<Rightarrow> 'm in_messages_queue \<Rightarrow> 'm others \<Rightarrow> 'm in_messages_queue \<times> 'm others" where
  "put_between [] q others = (q, others)"
| "put_between ((k, m) # ms) q others =
     put_between ms (put_last m (meddle (Suc k) others q)) (sdrop (Suc k) others)"

section \<open>The answers\<close>

lemma process_records_cases:
  obtains (skip) "record_message ja ml r = None"
      "process_records ja ml (r # rs) q others = process_records ja ml rs q others"
  | (bad) err where "record_message ja ml r = Some (Inl err)"
      "process_records ja ml (r # rs) q others =
         Some ((StatusBadRequest, Some (''Error parsing message: '' @ err)), q, others)"
  | (good) m where "record_message ja ml r = Some (Inr m)"
      "process_records ja ml (r # rs) q others =
         Option.bind (submit m q others) (\<lambda>(taken, q, others).
           if taken then process_records ja ml rs q others
           else Some ((StatusInternalServerError, Some ''Node does not accept messages''), q, others))"
proof (cases "record_field ja ''key'' r")
  case None
  then show thesis by (intro skip) simp_all
next
  case (Some key)
  show thesis
  proof (cases "record_field ja ''value'' r")
    case None
    with Some show thesis by (intro skip) simp_all
  next
    case (Some v)
    with \<open>record_field ja ''key'' r = Some key\<close> show thesis
      by (cases "parse_message ml key v") (auto intro: bad good)
  qed
qed

lemma attempts_Cons:
  "attempts ja ml (r # rs) =
     (case record_message ja ml r of None \<Rightarrow> attempts ja ml rs | Some x \<Rightarrow> x # attempts ja ml rs)"
  by (simp add: attempts_def map_filter_simps del: record_message.simps split: option.split)

declare process_records.simps(2) [simp del] record_message.simps [simp del]

lemma process_records_adds:
  assumes "never_stop others" "make_room others" "running q"
  shows "\<exists>text ms. map snd ms = good_messages (attempts ja ml rs) \<and>
     process_records ja ml rs q others =
       Some ((if list_all (\<lambda>x. \<not> isl x) (attempts ja ml rs) then StatusOk else StatusBadRequest, text),
         put_between ms q others)"
  using assms
proof (induction rs arbitrary: q others)
  case Nil
  then show ?case by (simp add: attempts_def map_filter_simps)
next
  case (Cons r rs)
  show ?case
  proof (cases rule: process_records_cases [of ja ml r rs q others])
    case skip
    with Cons show ?thesis by (simp add: attempts_Cons)
  next
    case (bad err)
    then show ?thesis by (simp add: attempts_Cons)
  next
    case (good m)
    obtain k where sub: "submit m q others =
        Some (True, put_last m (meddle (Suc k) others q), sdrop (Suc k) others)"
      using submit_returns [OF Cons.prems] .
    have "running (put_last m (meddle (Suc k) others q))"
      using never_stop_meddle [OF Cons.prems(1,3)] by (simp only: running_put_last)
    from Cons.IH [OF never_stop_stl [OF Cons.prems(1)] make_room_sdrop [OF Cons.prems(2)] this]
    obtain answer ms where "map snd ms = good_messages (attempts ja ml rs)"
        "process_records ja ml rs (put_last m (meddle (Suc k) others q)) (sdrop (Suc k) others) =
           Some ((if list_all (\<lambda>x. \<not> isl x) (attempts ja ml rs) then StatusOk else StatusBadRequest, answer),
             put_between ms (put_last m (meddle (Suc k) others q)) (sdrop (Suc k) others))"
      by blast
    with good sub show ?thesis
      by (intro exI [of _ answer] exI [of _ "(k, m) # ms"]) (simp add: attempts_Cons)
  qed
qed

text \<open>\<^bold>\<open>C32\<close>. As long as nobody stops the queue and it does not stay full for ever, every request
  returns, whatever the other threads do meanwhile: handling it is the same as putting the
  messages before the first unparsable one behind the queue one after the other. The
  answer is OK exactly when every record with a key and a value could be parsed, and
  otherwise a client error although the messages before the bad one were taken.\<close>

theorem request_appends_the_good_messages:
  assumes "request_records ja body = Some rs" "running q"
    and "never_stop others" "make_room others"
  shows "\<exists>text ms. map snd ms = good_messages (attempts ja ml rs) \<and>
     process_message_request ja ml body q others =
       Some ((if list_all (\<lambda>x. \<not> isl x) (attempts ja ml rs) then StatusOk else StatusBadRequest, text),
         put_between ms q others)"
  using process_records_adds [OF assms(3,4,2), of ja ml rs] assms(1)
  by (simp add: process_message_request_def split del: if_split)

text \<open>A refused request: the queue is what the others made of it.\<close>

lemma process_records_stopped:
  assumes "never_start others" "mq_stopped q"
  shows "\<exists>status text k. k \<le> 1 \<and>
     process_records ja ml rs q others = Some ((status, text), meddle k others q, sdrop k others) \<and>
     (good_messages (attempts ja ml rs) \<noteq> [] \<longrightarrow> status = StatusInternalServerError)"
proof (induction rs)
  case Nil
  then show ?case by (intro exI [of _ StatusOk] exI [of _ None] exI [of _ 0]) (simp add: attempts_def map_filter_simps)
next
  case (Cons r rs)
  show ?case
  proof (cases rule: process_records_cases [of ja ml r rs q others])
    case skip
    with Cons show ?thesis by (simp add: attempts_Cons)
  next
    case (bad err)
    then show ?thesis
      by (intro exI [of _ StatusBadRequest] exI [of _ "Some (''Error parsing message: '' @ err)"] exI [of _ 0])
        (simp add: attempts_Cons)
  next
    case (good m)
    with submit_stopped [OF assms] show ?thesis
      by (intro exI [of _ StatusInternalServerError] exI [of _ "Some ''Node does not accept messages''"] exI [of _ 1])
        simp
  qed
qed

lemma stopped_node_answers:
  assumes "never_start others" "mq_stopped q"
  shows "\<exists>status text k. k \<le> 1 \<and>
    process_message_request ja ml body q others = Some ((status, text), meddle k others q, sdrop k others) \<and>
    \<not> ((\<exists>rs. request_records ja body = Some rs \<and> good_messages (attempts ja ml rs) \<noteq> []) \<and>
       status \<noteq> StatusInternalServerError)"
proof (cases "request_records ja body")
  case None
  then show ?thesis
    by (intro exI [of _ StatusBadRequest] exI [of _ "Some ''Error parsing request's body''"] exI [of _ 0])
      (simp add: process_message_request_def)
next
  case (Some rs)
  with process_records_stopped [OF assms, of ja ml rs] show ?thesis
    by (auto simp: process_message_request_def)
qed

text \<open>A stopped node takes no message: every request returns after at most one
  attempt and adds nothing to the queue, and one that starts with a message the node would
  have to take is answered with a server error.\<close>

theorem stopped_node_refuses_messages:
  assumes "never_start others" "mq_stopped q"
  shows "\<exists>status text k. k \<le> 1 \<and>
    process_message_request ja ml body q others = Some ((status, text), meddle k others q, sdrop k others) \<and>
    \<not> ((\<exists>rs. request_records ja body = Some rs \<and> good_messages (attempts ja ml rs) \<noteq> []) \<and>
       status \<noteq> StatusInternalServerError)"
  using assms by (rule stopped_node_answers)

section \<open>An example\<close>

text \<open>JSON values as lists of key and value, texts as they are; a message is the bytes of its text and
  every hash is 0.\<close>

datatype example_json = EText string | EList "example_json list" | EObject "(string \<times> example_json) list"

definition example_access :: "example_json json_access" where
  "example_access =
     \<lparr>ja_as_object = (\<lambda>v. case v of EObject m \<Rightarrow> Some (map_of m) | _ \<Rightarrow> None),
      ja_as_array = (\<lambda>v. case v of EList xs \<Rightarrow> Some xs | _ \<Rightarrow> None),
      ja_as_str = (\<lambda>v. case v of EText s \<Rightarrow> Some s | _ \<Rightarrow> None), ja_as_integer = (\<lambda>_. None),
      ja_is_null = (\<lambda>_. False), ja_string = EText, ja_object = (\<lambda>_. EObject []), ja_null = EList [],
      ja_from_str = (\<lambda>s. Inr (EObject [(''records'', EList
         [EObject [(''key'', EText ''ok''), (''value'', EText ''m1'')],
          EObject [(''value'', EText ''m2'')],
          EObject [(''key'', EText ''ok''), (''value'', EText ''bad'')],
          EObject [(''key'', EText ''ok''), (''value'', EText ''m3'')]])])),
      ja_to_string = (\<lambda>_. []), ja_to_pretty_string = (\<lambda>_. [])\<rparr>"

definition example_messages :: "(bytes, bytes) message_lib" where
  "example_messages =
     \<lparr>ml_base64_decode = (\<lambda>s. if s = ''bad'' then Inl (LibError ''base64'') else Inr (map of_char s)),
      ml_hash_from_str = (\<lambda>_. Inr 0), ml_read_single_root = Inr,
      ml_repr_hash = (\<lambda>_. 0), ml_message = Inr, ml_error_text = (\<lambda>_. [])\<rparr>"

lemma example_attempts:
  "request_records example_access (Some ''{}'') =
     Some [EObject [(''key'', EText ''ok''), (''value'', EText ''m1'')], EObject [(''value'', EText ''m2'')],
           EObject [(''key'', EText ''ok''), (''value'', EText ''bad'')],
           EObject [(''key'', EText ''ok''), (''value'', EText ''m3'')]]"
  by (simp add: request_records_def example_access_def json_get_def)

lemma example_good:
  "good_messages (attempts example_access example_messages
     [EObject [(''key'', EText ''ok''), (''value'', EText ''m1'')], EObject [(''value'', EText ''m2'')],
      EObject [(''key'', EText ''ok''), (''value'', EText ''bad'')],
      EObject [(''key'', EText ''ok''), (''value'', EText ''m3'')]]) = [map of_char ''m1'']"
  by (simp add: attempts_Cons record_message.simps record_field_def json_get_def example_access_def
      example_messages_def parse_message_def decode_or_def)

text \<open>The engine takes the oldest message whenever it gets at the queue.\<close>

definition taking :: "'m in_messages_queue \<Rightarrow> 'm in_messages_queue" where
  "taking q = q\<lparr>mq_storage := tl (mq_storage q)\<rparr>"

lemma meddle_sconst: "meddle n (sconst f) q = (f ^^ n) q"
  by (induction n arbitrary: q) (simp_all add: funpow_swap1)

lemma taking_funpow: "(taking ^^ n) q = q\<lparr>mq_storage := drop n (mq_storage q)\<rparr>"
  by (induction n) (simp_all add: taking_def drop_Suc tl_drop)

lemma sdrop_sconst: "sdrop n (sconst f) = sconst f"
  by (induction n) simp_all

lemma taking_room:
  "running q \<Longrightarrow> \<not> mq_is_full (meddle (Suc (length (mq_storage q))) (sconst taking) q)"
  by (simp add: meddle_sconst taking_funpow mq_is_full_def mq_len_def running_def
      del: funpow.simps meddle.simps)

lemma taking_others: "never_stop (sconst taking)" "never_start (sconst taking)" "make_room (sconst taking)"
  unfolding make_room_def sdrop_sconst using taking_room
  by (blast | simp add: never_stop_def never_start_def taking_def running_def)+

text \<open>A full queue of one place: the request waits for the engine.\<close>

definition busy_queue :: "bytes in_messages_queue" where
  "busy_queue = (mq_new 1)\<lparr>mq_storage := [[7]]\<rparr>"

theorem request_appends_the_good_messages_witness:
  "\<exists>text q. process_message_request example_access example_messages (Some ''{}'') busy_queue (sconst taking) =
     Some ((StatusBadRequest, text), q, sconst taking) \<and> mq_storage q = [map of_char ''m1'']"
proof -
  have bad: "\<not> list_all (\<lambda>x. \<not> isl x) (attempts example_access example_messages
     [EObject [(''key'', EText ''ok''), (''value'', EText ''m1'')], EObject [(''value'', EText ''m2'')],
      EObject [(''key'', EText ''ok''), (''value'', EText ''bad'')],
      EObject [(''key'', EText ''ok''), (''value'', EText ''m3'')]])"
    by (simp add: attempts_Cons record_message.simps record_field_def json_get_def example_access_def
        example_messages_def parse_message_def decode_or_def)
  have running: "running busy_queue" by (simp add: running_def busy_queue_def mq_new_def)
  from request_appends_the_good_messages [OF example_attempts running taking_others(1,3), of example_messages]
    example_good bad
  obtain answer k where run: "process_message_request example_access example_messages (Some ''{}'') busy_queue
      (sconst taking) = Some ((StatusBadRequest, answer), put_between [(k, map of_char ''m1'')] busy_queue (sconst taking))"
    by auto
  have "mq_storage ((taking ^^ Suc k) busy_queue) = []"
    by (simp add: taking_funpow busy_queue_def del: funpow.simps)
  with run show ?thesis
    by (auto simp: meddle_sconst sdrop_sconst put_last_def simp del: funpow.simps meddle.simps sdrop.simps)
qed

theorem stopped_node_refuses_messages_witness:
  "\<exists>text k. process_message_request example_access example_messages (Some ''{}'') (mq_stop (mq_new 5)) (sconst taking) =
     Some ((StatusInternalServerError, text), meddle k (sconst taking) (mq_stop (mq_new 5)), sconst taking)"
proof -
  have "mq_stopped (mq_stop (mq_new 5 :: bytes in_messages_queue))" by (simp add: mq_stop_def)
  from stopped_node_refuses_messages [OF taking_others(2) this, of example_access example_messages "Some ''{}''"]
    example_attempts example_good
  show ?thesis by (auto simp: sdrop_sconst)
qed

end
