(* ===== verification/Manager_Props.thy ===== *)
theory Manager_Props
  imports Engine_Manager Engine_Props Message_Api
begin

text \<open>
  What a reset, a fork and an unfork do to the node: the frame of a run of the engine (what
  no block changes), the disk after \<open>clear_db\<close>, and the three operations by their outcomes.
\<close>

section \<open>What a run of the engine does not change\<close>

definition same_setup :: "('k, 's, 'b, 'v) shardchain \<Rightarrow> ('k, 's, 'b, 'v) shardchain \<Rightarrow> bool" where
  "same_setup a b \<longleftrightarrow>
     sc_finality_was_loaded b = sc_finality_was_loaded a \<and> sc_accounts_provider b = sc_accounts_provider a"

definition engine_frame where
  "engine_frame = (\<lambda>(n, w) (n', w').
     same_setup (en_workchain n) (en_workchain n') \<and>
     same_setup (mc_shardchain (en_masterchain n)) (mc_shardchain (en_masterchain n')) \<and>
     time_mode n' = time_mode n \<and> time_delta n' = time_delta n \<and>
     mq_stopped (nw_queue w') = mq_stopped (nw_queue w) \<and>
     mq_capacity (nw_queue w') = mq_capacity (nw_queue w))"

lemma engine_frame_trans:
  "engine_frame a b \<Longrightarrow> engine_frame b c \<Longrightarrow> engine_frame a c"
  by (auto simp: engine_frame_def same_setup_def)

lemma finality_and_apply_frame:
  assumes "finality_and_apply_block ce k b s tr (sc, w) = (r, (sc', w'))"
  shows "same_setup sc sc' \<and> nw_queue w' = nw_queue w"
  using assms
  by (auto simp: finality_and_apply_block_def same_setup_def split: sum.splits prod.splits)

lemma sc_build_block_queue:
  fixes sc :: "('k, 's, 'b, 'v) shardchain" and w :: "('m, 'd) node_world"
  assumes "sc_build_block ce t mode sc w = Some (r, w')"
  shows "mq_stopped (nw_queue w') = mq_stopped (nw_queue w) \<and> mq_capacity (nw_queue w') = mq_capacity (nw_queue w)"
  using sc_build_block_took [OF assms] by (simp add: took_def)

lemma sc_generate_frame:
  assumes "sc_generate_block ce k t mode (sc, w) = Some (r, (sc', w'))"
  shows "same_setup sc sc' \<and> mq_stopped (nw_queue w') = mq_stopped (nw_queue w) \<and>
    mq_capacity (nw_queue w') = mq_capacity (nw_queue w)"
  using assms
proof (cases rule: sc_generate_block_cases)
  case (put p w1 r1)
  with sc_build_block_queue [OF put(1)] finality_and_apply_frame [OF put(4)] show ?thesis by simp
qed (auto simp: same_setup_def dest: sc_build_block_queue)

lemma mc_generate_frame:
  assumes "mc_generate_block ce k t mode (mc, w) = Some (r, (mc', w'))"
  shows "same_setup (mc_shardchain mc) (mc_shardchain mc') \<and>
    mq_stopped (nw_queue w') = mq_stopped (nw_queue w) \<and> mq_capacity (nw_queue w') = mq_capacity (nw_queue w)"
  using assms
proof (cases rule: mc_generate_block_cases)
  case (put p w1 b r1 sc1)
  with sc_build_block_queue [OF put(1)] finality_and_apply_frame [OF put(4)] show ?thesis
    by (cases r1) simp_all
qed (auto simp: same_setup_def dest: sc_build_block_queue)

lemma workchain_block_frame:
  assumes "workchain_block mce wce k t (n, w) = Some (r, (n', w'))"
  shows "engine_frame (n, w) (n', w')"
  using assms
proof (cases rule: workchain_block_cases)
  case (failed e sc')
  with sc_generate_frame [OF failed(1)] show ?thesis
    by (simp add: engine_frame_def same_setup_def time_mode_def time_delta_def)
next
  case (none sc')
  with sc_generate_frame [OF none(1)] show ?thesis
    by (simp add: engine_frame_def same_setup_def time_mode_def time_delta_def)
next
  case (made b sc' r1 mc')
  from made(2) have "mc_shardchain mc' = mc_shardchain (en_masterchain n)"
    by (cases rule: register_cases) simp_all
  with made sc_generate_frame [OF made(1)] show ?thesis
    by (simp add: engine_frame_def same_setup_def time_mode_def time_delta_def)
qed

lemma masterchain_block_frame:
  assumes "masterchain_block mce k t (n, w) = Some (r, (n', w'))"
  shows "engine_frame (n, w) (n', w')"
  using assms
proof (cases rule: masterchain_block_cases)
  case (failed e mc')
  with mc_generate_frame [OF failed(1)] show ?thesis
    by (simp add: engine_frame_def same_setup_def time_mode_def time_delta_def)
next
  case (none mc')
  with mc_generate_frame [OF none(1)] show ?thesis
    by (simp add: engine_frame_def same_setup_def time_mode_def time_delta_def)
next
  case (made b mc')
  with mc_generate_frame [OF made(1)] show ?thesis
    by (simp add: engine_frame_def same_setup_def time_mode_def time_delta_def)
qed

lemma engine_frame_clock: "engine_frame st (n, w) \<Longrightarrow> engine_frame st (n, snd (get_next_time n w))"
  by (auto simp: engine_frame_def get_next_time_def)

lemma engine_frame_refl: "engine_frame st st"
  by (auto simp: engine_frame_def same_setup_def)

lemma workchain_blocks_frame:
  assumes "workchain_blocks mce wce k t again st = Some (r, st')"
  shows "engine_frame st st'"
proof -
  have "case r of Inl e \<Rightarrow> engine_frame st st' | Inr _ \<Rightarrow> engine_frame st st' \<and> True"
  proof (rule workchain_blocks_rule [where I = "engine_frame st" and E = "engine_frame st" and D = "\<lambda>_. True",
        OF assms engine_frame_refl])
    fix t n w r n' w'
    assume "workchain_block mce wce k t (n, w) = Some (r, (n', w'))" "engine_frame st (n, w)"
    then have "engine_frame st (n', w')" using workchain_block_frame engine_frame_trans by blast
    then show "case r of Inl e \<Rightarrow> engine_frame st (n', w')
      | Inr made \<Rightarrow> engine_frame st (n', w') \<and> (\<not> made \<longrightarrow> True)"
      by (cases r) simp_all
  qed (rule engine_frame_clock)
  then show ?thesis by (cases r) simp_all
qed

lemma chain_round_frame:
  assumes "chain_round mce wce t st = Some (r, st')"
  shows "engine_frame st st'"
proof -
  obtain n w n' w' where st: "st = (n, w)" "st' = (n', w')" by (metis prod.exhaust)
  from assms [unfolded st] have "engine_frame (n, w) (n', w')"
  proof (cases rule: chain_round_cases)
    case (no_number e)
    then show ?thesis by (simp add: engine_frame_refl)
  next
    case (failed k e)
    show ?thesis by (rule workchain_blocks_frame [OF failed(2)])
  next
    case (rest k again t1 n1 w1 r1)
    from workchain_blocks_frame [OF rest(2)] masterchain_block_frame [OF rest(3)] show ?thesis
      by (rule engine_frame_trans)
  qed
  with st show ?thesis by simp
qed

lemma execute_frame:
  assumes "execute_queued_messages mce wce (n, w) = Some (r, st')"
  shows "engine_frame (n, w) st'"
proof -
  obtain t w1 where w1: "get_next_time n w = (t, w1)" by (metis prod.exhaust)
  then have run: "execute_rounds mce wce t (n, w1) = Some (r, st')"
    using assms by (simp add: execute_queued_messages_def)
  have start: "engine_frame (n, w) (n, w1)"
    using engine_frame_clock [OF engine_frame_refl, of n w] w1 by simp
  have "case r of Inl e \<Rightarrow> engine_frame (n, w) st' | Inr _ \<Rightarrow> engine_frame (n, w) st' \<and> True"
  proof (rule execute_rounds_rule [where I = "engine_frame (n, w)" and E = "engine_frame (n, w)"
        and D = "\<lambda>_. True", OF run start])
    fix t st r st'
    assume "chain_round mce wce t st = Some (r, st')" "engine_frame (n, w) st"
    then have "engine_frame (n, w) st'" using chain_round_frame engine_frame_trans by blast
    then show "case r of Inl e \<Rightarrow> engine_frame (n, w) st'
      | Inr x \<Rightarrow> engine_frame (n, w) st' \<and> (\<not> fst x \<longrightarrow> True)"
      by (cases r) simp_all
  qed
  then show ?thesis by (cases r) simp_all
qed

lemma mc_generate_bind_frame:
  assumes "bindO (mc_generate_block ce k t mode) (\<lambda>_. returns (retS ())) (mc, w) = Some (r, (mc', w'))"
  shows "same_setup (mc_shardchain mc) (mc_shardchain mc') \<and>
    mq_stopped (nw_queue w') = mq_stopped (nw_queue w) \<and> mq_capacity (nw_queue w') = mq_capacity (nw_queue w)"
  using assms by (cases rule: bindO_cases) (auto dest: mc_generate_frame)

lemma restore_state_frame:
  assumes "restore_state ce (mc, w) = Some (r, (mc', w'))"
  shows "same_setup (mc_shardchain mc) (mc_shardchain mc') \<and>
    mq_stopped (nw_queue w') = mq_stopped (nw_queue w) \<and> mq_capacity (nw_queue w') = mq_capacity (nw_queue w)"
proof -
  have refl: "same_setup sc sc" for sc :: "('a, 'b, 'c, 'd) shardchain" by (simp add: same_setup_def)
  show ?thesis
    using assms refl
    by (auto simp: restore_state_def Let_def split: if_splits option.splits sum.splits prod.splits
        dest!: mc_generate_bind_frame)
qed

section \<open>A new engine\<close>

lemma finality_load_without_index:
  assumes "finality_load env f = Some (Inr loaded, f')"
    and "\<And>data. ss_get (env_kv env) BLOCKS_FINALITY_INFO_KEY (fin_storage f) \<noteq> Inr data"
  shows "\<not> loaded"
proof (cases "ss_get (env_kv env) BLOCKS_FINALITY_INFO_KEY (fin_storage f)")
  case (Inr data)
  with assms(2) [of data] show ?thesis by simp
next
  case (Inl flt)
  show ?thesis
  proof (cases flt)
    case (Panic p)
    with Inl assms(1) show ?thesis by (simp add: finality_load_def)
  next
    case (Err e)
    show ?thesis
    proof (cases "ss_get (env_kv env) ZEROSTATE_KEY (fin_storage f)")
      case none: (Inl e')
      with Inl Err assms(1) show ?thesis by (auto simp: finality_load_def split: if_splits)
    next
      case (Inr z)
      obtain r f1 where "load_zerostate (env_lib env) z f = (r, f1)" by (metis prod.exhaust)
      with Inl Err Inr assms(1) show ?thesis by (cases r) (auto simp: finality_load_def)
    qed
  qed
qed

text \<open>A chain that was not loaded is at the zero state: the one in the file \<^verbatim>\<open>zerostate\<close> of its
  directory, with the network's id, or the default one when there is no such file.\<close>

definition starts_at_zero where
  "starts_at_zero ce global_id shard sc \<longleftrightarrow>
     (let f = sc_block_finality sc; lib = ce_blocks ce in
      \<not> sc_finality_was_loaded sc \<and> fin_blocks_by_hash f = Map.empty \<and> fin_blocks_by_no f = Map.empty \<and>
      sb_block (fin_current_block f) = bl_block_set_global_id lib global_id (bl_default_block lib) \<and>
      sb_shard_state (fin_last_finalized_block f) = sb_shard_state (fin_current_block f) \<and>
      (case ss_get (env_kv (ce_node ce)) ZEROSTATE_KEY (fin_storage f) of
         Inr zerostate \<Rightarrow> \<exists>state. bl_parse_state lib zerostate = Inr state \<and>
           sb_shard_state (fin_current_block f) =
             bl_state_set_global_id lib (bl_block_global_id lib (sb_block (fin_current_block f))) state
       | Inl e \<Rightarrow> e = Err NotFound \<and> sb_shard_state (fin_current_block f) =
           bl_state_set_shard lib shard (bl_state_set_global_id lib global_id (bl_default_state lib))))"

lemma shardchain_at_zero:
  assumes "shardchain_with_params ce shard global_id (Inr k) provider = Some (Inr sc)"
    and "\<And>data. ss_get (env_kv (ce_node ce)) BLOCKS_FINALITY_INFO_KEY k \<noteq> Inr data"
  shows "starts_at_zero ce global_id shard sc"
proof -
  let ?f = "finality_with_params (ce_blocks ce) global_id shard k True"
  obtain e where index: "ss_get (env_kv (ce_node ce)) BLOCKS_FINALITY_INFO_KEY k = Inl (Err e)"
    using assms by (cases "ss_get (env_kv (ce_node ce)) BLOCKS_FINALITY_INFO_KEY k")
      (auto simp: shardchain_with_params_def finality_load_def finality_with_params_def split: fault.splits)
  show ?thesis
  proof (cases "ss_get (env_kv (ce_node ce)) ZEROSTATE_KEY k")
    case (Inl e')
    with assms(1) index show ?thesis
      by (auto simp: shardchain_with_params_def finality_load_def finality_with_params_def starts_at_zero_def
          sb_new_def Let_def split: if_splits)
  next
    case (Inr z)
    then obtain state where "bl_parse_state (ce_blocks ce) z = Inr state"
      using assms(1) index by (cases "bl_parse_state (ce_blocks ce) z")
        (auto simp: shardchain_with_params_def finality_load_def finality_with_params_def load_zerostate_def)
    with assms(1) index Inr show ?thesis
      by (auto simp: shardchain_with_params_def finality_load_def finality_with_params_def starts_at_zero_def
          load_zerostate_def sb_new_def Let_def)
  qed
qed

lemma shardchain_new:
  assumes "shardchain_with_params ce shard global_id storage provider = Some (Inr sc)"
  obtains k where "storage = Inr k" "sc_accounts_provider sc = provider"
    "(\<forall>data. ss_get (env_kv (ce_node ce)) BLOCKS_FINALITY_INFO_KEY k \<noteq> Inr data) \<Longrightarrow>
       \<not> sc_finality_was_loaded sc"
proof -
  obtain k where k: "storage = Inr k"
    using assms by (cases storage) (auto simp: shardchain_with_params_def)
  let ?f = "finality_with_params (ce_blocks ce) global_id shard k True"
  obtain r f where load: "finality_load (ce_node ce) ?f = Some (r, f)"
    using assms k by (auto simp: shardchain_with_params_def)
  obtain loaded where r: "r = Inr loaded" and
      sc: "sc_accounts_provider sc = provider" "sc_finality_was_loaded sc = loaded"
    using assms k load by (cases r) (auto simp: shardchain_with_params_def)
  from finality_load_without_index [OF load [unfolded r]] sc k show thesis
    by (intro that) (auto simp: finality_with_params_def)
qed

lemma masterchain_new:
  assumes "masterchain_with_params ce shard global_id storage provider = Some (Inr mc)"
  obtains sc where "shardchain_with_params ce shard global_id storage provider = Some (Inr sc)"
    "mc_shardchain mc = sc" "mc_shards mc = Map.empty"
proof -
  obtain r where "shardchain_with_params ce shard global_id storage provider = Some r"
    "bindR r (\<lambda>shardchain. Inr \<lparr>mc_shardchain = shardchain, mc_shards = Map.empty,
        mc_shards_has_been_changed = False\<rparr>) = Inr mc"
    using assms by (auto simp: masterchain_with_params_def)
  then show thesis by (cases r) (auto intro: that)
qed

text \<open>The two chains of a new engine, and its first run.\<close>

lemma engine_with_params_parts:
  fixes docs :: 'd and disk :: 'w
  assumes "engine_with_params mce wce mc_shard global_id shard open_shard provider docs clock seeds disk =
      Some (Inr (n, w :: ('m, 'd) node_world), d)"
  obtains mc_storage d1 mc wc_storage d2 sc where "open_shard mc_shard disk = (mc_storage, d1)"
    "masterchain_with_params mce mc_shard global_id mc_storage provider = Some (Inr mc)"
    "open_shard shard d1 = (wc_storage, d2)"
    "shardchain_with_params wce shard global_id wc_storage provider = Some (Inr sc)"
    "bindO (if sc_finality_was_loaded sc then on_masterchain (restore_state mce) else returns (retS ()))
       (\<lambda>_. execute_queued_messages mce wce)
       (\<lparr>en_time = block_time_new, en_masterchain = mc, en_workchain = sc\<rparr>,
        \<lparr>nw_queue = mq_new 10000, nw_docs = docs, nw_clock = clock, nw_seeds = seeds\<rparr>) = Some (Inr (), (n, w))"
proof -
  obtain mc_storage d1 where o1: "open_shard mc_shard disk = (mc_storage, d1)" by (metis prod.exhaust)
  obtain r1 where r1: "masterchain_with_params mce mc_shard global_id mc_storage provider = Some r1"
    using assms o1 by (auto simp: engine_with_params_def bind_eq_Some_conv)
  obtain mc where mc: "masterchain_with_params mce mc_shard global_id mc_storage provider = Some (Inr mc)"
    using assms o1 r1 by (cases r1) (auto simp: engine_with_params_def)
  obtain wc_storage d2 where o2: "open_shard shard d1 = (wc_storage, d2)" by (metis prod.exhaust)
  obtain r2 where r2: "shardchain_with_params wce shard global_id wc_storage provider = Some r2"
    using assms o1 mc o2 by (auto simp: engine_with_params_def bind_eq_Some_conv)
  obtain sc where sc: "shardchain_with_params wce shard global_id wc_storage provider = Some (Inr sc)"
    using assms o1 mc o2 r2 by (cases r2) (auto simp: engine_with_params_def)
  let ?w = "\<lparr>nw_queue = mq_new 10000, nw_docs = docs, nw_clock = clock, nw_seeds = seeds\<rparr> :: ('m, 'd) node_world"
    and ?n = "\<lparr>en_time = block_time_new, en_masterchain = mc, en_workchain = sc\<rparr>"
  obtain r st where run0: "bindO (if sc_finality_was_loaded sc then on_masterchain (restore_state mce)
        else returns (retS ())) (\<lambda>_. execute_queued_messages mce wce) (?n, ?w) = Some (r, st)"
      and "map_sum (\<lambda>e. (e, Some st)) (\<lambda>_. st) r = Inr (n, w)"
    using assms o1 mc o2 sc by (auto simp: engine_with_params_def Let_def simp del: map_sum.simps)
  then have "st = (n, w)" "r = Inr ()" by (cases r; simp)+
  with run0 have "bindO (if sc_finality_was_loaded sc then on_masterchain (restore_state mce)
        else returns (retS ())) (\<lambda>_. execute_queued_messages mce wce) (?n, ?w) = Some (Inr (), (n, w))" by simp
  from that [OF o1 mc o2 sc this] show thesis .
qed

text \<open>A new engine before its first run, and what it is afterwards.\<close>

lemma engine_with_params_new:
  fixes docs :: 'd and disk :: 'w
  assumes "engine_with_params mce wce mc_shard global_id shard open_shard provider docs clock seeds disk =
      Some (Inr (n, w :: ('m, 'd) node_world), d)"
  obtains mc_k d1 wc_k d2 where "open_shard mc_shard disk = (Inr mc_k, d1)" "open_shard shard d1 = (Inr wc_k, d2)"
    "sc_accounts_provider (mc_shardchain (en_masterchain n)) = provider"
    "sc_accounts_provider (en_workchain n) = provider"
    "(\<forall>data. ss_get (env_kv (ce_node mce)) BLOCKS_FINALITY_INFO_KEY mc_k \<noteq> Inr data) \<Longrightarrow>
       \<not> sc_finality_was_loaded (mc_shardchain (en_masterchain n))"
    "(\<forall>data. ss_get (env_kv (ce_node wce)) BLOCKS_FINALITY_INFO_KEY wc_k \<noteq> Inr data) \<Longrightarrow>
       \<not> sc_finality_was_loaded (en_workchain n)"
    "time_mode n = System" "time_delta n = 0" "\<not> mq_stopped (nw_queue w)" "mq_capacity (nw_queue w) = 10000"
proof -
  obtain mc_storage d1 mc wc_storage d2 sc where o1: "open_shard mc_shard disk = (mc_storage, d1)"
      and mc: "masterchain_with_params mce mc_shard global_id mc_storage provider = Some (Inr mc)"
      and o2: "open_shard shard d1 = (wc_storage, d2)"
      and sc: "shardchain_with_params wce shard global_id wc_storage provider = Some (Inr sc)"
      and run: "bindO (if sc_finality_was_loaded sc then on_masterchain (restore_state mce)
        else returns (retS ())) (\<lambda>_. execute_queued_messages mce wce)
          (\<lparr>en_time = block_time_new, en_masterchain = mc, en_workchain = sc\<rparr>,
           \<lparr>nw_queue = mq_new 10000, nw_docs = docs, nw_clock = clock, nw_seeds = seeds\<rparr>) = Some (Inr (), (n, w))"
    using assms by (rule engine_with_params_parts)
  let ?w = "\<lparr>nw_queue = mq_new 10000, nw_docs = docs, nw_clock = clock, nw_seeds = seeds\<rparr> :: ('m, 'd) node_world"
    and ?n = "\<lparr>en_time = block_time_new, en_masterchain = mc, en_workchain = sc\<rparr>"
  have restore: "engine_frame (?n, ?w) (n1, w1)"
    if "(if sc_finality_was_loaded sc then on_masterchain (restore_state mce) else returns (retS ())) (?n, ?w) =
        Some (r1, (n1, w1))" for r1 n1 w1
  proof (cases "sc_finality_was_loaded sc")
    case True
    with that have "on_masterchain (restore_state mce) (?n, ?w) = Some (r1, (n1, w1))" by simp
    then show ?thesis
      by (rule on_masterchain_cases)
        (auto simp: engine_frame_def same_setup_def time_mode_def time_delta_def dest!: restore_state_frame)
  next
    case False
    with that have "(n1, w1) = (?n, ?w)" by (simp add: returns_def retS_def)
    then show ?thesis using engine_frame_refl by metis
  qed
  have frame: "engine_frame (?n, ?w) (n, w)"
    using run
  proof (cases rule: bindO_cases)
    case (fail e)
    then show ?thesis by (intro restore)
  next
    case (step x st)
    obtain n1 w1 where st: "st = (n1, w1)" by (cases st)
    with step restore have "engine_frame (?n, ?w) (n1, w1)" by blast
    moreover have "engine_frame (n1, w1) (n, w)" using step(2) st by (simp add: execute_frame)
    ultimately show ?thesis by (rule engine_frame_trans)
  qed
  obtain mc_sc where mc_sc: "shardchain_with_params mce mc_shard global_id mc_storage provider = Some (Inr mc_sc)"
      "mc_shardchain mc = mc_sc" using mc by (rule masterchain_new)
  obtain mc_k where mk: "mc_storage = Inr mc_k" "sc_accounts_provider mc_sc = provider"
      "(\<forall>data. ss_get (env_kv (ce_node mce)) BLOCKS_FINALITY_INFO_KEY mc_k \<noteq> Inr data) \<Longrightarrow>
         \<not> sc_finality_was_loaded mc_sc"
    using mc_sc(1) by (rule shardchain_new) blast
  obtain wc_k where wk: "wc_storage = Inr wc_k" "sc_accounts_provider sc = provider"
      "(\<forall>data. ss_get (env_kv (ce_node wce)) BLOCKS_FINALITY_INFO_KEY wc_k \<noteq> Inr data) \<Longrightarrow>
         \<not> sc_finality_was_loaded sc"
    using sc by (rule shardchain_new) blast
  show thesis
    by (rule that [of mc_k d1 wc_k d2])
      (use o1 o2 mk wk frame mc_sc(2) in \<open>simp_all add: engine_frame_def same_setup_def time_mode_def
        time_delta_def block_time_new_def mq_new_def\<close>)
qed

section \<open>The disk\<close>

text \<open>Opening and clearing storages never adds a file.\<close>

interpretation fewer: step_relation "\<lambda>d d'. \<forall>p. fs_files d p = None \<longrightarrow> fs_files d' p = None"
  by unfold_locales auto

lemma fewer_ensure_dir: "fewer.keeps (ensure_dir p)"
  by (auto simp: fewer.keeps_def ensure_dir_def fs_create_dir_all_def)

lemma fewer_remove: "fewer.keeps (fskv_remove root key)"
  by (auto simp: fewer.keeps_def fskv_remove_def Let_def fs_remove_file_def)

lemma fewer_storage_new: "fewer.keeps (fs_storage_new p)"
  by (auto simp: fewer.keeps_def fs_storage_new_def Let_def fs_create_dir_all_def split: sum.split)

lemma fewer_shard_storage: "fewer.keeps (fs_shard_storage sl p shard)"
  unfolding fs_shard_storage_def fskv_with_path_def Let_def
  by (intro fewer.keeps_intros fewer_ensure_dir)

lemma fewer_clear_db: "fewer.keeps (fs_clear_db sl p shard)"
  unfolding fs_clear_db_def
  by (intro fewer.keeps_intros fewer_shard_storage) (simp_all add: fewer_remove)

abbreviation index_path where
  "index_path sl shard \<equiv> path_join (shard_root sl shard workchains_path) BLOCKS_FINALITY_INFO_KEY"

lemma fskv_remove_gone:
  "fskv_remove root key d = (Inr u, d') \<Longrightarrow> fs_files d' (path_join root key) = None"
  by (auto simp: fskv_remove_def Let_def fs_remove_file_def fs_exists_def split: if_splits)

lemma shard_storage_root:
  "fs_shard_storage sl p shard d = (Inr root, d') \<Longrightarrow> root = shard_root sl shard p"
  by (auto simp: fs_shard_storage_def fskv_with_path_def Let_def bindS_eq_Inr)

lemma fs_clear_db_gone:
  assumes "fs_clear_db sl p shard d = (Inr u, d')"
  shows "fs_files d' (path_join (shard_root sl shard p) BLOCKS_FINALITY_INFO_KEY) = None"
proof -
  obtain root d1 d2 u1 u2 d3 u3 where steps: "fs_shard_storage sl p shard d = (Inr root, d1)"
      "fskv_remove root BLOCKS_FINALITY_INFO_KEY d1 = (Inr u1, d2)"
      "fskv_remove root SHARD_INFO_KEY d2 = (Inr u2, d3)"
      "fskv_remove root SHARD_STATE_BLOCK_KEY d3 = (Inr u3, d')"
    using assms unfolding fs_clear_db_def bindS_eq_Inr by auto
  from fskv_remove_gone [OF steps(2)] fewer.keepsD [OF fewer_remove steps(3)]
    fewer.keepsD [OF fewer_remove steps(4)] shard_storage_root [OF steps(1)]
  show ?thesis by simp
qed

lemma no_file_no_data: "fs_files d (path_join root k) = None \<Longrightarrow> ss_get (fs_kv root) k d \<noteq> Inr data"
  by (auto simp: ss_get_def fskv_get_def fs_read_def Let_def)

section \<open>Reset, fork and unfork\<close>

text \<open>The three operations differ in whether they clear the database and in the configuration
  of the new engine.\<close>

datatype manager_call = CallReset | CallFork string "string option" bool | CallUnfork bool

fun run_call where
  "run_call me CallReset = manager_reset me"
| "run_call me (CallFork endpoint auth reset) = manager_fork me endpoint auth reset"
| "run_call me (CallUnfork reset) = manager_unfork me reset"

fun call_clears :: "manager_call \<Rightarrow> bool" where
  "call_clears CallReset = True"
| "call_clears (CallFork _ _ reset) = reset"
| "call_clears (CallUnfork reset) = reset"

fun call_config :: "manager_call \<Rightarrow> ('j, 'g) service_config \<Rightarrow> ('j, 'g) service_config" where
  "call_config (CallFork endpoint auth _) original =
     original\<lparr>sv_node := (sv_node original)\<lparr>nc_fork := Some \<lparr>fc_endpoint = endpoint, fc_auth = auth\<rparr>\<rparr>\<rparr>"
| "call_config _ original = original"

lemma run_call_eq:
  "run_call me c (mg, h) =
     bindO (manager_stop me) (\<lambda>_.
     bindO (returns (if call_clears c then on_host (manager_clear_db me (mg_original_config mg)) else retS ())) (\<lambda>_.
     bindO (replace_engine me (call_config c (mg_original_config mg))) (\<lambda>_.
     returns started))) (mg, h)"
  by (cases c) (simp_all add: manager_reset_def manager_fork_def manager_unfork_def Let_def)

lemmas run_stopped_induct = run_stopped.raw_induct [rotated, consumes 1, case_names loop]

lemma run_stopped_queue:
  assumes "run_stopped mce wce st = Some st'"
  shows "mq_stopped (nw_queue (snd st')) = mq_stopped (nw_queue (snd st))"
  using assms
proof (induction mce wce st st' rule: run_stopped_induct)
  case (loop rs mce wce st st')
  obtain r st1 where e: "execute_queued_messages mce wce st = Some (r, st1)"
      "(if calm_res r \<and> \<not> message_queues_are_empty mce wce st1 then rs mce wce st1 else Some st1) = Some st'"
    using loop(2) by (auto simp: bind_eq_Some_conv)
  obtain n w n1 w1 where st: "st = (n, w)" "st1 = (n1, w1)" by (metis prod.exhaust)
  have "mq_stopped (nw_queue (snd st1)) = mq_stopped (nw_queue (snd st))"
    using execute_frame [of mce wce n w r st1] e(1) st by (simp add: engine_frame_def)
  with e(2) loop(1) [of mce wce st1 st'] show ?case
    by (cases "calm_res r \<and> \<not> message_queues_are_empty mce wce st1") simp_all
qed

lemma manager_stop_cases:
  assumes "manager_stop me (mg, h) = Some (r, (mg1, h1))"
  obtains st where "r = Inr ()" "mg1 = mg\<lparr>mg_engine := (mg_engine mg)\<lparr>le_state := st\<rparr>, mg_thread := None\<rparr>"
    "mq_stopped (nw_queue (snd st))"
proof -
  obtain n w where le: "le_state (mg_engine mg) = (n, w)" by (metis prod.exhaust)
  let ?st = "(n, w\<lparr>nw_queue := mq_stop (nw_queue w)\<rparr>)"
  show thesis
  proof (cases "mg_thread mg")
    case None
    then have "mg\<lparr>mg_engine := (mg_engine mg)\<lparr>le_state := ?st\<rparr>\<rparr> =
        mg\<lparr>mg_engine := (mg_engine mg)\<lparr>le_state := ?st\<rparr>, mg_thread := None\<rparr>" by simp
    with None assms le show thesis
      by (intro that [of ?st]) (auto simp: manager_stop_def Let_def mq_stop_def)
  next
    case (Some phase)
    obtain st where st: "(if phase = Running then run_stopped (engine_mce me (mg_engine mg))
          (engine_wce me (mg_engine mg)) ?st else Some ?st) = Some st"
        "r = Inr ()" "mg1 = mg\<lparr>mg_engine := (mg_engine mg)\<lparr>le_state := st\<rparr>, mg_thread := None\<rparr>"
      using assms le Some by (auto simp: manager_stop_def Let_def intro: that cong: if_cong)
    then have "mq_stopped (nw_queue (snd st))"
      by (cases "phase = Running") (auto simp: mq_stop_def dest: run_stopped_queue)
    with st(2,3) show thesis by (rule that)
  qed
qed

text \<open>The outcomes of an operation: the database could not be cleared, or no engine could be
  made, or the node was restarted.\<close>

lemma run_call_cases:
  assumes "run_call me c (mg, h) = Some (r, (mg', h'))"
  obtains (not_cleared) e mg1 h1 where "manager_stop me (mg, h) = Some (Inr (), (mg1, h1))" "call_clears c"
      "manager_clear_db me (mg_original_config mg) h1 = (Inl e, h')" "r = Inl e" "mg' = mg1"
  | (not_made) e mg1 h1 h2 where "manager_stop me (mg, h) = Some (Inr (), (mg1, h1))"
      "if call_clears c then manager_clear_db me (mg_original_config mg) h1 = (Inr (), h2) else h2 = h1"
      "create_engine me (call_config c (mg_original_config mg)) h2 = Some (Inl e, h')"
      "r = Inl e" "mg' = mg1"
  | (restarted) mg1 h1 h2 engine h3 where "manager_stop me (mg, h) = Some (Inr (), (mg1, h1))"
      "if call_clears c then manager_clear_db me (mg_original_config mg) h1 = (Inr (), h2) else h2 = h1"
      "create_engine me (call_config c (mg_original_config mg)) h2 = Some (Inr engine, h3)"
      "r = Inr ()" "mg' = mg1\<lparr>mg_engine := engine, mg_thread := Some Running\<rparr>"
      "h' = keep_helper (nw_docs (snd (le_state (mg_engine mg1)))) h3"
proof -
  let ?rest = "\<lambda>_ :: unit. bindO (returns (if call_clears c
      then on_host (manager_clear_db me (mg_original_config mg)) else retS ())) (\<lambda>_.
      bindO (replace_engine me (call_config c (mg_original_config mg))) (\<lambda>_. returns started))"
  from assms have "bindO (manager_stop me) ?rest (mg, h) = Some (r, (mg', h'))"
    by (simp only: run_call_eq)
  then obtain mg1 h1 where stop: "manager_stop me (mg, h) = Some (Inr (), (mg1, h1))"
      and rest: "?rest () (mg1, h1) = Some (r, (mg', h'))"
  proof (cases rule: bindO_cases)
    case (fail e)
    then show thesis by (blast elim: manager_stop_cases)
  next
    case (step x t)
    obtain mg1 h1 where t: "t = (mg1, h1)" by (cases t)
    have "manager_stop me (mg, h) = Some (Inr (), (mg1, h1))" using step(1) t by simp
    moreover have "?rest () (mg1, h1) = Some (r, (mg', h'))" using step(2) t by simp
    ultimately show thesis by (rule that)
  qed
  obtain r2 h2 where cleared: "(if call_clears c then on_host (manager_clear_db me (mg_original_config mg))
      else retS ()) (mg1, h1) = (r2, (mg1, h2))"
      "if call_clears c then manager_clear_db me (mg_original_config mg) h1 = (r2, h2) else r2 = Inr () \<and> h2 = h1"
    by (cases "call_clears c"; cases "manager_clear_db me (mg_original_config mg) h1")
      (auto simp: on_host_def retS_def)
  show thesis
  proof (cases r2)
    case (Inl e)
    with rest cleared have "r = Inl e" "(mg', h') = (mg1, h2)" by (simp_all add: bindO_def returns_def)
    with stop cleared Inl show thesis by (intro not_cleared) (auto split: if_splits)
  next
    case (Inr u)
    have two: "if call_clears c then manager_clear_db me (mg_original_config mg) h1 = (Inr (), h2) else h2 = h1"
      using cleared(2) Inr by (auto split: if_splits)
    from rest cleared Inr have made: "bindO (replace_engine me (call_config c (mg_original_config mg)))
        (\<lambda>_. returns started) (mg1, h2) = Some (r, (mg', h'))" by (simp add: bindO_def returns_def)
    obtain r3 h3 where create: "create_engine me (call_config c (mg_original_config mg)) h2 = Some (r3, h3)"
      using made by (auto simp: bindO_def replace_engine_def split: option.splits)
    show thesis
    proof (cases r3)
      case (Inl e)
      with made create have "r = Inl e" "mg' = mg1" "h' = h3" by (simp_all add: bindO_def replace_engine_def)
      with stop two create Inl show thesis by (intro not_made) simp_all
    next
      case (Inr engine)
      with made create have "r = Inr ()" "mg' = mg1\<lparr>mg_engine := engine, mg_thread := Some Running\<rparr>"
          "h' = keep_helper (nw_docs (snd (le_state (mg_engine mg1)))) h3"
        by (simp_all add: bindO_def replace_engine_def returns_def started_def manager_start_def)
      with stop two create Inr show thesis by (intro restarted) simp_all
    qed
  qed
qed

section \<open>The outcomes\<close>

lemma storage_new_root: "fs_storage_new [] d = (Inr root, d') \<Longrightarrow> root = workchains_path"
  by (auto simp: fs_storage_new_def Let_def workchains_path_def split: if_splits sum.splits prod.splits)

lemma create_engine_made:
  assumes "create_engine me config h = Some (Inr engine, h')"
  obtains d0 blockchain global_id provider shard helper n w d where
    "fs_storage_new [] (ho_disk h) = (Inr workchains_path, d0)"
    "chain_source me config = Inr (blockchain, global_id, provider)"
    "config_shard_ident (me_with_prefix_len me) (nc_shard_id (sv_node config)) = Inr shard"
    "engine_with_params (chain_at me blockchain (sl_masterchain (me_shards me))) (chain_at me blockchain shard)
       (sl_masterchain (me_shards me)) global_id shard (open_storage (me_shards me) workchains_path)
       provider helper (ho_clock h) (ho_seeds h) d0 = Some (Inr (n, w), d)"
    "engine = \<lparr>le_blockchain = blockchain, le_shard = shard, le_state = (n, w)\<rparr>"
proof -
  obtain root d0 blockchain global_id provider shard helper made where
      root: "fs_storage_new [] (ho_disk h) = (Inr root, d0)"
    and steps: "chain_source me config = Inr (blockchain, global_id, provider)"
      "config_shard_ident (me_with_prefix_len me) (nc_shard_id (sv_node config)) = Inr shard"
      "engine_with_params (chain_at me blockchain (sl_masterchain (me_shards me))) (chain_at me blockchain shard)
         (sl_masterchain (me_shards me)) global_id shard (open_storage (me_shards me) root)
         provider helper (ho_clock h) (ho_seeds h) d0 = Some made"
      "engine_made me blockchain shard (h\<lparr>ho_disk := d0\<rparr>) made = (Inr engine, h')"
    using assms
    by (auto simp: create_engine_def bindO_Inr_iff returns_def on_disk_def liftS_def split: prod.splits)
  obtain r d where made: "made = (r, d)" by (cases made)
  obtain n w where "r = Inr (n, w)" "engine = \<lparr>le_blockchain = blockchain, le_shard = shard, le_state = (n, w)\<rparr>"
    using steps(4) made by (auto simp: engine_made_def split: sum.splits prod.splits option.splits)
  with root steps made storage_new_root [OF root] show thesis
    by (intro that) simp_all
qed

lemma host_calls:
  "on_disk m h = (Inr x, h') \<longleftrightarrow> (\<exists>d. m (ho_disk h) = (Inr x, d) \<and> h' = h\<lparr>ho_disk := d\<rparr>)"
  "on_server m' h = (Inr x, h') \<longleftrightarrow> (\<exists>n. m' (ho_server h) = (Inr x, n) \<and> h' = h\<lparr>ho_server := n\<rparr>)"
  "liftS r h = (Inr y, h') \<longleftrightarrow> r = Inr y \<and> h' = h"
  by (auto simp: on_disk_def on_server_def split: prod.splits)

lemma manager_clear_db_gone:
  assumes "manager_clear_db me config h = (Inr u, h')"
  obtains shard where "config_shard_ident (me_with_prefix_len me) (nc_shard_id (sv_node config)) = Inr shard"
    "fs_files (ho_disk h') (index_path (me_shards me) shard) = None"
    "fs_files (ho_disk h') (index_path (me_shards me) (sl_masterchain (me_shards me))) = None"
proof -
  obtain root d0 d1 d2 shard u1 u2 d where steps: "fs_storage_new [] d = (Inr root, d0)"
      "config_shard_ident (me_with_prefix_len me) (nc_shard_id (sv_node config)) = Inr shard"
      "fs_clear_db (me_shards me) root shard d0 = (Inr u1, d1)"
      "fs_clear_db (me_shards me) root (sl_masterchain (me_shards me)) d1 = (Inr u2, d2)" "ho_disk h' = d2"
    using assms
    by (auto simp: manager_clear_db_def bindS_eq_Inr host_calls simp del: bindS_liftS liftS_eq)
  note storage_new_root [OF steps(1)]
  with steps fs_clear_db_gone [OF steps(3)] fs_clear_db_gone [OF steps(4)]
    fewer.keepsD [OF fewer_clear_db steps(4)]
  show thesis by (intro that [of shard]) auto
qed

lemma chain_at_kv [simp]:
  "env_kv (ce_node (chain_at me blockchain shard)) = fs_kv (shard_root (me_shards me) shard workchains_path)"
  by (simp add: chain_at_def Let_def)

lemma open_storage_fewer:
  "open_storage sl p shard d = (r, d') \<Longrightarrow> fs_files d q = None \<Longrightarrow>
   fs_files d' q = None \<and> (\<forall>k. r = Inr k \<longrightarrow> fs_files k q = None)"
  using fewer.keepsD [OF fewer_shard_storage, of sl p shard d]
  by (auto simp: open_storage_def map_sum_def split: prod.splits sum.splits)

text \<open>\<^bold>\<open>C28\<close>. A reset, and a fork or an unfork that clears the data, forgets the chain: when
  it succeeds the node runs again and takes messages, and the clock has lost its mode and its
  shift. Its engine is what the first call of \<open>execute_queued_messages\<close>, on an empty queue, made
  of two chains at the zero state (the one of the file \<^verbatim>\<open>zerostate\<close> with the network's id, or the
  default one): no block was loaded and the masterchain knew no shard.\<close>

theorem cleared_restart_forgets_the_chain:
  assumes "run_call me c (mg, h) = Some (Inr (), (mg', h'))" "call_clears c"
    and "le_state (mg_engine mg') = (n, w)"
  shows "\<not> sc_finality_was_loaded (en_workchain n) \<and>
    \<not> sc_finality_was_loaded (mc_shardchain (en_masterchain n)) \<and>
    time_mode n = System \<and> time_delta n = 0 \<and> \<not> mq_stopped (nw_queue w) \<and>
    mg_thread mg' = Some Running \<and> mg_original_config mg' = mg_original_config mg \<and>
    (\<exists>blockchain global_id provider shard mc sc w0.
       chain_source me (call_config c (mg_original_config mg)) = Inr (blockchain, global_id, provider) \<and>
       config_shard_ident (me_with_prefix_len me) (nc_shard_id (sv_node (mg_original_config mg))) = Inr shard \<and>
       starts_at_zero (chain_at me blockchain (sl_masterchain (me_shards me))) global_id
         (sl_masterchain (me_shards me)) (mc_shardchain mc) \<and> mc_shards mc = Map.empty \<and>
       starts_at_zero (chain_at me blockchain shard) global_id shard sc \<and> mq_storage (nw_queue w0) = [] \<and>
       execute_queued_messages (chain_at me blockchain (sl_masterchain (me_shards me))) (chain_at me blockchain shard)
         (\<lparr>en_time = block_time_new, en_masterchain = mc, en_workchain = sc\<rparr>, w0) = Some (Inr (), (n, w)))"
  using assms(1)
proof (cases rule: run_call_cases)
  case (restarted mg1 h1 h2 engine h3)
  let ?mc = "sl_masterchain (me_shards me)" and ?sl = "me_shards me"
  have clear: "manager_clear_db me (mg_original_config mg) h1 = (Inr (), h2)"
    using restarted(2) assms(2) by simp
  obtain shard where shard: "config_shard_ident (me_with_prefix_len me)
        (nc_shard_id (sv_node (mg_original_config mg))) = Inr shard"
      and gone: "fs_files (ho_disk h2) (index_path ?sl shard) = None"
        "fs_files (ho_disk h2) (index_path ?sl ?mc) = None"
    using clear by (rule manager_clear_db_gone)
  have same_shard: "nc_shard_id (sv_node (call_config c (mg_original_config mg))) =
      nc_shard_id (sv_node (mg_original_config mg))" by (cases c) simp_all
  obtain d0 blockchain global_id provider helper n1 w1 d where
      root: "fs_storage_new [] (ho_disk h2) = (Inr workchains_path, d0)"
    and source: "chain_source me (call_config c (mg_original_config mg)) = Inr (blockchain, global_id, provider)"
    and new: "engine_with_params (chain_at me blockchain ?mc) (chain_at me blockchain shard) ?mc global_id shard
       (open_storage ?sl workchains_path) provider helper (ho_clock h2) (ho_seeds h2) d0 = Some (Inr (n1, w1), d)"
    and engine: "le_state engine = (n1, w1)"
    using restarted(3)
    by (rule create_engine_made) (use shard same_shard in auto)
  have start: "fs_files d0 (index_path ?sl shard) = None" "fs_files d0 (index_path ?sl ?mc) = None"
    using fewer.keepsD [OF fewer_storage_new root] gone by simp_all
  obtain mc_storage d1 mc wc_storage d2 sc where opened: "open_storage ?sl workchains_path ?mc d0 = (mc_storage, d1)"
        "open_storage ?sl workchains_path shard d1 = (wc_storage, d2)"
      and mc: "masterchain_with_params (chain_at me blockchain ?mc) ?mc global_id mc_storage provider = Some (Inr mc)"
      and sc: "shardchain_with_params (chain_at me blockchain shard) shard global_id wc_storage provider = Some (Inr sc)"
      and run: "bindO (if sc_finality_was_loaded sc then on_masterchain (restore_state (chain_at me blockchain ?mc))
          else returns (retS ())) (\<lambda>_. execute_queued_messages (chain_at me blockchain ?mc) (chain_at me blockchain shard))
          (\<lparr>en_time = block_time_new, en_masterchain = mc, en_workchain = sc\<rparr>,
           \<lparr>nw_queue = mq_new 10000, nw_docs = helper, nw_clock = ho_clock h2, nw_seeds = ho_seeds h2\<rparr>) =
          Some (Inr (), (n1, w1))"
    using new by (rule engine_with_params_parts)
  let ?w0 = "\<lparr>nw_queue = mq_new 10000, nw_docs = helper, nw_clock = ho_clock h2, nw_seeds = ho_seeds h2\<rparr>"
    and ?n0 = "\<lparr>en_time = block_time_new, en_masterchain = mc, en_workchain = sc\<rparr>"
  obtain mc_sc where mc_sc: "shardchain_with_params (chain_at me blockchain ?mc) ?mc global_id mc_storage provider = Some (Inr mc_sc)"
      "mc_shardchain mc = mc_sc" "mc_shards mc = Map.empty" using mc by (rule masterchain_new)
  obtain mc_k where mc_k: "mc_storage = Inr mc_k" using mc_sc(1) by (rule shardchain_new)
  obtain wc_k where wc_k: "wc_storage = Inr wc_k" using sc by (rule shardchain_new)
  note o1 = open_storage_fewer [OF opened(1)]
  have "fs_files mc_k (index_path ?sl ?mc) = None" "fs_files wc_k (index_path ?sl shard) = None"
    using o1 [OF start(2)] open_storage_fewer [OF opened(2)] o1 [OF start(1)] mc_k wc_k by auto
  then have zero: "starts_at_zero (chain_at me blockchain ?mc) global_id ?mc (mc_shardchain mc)"
      "starts_at_zero (chain_at me blockchain shard) global_id shard sc"
    using shardchain_at_zero [OF mc_sc(1) [unfolded mc_k]] shardchain_at_zero [OF sc [unfolded wc_k]] mc_sc(2)
    by (simp_all add: no_file_no_data)
  then have unloaded: "\<not> sc_finality_was_loaded (mc_shardchain mc)" "\<not> sc_finality_was_loaded sc"
    by (simp_all add: starts_at_zero_def Let_def)
  with run have first: "execute_queued_messages (chain_at me blockchain ?mc) (chain_at me blockchain shard) (?n0, ?w0) =
      Some (Inr (), (n1, w1))" by (simp add: returns_def retS_def)
  from execute_frame [OF first] unloaded have rest: "\<not> sc_finality_was_loaded (mc_shardchain (en_masterchain n1))"
      "\<not> sc_finality_was_loaded (en_workchain n1)" "time_mode n1 = System" "time_delta n1 = 0" "\<not> mq_stopped (nw_queue w1)"
    by (simp_all add: engine_frame_def same_setup_def time_mode_def time_delta_def block_time_new_def mq_new_def)
  have same: "n = n1" "w = w1" using assms(3) restarted(5) engine by simp_all
  have original: "mg_original_config mg1 = mg_original_config mg"
    using restarted(1) by (rule manager_stop_cases) simp
  have "mq_storage (nw_queue ?w0) = []" by (simp add: mq_new_def)
  with source shard zero mc_sc(3) first same have origin: "\<exists>blockchain global_id provider shard mc sc w0.
       chain_source me (call_config c (mg_original_config mg)) = Inr (blockchain, global_id, provider) \<and>
       config_shard_ident (me_with_prefix_len me) (nc_shard_id (sv_node (mg_original_config mg))) = Inr shard \<and>
       starts_at_zero (chain_at me blockchain ?mc) global_id ?mc (mc_shardchain mc) \<and> mc_shards mc = Map.empty \<and>
       starts_at_zero (chain_at me blockchain shard) global_id shard sc \<and> mq_storage (nw_queue w0) = [] \<and>
       execute_queued_messages (chain_at me blockchain ?mc) (chain_at me blockchain shard)
         (\<lparr>en_time = block_time_new, en_masterchain = mc, en_workchain = sc\<rparr>, w0) = Some (Inr (), (n, w))"
    by blast
  with rest same original restarted(5) show ?thesis by simp
qed simp_all

text \<open>\<^bold>\<open>C29\<close>. A reset, fork or unfork that fails (the database cannot be cleared, the endpoint
  does not answer, the storage cannot be opened) leaves the node stopped: the old engine is
  still there but no thread runs it, and every message is refused until a later operation
  succeeds.\<close>

theorem failed_restart_leaves_node_stopped:
  assumes "run_call me c (mg, h) = Some (Inl e, (mg', h'))"
    and "le_state (mg_engine mg') = (n, w)" and "never_start others"
  shows "mg_thread mg' = None \<and> mq_stopped (nw_queue w) \<and>
    mg_original_config mg' = mg_original_config mg \<and>
    (\<exists>status text k. k \<le> 1 \<and> process_message_request ja ml body (nw_queue w) others =
       Some ((status, text), meddle k others (nw_queue w), sdrop k others) \<and>
       \<not> ((\<exists>rs. request_records ja body = Some rs \<and> good_messages (attempts ja ml rs) \<noteq> []) \<and>
          status \<noteq> StatusInternalServerError))"
proof -
  obtain mg1 h1 where stop: "manager_stop me (mg, h) = Some (Inr (), (mg1, h1))" and mg: "mg' = mg1"
    using assms(1) by (cases rule: run_call_cases) auto
  have facts: "mg_thread mg' = None" "mq_stopped (nw_queue w)" "mg_original_config mg' = mg_original_config mg"
    using stop mg assms(2) by (auto elim!: manager_stop_cases)
  with stopped_node_answers [OF assms(3) facts(2)] show ?thesis by simp
qed

section \<open>The documents of a forgotten chain\<close>

lemma truncate_all_takes:
  assumes "takes_in_the_end server taken patience" "truncate_all server cfg cs n = (Inr u, n')"
  shows "taken n' = taken n @ map (truncate_request cfg) cs"
  using assms(2)
proof (induction cs arbitrary: n)
  case (Cons c cs)
  obtain reply n1 where s: "server (truncate_request cfg c) n = (reply, n1)" by (metis prod.exhaust)
  then have acc: "accepted reply" using Cons.prems by (auto split: if_splits)
  then have "taken n1 = taken n @ [truncate_request cfg c]"
    using assms(1) s unfolding takes_in_the_end_def by fastforce
  with Cons acc s show ?case by simp
qed simp

definition truncations :: "arango_config \<Rightarrow> http_request list" where
  "truncations cfg =
     map (truncate_request cfg) [ac_accounts_collection cfg, ac_blocks_collection cfg,
       ac_messages_collection cfg, ac_transactions_collection cfg]"

lemma hand_back_sel [simp]:
  "ho_server (hand_back me st h) = ho_server h" "ho_helpers (hand_back me st h) = ho_helpers h"
  by (cases st; simp add: hand_back_def)+

lemma manager_stop_server:
  "manager_stop me (mg, h) = Some (r, (mg1, h1)) \<Longrightarrow> ho_server h1 = ho_server h"
  by (auto simp: manager_stop_def Let_def split: option.splits prod.splits)

lemma manager_clear_db_server:
  assumes "takes_in_the_end (me_server me) taken patience" "manager_clear_db me config h = (Inr u, h')"
  shows "\<exists>cfg. taken (ho_server h') = taken (ho_server h) @ truncations cfg"
proof -
  obtain cfg n u' where "arango_clear_db (me_server me) cfg (ho_server h) = (Inr u', n)" "ho_server h' = n"
    using assms(2)
    by (auto simp: manager_clear_db_def bindS_eq_Inr host_calls simp del: bindS_liftS liftS_eq)
  with truncate_all_takes [OF assms(1), of cfg] show ?thesis
    unfolding arango_clear_db_def truncations_def by blast
qed

lemma engine_made_server: "engine_made me b s h x = (r, h') \<Longrightarrow> ho_server h' = ho_server h"
  by (auto simp: engine_made_def keep_helper_def split: prod.splits sum.splits option.splits)

lemma create_engine_server:
  assumes "create_engine me config h = Some (r, h')"
  shows "ho_server h' = ho_server h"
  using assms
  by (auto simp: create_engine_def returns_def on_disk_def liftS_def bindO_eq_Some split: prod.splits
      dest!: engine_made_server)

text \<open>\<^bold>\<open>C30\<close>. Clearing the database does not forget the documents that are still on their
  way: the worker of the old engine's helper goes on, so that after a successful reset the
  server first truncates its collections and then takes the documents of the forgotten chain
  that were left in the channel.\<close>

theorem cleared_database_gets_old_documents:
  assumes "run_call me c (mg, h) = Some (Inr (), (mg', h'))" "call_clears c"
    and "manager_stop me (mg, h) = Some (Inr (), (mg1, h1))"
    and "takes_in_the_end (me_server me) taken patience"
  shows "\<exists>helper cfg w'. helper \<in> set (ho_helpers h') \<and>
    helper = nw_docs (snd (le_state (mg_engine mg1))) \<and>
    put_records_worker (me_json me) (me_server me) (ah_config helper) (ah_channel helper)
      \<lparr>aw_helper = helper, aw_server = ho_server h', aw_pauses = []\<rparr> = Some w' \<and>
    taken (aw_server w') = taken (ho_server h) @ truncations cfg @
      List.map_filter (record_request (me_json me) (ah_config helper)) (ah_channel helper)"
  using assms(1)
proof (cases rule: run_call_cases)
  case (restarted mg2 h2 h3 engine h4)
  let ?helper = "nw_docs (snd (le_state (mg_engine mg1)))"
  let ?w = "\<lparr>aw_helper = ?helper, aw_server = ho_server h', aw_pauses = []\<rparr>"
  have same: "mg2 = mg1" "h2 = h1" using restarted(1) assms(3) by simp_all
  have clear: "manager_clear_db me (mg_original_config mg) h1 = (Inr (), h3)"
    using restarted(2) assms(2) same by simp
  obtain cfg where "taken (ho_server h3) = taken (ho_server h1) @ truncations cfg"
    using manager_clear_db_server [OF assms(4) clear] by blast
  moreover have "ho_server h' = ho_server h3"
    using create_engine_server [OF restarted(3)] restarted(6) by (simp add: keep_helper_def)
  ultimately have server: "taken (ho_server h') = taken (ho_server h) @ truncations cfg"
    using manager_stop_server [OF assms(3)] by simp
  have kept: "?helper \<in> set (ho_helpers h')" using restarted(6) same by (simp add: keep_helper_def)
  obtain w' where "put_records_worker (me_json me) (me_server me) (ah_config ?helper) (ah_channel ?helper) ?w = Some w'"
      "taken (aw_server w') = taken (ho_server h') @
        List.map_filter (record_request (me_json me) (ah_config ?helper)) (ah_channel ?helper)"
    using worker_takes [OF assms(4), of "me_json me" "ah_config ?helper" "ah_channel ?helper" ?w] by auto
  with server kept show ?thesis by (intro exI [of _ ?helper] exI [of _ cfg] exI [of _ w']) simp
qed simp_all

section \<open>Changing the network\<close>

lemma restarted_network:
  assumes "run_call me c (mg, h) = Some (Inr (), (mg', h'))"
  shows "\<exists>global_id provider n w. chain_source me (call_config c (mg_original_config mg)) =
      Inr (le_blockchain (mg_engine mg'), global_id, provider) \<and>
    le_state (mg_engine mg') = (n, w) \<and> sc_accounts_provider (en_workchain n) = provider \<and>
    sc_accounts_provider (mc_shardchain (en_masterchain n)) = provider \<and>
    mg_original_config mg' = mg_original_config mg"
  using assms
proof (cases rule: run_call_cases)
  case (restarted mg1 h1 h2 engine h3)
  have "mg_original_config mg1 = mg_original_config mg" using restarted(1) by (rule manager_stop_cases) simp
  moreover from restarted(3) have "\<exists>global_id provider n w. chain_source me (call_config c (mg_original_config mg)) =
      Inr (le_blockchain engine, global_id, provider) \<and>
    le_state engine = (n, w) \<and> sc_accounts_provider (en_workchain n) = provider \<and>
    sc_accounts_provider (mc_shardchain (en_masterchain n)) = provider"
    by (rule create_engine_made) (auto elim!: engine_with_params_new)
  ultimately show ?thesis using restarted(5) by simp
qed simp_all

text \<open>\<^bold>\<open>C31\<close>. A fork runs the node with the configuration of the endpoint's network and with
  the endpoint's accounts on both chains; a later unfork brings back the node's own
  configuration and no accounts from outside. The configuration the node was started with is
  never changed.\<close>

theorem fork_and_unfork_switch_the_network:
  assumes "manager_fork me endpoint auth reset (mg, h) = Some (Inr (), (mg1, h1))"
    and "manager_unfork me reset' (mg1, h1') = Some (Inr (), (mg2, h2))"
    and "nc_fork (sv_node (mg_original_config mg)) = None"
  defines "fp \<equiv> \<lparr>fp_url = endpoint, fp_secret = auth\<rparr>"
  shows "\<exists>global_id. get_blockchain_config (me_fork me) fp = Inr (le_blockchain (mg_engine mg1), global_id) \<and>
    sc_accounts_provider (en_workchain (fst (le_state (mg_engine mg1)))) = Some (get_account (me_fork me) fp) \<and>
    sc_accounts_provider (mc_shardchain (en_masterchain (fst (le_state (mg_engine mg1))))) =
      Some (get_account (me_fork me) fp) \<and>
    le_blockchain (mg_engine mg2) = sv_blockchain (mg_original_config mg) \<and>
    sc_accounts_provider (en_workchain (fst (le_state (mg_engine mg2)))) = None \<and>
    mg_original_config mg2 = mg_original_config mg"
proof -
  from restarted_network [of me "CallFork endpoint auth reset" mg h mg1 h1] assms(1)
  obtain gid n w where fork: "get_blockchain_config (me_fork me) fp = Inr (le_blockchain (mg_engine mg1), gid)"
      "le_state (mg_engine mg1) = (n, w)"
      "sc_accounts_provider (en_workchain n) = Some (get_account (me_fork me) fp)"
      "sc_accounts_provider (mc_shardchain (en_masterchain n)) = Some (get_account (me_fork me) fp)"
      "mg_original_config mg1 = mg_original_config mg"
    by (auto simp: chain_source_def Let_def fork_provider_new_def bindR_eq_Inr fp_def)
  from restarted_network [of me "CallUnfork reset'" mg1 h1' mg2 h2] assms(2,3) fork(5)
  obtain n2 w2 where "le_blockchain (mg_engine mg2) = sv_blockchain (mg_original_config mg)"
      "le_state (mg_engine mg2) = (n2, w2)" "sc_accounts_provider (en_workchain n2) = None"
      "mg_original_config mg2 = mg_original_config mg"
    by (auto simp: chain_source_def)
  with fork show ?thesis by simp
qed

end
