(* ===== verification/Decimal.thy ===== *)
theory Decimal
  imports Byte_Codec
begin

text \<open>
  \<^verbatim>\<open>from_str\<close> of the standard library for the unsigned integers: decimal digits after an optional
  plus sign, without overflow of the given number of bits. It reads back what \<^verbatim>\<open>to_string\<close> prints
  (\<open>show_nat\<close>). The control interface and the integration tests parse with it.
\<close>

definition digit_of :: "char \<Rightarrow> nat option" where
  "digit_of c = (let n = of_char c :: nat in if 48 \<le> n \<and> n < 58 then Some (n - 48) else None)"

fun digits_value :: "nat \<Rightarrow> nat \<Rightarrow> string \<Rightarrow> nat option" where
  "digits_value bits acc [] = Some acc"
| "digits_value bits acc (c # cs) =
     (case digit_of c of
        None \<Rightarrow> None
      | Some d \<Rightarrow> if 10 * acc + d < 2 ^ bits then digits_value bits (10 * acc + d) cs else None)"

definition parse_unsigned :: "nat \<Rightarrow> string \<Rightarrow> nat option" where
  "parse_unsigned bits s =
     (let ds = (case s of c # cs \<Rightarrow> if c = CHR ''+'' then cs else s | [] \<Rightarrow> s)
      in if ds = [] then None else digits_value bits 0 ds)"

section \<open>Numbers as texts\<close>

fun all_digits :: "string \<Rightarrow> bool" where
  "all_digits [] = True"
| "all_digits (c # cs) = (digit_of c \<noteq> None \<and> all_digits cs)"

fun decimal :: "nat \<Rightarrow> string \<Rightarrow> nat" where
  "decimal acc [] = acc"
| "decimal acc (c # cs) = decimal (10 * acc + the (digit_of c)) cs"

lemma decimal_ge: "acc \<le> decimal acc ds"
proof (induction ds arbitrary: acc)
  case (Cons c cs)
  have "acc \<le> 10 * acc + the (digit_of c)" by simp
  also have "\<dots> \<le> decimal (10 * acc + the (digit_of c)) cs" by (rule Cons.IH)
  finally show ?case by simp
qed simp

lemma digits_value_decimal:
  "acc < 2 ^ bits \<Longrightarrow>
   digits_value bits acc ds = Some v \<longleftrightarrow> all_digits ds \<and> decimal acc ds = v \<and> v < 2 ^ bits"
proof (induction ds arbitrary: acc)
  case (Cons c cs)
  show ?case
  proof (cases "digit_of c")
    case (Some d)
    have "\<not> decimal (10 * acc + d) cs < 2 ^ bits" if "\<not> 10 * acc + d < 2 ^ bits"
      using that decimal_ge [of "10 * acc + d" cs] by linarith
    with Some Cons.IH [of "10 * acc + d"] show ?thesis by auto
  qed simp
qed auto

lemma digit_of_char: "d < 10 \<Longrightarrow> digit_of (char_of (48 + d)) = Some d"
  by (simp add: digit_of_def)

lemma all_digits_append [simp]: "all_digits (xs @ ys) \<longleftrightarrow> all_digits xs \<and> all_digits ys"
  by (induction xs) auto

lemma decimal_append [simp]: "decimal acc (xs @ ys) = decimal (decimal acc xs) ys"
  by (induction xs arbitrary: acc) auto

lemma decimal_show_nat: "all_digits (show_nat n) \<and> decimal 0 (show_nat n) = n"
proof (induction n rule: show_nat.induct)
  case (1 n)
  show ?case
  proof (cases "n < 10")
    case True
    then show ?thesis by (simp add: show_nat.simps [of n] digit_of_char)
  next
    case False
    with 1 show ?thesis by (simp add: show_nat.simps [of n] digit_of_char)
  qed
qed

lemma plus_no_digit: "digit_of CHR ''+'' = None"
  by (simp add: digit_of_def)

lemma parse_unsigned_iff:
  "parse_unsigned bits s = Some n \<longleftrightarrow>
     (\<exists>ds. (s = ds \<or> s = CHR ''+'' # ds) \<and> ds \<noteq> [] \<and> all_digits ds \<and> decimal 0 ds = n \<and> n < 2 ^ bits)"
proof (cases "\<exists>cs. s = CHR ''+'' # cs")
  case True
  then show ?thesis by (auto simp: parse_unsigned_def digits_value_decimal plus_no_digit split: if_splits)
next
  case False
  then have "parse_unsigned bits s = (if s = [] then None else digits_value bits 0 s)"
    by (auto simp: parse_unsigned_def split: list.split)
  with False show ?thesis by (auto simp: digits_value_decimal)
qed

lemma parse_unsigned_show: "n < 2 ^ bits \<Longrightarrow> parse_unsigned bits (show_nat n) = Some n"
  using decimal_show_nat [of n] show_nat_not_Nil [of n] by (auto simp: parse_unsigned_iff)

end
