(* ===== verification/Control_Api.thy ===== *)
theory Control_Api
  imports Manager_Props Decimal
begin

text \<open>
  The live control interface (\<^verbatim>\<open>node/src/service/control_api.rs\<close>): the command of a request
  and its parameters are parsed, then the command is run on the manager and its engine. A
  request is seen as the router and the \<^verbatim>\<open>url\<close> library hand it over: the command, if the
  route has one, and the decoded pairs of the query. Texts are ASCII; the texts that library
  errors print as are a parameter.
\<close>

section \<open>The texts of errors\<close>

record library_texts =
  lt_io :: "io_error \<Rightarrow> string"
  lt_any :: "any_error \<Rightarrow> string"

text \<open>\<^verbatim>\<open>Display\<close> of \<^verbatim>\<open>NodeError\<close> in \<^verbatim>\<open>node/src/error.rs\<close>.\<close>

fun error_text :: "library_texts \<Rightarrow> node_error \<Rightarrow> string" where
  "error_text lt (Io e) = ''Io error: '' @ lt_io lt e"
| "error_text lt (FailureError e) = ''Failure error: '' @ lt_any lt e"
| "error_text lt (BlockError e) = ''Block error: '' @ e"
| "error_text lt NotFound = ''Requested item not found''"
| "error_text lt (PathError _) = ''Database problem''"
| "error_text lt DataBaseProblem = ''Path problem''"
| "error_text lt InvalidExtMessage = ''Invalid external message''"
| "error_text lt InvalidMerkleUpdate = ''Invalid Merkle update''"
| "error_text lt InvalidOperation = ''Invalid operation''"
| "error_text lt LoadFinalityError = ''Load finality error''"
| "error_text lt FinalityError = ''Finality error. Block not found into cache''"
| "error_text lt RoolbackBlockError = ''Rollback block error. Block not found into cache''"
| "error_text lt TlSerializeError = ''TL data serialize error''"
| "error_text lt TlDeserializeError = ''TL data deserialize error''"
| "error_text lt TlIncompatiblePacketType = ''TL packet has unknown type''"
| "error_text lt InvalidShardState = ''ShardState is invalid''"
| "error_text lt QueueFull = ''Internal message queue is full''"
| "error_text lt (TrExecutorError e) =
     ''Transaction executor internal error: '' @ [CHR 0x27] @ e @ [CHR 0x27]"
| "error_text lt (InvalidData e) = ''Invalid data: '' @ e"
| "error_text lt (DocumentDbError e) = ''Document DB error: '' @ e"
| "error_text lt (ConfigError e) = ''Config read error: '' @ e"
| "error_text lt (ApiError e) = ''SE API failed: '' @ e"
| "error_text lt (ForkEndpointFetchError e) = ''Fetch from forked network failed: '' @ e"

record control_request =
  cr_command :: "string option"
  cr_query :: "(string \<times> string) list"

section \<open>Parsing numbers and flags\<close>

definition parse_u32 :: "string \<Rightarrow> u32 option" where
  "parse_u32 s = map_option of_nat (parse_unsigned 32 s)"

definition parse_bool :: "string \<Rightarrow> bool option" where
  "parse_bool s = (if s = ''true'' then Some True else if s = ''false'' then Some False else None)"

definition lower_char :: "char \<Rightarrow> char" where
  "lower_char c = (let n = of_char c :: nat in if 65 \<le> n \<and> n < 91 then char_of (n + 32) else c)"

definition to_lowercase :: "string \<Rightarrow> string" where
  "to_lowercase s = map lower_char s"

section \<open>Commands\<close>

definition bad_request :: "string \<Rightarrow> response + 'a" where
  "bad_request msg = Inl (StatusBadRequest, Some msg)"

definition find_parameter :: "string \<Rightarrow> control_request \<Rightarrow> string option" where
  "find_parameter name req = map_option snd (find (\<lambda>p. fst p = name) (cr_query req))"

definition optional_parameter ::
  "(string \<Rightarrow> 'a option) \<Rightarrow> string \<Rightarrow> control_request \<Rightarrow> response + 'a option" where
  "optional_parameter parse name req =
     (case find_parameter name req of
        None \<Rightarrow> Inr None
      | Some value \<Rightarrow>
          (case parse value of
             Some x \<Rightarrow> Inr (Some x)
           | None \<Rightarrow> bad_request (''Invalid '' @ name @ '' value '' @ value)))"

definition required_parameter ::
  "(string \<Rightarrow> 'a option) \<Rightarrow> string \<Rightarrow> control_request \<Rightarrow> response + 'a" where
  "required_parameter parse name req =
     bindR (optional_parameter parse name req) (\<lambda>x.
     case x of Some y \<Rightarrow> Inr y | None \<Rightarrow> bad_request (''Missing required parameter '' @ name))"

definition required_time_mode :: "control_request \<Rightarrow> response + block_time_mode" where
  "required_time_mode req =
     bindR (required_parameter parse_u32 ''mode'' req) (\<lambda>mode.
     if mode = 0 then Inr System
     else if mode = 1 then Inr Seq
     else bad_request (''Invalid time mode: '' @ show_nat (unat mode) @ ''. Expected 0 (System), 1 (Seq)''))"

datatype control_command =
    IncreaseTime u32
  | ResetTime
  | TimeDelta
  | TimeMode
  | SetTimeMode block_time_mode
  | Time
  | Reset
  | Fork string "string option" bool
  | Unfork bool

definition reset_data :: "control_request \<Rightarrow> response + bool" where
  "reset_data req =
     bindR (optional_parameter parse_bool ''resetData'' req) (\<lambda>x. Inr (case x of Some b \<Rightarrow> b | None \<Rightarrow> False))"

definition from_req :: "control_request \<Rightarrow> response + control_command" where
  "from_req req =
     (case cr_command req of
        None \<Rightarrow> bad_request ''Missing live control command''
      | Some cmd \<Rightarrow>
          (let c = to_lowercase cmd in
           if c = ''increase-time'' then
             bindR (required_parameter parse_u32 ''delta'' req) (\<lambda>delta. Inr (IncreaseTime delta))
           else if c = ''reset-time'' then Inr ResetTime
           else if c = ''time-delta'' then Inr TimeDelta
           else if c = ''time-mode'' then Inr TimeMode
           else if c = ''set-time-mode'' then
             bindR (required_time_mode req) (\<lambda>mode. Inr (SetTimeMode mode))
           else if c = ''time'' then Inr Time
           else if c = ''reset'' then Inr Reset
           else if c = ''fork'' then
             bindR (required_parameter Some ''endpoint'' req) (\<lambda>endpoint.
             bindR (optional_parameter Some ''auth'' req) (\<lambda>auth.
             bindR (reset_data req) (\<lambda>reset.
             Inr (Fork endpoint auth reset))))
           else if c = ''unfork'' then bindR (reset_data req) (\<lambda>reset. Inr (Unfork reset))
           else bad_request (''Unknown live control command \"'' @ cmd @ ''\".'')))"

section \<open>Handling a request\<close>

text \<open>An error of the manager is a server error; a panic leaves the request without an answer.\<close>

definition server_answer :: "library_texts \<Rightarrow> unit res \<Rightarrow> response option" where
  "server_answer lt r =
     (case r of
        Inr _ \<Rightarrow> Some (StatusOk, None)
      | Inl (Err e) \<Rightarrow> Some (StatusInternalServerError, Some (error_text lt e))
      | Inl (Panic _) \<Rightarrow> None)"

text \<open>A call on the engine that the manager holds.\<close>

definition on_engine where
  "on_engine f = (\<lambda>(mg, h).
     (case le_state (mg_engine mg) of
        (n, w) \<Rightarrow> (mg\<lparr>mg_engine := (mg_engine mg)\<lparr>le_state := f (n, w)\<rparr>\<rparr>, h)))"

definition engine_of where
  "engine_of st = fst (le_state (mg_engine (fst st)))"

fun control_run where
  "control_run me lt (IncreaseTime delta) st =
     Some (Some (StatusOk, None), on_engine (\<lambda>(n, w). (increase_time_delta delta n, w)) st)"
| "control_run me lt ResetTime st =
     Some (Some (StatusOk, None), on_engine (\<lambda>(n, w). (reset_time_delta n, w)) st)"
| "control_run me lt TimeDelta st =
     Some (Some (StatusOk, Some (show_nat (unat (time_delta (engine_of st))))), st)"
| "control_run me lt TimeMode st =
     Some (Some (StatusOk, Some (show_nat (unat (time_mode_code (time_mode (engine_of st)))))), st)"
| "control_run me lt (SetTimeMode mode) st =
     Some (Some (StatusOk, None), on_engine (\<lambda>(n, w). (set_time_mode mode n, w)) st)"
| "control_run me lt Time st =
     (case le_state (mg_engine (fst st)) of
        (n, w) \<Rightarrow>
          Some (Some (StatusOk, Some (show_nat (unat (fst (get_next_time n w))))),
            on_engine (\<lambda>(n, w). (n, snd (get_next_time n w))) st))"
| "control_run me lt Reset st =
     map_option (\<lambda>(r, st). (server_answer lt r, st)) (manager_reset me st)"
| "control_run me lt (Fork endpoint auth reset) st =
     map_option (\<lambda>(r, st). (server_answer lt r, st)) (manager_fork me endpoint auth reset st)"
| "control_run me lt (Unfork reset) st =
     map_option (\<lambda>(r, st). (server_answer lt r, st)) (manager_unfork me reset st)"

definition process_control_request where
  "process_control_request me lt req st =
     (case from_req req of
        Inl answer \<Rightarrow> Some (Some answer, st)
      | Inr command \<Rightarrow> control_run me lt command st)"

section \<open>Numbers\<close>

lemma parse_u32_iff:
  "parse_u32 s = Some w \<longleftrightarrow>
     (\<exists>ds. (s = ds \<or> s = CHR ''+'' # ds) \<and> ds \<noteq> [] \<and> all_digits ds \<and> decimal 0 ds = unat w)"
proof -
  have "(unat w :: nat) < 2 ^ LENGTH(32)" by (rule unsigned_less)
  then have less: "unat w < 2 ^ 32" by simp
  have "parse_u32 s = Some w \<longleftrightarrow> parse_unsigned 32 s = Some (unat w)"
  proof
    assume "parse_u32 s = Some w"
    then obtain n where n: "parse_unsigned 32 s = Some n" "w = of_nat n" by (auto simp: parse_u32_def)
    then have "n < 2 ^ 32" unfolding parse_unsigned_iff by blast
    with n show "parse_unsigned 32 s = Some (unat w)" by (simp add: unat_of_nat take_bit_nat_eq_self)
  qed (simp add: parse_u32_def)
  with less show ?thesis by (auto simp: parse_unsigned_iff)
qed

lemma parse_u32_show: "parse_u32 (show_nat (unat w)) = Some w"
  using decimal_show_nat [of "unat w"] show_nat_not_Nil [of "unat w"] by (auto simp: parse_u32_iff)

section \<open>The clock commands\<close>

text \<open>A request for a command, with its spelling, and the parameters before the ones that matter.\<close>

lemma find_parameter_hit:
  "find_parameter name \<lparr>cr_command = c, cr_query = (name, v) # rest\<rparr> = Some v"
  by (simp add: find_parameter_def)

lemma control_time_parse:
  "to_lowercase cmd = ''increase-time'' \<Longrightarrow>
   from_req \<lparr>cr_command = Some cmd, cr_query = [(''delta'', s)]\<rparr> =
     (case parse_u32 s of
        Some d \<Rightarrow> Inr (IncreaseTime d)
      | None \<Rightarrow> bad_request (''Invalid '' @ ''delta'' @ '' value '' @ s))"
  by (simp add: from_req_def required_parameter_def optional_parameter_def find_parameter_def bad_request_def
      Let_def split: option.split)

lemma from_req_queries:
  "from_req \<lparr>cr_command = Some ''time-delta'', cr_query = q\<rparr> = Inr TimeDelta"
  "from_req \<lparr>cr_command = Some ''time-mode'', cr_query = q\<rparr> = Inr TimeMode"
proof -
  have low: "to_lowercase ''time-delta'' = ''time-delta''" "to_lowercase ''time-mode'' = ''time-mode''"
    by (simp_all add: to_lowercase_def lower_char_def)
  show "from_req \<lparr>cr_command = Some ''time-delta'', cr_query = q\<rparr> = Inr TimeDelta"
    "from_req \<lparr>cr_command = Some ''time-mode'', cr_query = q\<rparr> = Inr TimeMode"
    by (simp_all add: from_req_def low)
qed

lemma parse_mode_code: "parse_u32 (show_nat (unat (time_mode_code m))) = Some (if m = System then 0 else 1)"
  using parse_u32_show [of 0] parse_u32_show [of 1] by (cases m) simp_all

lemma control_mode_parse:
  assumes "to_lowercase cmd = ''set-time-mode''"
  shows "from_req \<lparr>cr_command = Some cmd, cr_query = [(''mode'', show_nat (unat (time_mode_code m)))]\<rparr> =
    Inr (SetTimeMode m)"
proof -
  let ?q = "\<lparr>cr_command = Some cmd, cr_query = [(''mode'', show_nat (unat (time_mode_code m)))]\<rparr>"
  have "required_parameter parse_u32 ''mode'' ?q = Inr (if m = System then 0 else 1)"
    by (simp only: required_parameter_def optional_parameter_def find_parameter_hit parse_mode_code
        option.case bindR_simps)
  then have "required_time_mode ?q = Inr m" by (cases m) (simp_all add: required_time_mode_def)
  then show ?thesis by (simp add: from_req_def assms)
qed

lemma on_engine_clock:
  "time_delta (engine_of (on_engine (\<lambda>(n, w). (increase_time_delta d n, w)) st)) =
     time_delta (engine_of st) + d"
  "time_mode (engine_of (on_engine (\<lambda>(n, w). (set_time_mode m n, w)) st)) = m"
  by (cases st; cases "le_state (mg_engine (fst st))";
      simp add: engine_of_def on_engine_def time_delta_def time_mode_def increase_time_delta_def
        increase_delta_def set_time_mode_def set_mode_def)+

text \<open>A request for a command with its query.\<close>

definition ask_control where
  "ask_control me lt cmd q =
     process_control_request me lt \<lparr>cr_command = Some cmd, cr_query = q\<rparr>"

text \<open>The clock can be read back through the interface: after \<open>increase-time\<close> with
  the decimal text of \<open>d\<close> the command \<open>time-delta\<close> answers the sum modulo 2 to the 32, and
  after \<open>set-time-mode\<close> with the number of a mode \<open>time-mode\<close> answers this number, however
  the letters of the two commands are capitalised; nothing but the clock of the engine
  changes.\<close>

theorem clock_commands_read_back:
  fixes me lt d m st
  assumes "to_lowercase cmd = ''increase-time''" "to_lowercase cmd' = ''set-time-mode''"
  defines "ask \<equiv> ask_control me lt"
    and "added \<equiv> on_engine (\<lambda>(n, w). (increase_time_delta d n, w)) st"
    and "switched \<equiv> on_engine (\<lambda>(n, w). (set_time_mode m n, w)) st"
  shows "ask cmd [(''delta'', show_nat (unat d))] st = Some (Some (StatusOk, None), added) \<and>
    ask ''time-delta'' [] added =
      Some (Some (StatusOk, Some (show_nat ((unat (time_delta (engine_of st)) + unat d) mod 2 ^ 32))), added) \<and>
    ask cmd' [(''mode'', show_nat (unat (time_mode_code m)))] st = Some (Some (StatusOk, None), switched) \<and>
    ask ''time-mode'' [] switched =
      Some (Some (StatusOk, Some (show_nat (unat (time_mode_code m)))), switched)"
proof (intro conjI)
  show "ask cmd [(''delta'', show_nat (unat d))] st = Some (Some (StatusOk, None), added)"
    by (simp add: ask_def ask_control_def process_control_request_def control_time_parse [OF assms(1)] parse_u32_show added_def)
  have "unat (time_delta (engine_of st) + d) = (unat (time_delta (engine_of st)) + unat d) mod 2 ^ LENGTH(32)"
    by (rule unat_word_ariths)
  then show "ask ''time-delta'' [] added =
      Some (Some (StatusOk, Some (show_nat ((unat (time_delta (engine_of st)) + unat d) mod 2 ^ 32))), added)"
    by (simp add: ask_def ask_control_def process_control_request_def from_req_queries added_def on_engine_clock)
  show "ask cmd' [(''mode'', show_nat (unat (time_mode_code m)))] st = Some (Some (StatusOk, None), switched)"
    by (simp add: ask_def ask_control_def process_control_request_def control_mode_parse [OF assms(2)] switched_def)
  show "ask ''time-mode'' [] switched =
      Some (Some (StatusOk, Some (show_nat (unat (time_mode_code m)))), switched)"
    by (simp add: ask_def ask_control_def process_control_request_def from_req_queries switched_def on_engine_clock)
qed

text \<open>A delta is accepted exactly when it is a decimal number of 32 bits, with or
  without a plus sign; any other request that cannot be understood (no such delta or none at
  all, an unknown or missing command) is answered as a client error and changes nothing.\<close>

theorem delta_must_fit_the_clock:
  fixes me lt s st
  assumes "to_lowercase cmd = ''increase-time''"
  defines "answer \<equiv> ask_control me lt cmd [(''delta'', s)] st"
  shows "if \<exists>ds. (s = ds \<or> s = CHR ''+'' # ds) \<and> ds \<noteq> [] \<and> all_digits ds \<and> decimal 0 ds < 2 ^ 32
    then \<exists>d. answer = Some (Some (StatusOk, None), on_engine (\<lambda>(n, w). (increase_time_delta d n, w)) st) \<and>
      (\<exists>ds. (s = ds \<or> s = CHR ''+'' # ds) \<and> decimal 0 ds = unat d)
    else \<exists>msg. answer = Some (Some (StatusBadRequest, Some msg), st)"
proof (cases "parse_u32 s")
  case None
  have "\<not> (\<exists>ds. (s = ds \<or> s = CHR ''+'' # ds) \<and> ds \<noteq> [] \<and> all_digits ds \<and> decimal 0 ds < 2 ^ 32)"
  proof
    assume "\<exists>ds. (s = ds \<or> s = CHR ''+'' # ds) \<and> ds \<noteq> [] \<and> all_digits ds \<and> decimal 0 ds < 2 ^ 32"
    then obtain ds where ds: "s = ds \<or> s = CHR ''+'' # ds" "ds \<noteq> []" "all_digits ds" "decimal 0 ds < 2 ^ 32"
      by blast
    then have "decimal 0 ds = unat (of_nat (decimal 0 ds) :: u32)"
      by (simp add: unat_of_nat take_bit_nat_eq_self)
    with ds have "parse_u32 s = Some (of_nat (decimal 0 ds))" unfolding parse_u32_iff by blast
    with None show False by simp
  qed
  with None show ?thesis
    by (simp add: answer_def ask_control_def process_control_request_def control_time_parse [OF assms(1)] bad_request_def)
next
  case (Some d)
  then obtain ds where ds: "s = ds \<or> s = CHR ''+'' # ds" "ds \<noteq> []" "all_digits ds" "decimal 0 ds = unat d"
    unfolding parse_u32_iff by blast
  have "(unat d :: nat) < 2 ^ LENGTH(32)" by (rule unsigned_less)
  with ds have "\<exists>ds. (s = ds \<or> s = CHR ''+'' # ds) \<and> ds \<noteq> [] \<and> all_digits ds \<and> decimal 0 ds < 2 ^ 32"
    by auto
  moreover have "answer = Some (Some (StatusOk, None), on_engine (\<lambda>(n, w). (increase_time_delta d n, w)) st)"
    using Some by (simp add: answer_def ask_control_def process_control_request_def control_time_parse [OF assms(1)])
  ultimately show ?thesis using ds by auto
qed

end
