(* ===== verification/Node_Service.thy ===== *)
theory Node_Service
  imports Control_Api
begin

text \<open>
  The service (\<^verbatim>\<open>node/src/service/mod.rs\<close>) and its start (\<^verbatim>\<open>node/src/main.rs\<close>): the
  configuration files are read from the working directory, the manager makes the first
  engine, the two interfaces are routed, and the engine's thread is started. The command line,
  the logger and the HTTP server belong to libraries.
\<close>

section \<open>The routes\<close>

datatype handler = MessagesHandler | ControlHandler

definition messages_route :: "node_api_config \<Rightarrow> string \<times> handler" where
  "messages_route api = (''/'' @ nac_messages api, MessagesHandler)"

definition control_route :: "node_api_config \<Rightarrow> string \<times> handler" where
  "control_route api = (''/'' @ nac_live_control api @ ''/:command'', ControlHandler)"

record ('s, 'b, 'v, 'm, 'j, 'g) node_service =
  ns_api_config :: node_api_config
  ns_manager :: "('s, 'b, 'v, 'm, 'j, 'g) manager"

definition service_new where
  "service_new me config =
     bindO (manager_new me config) (\<lambda>mg.
     returns (retS \<lparr>ns_api_config = nc_api (sv_node config), ns_manager = mg\<rparr>))"

text \<open>What \<^verbatim>\<open>run\<close> sets up before it waits: the routes, the address of the server, and the
  manager with its thread.\<close>

definition service_run where
  "service_run s =
     ([messages_route (ns_api_config s), control_route (ns_api_config s)],
      nac_address (ns_api_config s) @ '':'' @ show_nat (unat (nac_port (ns_api_config s))),
      s\<lparr>ns_manager := manager_start (ns_manager s)\<rparr>)"

section \<open>The start\<close>

record node_args =
  na_workdir :: "string option"
  na_config :: "string option"
  na_blockchain_config :: "string option"

text \<open>\<open>ms_read\<close> reads a file below the current directory, \<open>None\<close> being the one the program
  was started in.\<close>

record ('j, 'r, 'g) main_env =
  ms_set_dir :: "string \<Rightarrow> any_error + unit"
  ms_init_log :: "string \<Rightarrow> any_error + unit"
  ms_read :: "string option \<Rightarrow> string \<Rightarrow> io_error + string"
  ms_texts :: library_texts
  ms_json :: "'j json_access"
  ms_parse_params :: "(string \<Rightarrow> 'j option) \<Rightarrow> any_error + 'r"
  ms_with_config :: "'r \<Rightarrow> any_error + 'g"

definition read_str :: "('j, 'r, 'g) main_env \<Rightarrow> string option \<Rightarrow> string \<Rightarrow> string res" where
  "read_str ms dir path =
     (case ms_read ms dir path of
        Inr s \<Rightarrow> Inr s
      | Inl err \<Rightarrow> Fail (PathError (''Failed to read '' @ path @ '': '' @ lt_io (ms_texts ms) err)))"

definition parse_config :: "('j, 'r, 'g) main_env \<Rightarrow> string \<Rightarrow> 'j node_config res" where
  "parse_config ms json =
     (case config_parse (ms_json ms) (lt_any (ms_texts ms)) json of
        Inr config \<Rightarrow> Inr config
      | Inl err \<Rightarrow> Inl (Panic (''Error parsing configuration file. '' @ err)))"

text \<open>The file must hold an object.\<close>

definition blockchain_config_from_json :: "('j, 'r, 'g) main_env \<Rightarrow> string \<Rightarrow> any_error + 'g" where
  "blockchain_config_from_json ms json =
     bindR (ja_from_str (ms_json ms) json) (\<lambda>v.
     case ja_as_object (ms_json ms) v of
       None \<Rightarrow> Inl (LibError ''invalid type: expected a map'')
     | Some m \<Rightarrow> bindR (ms_parse_params ms m) (ms_with_config ms))"

definition config_from_args :: "('j, 'r, 'g) main_env \<Rightarrow> node_args \<Rightarrow> ('j, 'g) service_config res" where
  "config_from_args ms args =
     bindR (case na_workdir args of
              Some workdir \<Rightarrow> unwrap_or_panic ''set_current_dir'' (ms_set_dir ms workdir)
            | None \<Rightarrow> Inr ()) (\<lambda>_.
     bindR (read_str ms (na_workdir args) (case na_config args of Some p \<Rightarrow> p | None \<Rightarrow> [])) (\<lambda>config_json.
     bindR (parse_config ms config_json) (\<lambda>node.
     bindR (read_str ms (na_workdir args) (case na_blockchain_config args of Some p \<Rightarrow> p | None \<Rightarrow> []))
       (\<lambda>blockchain_config_json.
     bindR (lib_try (blockchain_config_from_json ms blockchain_config_json)) (\<lambda>blockchain.
     Inr \<lparr>sv_node = node, sv_blockchain = blockchain\<rparr>)))))"

definition main_run where
  "main_run ms me args h =
     (case config_from_args ms args of
        Inl e \<Rightarrow> Some (Inl e, h)
      | Inr config \<Rightarrow>
          (case unwrap_or_panic ''Error initialize logging configuration''
                  (ms_init_log ms (nc_log_path (sv_node config))) of
             Inl e \<Rightarrow> Some (Inl e, h)
           | Inr _ \<Rightarrow>
               bindO (service_new me config) (\<lambda>service. returns (retS (service_run service))) h))"

section \<open>The command line\<close>

text \<open>The options as they are declared; each takes one value. \<^verbatim>\<open>automsg\<close> is declared and never read.\<close>

record cli_arg =
  ca_name :: string
  ca_help :: string
  ca_long :: string
  ca_required :: bool
  ca_takes_value :: bool
  ca_max_values :: nat

definition node_cli :: "cli_arg list" where
  "node_cli =
     [\<lparr>ca_name = ''workdir'', ca_help = ''Path to working directory'', ca_long = ''workdir'',
       ca_required = False, ca_takes_value = True, ca_max_values = 1\<rparr>,
      \<lparr>ca_name = ''config'', ca_help = ''configuration file name'', ca_long = ''config'',
       ca_required = True, ca_takes_value = True, ca_max_values = 1\<rparr>,
      \<lparr>ca_name = ''blockchain-config'', ca_help = ''blockchain configuration file name'',
       ca_long = ''blockchain-config'', ca_required = True, ca_takes_value = True, ca_max_values = 1\<rparr>,
      \<lparr>ca_name = ''automsg'', ca_help = ''Auto generate message timeout'', ca_long = ''automsg'',
       ca_required = False, ca_takes_value = True, ca_max_values = 1\<rparr>]"

text \<open>\<open>clap\<close> gives the values of the options by their names, or ends the process (a wrong or missing
  option, a question for help).\<close>

definition args_of_matches :: "(string \<Rightarrow> string option) \<Rightarrow> node_args" where
  "args_of_matches matches =
     \<lparr>na_workdir = matches ''workdir'', na_config = matches ''config'',
      na_blockchain_config = matches ''blockchain-config''\<rparr>"

definition program_run where
  "program_run ms me clap argv h =
     (case clap node_cli argv of
        None \<Rightarrow> Some (Inl (Panic ''exit''), h)
      | Some matches \<Rightarrow> main_run ms me (args_of_matches matches) h)"

definition node_main where
  "node_main ms me clap argv h =
     (case program_run ms me clap argv h of
        None \<Rightarrow> None
      | Some (Inl (Err _), h) \<Rightarrow> Some (Inl (Panic ''Error run node''), h)
      | Some (r, h) \<Rightarrow> Some (r, h))"

text \<open>The process that does not serve ends with a panic or an exit, and a served one read both files
  that the options require.\<close>

lemma node_main_outcome:
  assumes "node_main ms me clap argv h = Some (r, h')"
  shows "(\<exists>p. r = Inl (Panic p)) \<or>
    (\<exists>matches x. clap node_cli argv = Some matches \<and> r = Inr x \<and>
       main_run ms me (args_of_matches matches) h = Some (Inr x, h'))"
  using assms
  by (auto simp: node_main_def program_run_def split: option.splits sum.splits fault.splits)

section \<open>A started node\<close>

lemma manager_new_engine:
  assumes "manager_new me config h = Some (Inr mg, h')"
  shows "create_engine me config h = Some (Inr (mg_engine mg), h') \<and> mg_original_config mg = config"
  using assms by (auto simp: manager_new_def bindO_Inr_iff returns_def retS_def)

text \<open>\<^bold>\<open>C39\<close>. When the program starts, its two files could be read and parsed, messages are
  routed to the path of the configuration and commands below the other one, the engine runs
  in its thread on the configured shard and takes messages, its clock is the system's without
  a shift, and the blockchain configuration is that of the file or, of a forked node, that
  of the endpoint.\<close>

theorem started_node_runs_its_configuration:
  assumes "main_run ms me args h = Some (Inr (routes, address, s), h')"
  shows "\<exists>config n w. config_from_args ms args = Inr config \<and>
    routes = [(''/'' @ nac_messages (nc_api (sv_node config)), MessagesHandler),
      (''/'' @ nac_live_control (nc_api (sv_node config)) @ ''/:command'', ControlHandler)] \<and>
    mg_original_config (ns_manager s) = config \<and> mg_thread (ns_manager s) = Some Running \<and>
    config_shard_ident (me_with_prefix_len me) (nc_shard_id (sv_node config)) =
      Inr (le_shard (mg_engine (ns_manager s))) \<and>
    le_state (mg_engine (ns_manager s)) = (n, w) \<and> time_mode n = System \<and> time_delta n = 0 \<and>
    \<not> mq_stopped (nw_queue w) \<and> mq_capacity (nw_queue w) = 10000 \<and>
    (case nc_fork (sv_node config) of
       None \<Rightarrow> le_blockchain (mg_engine (ns_manager s)) = sv_blockchain config
     | Some fork \<Rightarrow> \<exists>global_id. get_blockchain_config (me_fork me) (fork_provider_new fork) =
         Inr (le_blockchain (mg_engine (ns_manager s)), global_id))"
proof -
  obtain config where config: "config_from_args ms args = Inr config"
    using assms by (cases "config_from_args ms args") (auto simp: main_run_def)
  obtain mg where new: "manager_new me config h = Some (Inr mg, h')"
      and s: "s = \<lparr>ns_api_config = nc_api (sv_node config), ns_manager = manager_start mg\<rparr>"
      and routes: "routes = [messages_route (nc_api (sv_node config)), control_route (nc_api (sv_node config))]"
    using assms config
    by (auto simp: main_run_def service_new_def service_run_def bindO_Inr_iff returns_def retS_def
        split: sum.splits)
  note made = manager_new_engine [OF new]
  from conjunct1 [OF made] show ?thesis
  proof (rule create_engine_made)
    fix d0 blockchain global_id provider shard helper n w d
    assume source: "chain_source me config = Inr (blockchain, global_id, provider)"
      and shard: "config_shard_ident (me_with_prefix_len me) (nc_shard_id (sv_node config)) = Inr shard"
      and engine: "engine_with_params (chain_at me blockchain (sl_masterchain (me_shards me)))
         (chain_at me blockchain shard) (sl_masterchain (me_shards me)) global_id shard
         (open_storage (me_shards me) workchains_path) provider helper (ho_clock h) (ho_seeds h) d0 =
         Some (Inr (n, w), d)"
      and live: "mg_engine mg = \<lparr>le_blockchain = blockchain, le_shard = shard, le_state = (n, w)\<rparr>"
    have "case nc_fork (sv_node config) of
       None \<Rightarrow> blockchain = sv_blockchain config
     | Some fork \<Rightarrow> \<exists>global_id. get_blockchain_config (me_fork me) (fork_provider_new fork) =
         Inr (blockchain, global_id)"
      using source by (auto simp: chain_source_def Let_def bindR_eq_Inr split: option.splits)
    moreover have "time_mode n = System \<and> time_delta n = 0 \<and> \<not> mq_stopped (nw_queue w) \<and>
        mq_capacity (nw_queue w) = 10000"
      using engine by (rule engine_with_params_new) simp
    ultimately show ?thesis
      using config shard live s routes made
      by (intro exI [of _ config] exI [of _ n] exI [of _ w])
        (auto simp: messages_route_def control_route_def manager_start_def split: option.splits)
  qed
qed

end
