(* ===== verification/Example_Service.thy ===== *)
theory Example_Service
  imports Example_Node Node_Service
begin

text \<open>
  A concrete node service for the witnesses: the small block library of \<open>Example_Node\<close> on the
  file-system storage, a documents server that takes everything, and one endpoint to fork
  from.
\<close>

section \<open>The endpoint\<close>

text \<open>Its answer holds a key block and an account.\<close>

definition endpoint_answer :: plain_json where
  "endpoint_answer =
     PObject [''data'' \<mapsto> PObject [''blockchain'' \<mapsto> PObject
       [''key_blocks'' \<mapsto> PObject [''edges'' \<mapsto> PArray [PObject [''node'' \<mapsto> PObject [''boc'' \<mapsto> PText ''b'']]]],
        ''account'' \<mapsto> PObject [''info'' \<mapsto> PObject [''boc'' \<mapsto> PText ''a'']]]]]"

definition service_fork :: "(plain_json, block_info, nat, nat, nat, toy_v, toy_v) fork_lib" where
  "service_fork =
     \<lparr>fk_json = plain_access endpoint_answer,
      fk_send = (\<lambda>rq. if rq_url rq = ''net'' then Inr (Inr []) else Inl ''no route''),
      fk_show_error = (\<lambda>_. []), fk_block_from_base64 = (\<lambda>_. Inr toy_info),
      fk_read_mc_extra = (\<lambda>_. Inr (Some 5)), fk_config = Some, fk_with_config = Inr, fk_global_id = (\<lambda>_. 7),
      fk_address_text = (\<lambda>_. ''0:0''), fk_base64_decode = (\<lambda>_. Inr []),
      fk_read_single_root = (\<lambda>_. Inr (TvNat 3)), fk_account_with_root = (\<lambda>c _ _. c)\<rparr>"

definition net :: fork_provider where
  "net = \<lparr>fp_url = ''net'', fp_secret = None\<rparr>"

lemma fork_sel [simp]:
  "fk_json service_fork = plain_access endpoint_answer" "fk_config service_fork = Some"
  "fk_with_config service_fork = Inr" "fk_global_id service_fork b = 7"
  "fk_block_from_base64 service_fork s = Inr toy_info" "fk_read_mc_extra service_fork b = Inr (Some 5)"
  "fk_base64_decode service_fork s = Inr []" "fk_read_single_root service_fork bs = Inr (TvNat 3)"
  "fk_account_with_root service_fork = (\<lambda>c _ _. c)" "fk_show_error service_fork = (\<lambda>_. [])"
  by (simp_all add: service_fork_def)

lemma net_query: "fork_query service_fork net q v = Inr endpoint_answer"
  by (simp add: fork_query_def query_request_def net_def service_fork_def fetched_def
      try_extract_graphql_error_def json_get_def plain_access_def endpoint_answer_def)

lemma no_route: "fp_url fp \<noteq> ''net'' \<Longrightarrow> fork_query service_fork fp q v = fetch_error ''no route''"
  by (simp add: fork_query_def query_request_def service_fork_def)

lemma net_config: "get_blockchain_config service_fork net = Inr (5, 7)"
  by (simp add: get_blockchain_config_def net_query boc_at_def json_get_def json_index_def ok_or_fetch_def
      fetched_def plain_access_def endpoint_answer_def)

section \<open>The service\<close>

definition service_json :: "(toy_state, block_info, toy_v, plain_json) json_lib" where
  "service_json =
     \<lparr>jl_read_single_root = (\<lambda>_. Inl (LibError ''boc'')), jl_parse = (\<lambda>_. Inl (LibError ''json'')),
      jl_object = PObject, jl_hash_from_str = (\<lambda>_. Inl (LibError ''hash'')), jl_trace_value = (\<lambda>_. Inr PNull)\<rparr>"

definition service_node ::
  "(fs, toy_state, block_info, toy_v, plain_json, plain_json arango_helper) node_env" where
  "service_node =
     \<lparr>env_lib = toy_lib, env_kv = fs_kv [], env_json = service_json, env_docs = arango_documents_db,
      env_default_shard = toy_workchain, env_iter = (\<lambda>_. [])\<rparr>"

definition service_chain where
  "service_chain blockchain =
     \<lparr>ce_builder = toy_bx, ce_node = service_node, ce_lib = toy_chain_lib, ce_raw_config = blockchain\<rparr>"

definition service_env where
  "service_env =
     \<lparr>me_shards = example_lib, me_with_prefix_len = (\<lambda>_ _ _. Inr toy_workchain), me_chain = service_chain,
      me_json = plain_access PNull, me_parse_db = (\<lambda>_. Inr example_config), me_server = starting_server,
      me_fork = service_fork\<rparr>"

abbreviation service_mc :: path where
  "service_mc \<equiv> [''workchains'', ''MC'', ''shard_8000000000000000'']"

abbreviation service_wc :: path where
  "service_wc \<equiv> [''workchains'', ''WC0'', ''shard_8000000000000000'']"

text \<open>The disk of a node that has never made a block.\<close>

definition service_disk :: fs where
  "service_disk =
     \<lparr>fs_files = Map.empty,
      fs_dirs = {[''workchains''], service_mc @ [''blocks''], service_mc @ [''block_finality''],
        service_wc @ [''blocks''], service_wc @ [''block_finality'']}\<rparr>"

lemma digit_zero: "char_of (48 :: nat) = CHR ''0''"
  by (simp add: char_of_def bit_0)

lemma service_roots:
  "workchains_path = [''workchains'']"
  "shard_root example_lib (sl_masterchain example_lib) [''workchains''] = service_mc"
  "shard_root example_lib toy_workchain [''workchains''] = service_wc"
  by (simp_all add: workchains_path_def shard_root_def example_lib_def toy_workchain_def path_join_def
      path_components_def fmt_016x_def nibble_def hex_lower_def upt_rec show_int_def show_nat.simps digit_zero)

lemma service_storage:
  "fs_storage_new [] service_disk = (Inr [''workchains''], service_disk)"
  "fs_shard_storage example_lib [''workchains''] (sl_masterchain example_lib) service_disk =
     (Inr service_mc, service_disk)"
  "fs_shard_storage example_lib [''workchains''] toy_workchain service_disk = (Inr service_wc, service_disk)"
  by (simp_all add: fs_storage_new_def fs_shard_storage_def fskv_with_path_def service_roots Let_def
      ensure_dir_def fs_exists_def service_disk_def path_join_def path_components_def bindS_def retS_def)

lemma service_remove:
  "k \<in> {BLOCKS_FINALITY_INFO_KEY, SHARD_INFO_KEY, SHARD_STATE_BLOCK_KEY} \<Longrightarrow>
   root \<in> {service_mc, service_wc} \<Longrightarrow> fskv_remove root k service_disk = (Inr (), service_disk)"
  by (auto simp: fskv_remove_def Let_def fs_exists_def service_disk_def path_join_def path_components_def
      root_key_defs)

lemma service_clear:
  "fs_clear_db example_lib [''workchains''] (sl_masterchain example_lib) service_disk = (Inr (), service_disk)"
  "fs_clear_db example_lib [''workchains''] toy_workchain service_disk = (Inr (), service_disk)"
  by (simp_all add: fs_clear_db_def service_storage service_remove bindS_def retS_def)

section \<open>A new engine\<close>

definition service_sc where
  "service_sc gid shard provider =
     \<lparr>sc_finality_was_loaded = False,
      sc_block_finality = finality_with_params toy_lib gid shard service_disk True,
      sc_block_gas_limit = 10, sc_accounts_provider = provider\<rparr>"

definition service_engine where
  "service_engine gid provider =
     \<lparr>en_time = block_time_new,
      en_masterchain = \<lparr>mc_shardchain = service_sc gid (sl_masterchain example_lib) provider,
        mc_shards = Map.empty, mc_shards_has_been_changed = False\<rparr>,
      en_workchain = service_sc gid toy_workchain provider\<rparr>"

abbreviation service_at where
  "service_at blockchain shard \<equiv> chain_at service_env blockchain shard"

lemma service_env_sel [simp]:
  "me_shards service_env = example_lib" "me_with_prefix_len service_env a b c = Inr toy_workchain"
  "me_parse_db service_env x = Inr example_config" "me_server service_env = starting_server"
  "me_fork service_env = service_fork" "me_json service_env = plain_access PNull"
  by (simp_all add: service_env_def)

lemma service_at_sel [simp]:
  "ce_builder (service_at b s) = toy_bx" "env_lib (ce_node (service_at b s)) = toy_lib"
  "ce_lib (service_at b s) = toy_chain_lib"
  by (simp_all add: chain_at_def service_env_def service_chain_def service_node_def Let_def)

lemma service_no_item:
  "root \<in> {service_mc, service_wc} \<Longrightarrow> k \<in> {BLOCKS_FINALITY_INFO_KEY, ZEROSTATE_KEY} \<Longrightarrow>
   fskv_get root k service_disk = Fail NotFound"
  by (auto simp: fskv_get_def Let_def fs_exists_def service_disk_def path_join_def path_components_def
      root_key_defs)

lemma service_shardchain:
  assumes "shard \<in> {sl_masterchain example_lib, toy_workchain}"
  shows "shardchain_with_params (service_at b shard) shard gid (Inr service_disk) provider =
    Some (Inr (service_sc gid shard provider))"
proof -
  have "shard_root example_lib shard workchains_path \<in> {service_mc, service_wc}"
    using assms by (auto simp: service_roots)
  with service_no_item show ?thesis
    by (simp add: shardchain_with_params_def finality_load_def ss_get_def finality_with_params_def
        service_sc_def toy_chain_lib_def)
qed

lemma service_open:
  assumes "shard \<in> {sl_masterchain example_lib, toy_workchain}"
  shows "open_storage example_lib [''workchains''] shard service_disk = (Inr service_disk, service_disk)"
  using assms service_storage by (auto simp: open_storage_def)

lemma service_idle:
  assumes "mq_storage (nw_queue w) = []"
  shows "nothing_to_do (service_at b s) (service_at b s') (service_engine gid p, w)"
  using assms
  by (simp add: nothing_to_do_def sc_idle_def sc_head_def get_last_shard_state_def service_engine_def
      service_sc_def finality_with_params_def sb_new_def toy_bx_def toy_lib_def toy_zero_def pending_def mq_new_def)

lemma service_can_build: "can_build (service_at b s) (service_sc gid shard p)"
  by (simp add: can_build_def get_last_info_def get_last_block_info_def get_last_shard_state_def sc_head_def
      service_sc_def finality_with_params_def sb_new_def toy_bx_def toy_lib_def toy_info_def
      builder_with_params_def finalize_block_def Let_def prev1_end_lt_def)

lemma service_execute:
  fixes w :: "(toy_msg, plain_json arango_helper) node_world"
  assumes "mq_storage (nw_queue w) = []"
  shows "\<exists>w'. execute_queued_messages (service_at b s) (service_at b s') (service_engine gid p, w) =
      Some (Inr (), (service_engine gid p, w')) \<and> nw_queue w' = nw_queue w \<and> nw_docs w' = nw_docs w"
  by (rule execute_idle [OF service_idle [OF assms]])
    (simp_all add: service_engine_def service_can_build)

lemma service_new_engine:
  "\<exists>w :: (toy_msg, plain_json arango_helper) node_world.
    engine_with_params (service_at b (sl_masterchain example_lib)) (service_at b toy_workchain)
      (sl_masterchain example_lib) gid toy_workchain (open_storage example_lib [''workchains''])
      provider helper clock seeds service_disk =
    Some (Inr (service_engine gid provider, w), service_disk) \<and> nw_queue w = mq_new 10000 \<and> nw_docs w = helper"
proof -
  let ?w = "\<lparr>nw_queue = mq_new 10000, nw_docs = helper, nw_clock = clock, nw_seeds = seeds\<rparr>
      :: (toy_msg, plain_json arango_helper) node_world"
  obtain w' where "execute_queued_messages (service_at b (sl_masterchain example_lib)) (service_at b toy_workchain)
      (service_engine gid provider, ?w) = Some (Inr (), (service_engine gid provider, w'))"
      "nw_queue w' = mq_new 10000" "nw_docs w' = helper"
    using service_execute [where w = ?w and b = b and s = "sl_masterchain example_lib" and s' = toy_workchain
        and gid = gid and p = provider] by (auto simp: mq_new_def)
  then show ?thesis
    by (simp add: engine_with_params_def service_open masterchain_with_params_def service_shardchain
        service_engine_def service_sc_def bindO_def returns_def retS_def Let_def)
qed

section \<open>Restarting the service\<close>

definition example_service_config :: "(plain_json, nat) service_config" where
  "example_service_config = \<lparr>sv_node = example_node, sv_blockchain = 2\<rparr>"

lemma service_merge: "merge_disk root service_disk service_disk = service_disk"
  by (simp add: merge_disk_def service_disk_def)

lemma service_hand_back:
  "hand_back service_env (service_engine gid p, w) h =
     h\<lparr>ho_disk := service_disk, ho_clock := nw_clock w, ho_seeds := nw_seeds w\<rparr>"
  by (simp add: hand_back_def service_engine_def service_sc_def chain_disk_def finality_with_params_def
      service_merge)

definition service_live where
  "service_live b gid p w = \<lparr>le_blockchain = b, le_shard = toy_workchain, le_state = (service_engine gid p, w)\<rparr>"

lemma service_create:
  assumes "chain_source service_env config = Inr (b, gid, p)" "ho_disk h = service_disk"
  shows "\<exists>w :: (toy_msg, plain_json arango_helper) node_world.
    create_engine service_env config h = Some (Inr (service_live b gid p w),
      h\<lparr>ho_disk := service_disk, ho_clock := nw_clock w, ho_seeds := nw_seeds w\<rparr>) \<and>
    nw_queue w = mq_new 10000"
proof -
  let ?helper = "\<lparr>ah_channel = [], ah_receiver = True, ah_has_delivery_problems = False,
      ah_config = example_config\<rparr> :: plain_json arango_helper"
  obtain w :: "(toy_msg, plain_json arango_helper) node_world" where
    "engine_with_params (service_at b (sl_masterchain example_lib)) (service_at b toy_workchain)
      (sl_masterchain example_lib) gid toy_workchain (open_storage example_lib [''workchains''])
      p ?helper (ho_clock h) (ho_seeds h) service_disk = Some (Inr (service_engine gid p, w), service_disk)"
    "nw_queue w = mq_new 10000"
    using service_new_engine by blast
  then show ?thesis
    using assms
    by (intro exI [of _ w]) (simp add: create_engine_def bindO_def returns_def on_disk_def service_storage liftS_def
        config_shard_ident_def arango_from_config_def engine_made_def service_hand_back service_live_def)
qed

lemma service_stop:
  fixes w :: "(toy_msg, plain_json arango_helper) node_world"
  assumes "mq_storage (nw_queue w) = []" "mg_engine mg = service_live b gid p w" "mg_thread mg = Some phase"
  shows "\<exists>w' :: (toy_msg, plain_json arango_helper) node_world.
    manager_stop service_env (mg, h) = Some (Inr (),
      (mg\<lparr>mg_engine := service_live b gid p w', mg_thread := None\<rparr>,
       h\<lparr>ho_disk := service_disk, ho_clock := nw_clock w', ho_seeds := nw_seeds w'\<rparr>)) \<and>
    nw_docs w' = nw_docs w"
proof -
  let ?w = "w\<lparr>nw_queue := mq_stop (nw_queue w)\<rparr>"
  have "mq_storage (nw_queue ?w) = []" using assms(1) by (simp add: mq_stop_def)
  from service_execute [OF this, of b "sl_masterchain example_lib" toy_workchain gid p] obtain w' where
      run: "execute_queued_messages (service_at b (sl_masterchain example_lib)) (service_at b toy_workchain)
        (service_engine gid p, ?w) = Some (Inr (), (service_engine gid p, w'))"
        "nw_queue w' = mq_stop (nw_queue w)" "nw_docs w' = nw_docs w" by auto
  have "message_queues_are_empty (service_at b (sl_masterchain example_lib)) (service_at b toy_workchain)
      (service_engine gid p, w')"
    using run(2) assms(1)
    by (simp add: message_queues_are_empty_def sc_out_message_queue_is_empty_def mc_out_message_queue_is_empty_def
        out_message_queue_is_empty_def get_last_shard_state_def service_engine_def service_sc_def
        finality_with_params_def sb_new_def toy_lib_def toy_zero_def mq_is_empty_def mq_stop_def)
  then have "run_stopped (service_at b (sl_masterchain example_lib)) (service_at b toy_workchain)
      (service_engine gid p, ?w) = Some (service_engine gid p, w')"
    using run by (subst run_stopped.simps) simp
  then show ?thesis
    using assms run(3)
    by (cases "phase = Running")
      (auto simp: manager_stop_def Let_def service_live_def engine_mce_def engine_wce_def service_hand_back)
qed

text \<open>A running node whose helper has not yet delivered a block.\<close>

definition service_item :: "plain_json serialized_item" where
  "service_item = \<lparr>item_id = ''b1'', item_data = PObject Map.empty\<rparr>"

definition service_helper :: "plain_json arango_helper" where
  "service_helper = \<lparr>ah_channel = [RBlock service_item], ah_receiver = True, ah_has_delivery_problems = False,
     ah_config = example_config\<rparr>"

definition service_world :: "(toy_msg, plain_json arango_helper) node_world" where
  "service_world = \<lparr>nw_queue = mq_new 10000, nw_docs = service_helper, nw_clock = sconst 50, nw_seeds = sconst 9\<rparr>"

definition service_manager where
  "service_manager = \<lparr>mg_original_config = example_service_config,
     mg_engine = service_live 2 0 None service_world, mg_thread = Some Running\<rparr>"

definition service_host :: "(plain_json, http_request list \<times> nat) host" where
  "service_host = \<lparr>ho_disk = service_disk, ho_clock = sconst 50, ho_seeds = sconst 9, ho_server = ([], 0),
     ho_helpers = []\<rparr>"

lemma service_manager_sel [simp]:
  "mg_engine service_manager = service_live 2 0 None service_world" "mg_thread service_manager = Some Running"
  "mg_original_config service_manager = example_service_config"
  by (simp_all add: service_manager_def)

lemma service_clear_db:
  assumes "ho_disk h = service_disk" "snd (ho_server h) = 0"
  shows "\<exists>h'. manager_clear_db service_env example_service_config h = (Inr (), h') \<and> ho_disk h' = service_disk"
proof -
  have "\<exists>n. truncate_all starting_server cfg cs (log, 0) = (Inr (), n)" for cfg cs log
    by (induction cs arbitrary: log) (simp_all add: accepted_def is_server_error_def is_client_error_def)
  moreover obtain log where "ho_server h = (log, 0)" using assms(2) by (metis prod.collapse)
  ultimately obtain n where "arango_clear_db starting_server example_config (ho_server h) = (Inr (), n)"
    unfolding arango_clear_db_def by metis
  with assms(1) show ?thesis
    by (simp add: manager_clear_db_def bindS_def liftS_def arango_from_config_def on_server_def on_disk_def
        service_storage service_clear config_shard_ident_def)
qed

text \<open>Calls that succeed: their source must be there.\<close>

lemma service_call:
  fixes w :: "(toy_msg, plain_json arango_helper) node_world"
  assumes "mq_storage (nw_queue w) = []" "mg_engine mg = service_live b0 gid0 p0 w" "mg_thread mg = Some phase"
    and "mg_original_config mg = example_service_config" "snd (ho_server h) = 0"
    and "chain_source service_env (call_config c example_service_config) = Inr (b, gid, p)"
  shows "\<exists>w' :: (toy_msg, plain_json arango_helper) node_world. \<exists>h'.
    run_call service_env c (mg, h) = Some (Inr (),
      (mg\<lparr>mg_engine := service_live b gid p w', mg_thread := Some Running\<rparr>, h')) \<and>
    nw_queue w' = mq_new 10000"
proof -
  obtain w1 where stop: "manager_stop service_env (mg, h) = Some (Inr (),
      (mg\<lparr>mg_engine := service_live b0 gid0 p0 w1, mg_thread := None\<rparr>,
       h\<lparr>ho_disk := service_disk, ho_clock := nw_clock w1, ho_seeds := nw_seeds w1\<rparr>))"
    using service_stop [OF assms(1-3)] by blast
  let ?h = "h\<lparr>ho_disk := service_disk, ho_clock := nw_clock w1, ho_seeds := nw_seeds w1\<rparr>"
  obtain h1 where h1: "(if call_clears c then manager_clear_db service_env example_service_config ?h else (Inr (), ?h)) =
      (Inr (), h1)" "ho_disk h1 = service_disk"
    using service_clear_db [of ?h] assms(5) by (cases "call_clears c") auto
  obtain w' h2 where create: "create_engine service_env (call_config c example_service_config) h1 =
      Some (Inr (service_live b gid p w'), h2)" "nw_queue w' = mq_new 10000"
    using service_create [OF assms(6) h1(2)] by blast
  have "(if call_clears c then on_host (manager_clear_db service_env example_service_config) else retS ())
      (mg\<lparr>mg_engine := service_live b0 gid0 p0 w1, mg_thread := None\<rparr>, ?h) =
      (Inr (), (mg\<lparr>mg_engine := service_live b0 gid0 p0 w1, mg_thread := None\<rparr>, h1))"
    using h1(1) by (cases "call_clears c") (auto simp: on_host_def retS_def)
  with stop create assms(4) show ?thesis
    by (cases "call_clears c"; intro exI [of _ w'])
      (simp_all add: run_call_eq bindO_def returns_def replace_engine_def started_def manager_start_def retS_def)
qed

lemma service_source: "chain_source service_env (call_config CallReset example_service_config) = Inr (2, 0, None)"
  by (simp add: chain_source_def example_service_config_def example_node_def default_global_id_def)

lemma service_start:
  "mq_storage (nw_queue service_world) = []" "snd (ho_server service_host) = 0"
  by (simp_all add: service_world_def service_host_def mq_new_def)

theorem cleared_restart_forgets_the_chain_witness:
  "\<exists>mg' h' n w. run_call service_env CallReset (service_manager, service_host) = Some (Inr (), (mg', h')) \<and>
     le_state (mg_engine mg') = (n, w) \<and> \<not> sc_finality_was_loaded (en_workchain n) \<and> time_mode n = System"
proof -
  obtain mg' h' where run: "run_call service_env CallReset (service_manager, service_host) =
      Some (Inr (), (mg', h'))"
    using service_call [OF service_start(1) service_manager_sel service_start(2) service_source] by blast
  obtain n w where le: "le_state (mg_engine mg') = (n, w)" by (metis prod.exhaust)
  from cleared_restart_forgets_the_chain [OF run _ le] run le show ?thesis by simp
qed

theorem cleared_database_gets_old_documents_witness:
  "\<exists>mg' h' w'. run_call service_env CallReset (service_manager, service_host) = Some (Inr (), (mg', h')) \<and>
     put_records_worker (plain_access PNull) starting_server example_config [RBlock service_item]
       \<lparr>aw_helper = service_helper, aw_server = ho_server h', aw_pauses = []\<rparr> = Some w' \<and>
     length (fst (aw_server w')) = 5"
proof -
  obtain mg' h' where run: "run_call service_env CallReset (service_manager, service_host) =
      Some (Inr (), (mg', h'))"
    using service_call [OF service_start(1) service_manager_sel service_start(2) service_source] by blast
  obtain w1 h1 where stop: "manager_stop service_env (service_manager, service_host) = Some (Inr (),
      (service_manager\<lparr>mg_engine := service_live 2 0 None w1, mg_thread := None\<rparr>, h1))"
      "nw_docs w1 = service_helper"
    using service_stop [OF service_start(1) service_manager_sel(1,2), of service_host]
    by (auto simp: service_world_def)
  from cleared_database_gets_old_documents [OF run _ stop(1), of fst snd] starting_server_takes stop(2) run
  show ?thesis
    by (auto simp: service_live_def service_helper_def truncations_def service_host_def map_filter_simps
        item_request_def replace_key_def service_item_def plain_access_def)
qed

text \<open>A fork from an endpoint that cannot be reached.\<close>

lemma service_no_route:
  assumes "url \<noteq> ''net''"
  shows "\<exists>mg' h'. run_call service_env (CallFork url None False) (service_manager, service_host) =
    Some (fetch_error ''no route'', (mg', h'))"
proof -
  obtain w1 where stop: "manager_stop service_env (service_manager, service_host) = Some (Inr (),
      (service_manager\<lparr>mg_engine := service_live 2 0 None w1, mg_thread := None\<rparr>,
       service_host\<lparr>ho_disk := service_disk, ho_clock := nw_clock w1, ho_seeds := nw_seeds w1\<rparr>))"
    using service_stop [OF service_start(1) service_manager_sel(1,2)] by blast
  have "chain_source service_env (call_config (CallFork url None False) example_service_config) =
      fetch_error ''no route''"
    using assms by (simp add: chain_source_def fork_provider_new_def get_blockchain_config_def no_route)
  with stop show ?thesis
    unfolding run_call_eq
    by (simp add: bindO_def returns_def replace_engine_def create_engine_def on_disk_def
        service_storage liftS_def retS_def)
qed

theorem failed_restart_leaves_node_stopped_witness:
  "\<exists>mg' h' w. run_call service_env (CallFork ''nowhere'' None False) (service_manager, service_host) =
      Some (fetch_error ''no route'', (mg', h')) \<and>
    mg_thread mg' = None \<and> mq_stopped (nw_queue (snd (le_state (mg_engine mg'))))"
proof -
  obtain mg' h' where run: "run_call service_env (CallFork ''nowhere'' None False)
      (service_manager, service_host) = Some (fetch_error ''no route'', (mg', h'))"
    using service_no_route [of "''nowhere''"] by auto
  obtain n w where "le_state (mg_engine mg') = (n, w)" by (metis prod.exhaust)
  from failed_restart_leaves_node_stopped [OF run this taking_others(2)] run this show ?thesis by auto
qed

theorem fork_and_unfork_switch_the_network_witness:
  "\<exists>mg1 h1 mg2 h2. manager_fork service_env ''net'' None False (service_manager, service_host) =
      Some (Inr (), (mg1, h1)) \<and>
    manager_unfork service_env True (mg1, service_host) = Some (Inr (), (mg2, h2)) \<and>
    le_blockchain (mg_engine mg1) = 5 \<and> le_blockchain (mg_engine mg2) = 2"
proof -
  let ?mg1 = "\<lambda>w. service_manager\<lparr>mg_engine := service_live 5 7 (Some (get_account service_fork net)) w,
        mg_thread := Some Running\<rparr>"
  have source: "chain_source service_env (call_config (CallFork ''net'' None False) example_service_config) =
      Inr (5, 7, Some (get_account service_fork net))"
    by (simp add: chain_source_def fork_provider_new_def net_config [unfolded net_def] net_def)
  obtain w1 h1 where one: "manager_fork service_env ''net'' None False (service_manager, service_host) =
      Some (Inr (), (?mg1 w1, h1))" "nw_queue w1 = mq_new 10000"
    using service_call [OF service_start(1) service_manager_sel service_start(2) source] by auto
  have source2: "chain_source service_env (call_config (CallUnfork True) example_service_config) = Inr (2, 0, None)"
    using service_source by simp
  obtain mg2 h2 where two: "manager_unfork service_env True (?mg1 w1, service_host) = Some (Inr (), (mg2, h2))"
    using service_call [where w = w1 and mg = "?mg1 w1" and h = service_host and ?b0.0 = 5 and ?gid0.0 = 7
        and ?p0.0 = "Some (get_account service_fork net)" and phase = Running,
        OF _ _ _ _ service_start(2) source2] one(2)
    by (auto simp: mq_new_def)
  have "nc_fork (sv_node (mg_original_config service_manager)) = None"
    by (simp add: example_service_config_def example_node_def)
  from fork_and_unfork_switch_the_network [OF one(1) two this] one(1) two show ?thesis
    by (auto simp: service_live_def example_service_config_def)
qed

section \<open>The interface\<close>

definition service_texts :: library_texts where
  "service_texts = \<lparr>lt_io = (\<lambda>_. []), lt_any = (\<lambda>_. [])\<rparr>"

theorem clock_commands_read_back_witness:
  "ask_control service_env service_texts ''Increase-Time'' [(''delta'', show_nat (unat (5 :: u32)))]
      (service_manager, service_host) =
    Some (Some (StatusOk, None),
      on_engine (\<lambda>(n, w). (increase_time_delta 5 n, w)) (service_manager, service_host))"
proof -
  have "to_lowercase ''Increase-Time'' = ''increase-time''" "to_lowercase ''set-time-mode'' = ''set-time-mode''"
    by (simp_all add: to_lowercase_def lower_char_def char_of_def bit_0)
  from clock_commands_read_back [OF this, of service_env service_texts 5 "(service_manager, service_host)" Seq]
  show ?thesis by simp
qed

theorem delta_must_fit_the_clock_witness:
  "\<exists>msg. ask_control service_env service_texts ''increase-time'' [(''delta'', ''-1'')]
      (service_manager, service_host) =
    Some (Some (StatusBadRequest, Some msg), (service_manager, service_host))"
proof -
  have low: "to_lowercase ''increase-time'' = ''increase-time''"
    by (simp add: to_lowercase_def lower_char_def)
  have "\<not> (\<exists>ds. (''-1'' = ds \<or> ''-1'' = CHR ''+'' # ds) \<and> ds \<noteq> [] \<and> all_digits ds \<and> decimal 0 ds < 2 ^ 32)"
    by (auto simp: digit_of_def)
  with delta_must_fit_the_clock [OF low, where s = "''-1''" and me = service_env and lt = service_texts
      and st = "(service_manager, service_host)"]
  show ?thesis by presburger
qed

section \<open>The start\<close>

definition service_file :: plain_json where
  "service_file = write_node (plain_access PNull) PNumber PArray {} {} example_node"

definition service_main :: "(plain_json, nat, nat) main_env" where
  "service_main =
     \<lparr>ms_set_dir = (\<lambda>_. Inr ()), ms_init_log = (\<lambda>_. Inr ()), ms_read = (\<lambda>_ _. Inr []), ms_texts = service_texts,
      ms_json = plain_access service_file, ms_parse_params = (\<lambda>_. Inr 2), ms_with_config = Inr\<rparr>"

definition service_args :: node_args where
  "service_args = \<lparr>na_workdir = None, na_config = Some ''c'', na_blockchain_config = Some ''b''\<rparr>"

lemma service_main_log: "ms_init_log service_main p = Inr ()"
  by (simp add: service_main_def)

lemma service_main_config: "config_from_args service_main service_args = Inr example_service_config"
proof -
  have same: "write_node (plain_access content) = write_node (plain_access PNull)" for content
    by (intro ext) (simp only: write_node_def write_fields_def write_shard_id_def write_api_def
        write_fork_def write_option_def plain_sel)
  have "ja_from_str (plain_access service_file) [] =
      Inr (write_node (plain_access service_file) PNumber PArray {} {} example_node)"
    unfolding same [of service_file] plain_sel by (simp only: service_file_def)
  then have "config_parse (plain_access service_file) (\<lambda>_. []) [] = Inr example_node"
    by (intro config_parse_back [OF plain_ok]) auto
  moreover have "\<exists>m. ja_as_object (plain_access service_file) service_file = Some m"
    by (simp add: plain_access_def service_file_def write_node_def write_fields_def)
  ultimately show ?thesis
    by (auto simp: config_from_args_def service_main_def service_args_def read_str_def parse_config_def
        service_texts_def blockchain_config_from_json_def example_service_config_def)
qed

theorem started_node_runs_its_configuration_witness:
  "\<exists>routes address s h'. main_run service_main service_env service_args service_host =
      Some (Inr (routes, address, s), h') \<and>
    fst (routes ! 0) = ''/topics/messages'' \<and> le_blockchain (mg_engine (ns_manager s)) = 2"
proof -
  have "chain_source service_env example_service_config = Inr (2, 0, None)" using service_source by simp
  then obtain w h' where create: "create_engine service_env example_service_config service_host =
      Some (Inr (service_live 2 0 None w), h')"
    using service_create [of example_service_config 2 0 None service_host] by (auto simp: service_host_def)
  moreover obtain routes address s where "service_run \<lparr>ns_api_config = nc_api (sv_node example_service_config),
      ns_manager = \<lparr>mg_original_config = example_service_config, mg_engine =
        (service_live 2 0 None w :: (toy_state, block_info, toy_v, toy_msg, plain_json, nat) live_engine),
        mg_thread = None\<rparr>\<rparr> = (routes, address, s)" by (metis prod.exhaust)
  ultimately have run: "main_run service_main service_env service_args service_host =
      Some (Inr (routes, address, s), h')"
    by (simp add: main_run_def service_main_config service_main_log service_new_def manager_new_def bindO_def
        returns_def retS_def)
  from started_node_runs_its_configuration [OF run] run show ?thesis
    by (auto simp: service_main_config example_service_config_def example_node_def default_api_config_def
        default_messages_def)
qed

end
