(* ===== verification/Account_Chain.thy ===== *)
theory Account_Chain
  imports Builder_Props
begin

text \<open>
  What the collator does to the accounts of a shard: every transaction is linked to the last one
  of its account and comes after it in logical time, an account of the new state is that of the
  old one or was touched inside the block's logical time, and an account that does not come into
  being forgets the logical time of its transaction.
\<close>

section \<open>The library's promises\<close>

text \<open>The dictionary of accounts: a written account is found under its key, a removed one is not,
  and nothing else changes; a failed call changes nothing.\<close>

definition accounts_ok :: "('s, 'b, 'c, 'm, 't, 'v, 'q) builder_lib \<Rightarrow> bool" where
  "accounts_ok bx \<longleftrightarrow>
     (\<forall>acc data k aug v r v'. bx_new_cell bx acc = Inr data \<longrightarrow> bx_accounts_set bx k data aug v = (r, v') \<longrightarrow>
        (\<forall>k'. bx_account bx k' v' = (if r = Inr () \<and> k' = k then Inr (Some acc) else bx_account bx k' v))) \<and>
     (\<forall>k v r v'. bx_accounts_remove bx k v = (r, v') \<longrightarrow>
        (\<forall>k'. bx_account bx k' v' = (if r = Inr () \<and> k' = k then Inr None else bx_account bx k' v))) \<and>
     (\<forall>root h lt. bx_last_trans_hash bx (bx_shard_account bx root h lt) = h \<and>
        bx_last_trans_lt bx (bx_shard_account bx root h lt) = lt)"

text \<open>A new transaction has the logical time it is made with, and the setters keep it.\<close>

definition transactions_ok :: "('s, 'b, 'c, 'm, 't, 'v, 'q) builder_lib \<Rightarrow> bool" where
  "transactions_ok bx \<longleftrightarrow>
     (\<forall>a m lt t. bx_new_transaction bx a m lt = Inr t \<longrightarrow> bx_logical_time bx t = lt) \<and>
     (\<forall>u t. bx_logical_time bx (bx_set_now bx u t) = bx_logical_time bx t) \<and>
     (\<forall>d t t'. bx_write_description bx d t = Inr t' \<longrightarrow> bx_logical_time bx t' = bx_logical_time bx t) \<and>
     (\<forall>h h' t t'. bx_write_state_update bx h h' t = Inr t' \<longrightarrow> bx_logical_time bx t' = bx_logical_time bx t) \<and>
     (\<forall>h lt t. bx_logical_time bx (bx_set_prev_trans bx h lt t) = bx_logical_time bx t)"

text \<open>The executor gives a transaction a logical time from the one it is told to start at, and
  leaves the shared counter not before it.\<close>

definition executor_ok :: "('s, 'b, 'c, 'm, 't, 'v, 'q) builder_lib \<Rightarrow> bool" where
  "executor_ok bx \<longleftrightarrow>
     (\<forall>m c ps t. er_result (bx_execute bx m c ps) = Inr t \<longrightarrow>
        ep_last_tr_lt ps \<le> bx_logical_time bx t \<and> bx_logical_time bx t \<le> er_lt (bx_execute bx m c ps))"

definition ledger_ok :: "('s, 'b, 'c, 'm, 't, 'v, 'q) builder_lib \<Rightarrow> bool" where
  "ledger_ok bx \<longleftrightarrow> accounts_ok bx \<and> transactions_ok bx \<and> executor_ok bx"

section \<open>One transaction\<close>

lemma aborted_transaction_lt:
  assumes "transactions_ok bx"
    and "aborted_transaction bx u m last_lt err root trace = Inr (t, lt, tr, root')"
  shows "last_lt \<le> lt \<and> bx_logical_time bx t = lt"
  using assms
  by (auto simp: aborted_transaction_def transactions_ok_def bindR_eq_Inr Let_def le_max_iff_disj)

lemma try_prepare_lt:
  assumes "transactions_ok bx" "executor_ok bx"
    and "try_prepare_transaction bx root m last_lt bb = (Inr (t, lt, trace, root'), bb')"
  shows "last_lt \<le> bx_logical_time bx t \<and> bx_logical_time bx t \<le> lt"
  using assms aborted_transaction_lt [OF assms(1)]
  by (fastforce simp: try_prepare_transaction_def executor_ok_def at_and_lt_def bindR_eq_Inr Let_def
      split: sum.splits)

text \<open>Everything but \<open>store_account\<close> leaves the accounts alone, and everything but the update of
  \<open>end_lt\<close> the end of logical time.\<close>

definition same_ledger ::
  "('s, 'c, 'm, 'v, 'q) block_builder \<Rightarrow> ('s, 'c, 'm, 'v, 'q) block_builder \<Rightarrow> bool" where
  "same_ledger bb bb' \<longleftrightarrow>
     bb_accounts bb' = bb_accounts bb \<and> bb_end_lt bb' = bb_end_lt bb \<and> bb_start_lt bb' = bb_start_lt bb"

interpretation ledger: step_relation same_ledger
  by unfold_locales (auto simp: same_ledger_def)

lemma ledger_on:
  "ledger.keeps (on_in_descr n)" "ledger.keeps (on_out_descr o1)"
  "ledger.keeps (on_account_blocks k)" "ledger.keeps (on_copyleft l)" "ledger.keeps (on_out_queue q)"
  by (auto simp: ledger.keeps_def same_ledger_def on_in_descr_def
      on_out_descr_def on_account_blocks_def on_copyleft_def on_out_queue_def split: prod.splits)

lemma ledger_new_messages: "ledger.keeps (\<lambda>bb. (r, bb\<lparr>bb_new_messages := f bb\<rparr>))"
  by (simp add: ledger.keeps_def same_ledger_def)

lemmas ledger_steps = ledger.keeps_intros ledger_on ledger_new_messages

lemma ledger_add_out_msgs: "ledger.keeps (add_out_msgs bx c ms)"
proof (induction bx c ms rule: add_out_msgs.induct)
  case (4 bx tr_cell msg ms)
  then show ?case by (auto simp: Let_def split: option.splits intro!: ledger_steps)
qed (auto intro: ledger_steps)

lemma ledger_add_in_msg: "ledger.keeps (add_in_msg bx c d)"
  unfolding add_in_msg_def by (intro ledger_steps)

lemma ledger_add_raw_transaction: "ledger.keeps (add_raw_transaction bx t c)"
  unfolding add_raw_transaction_def
  by (auto intro!: ledger_steps ledger_add_in_msg ledger_add_out_msgs split: option.split prod.split)

lemma ledger_try_prepare: "ledger.keeps (try_prepare_transaction bx root m lt)"
  by (auto simp: ledger.keeps_def same_ledger_def try_prepare_transaction_def Let_def
      split: prod.splits sum.splits option.splits)

text \<open>The account of a key after \<open>store_account\<close>: the one with the transaction as its last, or
  none when there is no account any more.\<close>

definition stored_account where
  "stored_account bx root cell t =
     (case bx_account_of_cell bx root of
        Inr acc \<Rightarrow>
          if bx_account_is_none bx acc then None
          else Some (bx_shard_account bx root (bx_repr_hash bx cell) (bx_logical_time bx t))
      | Inl _ \<Rightarrow> None)"

lemma store_account_effect:
  assumes "accounts_ok bx" "store_account bx k root cell t bb = (r, bb')"
  shows "bx_account bx k' (bb_accounts bb') =
    (if r = Inr () \<and> k' = k then Inr (stored_account bx root cell t) else bx_account bx k' (bb_accounts bb))"
  and "bb_end_lt bb' = bb_end_lt bb \<and> bb_start_lt bb' = bb_start_lt bb"
proof -
  note set = assms(1) [unfolded accounts_ok_def, THEN conjunct1, rule_format]
    and remove = assms(1) [unfolded accounts_ok_def, THEN conjunct2, THEN conjunct1, rule_format]
  show "bx_account bx k' (bb_accounts bb') =
    (if r = Inr () \<and> k' = k then Inr (stored_account bx root cell t) else bx_account bx k' (bb_accounts bb))"
  proof (cases "bx_account_of_cell bx root")
    case (Inl e)
    with assms(2) show ?thesis by (auto simp: store_account_def)
  next
    case (Inr acc)
    show ?thesis
    proof (cases "bx_account_is_none bx acc")
      case True
      then obtain q v where "bx_accounts_remove bx k (bb_accounts bb) = (q, v)" "r = lib_try q"
          "bb' = bb\<lparr>bb_accounts := v\<rparr>"
        using assms(2) Inr by (auto simp: store_account_def on_accounts_def split: prod.splits)
      with True Inr remove [of k "bb_accounts bb" q v k'] show ?thesis
        by (simp add: stored_account_def)
    next
      case False
      let ?acc = "bx_shard_account bx root (bx_repr_hash bx cell) (bx_logical_time bx t)"
      show ?thesis
      proof (cases "\<exists>data aug. bx_new_cell bx ?acc = Inr data \<and> bx_acc_aug bx acc = Inr aug")
        case True
        then obtain data aug where parts: "bx_new_cell bx ?acc = Inr data" "bx_acc_aug bx acc = Inr aug"
          by blast
        then obtain q v where "bx_accounts_set bx k data aug (bb_accounts bb) = (q, v)" "r = lib_try q"
            "bb' = bb\<lparr>bb_accounts := v\<rparr>"
          using assms(2) Inr False by (auto simp: store_account_def on_accounts_def Let_def split: prod.splits)
        with False Inr parts set [of ?acc data k aug "bb_accounts bb" q v k'] show ?thesis
          by (simp add: stored_account_def)
      next
        case none: False
        then obtain e where "(r, bb') = (Inl e, bb)"
          using assms(2) Inr False by (auto simp: store_account_def Let_def split: sum.splits)
        then show ?thesis by simp
      qed
    qed
  qed
  show "bb_end_lt bb' = bb_end_lt bb \<and> bb_start_lt bb' = bb_start_lt bb"
    using assms(2)
    by (auto simp: store_account_def on_accounts_def Let_def split: sum.splits prod.splits if_splits)
qed

text \<open>The parts of a run of \<open>builder_execute\<close>, up to the account that it stores.\<close>

lemma execute_cases:
  assumes "builder_execute bx m k bb = (r, bb')"
  obtains (failed) e where "r = Inl e" "bb_accounts bb' = bb_accounts bb"
      "bb_end_lt bb \<le> bb_end_lt bb'" "bb_start_lt bb' = bb_start_lt bb"
  | (stored) acc t lt trace root bb1 cell bb2 r3 bb3 where
      "find_account bx k bb = Inr acc"
      "try_prepare_transaction bx (bx_account_cell bx acc) m (max (bb_start_lt bb) (bx_last_trans_lt bx acc + 1))
         (bb\<lparr>bb_total_message_processed := Suc (bb_total_message_processed bb)\<rparr>) = (Inr (t, lt, trace, root), bb1)"
      "bx_transaction_cell bx (bx_set_prev_trans bx (bx_last_trans_hash bx acc) (bx_last_trans_lt bx acc) t) = Inr cell"
      "bb_accounts bb2 = bb_accounts bb" "bb_end_lt bb2 = max (bb_end_lt bb) lt" "bb_start_lt bb2 = bb_start_lt bb"
      "store_account bx k root cell
         (bx_set_prev_trans bx (bx_last_trans_hash bx acc) (bx_last_trans_lt bx acc) t) bb2 = (r3, bb3)"
      "same_ledger bb3 bb'" "r = r3" "bb_account_blocks bb3 = bb_account_blocks bb"
      "r = Inr () \<Longrightarrow> bb' = snd (add_raw_transaction bx
         (bx_set_prev_trans bx (bx_last_trans_hash bx acc) (bx_last_trans_lt bx acc) t) cell bb3)"
proof -
  let ?b0 = "bb\<lparr>bb_total_message_processed := Suc (bb_total_message_processed bb)\<rparr>"
  have find: "find_account bx k ?b0 = find_account bx k bb"
    by (simp add: find_account_def bb_shard_ident_def cong: option.case_cong)
  show thesis
  proof (cases "find_account bx k bb")
    case (Inl e)
    then show thesis
      using assms find by (intro failed) (auto simp: builder_execute_def Let_def bindS_def)
  next
    case acc: (Inr acc)
    let ?set = "bx_set_prev_trans bx (bx_last_trans_hash bx acc) (bx_last_trans_lt bx acc)"
    obtain r1 bb1 where prep: "try_prepare_transaction bx (bx_account_cell bx acc) m
        (max (bb_start_lt bb) (bx_last_trans_lt bx acc + 1)) ?b0 = (r1, bb1)"
      by (metis prod.exhaust)
    from ledger.keepsD [OF ledger_try_prepare prep]
    have one: "bb_accounts bb1 = bb_accounts bb" "bb_end_lt bb1 = bb_end_lt bb" "bb_start_lt bb1 = bb_start_lt bb"
      by (simp_all add: same_ledger_def)
    have blocks: "bb_account_blocks bb1 = bb_account_blocks bb"
      using prep by (auto simp: try_prepare_transaction_def Let_def split: prod.splits sum.splits option.splits)
    show thesis
    proof (cases r1)
      case (Inl e)
      then show thesis
        using assms find acc prep one by (intro failed) (auto simp: builder_execute_def Let_def bindS_def)
    next
      case (Inr x)
      obtain t lt trace root where x: "x = (t, lt, trace, root)" by (cases x)
      let ?bb1 = "bb1\<lparr>bb_end_lt := max (bb_end_lt bb1) lt\<rparr>"
      show thesis
      proof (cases "\<exists>cell ab. bx_transaction_cell bx (?set t) = Inr cell \<and> bx_is_aborted bx (?set t) = Inr ab")
        case False
        then obtain e bb2 where "(r, bb') = (Inl e, bb2)" "bb_accounts bb2 = bb_accounts bb1"
            "bb_end_lt bb2 = max (bb_end_lt bb1) lt" "bb_start_lt bb2 = bb_start_lt bb1"
          using assms find acc prep Inr x
          by (auto simp: builder_execute_def Let_def bindS_def liftS_def split: sum.splits option.splits)
        with one show thesis by (intro failed) auto
      next
        case True
        then obtain cell ab where cell: "bx_transaction_cell bx (?set t) = Inr cell"
            "bx_is_aborted bx (?set t) = Inr ab" by blast
        let ?bb2 = "case trace of Some tr \<Rightarrow> ?bb1\<lparr>bb_transaction_traces :=
                (bb_transaction_traces ?bb1)(bx_repr_hash bx cell \<mapsto> tr)\<rparr> | None \<Rightarrow> ?bb1"
        obtain r3 bb3 where store: "store_account bx k root cell (?set t) ?bb2 = (r3, bb3)"
          by (metis prod.exhaust)
        have bb2: "bb_accounts ?bb2 = bb_accounts bb" "bb_end_lt ?bb2 = max (bb_end_lt bb) lt"
            "bb_start_lt ?bb2 = bb_start_lt bb"
          using one by (simp_all split: option.split)
        have "bb_account_blocks bb3 = bb_account_blocks ?bb2"
          using store by (auto simp: store_account_def on_accounts_def Let_def
              split: sum.splits prod.splits if_splits)
        then have blocks3: "bb_account_blocks bb3 = bb_account_blocks bb"
          using blocks by (simp split: option.split)
        have "same_ledger bb3 bb' \<and> r = r3 \<and> (r = Inr () \<longrightarrow> bb' = snd (add_raw_transaction bx (?set t) cell bb3))"
          using assms find acc prep Inr x cell store
            ledger_add_raw_transaction [unfolded ledger.keeps_def, rule_format, of bb3 bx "?set t" cell]
          by (cases r3) (auto simp: builder_execute_def Let_def bindS_def liftS_def ledger.R_refl)
        then show thesis
          using stored [OF acc prep [unfolded Inr x] cell(1) bb2 store _ _ blocks3] by blast
      qed
    qed
  qed
qed

text \<open>\<^bold>\<open>C5\<close>. The transactions of an account form a linked list: the transaction that a message
  makes carries the hash and the logical time of the account's last transaction, its own logical
  time is not before the start of the block nor before the one after the last transaction, and
  the account that is stored names it as its last one (or there is no account any more). No
  other account changes.\<close>

theorem account_transactions_are_chained:
  assumes "ledger_ok bx" "builder_execute bx m k bb = (Inr (), bb')"
  shows "\<exists>acc t root cell. find_account bx k bb = Inr acc \<and>
    bx_transaction_cell bx
      (bx_set_prev_trans bx (bx_last_trans_hash bx acc) (bx_last_trans_lt bx acc) t) = Inr cell \<and>
    bb_start_lt bb \<le> bx_logical_time bx t \<and> bx_last_trans_lt bx acc + 1 \<le> bx_logical_time bx t \<and>
    bx_logical_time bx t \<le> bb_end_lt bb' \<and>
    (bx_account bx k (bb_accounts bb') = Inr None \<or>
     (\<exists>new. bx_account bx k (bb_accounts bb') = Inr (Some new) \<and> find_account bx k bb' = Inr new \<and>
        bx_last_trans_hash bx new = bx_repr_hash bx cell \<and> bx_last_trans_lt bx new = bx_logical_time bx t)) \<and>
    (\<forall>k'. k' = k \<or> bx_account bx k' (bb_accounts bb') = bx_account bx k' (bb_accounts bb))"
  using assms(2)
proof (cases rule: execute_cases)
  case (stored acc t lt trace root bb1 cell bb2 r3 bb3)
  let ?t = "bx_set_prev_trans bx (bx_last_trans_hash bx acc) (bx_last_trans_lt bx acc) t"
  have lt: "bx_logical_time bx ?t = bx_logical_time bx t"
    and shard: "bx_last_trans_hash bx (bx_shard_account bx r h l) = h"
      "bx_last_trans_lt bx (bx_shard_account bx r h l) = l" for r h l
    using assms(1) by (auto simp: ledger_ok_def transactions_ok_def accounts_ok_def)
  have time: "max (bb_start_lt bb) (bx_last_trans_lt bx acc + 1) \<le> bx_logical_time bx t"
      "bx_logical_time bx t \<le> lt"
    using try_prepare_lt [OF _ _ stored(2)] assms(1) by (auto simp: ledger_ok_def)
  have acc: "bx_account bx k' (bb_accounts bb') =
      (if k' = k then Inr (stored_account bx root cell ?t) else bx_account bx k' (bb_accounts bb))" for k'
    using store_account_effect(1) [OF _ stored(7)] stored(4,8,9) assms(1)
    by (simp add: ledger_ok_def same_ledger_def)
  have "bx_logical_time bx t \<le> bb_end_lt bb'"
    using store_account_effect(2) [OF _ stored(7)] stored(5,8) assms(1) time(2)
    by (auto simp: ledger_ok_def same_ledger_def le_max_iff_disj)
  moreover have "bx_account bx k (bb_accounts bb') = Inr None \<or>
     (\<exists>new. bx_account bx k (bb_accounts bb') = Inr (Some new) \<and> find_account bx k bb' = Inr new \<and>
        bx_last_trans_hash bx new = bx_repr_hash bx cell \<and> bx_last_trans_lt bx new = bx_logical_time bx t)"
    using acc [of k] lt shard
    by (cases "stored_account bx root cell ?t")
      (auto simp: stored_account_def find_account_def split: sum.splits if_splits)
  ultimately show ?thesis
    using stored(1,3) time acc by (intro exI [of _ acc] exI [of _ t] exI [of _ root] exI [of _ cell]) auto
qed simp

section \<open>The accounts of a block\<close>

text \<open>An account is the old one, or gone, or its last transaction lies in the block's logical
  time so far.\<close>

definition account_window ::
  "('s, 'b, 'c, 'm, 't, 'v, 'q) builder_lib \<Rightarrow> ('s, 'c, 'm, 'v, 'q) block_builder \<Rightarrow>
   ('s, 'c, 'm, 'v, 'q) block_builder \<Rightarrow> bool" where
  "account_window bx bb bb' \<longleftrightarrow>
     bb_start_lt bb' = bb_start_lt bb \<and> bb_end_lt bb \<le> bb_end_lt bb' \<and>
     (\<forall>k. bx_account bx k (bb_accounts bb') = bx_account bx k (bb_accounts bb) \<or>
        bx_account bx k (bb_accounts bb') = Inr None \<or>
        (\<exists>new. bx_account bx k (bb_accounts bb') = Inr (Some new) \<and>
           bb_start_lt bb \<le> bx_last_trans_lt bx new \<and> bx_last_trans_lt bx new \<le> bb_end_lt bb'))"

interpretation window: step_relation "account_window bx" for bx
proof
  fix a b c
  assume ab: "account_window bx a b" and bc: "account_window bx b c"
  then have eqs: "bb_start_lt b = bb_start_lt a" "bb_start_lt c = bb_start_lt b" "bb_end_lt b \<le> bb_end_lt c"
      "bb_end_lt a \<le> bb_end_lt b"
    by (simp_all add: account_window_def)
  show "account_window bx a c"
    unfolding account_window_def
  proof (intro conjI allI)
    fix k
    from bc consider "bx_account bx k (bb_accounts c) = bx_account bx k (bb_accounts b)"
      | "bx_account bx k (bb_accounts c) = Inr None \<or>
        (\<exists>new. bx_account bx k (bb_accounts c) = Inr (Some new) \<and>
           bb_start_lt b \<le> bx_last_trans_lt bx new \<and> bx_last_trans_lt bx new \<le> bb_end_lt c)"
      by (auto simp: account_window_def)
    then show "bx_account bx k (bb_accounts c) = bx_account bx k (bb_accounts a) \<or>
        bx_account bx k (bb_accounts c) = Inr None \<or>
        (\<exists>new. bx_account bx k (bb_accounts c) = Inr (Some new) \<and>
           bb_start_lt a \<le> bx_last_trans_lt bx new \<and> bx_last_trans_lt bx new \<le> bb_end_lt c)"
      using ab eqs by cases (auto simp: account_window_def intro: order_trans)
  qed (use eqs in auto)
qed (simp add: account_window_def)

lemma same_ledger_window: "same_ledger bb bb' \<Longrightarrow> account_window bx bb bb'"
  by (simp add: same_ledger_def account_window_def)

lemma execute_window:
  assumes "ledger_ok bx" "builder_execute bx m k bb = (r, bb')"
  shows "account_window bx bb bb'"
  using assms(2)
proof (cases rule: execute_cases)
  case failed
  then show ?thesis by (simp add: account_window_def)
next
  case (stored acc t lt trace root bb1 cell bb2 r3 bb3)
  let ?t = "bx_set_prev_trans bx (bx_last_trans_hash bx acc) (bx_last_trans_lt bx acc) t"
  have lt: "bx_logical_time bx ?t = bx_logical_time bx t"
    and shard: "bx_last_trans_lt bx (bx_shard_account bx r h l) = l" for r h l
    using assms(1) by (auto simp: ledger_ok_def transactions_ok_def accounts_ok_def)
  have time: "max (bb_start_lt bb) (bx_last_trans_lt bx acc + 1) \<le> bx_logical_time bx t"
      "bx_logical_time bx t \<le> lt"
    using try_prepare_lt [OF _ _ stored(2)] assms(1) by (auto simp: ledger_ok_def)
  note effect = store_account_effect [OF _ stored(7)]
  have ends: "bb_start_lt bb' = bb_start_lt bb" "bb_end_lt bb' = max (bb_end_lt bb) lt"
    using effect(2) stored(5,6,8) assms(1) by (auto simp: ledger_ok_def same_ledger_def)
  have "bx_account bx k' (bb_accounts bb') =
      (if r3 = Inr () \<and> k' = k then Inr (stored_account bx root cell ?t) else bx_account bx k' (bb_accounts bb))" for k'
    using effect(1) stored(4,8) assms(1) by (simp add: ledger_ok_def same_ledger_def)
  moreover have "stored_account bx root cell ?t = None \<or>
      (\<exists>new. stored_account bx root cell ?t = Some new \<and> bx_last_trans_lt bx new = bx_logical_time bx t)"
    using lt shard by (auto simp: stored_account_def split: sum.splits if_splits)
  ultimately show ?thesis
    using ends time by (auto simp: account_window_def le_max_iff_disj)
qed

lemma build_messages_window:
  fixes bx :: "('s, 'b, 'c, 'm, 't, 'v, 'q) builder_lib"
  assumes "ledger_ok bx" "build_messages bx (bb, q) = Some (r, (bb', q'))"
  shows "account_window bx bb bb'"
proof -
  note keeps = step_relation.keeps_def [OF window.step_relation_axioms]
  have ledger: "step_relation.keeps (account_window bx) m" if "ledger.keeps m"
    for m :: "('s, 'c, 'm, 'v, 'q) block_builder \<Rightarrow> unit res \<times> ('s, 'c, 'm, 'v, 'q) block_builder"
    using that same_ledger_window by (auto simp: keeps ledger.keeps_def)
  have "builder_relation (account_window bx) bx"
  proof unfold_locales
    show "step_relation.keeps (account_window bx) (builder_execute bx m a)" for m a
      using execute_window [OF assms(1)] unfolding keeps by (metis prod.collapse)
    fix f :: "'q \<Rightarrow> (any_error + unit) \<times> 'q" and g :: "'v \<Rightarrow> (any_error + unit) \<times> 'v"
    show "step_relation.keeps (account_window bx) (on_out_queue f)" by (intro ledger ledger_on)
    show "step_relation.keeps (account_window bx) (on_out_descr g)" by (intro ledger ledger_on)
  qed (simp add: account_window_def)
  then show ?thesis using assms(2) by (rule builder_relation.R_build_messages)
qed

text \<open>What is written into a state is read from it.\<close>

definition accounts_written_ok :: "('s, 'b, 'c, 'm, 't, 'v, 'q) builder_lib \<Rightarrow> bool" where
  "accounts_written_ok bx \<longleftrightarrow>
     (\<forall>v s s'. bx_write_accounts bx v s = Inr s' \<longrightarrow> bx_read_accounts bx s' = Inr v) \<and>
     (\<forall>q s s'. bx_write_out_queue bx q s = Inr s' \<longrightarrow> bx_read_accounts bx s' = bx_read_accounts bx s)"

lemma finalize_block_accounts:
  assumes "finalize_block bx bb = Inr (b, st)" "accounts_written_ok bx"
  shows "bx_read_accounts bx st = Inr (bb_accounts bb)"
  using assms by (auto simp: finalize_block_def accounts_written_ok_def bindR_eq_Inr Let_def)

text \<open>\<^bold>\<open>C7\<close>. In the state after a block every account is the one of the state before, or gone, or
  its last transaction has a logical time between the start and the end of the block that the
  header states.\<close>

theorem accounts_stay_in_block_time:
  assumes "ledger_ok bx" "accounts_written_ok bx" "header_ok lib bx"
    and "builder_with_params bx seed st prev time mode limit prov = Inr bb"
    and "build_block bx bb q = Some (Inr p, q')"
  shows "\<exists>old new info. bx_read_accounts bx st = Inr old \<and> bx_read_accounts bx (prep_state p) = Inr new \<and>
    bl_read_info lib (prep_block p) = Inr info \<and>
    (\<forall>k. bx_account bx k new = bx_account bx k old \<or> bx_account bx k new = Inr None \<or>
       (\<exists>acc. bx_account bx k new = Inr (Some acc) \<and>
          bi_start_lt info \<le> bx_last_trans_lt bx acc \<and> bx_last_trans_lt bx acc \<le> bi_end_lt info))"
proof -
  obtain bb' where b: "build_messages bx (bb, q) = Some (Inr (prep_is_empty p), (bb', q'))"
      "finalize_block bx (bb'\<lparr>bb_transaction_traces := Map.empty\<rparr>) = Inr (prep_block p, prep_state p)"
    using build_block_parts [OF assms(5)] by blast
  let ?info = "(bb_block_info bb')\<lparr>bi_end_lt := max (bb_end_lt bb') (bb_start_lt bb' + 1)\<rparr>"
  have "bb_block_info bb' = bb_block_info bb" using build_messages_same_block [OF b(1)] by (simp add: same_block_def)
  then have "bi_start_lt ?info = bb_start_lt bb" using builder_new_sel [OF assms(4,3)] by simp
  moreover have "bl_read_info lib (prep_block p) = Inr ?info"
    using finalize_block_info [OF b(2) assms(3)] by simp
  moreover have "bx_read_accounts bx (prep_state p) = Inr (bb_accounts bb')"
    using finalize_block_accounts [OF b(2) assms(2)] by simp
  moreover note builder_new_sel(1) [OF assms(4,3)]
  moreover note build_messages_window [OF assms(1) b(1)]
  ultimately show ?thesis
    by (intro exI [of _ "bb_accounts bb"] exI [of _ "bb_accounts bb'"] exI [of _ ?info])
      (auto simp: account_window_def le_max_iff_disj)
qed

section \<open>An account that does not come into being\<close>

text \<open>The account blocks are a dictionary of the block's transactions under their account and their
  logical time (\<open>entry\<close> looks a cell up): adding a transaction enters it over what was there, or
  fails and changes nothing. A transaction belongs to the account that it was made for (\<open>owner\<close>),
  which for an account that does not exist is the destination of the message.\<close>

definition keyed_by_time ::
  "('s, 'b, 'c, 'm, 't, 'v, 'q) builder_lib \<Rightarrow> ('v \<Rightarrow> 'v \<times> u64 \<Rightarrow> 'c option) \<Rightarrow> ('t \<Rightarrow> 'v) \<Rightarrow> bool" where
  "keyed_by_time bx entry owner \<longleftrightarrow>
     (\<forall>t c v r v'. bx_add_transaction bx t c v = (r, v') \<longrightarrow>
        entry v' = (if r = Inr () then (entry v)((owner t, bx_logical_time bx t) \<mapsto> c) else entry v)) \<and>
     (\<forall>a m lt t k. bx_account_is_none bx a \<longrightarrow> bx_dst_account bx m = Some k \<longrightarrow>
        bx_new_transaction bx a m lt = Inr t \<longrightarrow> owner t = k) \<and>
     (\<forall>u t. owner (bx_set_now bx u t) = owner t) \<and>
     (\<forall>d t t'. bx_write_description bx d t = Inr t' \<longrightarrow> owner t' = owner t) \<and>
     (\<forall>h h' t t'. bx_write_state_update bx h h' t = Inr t' \<longrightarrow> owner t' = owner t) \<and>
     (\<forall>h lt t. owner (bx_set_prev_trans bx h lt t) = owner t)"

definition same_blocks ::
  "('s, 'c, 'm, 'v, 'q) block_builder \<Rightarrow> ('s, 'c, 'm, 'v, 'q) block_builder \<Rightarrow> bool" where
  "same_blocks bb bb' \<longleftrightarrow> bb_account_blocks bb' = bb_account_blocks bb"

interpretation blocks: step_relation same_blocks
  by unfold_locales (auto simp: same_blocks_def)

lemma blocks_on:
  "blocks.keeps (on_in_descr n)" "blocks.keeps (on_out_descr o1)" "blocks.keeps (on_copyleft l)"
  by (auto simp: blocks.keeps_def same_blocks_def on_in_descr_def on_out_descr_def on_copyleft_def
      split: prod.splits)

lemma blocks_new_messages: "blocks.keeps (\<lambda>bb. (r, bb\<lparr>bb_new_messages := f bb\<rparr>))"
  by (simp add: blocks.keeps_def same_blocks_def)

lemmas blocks_steps = blocks.keeps_intros blocks_on blocks_new_messages

lemma blocks_add_out_msgs: "blocks.keeps (add_out_msgs bx c ms)"
proof (induction bx c ms rule: add_out_msgs.induct)
  case (4 bx tr_cell msg ms)
  then show ?case by (auto simp: Let_def split: option.splits intro!: blocks_steps)
qed (auto intro: blocks_steps)

lemma blocks_add_in_msg: "blocks.keeps (add_in_msg bx c d)"
  unfolding add_in_msg_def by (intro blocks_steps)

lemma add_raw_transaction_blocks:
  "bb_account_blocks (snd (add_raw_transaction bx t c bb)) = snd (bx_add_transaction bx t c (bb_account_blocks bb))"
proof -
  let ?rest = "bindS (case bx_copyleft_reward bx t of
          Some (address, reward) \<Rightarrow> on_copyleft (bx_add_copyleft bx address reward)
        | None \<Rightarrow> retS ()) (\<lambda>_.
     bindS (case bx_in_msg_cell bx t of
          Some msg_cell \<Rightarrow> add_in_msg bx msg_cell c
        | None \<Rightarrow> retS ()) (\<lambda>_.
     add_out_msgs bx c (bx_out_msgs bx t)))"
  have "blocks.keeps ?rest"
    by (auto intro!: blocks_steps blocks_add_in_msg blocks_add_out_msgs split: option.split prod.split)
  then have rest: "bb_account_blocks (snd (?rest b)) = bb_account_blocks b" for b
    by (simp add: blocks.keeps_def same_blocks_def)
  obtain q v where "bx_add_transaction bx t c (bb_account_blocks bb) = (q, v)" by (metis prod.exhaust)
  then show ?thesis
    using rest [of "bb\<lparr>bb_account_blocks := v\<rparr>"]
    unfolding add_raw_transaction_def by (cases q) (simp_all add: bindS_def on_account_blocks_def)
qed

text \<open>The empty account: it has no time of a last transaction, and setting one has no effect.\<close>

definition empty_account_ok :: "('s, 'b, 'c, 'm, 't, 'v, 'q) builder_lib \<Rightarrow> bool" where
  "empty_account_ok bx \<longleftrightarrow>
     (let root = bx_account_cell bx (bx_default_shard_account bx) in
      bx_last_trans_lt bx (bx_default_shard_account bx) = 0 \<and>
      (\<exists>acc. bx_account_of_cell bx root = Inr acc \<and> bx_account_is_none bx acc \<and>
         bx_last_tr_time bx acc = None \<and> (\<forall>lt. bx_set_last_tr_time bx lt acc = acc) \<and>
         bx_account_to_cell bx acc = Inr root))"

text \<open>An external message that the executor refuses to import for want of funds.\<close>

definition refused_for_funds :: "('s, 'b, 'c, 'm, 't, 'v, 'q) builder_lib \<Rightarrow> 'm \<Rightarrow> bool" where
  "refused_for_funds bx m \<longleftrightarrow> bx_msg_lt bx m = None \<and>
     (\<forall>ps. let root = bx_account_cell bx (bx_default_shard_account bx); run = bx_execute bx m root ps in
        er_result run = Inl NoFundsToImportMsg \<and> er_acc_root run = root)"

lemma aborted_transaction_owner:
  assumes "keyed_by_time bx entry owner" "bx_dst_account bx m = Some k"
    and "aborted_transaction bx u m last_lt err root trace = Inr (t, lt, tr, root')"
    and "bx_account_of_cell bx root = Inr a" "\<And>lt. bx_set_last_tr_time bx lt a = a" "bx_account_is_none bx a"
  shows "owner t = k"
proof -
  obtain t1 t2 d where "bx_new_transaction bx a m lt = Inr t1" "bx_write_description bx d (bx_set_now bx u t1) = Inr t2"
      "bx_write_state_update bx (bx_repr_hash bx root) (bx_repr_hash bx root') t2 = Inr t"
    using assms(3-5) by (auto simp: aborted_transaction_def bindR_eq_Inr Let_def)
  with assms(1,2,6) show ?thesis unfolding keyed_by_time_def by metis
qed

lemma refused_execute:
  assumes "ledger_ok bx" "keyed_by_time bx entry owner" "empty_account_ok bx" "refused_for_funds bx m"
    and "bx_account bx k (bb_accounts bb) = Inr None" "bb_accounts_provider bb = None"
    and "bx_dst_account bx m = Some k" "builder_execute bx m k bb = (Inr (), bb')"
  shows "\<exists>t c. bb_account_blocks bb' = snd (bx_add_transaction bx t c (bb_account_blocks bb)) \<and>
    bx_transaction_cell bx t = Inr c \<and> owner t = k \<and> bx_logical_time bx t = max (bb_start_lt bb) 1 \<and>
    bx_account bx k (bb_accounts bb') = Inr None \<and> bb_accounts_provider bb' = None \<and>
    bb_start_lt bb' = bb_start_lt bb"
proof -
  have same: "bb_accounts_provider bb' = None" "bb_start_lt bb' = bb_start_lt bb"
    using block.keepsD [OF block_execute assms(8)] assms(6) by (simp_all add: same_block_def)
  from assms(8) show ?thesis
  proof (cases rule: execute_cases)
    case (stored acc t lt trace root bb1 cell bb2 r3 bb3)
    let ?def = "bx_default_shard_account bx"
    let ?t = "bx_set_prev_trans bx (bx_last_trans_hash bx acc) (bx_last_trans_lt bx acc) t"
    have acc: "acc = ?def" using stored(1) assms(5,6) by (simp add: find_account_def)
    obtain a where a: "bx_last_trans_lt bx ?def = 0" "bx_account_of_cell bx (bx_account_cell bx ?def) = Inr a"
        "bx_account_is_none bx a" "bx_last_tr_time bx a = None" "\<And>lt. bx_set_last_tr_time bx lt a = a"
        "bx_account_to_cell bx a = Inr (bx_account_cell bx ?def)"
      using assms(3) by (auto simp: empty_account_ok_def Let_def)
    from stored(2) assms(4) acc a
    have ab: "aborted_transaction bx (bi_gen_utime (bb_block_info bb)) m (max (bb_start_lt bb) 1) NoFundsToImportMsg
        (bx_account_cell bx ?def) (map trace_info_from (er_trace (bx_execute bx m (bx_account_cell bx ?def)
          \<lparr>ep_block_unixtime = bi_gen_utime (bb_block_info bb), ep_block_lt = bb_start_lt bb,
           ep_last_tr_lt = max (bb_start_lt bb) 1, ep_seed_block = bb_rand_seed bb, ep_debug = True,
           ep_signature_id = bx_state_global_id bx (bb_shard_state bb)\<rparr>))) = Inr (t, lt, trace, root)"
      by (simp add: try_prepare_transaction_def at_and_lt_def refused_for_funds_def Let_def)
    have msg: "bx_msg_lt bx m = None" using assms(4) by (simp add: refused_for_funds_def)
    have lt: "lt = max (bb_start_lt bb) 1" "root = bx_account_cell bx ?def"
      using ab a msg by (auto simp: aborted_transaction_def bindR_eq_Inr Let_def max_def)
    have "bx_logical_time bx t = lt"
      using aborted_transaction_lt [OF _ ab] assms(1) by (simp add: ledger_ok_def)
    then have time: "bx_logical_time bx ?t = max (bb_start_lt bb) 1"
      using assms(1) lt(1) by (simp add: ledger_ok_def transactions_ok_def)
    have "owner t = k" using aborted_transaction_owner [OF assms(2,7) ab a(2,5,3)] .
    then have owner: "owner ?t = k" using assms(2) by (simp add: keyed_by_time_def)
    have gone: "bx_account bx k (bb_accounts bb') = Inr None"
      using store_account_effect(1) [OF _ stored(7), of k] stored(8,9) assms(1) a lt(2)
      by (simp add: ledger_ok_def same_ledger_def stored_account_def)
    have "bb_account_blocks bb' = snd (bx_add_transaction bx ?t cell (bb_account_blocks bb))"
      using stored(10,11) by (simp add: add_raw_transaction_blocks)
    with time owner gone same stored(3) show ?thesis by blast
  qed simp
qed

text \<open>\<^bold>\<open>C22\<close>. Two external messages of one block to an account that does not exist, which the
  executor refuses for want of funds, make two transactions with the same logical time (the
  account is not stored, so the second starts from the same time as the first). The block keeps
  its transactions in a dictionary under account and logical time, so that both messages together
  leave at most one entry: when both are entered the second transaction replaces the first.\<close>

theorem missing_account_repeats_logical_time:
  assumes "ledger_ok bx" "keyed_by_time bx entry owner" "empty_account_ok bx"
    and "bx_account bx k (bb_accounts bb) = Inr None" "bb_accounts_provider bb = None"
    and "mq_dequeue (bx_dst_workchain bx) wc q = (Some m1, q1)" "mq_dequeue (bx_dst_workchain bx) wc q1 = (Some m2, q2)"
      "mq_dequeue (bx_dst_workchain bx) wc q2 = (None, q3)"
    and "bx_dst_account bx m1 = Some k" "refused_for_funds bx m1" "builder_execute bx m1 k bb = (Inr (), bb1)"
    and "bx_dst_account bx m2 = Some k" "refused_for_funds bx m2" "builder_execute bx m2 k bb1 = (Inr (), bb2)"
    and "\<not> is_limits_reached bb1" "\<not> is_limits_reached bb2"
  shows "import_external bx wc e (bb, q) = (Inr (False, False), (bb2, q3)) \<and>
    (\<exists>t1 c1 t2 c2 r v. bx_transaction_cell bx t1 = Inr c1 \<and> bx_transaction_cell bx t2 = Inr c2 \<and>
       bx_logical_time bx t1 = bx_logical_time bx t2 \<and> owner t1 = k \<and> owner t2 = k \<and>
       bb_account_blocks bb1 = snd (bx_add_transaction bx t1 c1 (bb_account_blocks bb)) \<and>
       bx_add_transaction bx t2 c2 (bb_account_blocks bb1) = (r, v) \<and> bb_account_blocks bb2 = v \<and>
       (if r = Inr ()
        then entry v = (entry (bb_account_blocks bb))((k, bx_logical_time bx t1) \<mapsto> c2)
        else entry v = entry (bb_account_blocks bb1)))"
proof -
  obtain t1 c1 where t1: "bb_account_blocks bb1 = snd (bx_add_transaction bx t1 c1 (bb_account_blocks bb))"
      "bx_transaction_cell bx t1 = Inr c1" "owner t1 = k"
      "bx_logical_time bx t1 = max (bb_start_lt bb) 1" "bx_account bx k (bb_accounts bb1) = Inr None"
      "bb_accounts_provider bb1 = None" "bb_start_lt bb1 = bb_start_lt bb"
    using refused_execute [OF assms(1-3,10,4,5,9,11)] by blast
  obtain t2 c2 where t2: "bb_account_blocks bb2 = snd (bx_add_transaction bx t2 c2 (bb_account_blocks bb1))"
      "bx_transaction_cell bx t2 = Inr c2" "owner t2 = k" "bx_logical_time bx t2 = max (bb_start_lt bb1) 1"
    using refused_execute [OF assms(1-3,13) t1(5,6) assms(12,14)] by blast
  obtain r v where add: "bx_add_transaction bx t2 c2 (bb_account_blocks bb1) = (r, v)" by (metis prod.exhaust)
  obtain r1 v1 where add1: "bx_add_transaction bx t1 c1 (bb_account_blocks bb) = (r1, v1)" by (metis prod.exhaust)
  note entered = assms(2) [unfolded keyed_by_time_def, THEN conjunct1, rule_format]
  have "if r = Inr () then entry v = (entry (bb_account_blocks bb))((k, bx_logical_time bx t1) \<mapsto> c2)
      else entry v = entry (bb_account_blocks bb1)"
    using entered [OF add] entered [OF add1] add1 t1 t2 by auto
  moreover have "import_external bx wc e (bb, q) = (Inr (False, False), (bb2, q3))"
    using assms(6-9,11,12,14-16) by (simp add: import_external.simps)
  ultimately show ?thesis using t1 t2 add by (intro conjI exI [of _ t1] exI [of _ c1] exI [of _ t2]
      exI [of _ c2] exI [of _ r] exI [of _ v]) simp_all
qed

end
