(* ===== verification/Fork_Accounts.thy ===== *)
theory Fork_Accounts
  imports Fork_Provider Account_Chain
begin

text \<open>
  The accounts of a forked network in the collator: what a block makes of an account that the
  endpoint gave, and from when on the endpoint has no say in it.
\<close>

section \<open>Steps that do not look at the provider\<close>

abbreviation with_provider ::
  "('v \<Rightarrow> 'v option res) option \<Rightarrow> ('s, 'c, 'm, 'v, 'q) block_builder \<Rightarrow> ('s, 'c, 'm, 'v, 'q) block_builder" where
  "with_provider p bb \<equiv> bb\<lparr>bb_accounts_provider := p\<rparr>"

text \<open>The step does the same under every provider.\<close>

definition blind where
  "blind m \<longleftrightarrow> (\<forall>p bb. m (with_provider p bb) = map_prod id (with_provider p) (m bb))"

named_theorems blind_intros

lemma blindI: "(\<And>p bb. m (with_provider p bb) = map_prod id (with_provider p) (m bb)) \<Longrightarrow> blind m"
  by (simp add: blind_def)

lemma blindD: "blind m \<Longrightarrow> m (with_provider p bb) = map_prod id (with_provider p) (m bb)"
  by (simp add: blind_def)

lemma blind_retS [blind_intros]: "blind (retS x)"
  by (rule blindI) (simp add: retS_def)

lemma blind_liftS [blind_intros]: "blind (liftS r)"
  by (rule blindI) (simp add: liftS_def)

lemma blind_bindS [blind_intros]:
  assumes "blind m" "\<And>x. blind (f x)"
  shows "blind (bindS m f)"
proof (rule blindI)
  fix p bb
  obtain r b where m: "m bb = (r, b)" by (metis prod.exhaust)
  then show "bindS m f (with_provider p bb) = map_prod id (with_provider p) (bindS m f bb)"
    using blindD [OF assms(1), of p bb] blindD [OF assms(2), of _ p b]
    by (cases r) (simp_all add: bindS_def)
qed

lemma blind_if [blind_intros]: "blind a \<Longrightarrow> blind b \<Longrightarrow> blind (if c then a else b)"
  by simp

lemma blind_option [blind_intros]:
  "blind a \<Longrightarrow> (\<And>x. blind (f x)) \<Longrightarrow> blind (case z of None \<Rightarrow> a | Some x \<Rightarrow> f x)"
  by (cases z) simp_all

lemma blind_Let [blind_intros]: "blind (f x) \<Longrightarrow> blind (let y = x in f y)"
  by simp

lemma blind_on [blind_intros]:
  "blind (on_accounts a)" "blind (on_in_descr i)" "blind (on_out_descr j)" "blind (on_account_blocks b)"
  "blind (on_copyleft l)" "blind (on_out_queue q)"
  by (auto intro!: blindI simp: on_accounts_def on_in_descr_def on_out_descr_def on_account_blocks_def
      on_copyleft_def on_out_queue_def split: prod.split)

lemma blind_new_messages [blind_intros]:
  "blind (\<lambda>bb. (Inr (), bb\<lparr>bb_new_messages := bb_new_messages bb @ x\<rparr>))"
  by (rule blindI) simp

lemma blind_add_out_msgs [blind_intros]: "blind (add_out_msgs bx c ms)"
  by (induction bx c ms rule: add_out_msgs.induct) (auto intro!: blind_intros simp: Let_def)

lemma blind_add_in_msg [blind_intros]: "blind (add_in_msg bx c d)"
  unfolding add_in_msg_def by (intro blind_intros)

lemma blind_add_raw_transaction: "blind (add_raw_transaction bx t c)"
  unfolding add_raw_transaction_def by (auto intro!: blind_intros split: option.split prod.split)

lemma blind_store_account [blind_intros]: "blind (store_account bx k root c t)"
  unfolding store_account_def by (intro blind_intros)

lemma blind_try_prepare: "blind (try_prepare_transaction bx root m lt)"
  by (rule blindI) (auto simp: try_prepare_transaction_def at_and_lt_def Let_def split: sum.split option.split)

section \<open>An account that the shard has\<close>

text \<open>The account that a message finds in the shard's dictionary decides, and not the provider.\<close>

lemma execute_on_own_account:
  assumes "bx_account bx k (bb_accounts bb) = Inr (Some acc)"
  shows "builder_execute bx m k (with_provider p bb) = map_prod id (with_provider p) (builder_execute bx m k bb)"
proof -
  let ?b0 = "bb\<lparr>bb_total_message_processed := Suc (bb_total_message_processed bb)\<rparr>"
  define body where "body = bindS (\<lambda>bb. try_prepare_transaction bx (bx_account_cell bx acc) m
          (max (bb_start_lt bb) (bx_last_trans_lt bx acc + 1)) bb)
        (\<lambda>(transaction, max_lt, trace, acc_root).
      bindS (\<lambda>bb. (Inr (), bb\<lparr>bb_end_lt := max (bb_end_lt bb) max_lt\<rparr>)) (\<lambda>_.
      let transaction = bx_set_prev_trans bx (bx_last_trans_hash bx acc)
            (bx_last_trans_lt bx acc) transaction in
      bindS (liftS (lib_try (bx_transaction_cell bx transaction))) (\<lambda>tr_cell.
      bindS (\<lambda>bb. (Inr (), case trace of
            Some t \<Rightarrow> bb\<lparr>bb_transaction_traces :=
                (bb_transaction_traces bb)(bx_repr_hash bx tr_cell \<mapsto> t)\<rparr>
          | None \<Rightarrow> bb)) (\<lambda>_.
      bindS (liftS (lib_try (bx_is_aborted bx transaction))) (\<lambda>_.
      bindS (store_account bx k acc_root tr_cell transaction) (\<lambda>_ bb.
      (Inr (), snd (add_raw_transaction bx transaction tr_cell bb))))))))"
  have run: "builder_execute bx m k b = body (b\<lparr>bb_total_message_processed := Suc (bb_total_message_processed b)\<rparr>)"
    if "bx_account bx k (bb_accounts b) = Inr (Some acc)" for b
    using that unfolding body_def by (simp add: builder_execute_def Let_def bindS_def find_account_def)
  have prepare: "blind (\<lambda>bb. try_prepare_transaction bx c m (max (bb_start_lt bb) l) bb)" for c l
    by (rule blindI) (simp add: blindD [OF blind_try_prepare])
  have final: "blind (\<lambda>bb. (Inr (), snd (add_raw_transaction bx t c bb)))" for t c
    by (rule blindI) (simp add: blindD [OF blind_add_raw_transaction])
  have lt: "blind (\<lambda>bb. (Inr (), bb\<lparr>bb_end_lt := max (bb_end_lt bb) l\<rparr>))" for l
    by (rule blindI) simp
  have traces: "blind (\<lambda>bb. (Inr (), case z of Some t \<Rightarrow> bb\<lparr>bb_transaction_traces := (bb_transaction_traces bb)(h \<mapsto> t)\<rparr>
      | None \<Rightarrow> bb))" for z h by (rule blindI) (simp split: option.split)
  have "blind body"
    unfolding body_def
    by (intro blind_intros prepare, clarsimp simp: Let_def split: prod.split)
      (intro blind_intros lt traces final)
  then have free: "body (with_provider p ?b0) = map_prod id (with_provider p) (body ?b0)" by (rule blindD)
  have count: "(with_provider p bb)\<lparr>bb_total_message_processed := Suc (bb_total_message_processed (with_provider p bb))\<rparr> =
      with_provider p ?b0" by simp
  have "bx_account bx k (bb_accounts (with_provider p bb)) = Inr (Some acc)" using assms by simp
  from run [OF this] show ?thesis unfolding run [OF assms] count free .
qed

section \<open>An account from the endpoint\<close>

text \<open>An account that the library makes of a root has the last transaction it is given; a new
  account has none.\<close>

definition roots_ok ::
  "('j, 'b2, 'y, 'p, 'g, 'c, 'v) fork_lib \<Rightarrow> ('s, 'b, 'c, 'm, 't, 'v, 'q) builder_lib \<Rightarrow> bool" where
  "roots_ok fk bx \<longleftrightarrow>
     (\<forall>root h lt. bx_last_trans_hash bx (fk_account_with_root fk root h lt) = h \<and>
        bx_last_trans_lt bx (fk_account_with_root fk root h lt) = lt) \<and>
     bx_last_trans_hash bx (bx_default_shard_account bx) = 0 \<and>
     bx_last_trans_lt bx (bx_default_shard_account bx) = 0"

lemma get_account_root:
  assumes "get_account fk fp address = Inr (Some acc)"
  shows "\<exists>root. acc = fk_account_with_root fk root 0 0"
  using assms by (auto simp: get_account_def bindR_eq_Inr split: option.splits)

lemma foreign_account_unchained:
  assumes "roots_ok fk bx" "bx_account bx k (bb_accounts bb) = Inr None"
    and "bb_accounts_provider bb = Some (get_account fk fp)" "find_account bx k bb = Inr acc"
  shows "bx_last_trans_hash bx acc = 0 \<and> bx_last_trans_lt bx acc = 0"
proof -
  obtain address found where "get_account fk fp address = Inr found"
      "acc = (case found of Some a \<Rightarrow> a | None \<Rightarrow> bx_default_shard_account bx)"
    using assms(2-4) by (auto simp: find_account_def bindR_eq_Inr)
  with assms(1) show ?thesis
    by (cases found) (auto simp: roots_ok_def dest!: get_account_root)
qed

lemma execute_chained:
  assumes "ledger_ok bx" "builder_execute bx m k bb = (Inr (), bb1)" "find_account bx k bb = Inr acc"
    and "bx_account bx k (bb_accounts bb1) = Inr (Some own)"
  shows "\<exists>t c. bx_transaction_cell bx (bx_set_prev_trans bx (bx_last_trans_hash bx acc) (bx_last_trans_lt bx acc) t) =
      Inr c \<and> bx_last_trans_hash bx own = bx_repr_hash bx c \<and> bx_last_trans_lt bx own = bx_logical_time bx t"
  using assms(2)
proof (cases rule: execute_cases)
  case (stored acc' t lt trace root bb1' cell bb2 r3 bb3)
  let ?t = "bx_set_prev_trans bx (bx_last_trans_hash bx acc) (bx_last_trans_lt bx acc) t"
  have acc': "acc' = acc" using stored(1) assms(3) by simp
  have "stored_account bx root cell ?t = Some own"
    using store_account_effect(1) [OF _ stored(7), of k] stored(8,9) assms(1,4) acc'
    by (simp add: ledger_ok_def same_ledger_def)
  then have own: "own = bx_shard_account bx root (bx_repr_hash bx cell) (bx_logical_time bx ?t)"
    by (auto simp: stored_account_def split: sum.splits if_splits)
  have "bx_logical_time bx ?t = bx_logical_time bx t" "bx_last_trans_hash bx own = bx_repr_hash bx cell"
      "bx_last_trans_lt bx own = bx_logical_time bx ?t"
    using assms(1) own by (auto simp: ledger_ok_def transactions_ok_def accounts_ok_def)
  then show ?thesis using stored(3) acc' by auto
qed simp


end
