(* ===== verification/Fork_Outage.thy ===== *)
theory Fork_Outage
  imports Fork_Provider Engine_Props
begin

text \<open>
  What becomes of the messages of a forked node while its endpoint cannot be reached: an external
  message that needs an account of the endpoint is taken from the queue and lost, an outbound
  message that needs one holds up the whole node.
\<close>

section \<open>An account that cannot be fetched\<close>

text \<open>The endpoint fails for the account: the shard has none of its own, and the answer to the
  request for it is an error.\<close>

definition unreachable ::
  "('s, 'b, 'c, 'm, 't, 'v, 'q) builder_lib \<Rightarrow> ('v \<Rightarrow> 'v option res) option \<Rightarrow> i32 \<Rightarrow> 'v \<Rightarrow> 'v \<Rightarrow>
   node_error \<Rightarrow> bool" where
  "unreachable bx provider wc accounts k e \<longleftrightarrow>
     bx_account bx k accounts = Inr None \<and>
     (\<exists>get address. provider = Some get \<and> bx_std_address bx (ucast wc) k = Inr address \<and>
        get address = Fail e)"

lemma unreachable_find:
  "unreachable bx (bb_accounts_provider bb) (si_workchain_id (bb_shard_ident bx bb)) (bb_accounts bb) k e \<Longrightarrow>
   find_account bx k bb = Fail e"
  by (auto simp: unreachable_def find_account_def)

lemma unreachable_execute:
  assumes "unreachable bx (bb_accounts_provider bb) (si_workchain_id (bb_shard_ident bx bb)) (bb_accounts bb) k e"
  shows "builder_execute bx m k bb =
    (Fail e, bb\<lparr>bb_total_message_processed := Suc (bb_total_message_processed bb)\<rparr>)"
proof -
  let ?b0 = "bb\<lparr>bb_total_message_processed := Suc (bb_total_message_processed bb)\<rparr>"
  have "find_account bx k ?b0 = Fail e"
    using assms by (intro unreachable_find) (simp add: bb_shard_ident_def)
  then show ?thesis by (simp add: builder_execute_def bindS_def Let_def)
qed

text \<open>A request that is not answered.\<close>

lemma no_answer:
  "fk_send fk (query_request (fk_json fk) fp account_query (address_variables fk address)) = Inl err \<Longrightarrow>
   get_account fk fp address = fetch_error err"
  by (simp add: get_account_def account_query_def address_variables_def fork_query_def)

section \<open>An external message\<close>

lemma finalize_block_count: "finalize_block bx (bb\<lparr>bb_total_message_processed := n\<rparr>) = finalize_block bx bb"
  by (simp add: finalize_block_def Let_def)

text \<open>\<^bold>\<open>C37\<close>. On a forked node whose endpoint does not answer, an accepted message to an account
  that the shard does not have yet is lost: the block that is built has taken the message from the
  queue and is not marked as empty, but it is the block without any transaction.\<close>

theorem unanswered_request_loses_message:
  assumes "builder_with_params bx seed st prev time mode limit (Some (get_account fk fp)) = Inr bb"
    and "bx_queue_len bx (bb_out_queue_info bb) = Inr len" "bx_queue_iter bx (bb_out_queue_info bb) = []"
    and "mq_dequeue (bx_dst_workchain bx) (si_workchain_id (bx_state_shard bx st)) q = (Some m, q1)"
      "mq_dequeue (bx_dst_workchain bx) (si_workchain_id (bx_state_shard bx st)) q1 = (None, q1)"
    and "bx_dst_account bx m = Some k" "bx_account bx k (bb_accounts bb) = Inr None"
      "bx_std_address bx (ucast (si_workchain_id (bx_state_shard bx st))) k = Inr address"
    and "fk_send fk (query_request (fk_json fk) fp account_query (address_variables fk address)) = Inl err"
  shows "mq_len q = Suc (mq_len q1) \<and>
    build_block bx bb q =
      Some (bindR (finalize_block bx bb) (\<lambda>(block, state).
        Inr \<lparr>prep_block = block, prep_state = state, prep_is_empty = False, prep_traces = Map.empty\<rparr>), q1)"
proof -
  note new = builder_new_start [OF assms(1)]
  have prov: "bb_accounts_provider bb = Some (get_account fk fp)" "bb_transaction_traces bb = Map.empty"
    using assms(1) by (auto simp: builder_with_params_def bindR_eq_Inr Let_def)
  have ident: "bb_shard_ident bx bb = bx_state_shard bx st" using new(6) by (simp add: bb_shard_ident_def)
  let ?bb = "bb\<lparr>bb_total_message_processed := 1\<rparr>"
  have exec: "builder_execute bx m k bb = (fetch_error err, ?bb)"
    using unreachable_execute [of bx bb k _ m] assms(7,8) prov(1) ident no_answer [OF assms(9)] new(3)
    by (simp add: unreachable_def)
  have "sorted_out_queue bx (bb_out_queue_info bb) = Inr []"
    using assms(2,3) by (simp add: sorted_out_queue_def)
  then have "import_messages bx (bb, q) = (Inr (False, is_limits_reached ?bb), (?bb, q1))"
    using assms(4,5,6) exec ident
    by (simp add: import_messages_def retS_def import_external.simps [of bx _ True]
        import_external.simps [of bx _ False])
  then have "build_messages bx (bb, q) = Some (Inr False, (?bb, q1))"
    using new(1) by (simp add: build_messages_def process_new.simps)
  moreover have "mq_len q = Suc (mq_len q1)"
    using mq_dequeue_Some_shorter [OF assms(4)] by (simp add: mq_len_def)
  moreover have "finalize_block bx (?bb\<lparr>bb_transaction_traces := Map.empty\<rparr>) = finalize_block bx bb"
    using prov(2) by (simp add: finalize_block_def Let_def)
  ultimately show ?thesis
    using prov(2) by (simp add: build_block_def Let_def)
qed

section \<open>An outbound message\<close>

text \<open>The oldest message of the outbound queue needs an account that cannot be fetched.\<close>

definition outbound_blocked ::
  "('k, 's, 'b, 'c, 'm, 't, 'v, 'q, 'j, 'd, 'x, 'y, 'g, 'p) chain_env \<Rightarrow> ('k, 's, 'b, 'v) shardchain \<Rightarrow> bool" where
  "outbound_blocked ce sc \<longleftrightarrow>
     (\<exists>queue key enq lt rest env m k accounts e.
        bx_read_out_queue (ce_builder ce) (sc_head sc) = Inr queue \<and>
        sorted_out_queue (ce_builder ce) queue = Inr ((key, enq, lt) # rest) \<and>
        bx_enq_out_msg (ce_builder ce) enq = Inr env \<and> bx_env_message (ce_builder ce) env = Inr m \<and>
        bx_dst_account (ce_builder ce) m = Some k \<and>
        bx_read_accounts (ce_builder ce) (sc_head sc) = Inr accounts \<and>
        unreachable (ce_builder ce) (sc_accounts_provider sc) (sc_workchain ce sc) accounts k e)"

lemma build_blocked:
  assumes "outbound_blocked ce sc"
    and "builder_with_params (ce_builder ce) seed (sc_head sc) prev t mode (sc_block_gas_limit sc)
      (sc_accounts_provider sc) = Inr bb"
  shows "\<exists>e. build_block (ce_builder ce) bb q = Some (Inl e, q)"
proof -
  let ?bx = "ce_builder ce"
  obtain queue key enq lt rest env m k accounts e where b:
      "bx_read_out_queue ?bx (sc_head sc) = Inr queue" "sorted_out_queue ?bx queue = Inr ((key, enq, lt) # rest)"
      "bx_enq_out_msg ?bx enq = Inr env" "bx_env_message ?bx env = Inr m" "bx_dst_account ?bx m = Some k"
      "bx_read_accounts ?bx (sc_head sc) = Inr accounts"
      "unreachable ?bx (sc_accounts_provider sc) (sc_workchain ce sc) accounts k e"
    using assms(1) unfolding outbound_blocked_def by blast
  have bb: "bb_accounts bb = accounts" "bb_out_queue_info bb = queue"
      "bb_accounts_provider bb = sc_accounts_provider sc"
      "si_workchain_id (bb_shard_ident ?bx bb) = sc_workchain ce sc"
    using assms(2) b(1,6) builder_new_ident [OF assms(2)]
    by (auto simp: builder_with_params_def bindR_eq_Inr Let_def sc_workchain_def sc_shard_def)
  have exec: "builder_execute ?bx m k bb =
      (Fail e, bb\<lparr>bb_total_message_processed := Suc (bb_total_message_processed bb)\<rparr>)"
    using unreachable_execute [of ?bx bb k e m] b(7) bb by simp
  have "\<exists>bb'. import_internal ?bx ((key, enq, lt) # rest) True bb = (Fail e, bb')"
    using b(3,4,5) by (simp add: bindS_Inl [where m = "builder_execute ?bx m k", OF exec])
  then have "\<exists>bb'. build_messages ?bx (bb, q) = Some (Fail e, (bb', q))"
    using b(2) bb(2) by (auto simp: build_messages_def import_messages_def)
  then show ?thesis by (auto simp: build_block_def)
qed

lemma workchain_blocked:
  fixes w :: "('m, 'd) node_world"
  assumes "outbound_blocked wce (en_workchain n)"
  shows "\<exists>e w'. workchain_block mce wce no t (n, w) = Some (Inl e, (n, w')) \<and> nw_queue w' = nw_queue w"
proof -
  have "\<exists>e w'. sc_build_block wce t (time_mode n) (en_workchain n) w = Some (Inl e, w') \<and> nw_queue w' = nw_queue w"
  proof (cases "get_last_info (ce_blocks wce) (sc_block_finality (en_workchain n))")
    case (Inl e)
    then show ?thesis by (simp add: sc_build_block_def)
  next
    case (Inr x)
    obtain st prev where x: "x = (st, prev)" by (cases x)
    have st: "st = sc_head (en_workchain n)" using get_last_info_head Inr x by metis
    show ?thesis
    proof (cases "builder_with_params (ce_builder wce) (shd (nw_seeds w)) st prev t (time_mode n)
        (sc_block_gas_limit (en_workchain n)) (sc_accounts_provider (en_workchain n))")
      case (Inl e)
      with Inr x show ?thesis by (simp add: sc_build_block_def)
    next
      case b: (Inr bb)
      obtain e where "build_block (ce_builder wce) bb (nw_queue w) = Some (Inl e, nw_queue w)"
        using build_blocked [OF assms b [unfolded st]] by blast
      with Inr x b show ?thesis by (simp add: sc_build_block_def)
    qed
  qed
  then obtain e w' where "sc_build_block wce t (time_mode n) (en_workchain n) w = Some (Inl e, w')"
      "nw_queue w' = nw_queue w" by blast
  then show ?thesis
    by (simp add: workchain_block_def on_workchain_def sc_generate_block_def bindO_def)
qed

lemma execute_blocked:
  fixes w :: "('m, 'd) node_world"
  assumes "outbound_blocked wce (en_workchain n)"
  shows "\<exists>e w'. execute_queued_messages mce wce (n, w) = Some (Inl e, (n, w')) \<and> nw_queue w' = nw_queue w"
proof -
  have round: "\<exists>e w'. chain_round mce wce t (n, w1) = Some (Inl e, (n, w')) \<and> nw_queue w' = nw_queue w1"
    for t and w1 :: "('m, 'd) node_world"
  proof (cases "mc_next_seq_no mce (en_masterchain n)")
    case (Inl e)
    then show ?thesis by (simp add: chain_round_def)
  next
    case (Inr no)
    obtain e w' where "workchain_block mce wce no t (n, w1) = Some (Inl e, (n, w'))" "nw_queue w' = nw_queue w1"
      using workchain_blocked [OF assms] by blast
    with Inr show ?thesis
      by (simp add: chain_round_def bindO_def workchain_blocks.simps [of mce wce no t False])
  qed
  obtain t w1 where t: "get_next_time n w = (t, w1)" "nw_queue w1 = nw_queue w"
    by (auto simp: get_next_time_def)
  from round [of t w1] t show ?thesis
    by (auto simp: execute_queued_messages_def execute_rounds.simps [of mce wce t])
qed

text \<open>What the steps of the thread and of the API keep of it.\<close>

definition stuck where
  "stuck wce n0 w0 st \<longleftrightarrow>
     (case st of (n, w) \<Rightarrow>
        en_workchain n = en_workchain n0 \<and> en_masterchain n = en_masterchain n0 \<and>
        (\<exists>later. mq_storage (nw_queue w) = mq_storage (nw_queue w0) @ later))"

lemma stuck_step:
  assumes "outbound_blocked wce (en_workchain n0)" "stuck wce n0 w0 (snd x)" "run_step mce wce x y"
  shows "stuck wce n0 w0 (snd y)"
  using assms(3)
proof (cases rule: run_step.cases)
  case (round_again st r st')
  obtain n w where st: "st = (n, w)" by (cases st)
  with assms(1,2) round_again have "outbound_blocked wce (en_workchain n)" by (simp add: stuck_def)
  from execute_blocked [OF this, of mce w] round_again st assms(2) show ?thesis by (auto simp: stuck_def)
next
  case (round_wait st r st')
  obtain n w where st: "st = (n, w)" by (cases st)
  with assms(1,2) round_wait have "outbound_blocked wce (en_workchain n)" by (simp add: stuck_def)
  from execute_blocked [OF this, of mce w] round_wait st assms(2) show ?thesis by (auto simp: stuck_def)
next
  case (api_queue msg st st' p)
  obtain n w n' w' where st: "st = (n, w)" "st' = (n', w')" by (metis prod.exhaust)
  from enqueue_message_Inr [OF api_queue(3) [unfolded st]] api_queue st assms(2) show ?thesis
    by (auto simp: stuck_def)
qed (use assms(2) in \<open>auto simp: stuck_def mq_stop_def set_time_mode_def increase_time_delta_def reset_time_delta_def\<close>)

text \<open>\<^bold>\<open>C36\<close>. As long as the endpoint does not answer for the account of the oldest outbound
  message, the node makes no block of either chain, whatever messages arrive and however often
  the engine tries: both chains stay as they are and no message leaves the inbound queue.\<close>

theorem blocked_outbound_message_stops_node:
  assumes "outbound_blocked wce (en_workchain n)"
    and "run_reaches mce wce (p0, (n, w)) (p, (n', w'))"
  shows "en_workchain n' = en_workchain n \<and> en_masterchain n' = en_masterchain n \<and>
    (\<exists>later. mq_storage (nw_queue w') = mq_storage (nw_queue w) @ later)"
proof -
  have "stuck wce n w (snd x)" if "run_reaches mce wce (p0, (n, w)) x" for x
    using that
  proof (induction "(p0, (n, w))" x rule: run_reaches.induct)
    case start
    show ?case by (simp add: stuck_def)
  next
    case (step y z)
    from stuck_step [OF assms(1) step.hyps(2,3)] show ?case .
  qed
  from this [OF assms(2)] show ?thesis by (simp add: stuck_def)
qed

end
