(* ===== verification/Message_Flow.thy ===== *)
theory Message_Flow
  imports Run_Log Message_Api
begin

text \<open>
  The way of a message from the request to the chains: the receiver and the engine on one queue.
\<close>

section \<open>A request nobody else interferes with\<close>

definition nobody :: "'m others" where
  "nobody = sconst id"

lemma nobody_sel [simp]: "shd nobody = id" "stl nobody = nobody"
  by (simp_all add: nobody_def)

lemma put_last_append: "put_last m q = q\<lparr>mq_storage := mq_storage q @ [m]\<rparr>"
  by (simp add: put_last_def)

lemma submit_alone:
  assumes "\<not> mq_stopped q" "length (mq_storage q) < mq_capacity q"
  shows "submit m q nobody = Some (True, q\<lparr>mq_storage := mq_storage q @ [m]\<rparr>, nobody)"
  using assms by (subst submit_step) (simp_all add: running_def mq_is_full_def mq_len_def put_last_append)

lemma process_records_alone:
  "\<not> mq_stopped q \<Longrightarrow>
   length (mq_storage q) + length (good_messages (attempts ja ml rs)) \<le> mq_capacity q \<Longrightarrow>
   \<exists>text. process_records ja ml rs q nobody =
     Some ((if list_all (\<lambda>x. \<not> isl x) (attempts ja ml rs) then StatusOk else StatusBadRequest, text),
       q\<lparr>mq_storage := mq_storage q @ good_messages (attempts ja ml rs)\<rparr>, nobody)"
proof (induction rs arbitrary: q)
  case Nil
  then show ?case by (simp add: attempts_def map_filter_simps)
next
  case (Cons r rs)
  show ?case
  proof (cases rule: process_records_cases [of ja ml r rs q "nobody"])
    case skip
    with Cons show ?thesis by (simp add: attempts_Cons)
  next
    case (bad err)
    then show ?thesis by (simp add: attempts_Cons)
  next
    case (good m)
    let ?q = "q\<lparr>mq_storage := mq_storage q @ [m]\<rparr>"
    have "length (mq_storage q) < mq_capacity q"
      using Cons.prems(2) good(1) by (simp add: attempts_Cons)
    then have "process_records ja ml (r # rs) q nobody = process_records ja ml rs ?q nobody"
      using good(2) submit_alone [OF Cons.prems(1)] by simp
    with Cons.IH [of ?q] Cons.prems good(1) show ?thesis
      by (simp add: attempts_Cons)
  qed
qed

section \<open>From the request to the chains\<close>

text \<open>\<^bold>\<open>C6\<close>. A request to a node whose queue has room, followed by a call of the engine that
  succeeds: the messages of a workchain that the node serves, the waiting ones and the posted ones
  behind them, are executed in this order by the collator of their chain, each once, for the blocks
  of the call (\<open>grows\<close>): every block is what the collator makes of the outbound queue and of its
  share of these messages on top of the block before it, and becomes the current block of its chain.
  The messages of any other workchain wait in their order, the posted ones behind, and no chain has
  an outbound message left. The executor may still refuse a message that it is given.\<close>

theorem posted_messages_are_executed:
  assumes "engine_env_ok mce wce" "engine_wf mce wce n"
    and "request_records ja body = Some rs" "\<not> mq_stopped (nw_queue w)"
    and "length (mq_storage (nw_queue w)) + length (good_messages (attempts ja ml rs)) \<le> mq_capacity (nw_queue w)"
    and "process_message_request ja ml body (nw_queue w) nobody = Some (answer, q, others)"
    and "execute_queued_messages mce wce (n, w\<lparr>nw_queue := q\<rparr>) = Some (Inr (), (n', w'))"
  shows "(fst answer = StatusOk) = list_all (\<lambda>x. \<not> isl x) (attempts ja ml rs) \<and>
    (\<exists>log. grows mce wce n log n' \<and>
       (\<forall>wc. let posted = pending (bx_dst_workchain (ce_builder wce)) (nw_queue w) wc @
                for_wc (bx_dst_workchain (ce_builder wce)) wc (good_messages (attempts ja ml rs));
              left = pending (bx_dst_workchain (ce_builder wce)) (nw_queue w') wc in
          if wc \<in> served mce wce n then log_messages wc log = posted \<and> left = []
          else log_messages wc log = [] \<and> left = posted)) \<and>
    nothing_to_do mce wce (n', w')"
proof -
  let ?dst = "bx_dst_workchain (ce_builder wce)"
  have answer: "(fst answer = StatusOk) = list_all (\<lambda>x. \<not> isl x) (attempts ja ml rs)"
    and q: "q = (nw_queue w)\<lparr>mq_storage := mq_storage (nw_queue w) @ good_messages (attempts ja ml rs)\<rparr>"
    using process_records_alone [OF assms(4,5)] assms(3,6)
    by (auto simp: process_message_request_def split: if_splits)
  have posted: "pending ?dst q wc = pending ?dst (nw_queue w) wc @ for_wc ?dst wc (good_messages (attempts ja ml rs))" for wc
    by (simp add: q pending_def for_wc_def)
  have run: "run_keeps mce wce n (w\<lparr>nw_queue := q\<rparr>) (n', w')"
    using execute_keeps [OF assms(1,7,2), of False] by (auto intro: run_inv_keeps)
  have same: "served mce wce n' = served mce wce n" using run_keeps_served [OF run] .
  note rest = execute_done [OF assms(7)]
  obtain log where log: "grows mce wce n log n'"
      "\<And>wc. pending ?dst q wc = log_messages wc log @ pending ?dst (nw_queue w') wc"
    using execute_logged [OF assms(1,7)] by (auto simp: logged_def)
  have mine: "pending ?dst (nw_queue w') wc = []" if "wc \<in> served mce wce n" for wc
    using that rest assms(1) unfolding same [symmetric]
    by (auto simp: served_def nothing_to_do_def sc_idle_def engine_env_ok_def)
  have foreign: "pending ?dst (nw_queue w') wc = pending ?dst q wc" if "wc \<notin> served mce wce n" for wc
    using that run by (simp add: run_keeps_def took_served_def)
  have "if wc \<in> served mce wce n then log_messages wc log = pending ?dst q wc \<and> pending ?dst (nw_queue w') wc = []
      else log_messages wc log = [] \<and> pending ?dst (nw_queue w') wc = pending ?dst q wc" for wc
  proof (cases "wc \<in> served mce wce n")
    case True
    with mine [OF True] log(2) [of wc] show ?thesis by simp
  next
    case False
    have "log_messages wc log = []" using log(2) [of wc] unfolding foreign [OF False] by simp
    with foreign [OF False] False show ?thesis by simp
  qed
  then show ?thesis
    unfolding Let_def posted [symmetric] using answer rest log(1) by (intro conjI exI [of _ log] allI)
qed

end
