(* ===== verification/Example_Ledger.thy ===== *)
theory Example_Ledger
  imports Example_Node Fork_Accounts Fork_Outage Message_Flow
begin

text \<open>
  A small block library with a dictionary of accounts, for the concrete runs of the theorems on
  accounts and on messages: a message names its account and whether the executor refuses it, a
  transaction is its account and its logical time, an account its last transaction, the account
  blocks are the dictionary of the transactions.
\<close>

section \<open>The library\<close>

datatype lv = LvUnit | LvId nat | LvAccounts "(lv \<times> lv) list" | LvAcc "64 word" "256 word" | LvNoAcc
  | LvLog "((lv \<times> 64 word) \<times> lv) list"

fun lv_accounts :: "lv \<Rightarrow> (lv \<times> lv) list" where
  "lv_accounts (LvAccounts xs) = xs"
| "lv_accounts _ = []"

fun lv_log :: "lv \<Rightarrow> ((lv \<times> 64 word) \<times> lv) list" where
  "lv_log (LvLog ts) = ts"
| "lv_log _ = []"

fun lv_last_lt :: "lv \<Rightarrow> 64 word" where
  "lv_last_lt (LvAcc lt h) = lt"
| "lv_last_lt _ = 0"

fun lv_last_hash :: "lv \<Rightarrow> 256 word" where
  "lv_last_hash (LvAcc lt h) = h"
| "lv_last_hash _ = 0"

type_synonym ledger_msg = "nat \<times> bool"

definition ledger_bx :: "(u32 \<times> lv, block_info, lv, ledger_msg, lv \<times> u64, lv, (lv \<times> ledger_msg \<times> u64) list) builder_lib" where
  "ledger_bx =
     \<lparr>bx_read_accounts = (\<lambda>s. Inr (snd s)), bx_read_out_queue = (\<lambda>_. Inr []),
      bx_state_seq_no = fst, bx_state_shard = (\<lambda>_. toy_workchain),
      bx_state_global_id = (\<lambda>_. 0), bx_state_set_seq_no = (\<lambda>n s. (n, snd s)),
      bx_write_accounts = (\<lambda>v s. Inr (fst s, v)), bx_write_out_queue = (\<lambda>_. Inr),
      bx_default_info = toy_info, bx_info_set_seq_no = (\<lambda>n i. Inr (i\<lparr>bi_seq_no := n\<rparr>)),
      bx_info_set_prev = (\<lambda>p i. Inr (i\<lparr>bi_prev := Some p\<rparr>)), bx_block_extra = (\<lambda>_ _ _ _. Inr LvUnit),
      bx_block = (\<lambda>_ i _ _. Inr i),
      bx_full_balance = (\<lambda>_. LvUnit), bx_account = (\<lambda>k v. Inr (map_of (lv_accounts v) k)),
      bx_accounts_set = (\<lambda>k data _ v. (Inr (), LvAccounts ((k, data) # lv_accounts v))),
      bx_accounts_remove = (\<lambda>k v. (Inr (), LvAccounts (filter (\<lambda>x. fst x \<noteq> k) (lv_accounts v)))),
      bx_default_in_descr = LvUnit, bx_default_out_descr = LvUnit, bx_default_account_blocks = LvUnit,
      bx_default_copyleft = LvUnit, bx_in_set = (\<lambda>_ _ _ v. (Inr (), v)),
      bx_out_set = (\<lambda>_ _ _ v. (Inr (), v)), bx_add_transaction = (\<lambda>t c v. (Inr (), LvLog ((t, c) # lv_log v))),
      bx_add_copyleft = (\<lambda>_ _ v. (Inr (), v)), bx_in_fees = (\<lambda>_. LvUnit), bx_in_value = (\<lambda>_. LvUnit),
      bx_blocks_extra = (\<lambda>_. LvUnit), bx_out_extra = (\<lambda>_. LvUnit), bx_add_grams = (\<lambda>_ _. Inr LvUnit),
      bx_queue_len = (\<lambda>q. Inr (length q)), bx_queue_iter = (\<lambda>_. []), bx_key_cell = Inr,
      bx_value_aug = (\<lambda>v. Inr (v, 0)), bx_load_cell = Inr, bx_queue_remove = (\<lambda>_ q. (Inr (), q)),
      bx_queue_key = (\<lambda>_ _ _. LvUnit), bx_queue_set = (\<lambda>_ _ _ q. (Inr (), q)),
      bx_enq_out_msg = Inr, bx_env_message = (\<lambda>_. Inr (0, False)), bx_enqueued = (\<lambda>_. Inr),
      bx_dst_workchain = (\<lambda>_. Some 0), bx_dst_account = (\<lambda>m. Some (LvId (fst m))),
      bx_default_account_id = LvUnit, bx_int_header = (\<lambda>_. None),
      bx_msg_lt = (\<lambda>_. None), bx_msg_cell = (\<lambda>_. Inr LvUnit), bx_msg_of_cell = (\<lambda>_. Inr (0, False)),
      bx_envelope = (\<lambda>_. Inr), bx_envelope_cell = Inr,
      bx_in_immediate = (\<lambda>_ _ _. LvUnit), bx_in_external = (\<lambda>_ _. LvUnit),
      bx_out_external = (\<lambda>_ _. LvUnit), bx_out_new = (\<lambda>_ _. LvUnit), bx_in_aug = Inr, bx_out_aug = Inr,
      bx_enq_aug = Inr, bx_acc_aug = Inr, bx_next_u64 = (\<lambda>_. Inr 0),
      bx_contains_address = (\<lambda>_ _. Inr True), bx_std_address = (\<lambda>_. Inr),
      bx_default_shard_account = LvNoAcc, bx_account_cell = (\<lambda>v. v), bx_last_trans_lt = lv_last_lt,
      bx_last_trans_hash = lv_last_hash, bx_account_of_cell = Inr, bx_account_to_cell = Inr,
      bx_account_is_none = (\<lambda>v. v = LvNoAcc), bx_last_tr_time = (\<lambda>_. None),
      bx_set_last_tr_time = (\<lambda>_ v. v), bx_shard_account = (\<lambda>_ h lt. LvAcc lt h), bx_new_cell = Inr,
      bx_repr_hash = (\<lambda>c. ucast (lv_last_lt c)),
      bx_execute = (\<lambda>m c ps.
        \<lparr>er_result = (if snd m then Inl NoFundsToImportMsg else Inr (LvId (fst m), ep_last_tr_lt ps)),
         er_acc_root = (if snd m then c else LvAcc 0 0), er_lt = ep_last_tr_lt ps, er_trace = []\<rparr>),
      bx_item_i32 = (\<lambda>_. Inr 0), bx_gas_used = (\<lambda>_. Some 1), bx_is_aborted = (\<lambda>_. Inr False),
      bx_new_transaction = (\<lambda>_ m lt. Inr (LvId (fst m), lt)), bx_set_now = (\<lambda>_ t. t), bx_write_description = (\<lambda>_. Inr),
      bx_write_state_update = (\<lambda>_ _. Inr), bx_set_prev_trans = (\<lambda>_ _ t. t),
      bx_transaction_cell = (\<lambda>t. Inr (LvAcc (snd t) 0)), bx_logical_time = snd,
      bx_copyleft_reward = (\<lambda>_. None), bx_in_msg_cell = (\<lambda>_. None), bx_out_msgs = (\<lambda>_. [])\<rparr>"

lemma ledger_bx_ok: "ledger_ok ledger_bx"
proof -
  have "map_of (filter (\<lambda>x. fst x \<noteq> k) xs) k' = (if k' = k then None else map_of xs k')"
    for k k' :: lv and xs :: "(lv \<times> lv) list"
    by (induction xs) auto
  then have "accounts_ok ledger_bx"
    unfolding accounts_ok_def ledger_bx_def by (intro conjI) (auto)
  then show ?thesis
    by (simp add: ledger_ok_def transactions_ok_def executor_ok_def ledger_bx_def)
qed

definition lv_entry :: "lv \<Rightarrow> lv \<times> u64 \<Rightarrow> lv option" where
  "lv_entry v = map_of (lv_log v)"

lemma ledger_keyed: "keyed_by_time ledger_bx lv_entry fst"
  by (simp add: keyed_by_time_def lv_entry_def ledger_bx_def)

lemma ledger_empty_account: "empty_account_ok ledger_bx"
  by (simp add: empty_account_ok_def ledger_bx_def)

lemma ledger_refused: "refused_for_funds ledger_bx (k, True)"
  by (simp add: refused_for_funds_def ledger_bx_def)

lemma ledger_written: "accounts_written_ok ledger_bx"
  by (simp add: accounts_written_ok_def ledger_bx_def)

definition ledger_lib :: "(u32 \<times> lv, block_info, lv) block_lib" where
  "ledger_lib =
     \<lparr>bl_default_state = (0, LvUnit), bl_state_set_global_id = (\<lambda>_ s. s),
      bl_state_set_shard = (\<lambda>_ s. s), bl_state_seq_no = fst,
      bl_state_out_queue_empty = (\<lambda>_. Inr True), bl_write_state = (\<lambda>_. Inr []),
      bl_parse_state = (\<lambda>_. Inl (LibError ''boc'')), bl_read_state_boc = (\<lambda>_. Inl (LibError ''boc'')),
      bl_default_block = toy_info, bl_block_set_global_id = (\<lambda>_ b. b), bl_block_global_id = (\<lambda>_. 0),
      bl_read_info = Inr, bl_state_update_hash = (\<lambda>_. Inr 1), bl_block_cell = (\<lambda>_. Inr LvUnit),
      bl_cell_hash = (\<lambda>_. 1), bl_write_boc = (\<lambda>_. Inr []), bl_file_hash = (\<lambda>_. 1),
      bl_write_block = (\<lambda>_. Inr []), bl_read_block_boc = (\<lambda>_. Inl (LibError ''boc'')),
      bl_rd_le_u64 = (\<lambda>_. Inl UnexpectedEof), bl_rd_le_u32 = (\<lambda>_. Inl UnexpectedEof),
      bl_rd_u256 = (\<lambda>_. Inl UnexpectedEof), bl_hex = (\<lambda>_. ''0'')\<rparr>"

lemma ledger_header: "header_ok ledger_lib ledger_bx"
  by (simp add: header_ok_def ledger_bx_def ledger_lib_def)

text \<open>A builder on a state whose account 1 had its last transaction at time 40.\<close>

definition ledger_state :: "u32 \<times> lv" where
  "ledger_state = (3, LvAccounts [(LvId 1, LvAcc 40 8)])"

definition ledger_builder where
  "ledger_builder provider = projr (builder_with_params ledger_bx 9 ledger_state toy_prev 100 System 10 provider)"

lemma ledger_builder_new:
  "builder_with_params ledger_bx 9 ledger_state toy_prev 100 System 10 provider = Inr (ledger_builder provider)"
  by (simp add: ledger_builder_def builder_with_params_def ledger_bx_def Let_def)

lemmas ledger_values = ledger_builder_def builder_with_params_def ledger_bx_def Let_def ledger_state_def
  toy_info_def toy_prev_def prev1_end_lt_def toy_workchain_def

section \<open>Runs\<close>

theorem account_transactions_are_chained_witness:
  "\<exists>bb' new. builder_execute ledger_bx (1, False) (LvId 1) (ledger_builder None) = (Inr (), bb') \<and>
     bx_account ledger_bx (LvId 1) (bb_accounts bb') = Inr (Some new) \<and>
     lv_last_lt new = 41 \<and> bx_account ledger_bx (LvId 2) (bb_accounts bb') = Inr None"
proof -
  obtain bb' where run: "builder_execute ledger_bx (1, False) (LvId 1) (ledger_builder None) = (Inr (), bb')"
      and acc: "bb_accounts bb' = LvAccounts [(LvId 1, LvAcc 41 41), (LvId 1, LvAcc 40 8)]"
    by (simp add: ledger_values run_defs max_def)
  from account_transactions_are_chained [OF ledger_bx_ok run] run acc show ?thesis
    by (simp add: ledger_values)
qed

definition ledger_queue :: "ledger_msg list \<Rightarrow> ledger_msg in_messages_queue" where
  "ledger_queue ms = (mq_new 10)\<lparr>mq_storage := ms\<rparr>"

lemmas ledger_runs = ledger_values ledger_queue_def mq_new_def run_defs aborted_transaction_def
  error_phase_def nonempty_trace_def word_le_nat_alt

lemma ledger_block:
  "\<exists>p. build_block ledger_bx (ledger_builder None) (ledger_queue [(1, False), (2, False)]) =
      Some (Inr p, ledger_queue []) \<and>
    prep_state p = (4, LvAccounts [(LvId 2, LvAcc 5 5), (LvId 1, LvAcc 41 41), (LvId 1, LvAcc 40 8)])"
  by (simp add: ledger_runs import_external.simps process_new.simps max_def)

theorem accounts_stay_in_block_time_witness:
  "\<exists>p info. build_block ledger_bx (ledger_builder None) (ledger_queue [(1, False), (2, False)]) =
      Some (Inr p, ledger_queue []) \<and>
    bl_read_info ledger_lib (prep_block p) = Inr info \<and> bi_start_lt info \<le> 5 \<and> 41 \<le> bi_end_lt info"
proof -
  obtain p where run: "build_block ledger_bx (ledger_builder None) (ledger_queue [(1, False), (2, False)]) =
      Some (Inr p, ledger_queue [])"
      and st: "prep_state p = (4, LvAccounts [(LvId 2, LvAcc 5 5), (LvId 1, LvAcc 41 41), (LvId 1, LvAcc 40 8)])"
    using ledger_block by blast
  obtain old new info where a: "bx_read_accounts ledger_bx ledger_state = Inr old"
      "bx_read_accounts ledger_bx (prep_state p) = Inr new" "bl_read_info ledger_lib (prep_block p) = Inr info"
      and w: "\<And>k. bx_account ledger_bx k new = bx_account ledger_bx k old \<or> bx_account ledger_bx k new = Inr None \<or>
       (\<exists>acc. bx_account ledger_bx k new = Inr (Some acc) \<and>
          bi_start_lt info \<le> bx_last_trans_lt ledger_bx acc \<and> bx_last_trans_lt ledger_bx acc \<le> bi_end_lt info)"
    using accounts_stay_in_block_time [OF ledger_bx_ok ledger_written ledger_header ledger_builder_new run] by blast
  have "old = LvAccounts [(LvId 1, LvAcc 40 8)]"
      "new = LvAccounts [(LvId 2, LvAcc 5 5), (LvId 1, LvAcc 41 41), (LvId 1, LvAcc 40 8)]"
    using a st by (simp_all add: ledger_bx_def ledger_state_def)
  with w [of "LvId 1"] w [of "LvId 2"] have "bi_start_lt info \<le> 5" "41 \<le> bi_end_lt info"
    by (simp_all add: ledger_bx_def)
  with run a(3) show ?thesis by blast
qed

text \<open>Account 7 does not exist.\<close>

theorem missing_account_repeats_logical_time_witness:
  "\<exists>bb lt c. import_external ledger_bx 0 True (ledger_builder None, ledger_queue [(7, True), (7, True)]) =
      (Inr (False, False), (bb, ledger_queue [])) \<and>
    lv_entry (bb_account_blocks bb) = [(LvId 7, lt) \<mapsto> c]"
proof -
  let ?bb = "ledger_builder None"
  obtain bb1 where e1: "builder_execute ledger_bx (7, True) (LvId 7) ?bb = (Inr (), bb1)"
    by (simp add: ledger_runs)
  obtain bb2 where e2: "builder_execute ledger_bx (7, True) (LvId 7) bb1 = (Inr (), bb2)"
    using e1 by (auto simp: ledger_runs)
  have no: "\<not> is_limits_reached bb1" "\<not> is_limits_reached bb2"
    using e1 e2 by (auto simp: ledger_runs)
  have start: "bx_account ledger_bx (LvId 7) (bb_accounts ?bb) = Inr None" "bb_accounts_provider ?bb = None"
    by (simp_all add: ledger_values)
  have no_entry: "(lv_entry (bb_account_blocks ?bb))(x \<mapsto> y) = [x \<mapsto> y]" for x y
    by (simp add: ledger_values lv_entry_def)
  have deq: "mq_dequeue (bx_dst_workchain ledger_bx) 0 (ledger_queue [(7, True), (7, True)]) =
        (Some (7, True), ledger_queue [(7, True)])"
      "mq_dequeue (bx_dst_workchain ledger_bx) 0 (ledger_queue [(7, True)]) = (Some (7, True), ledger_queue [])"
      "mq_dequeue (bx_dst_workchain ledger_bx) 0 (ledger_queue []) = (None, ledger_queue [])"
    by (simp_all add: ledger_queue_def mq_new_def mq_dequeue_def dequeue_loop.simps ledger_bx_def)
  have dst: "bx_dst_account ledger_bx (7, True) = Some (LvId 7)" by (simp add: ledger_bx_def)
  have added: "fst (bx_add_transaction ledger_bx t c v) = Inr ()" for t c v by (simp add: ledger_bx_def)
  obtain t1 c2 r v t2 where two: "import_external ledger_bx 0 True (?bb, ledger_queue [(7, True), (7, True)]) =
        (Inr (False, False), (bb2, ledger_queue []))"
      "bx_add_transaction ledger_bx t2 c2 (bb_account_blocks bb1) = (r, v)" "bb_account_blocks bb2 = v"
      "if r = Inr () then lv_entry v = (lv_entry (bb_account_blocks ?bb))((LvId 7, bx_logical_time ledger_bx t1) \<mapsto> c2)
       else lv_entry v = lv_entry (bb_account_blocks bb1)"
    using missing_account_repeats_logical_time [OF ledger_bx_ok ledger_keyed ledger_empty_account start deq
      dst ledger_refused e1 dst ledger_refused e2 no, of True] by blast
  have "r = Inr ()" using added [of t2 c2 "bb_account_blocks bb1"] two(2) by simp
  with two(4) have "lv_entry v = (lv_entry (bb_account_blocks ?bb))((LvId 7, bx_logical_time ledger_bx t1) \<mapsto> c2)"
    by (rule if_P [THEN iffD1, rotated])
  from this [unfolded two(3) [symmetric]] have "lv_entry (bb_account_blocks bb2) = [(LvId 7, bx_logical_time ledger_bx t1) \<mapsto> c2]"
    by (rule trans) (rule no_entry)
  with two(1) show ?thesis by blast
qed

text \<open>An endpoint that cannot be reached.\<close>

definition dead_fork :: "(plain_json, unit, unit, unit, unit, lv, lv) fork_lib" where
  "dead_fork =
     \<lparr>fk_json = plain_access PNull, fk_send = (\<lambda>_. Inl ''no route''), fk_show_error = (\<lambda>_. []),
      fk_block_from_base64 = (\<lambda>_. Inr ()), fk_read_mc_extra = (\<lambda>_. Inr None), fk_config = (\<lambda>_. None),
      fk_with_config = Inr, fk_global_id = (\<lambda>_. 0), fk_address_text = (\<lambda>_. []),
      fk_base64_decode = (\<lambda>_. Inr []), fk_read_single_root = (\<lambda>_. Inr LvUnit),
      fk_account_with_root = (\<lambda>_ h lt. LvAcc lt h)\<rparr>"

definition dead_provider :: fork_provider where
  "dead_provider = \<lparr>fp_url = ''net'', fp_secret = None\<rparr>"

text \<open>An endpoint that has every account.\<close>

definition live_fork :: "(plain_json, unit, unit, unit, unit, lv, lv) fork_lib" where
  "live_fork = dead_fork
     \<lparr>fk_json := plain_access (PObject [''data'' \<mapsto> PObject [''blockchain'' \<mapsto> PObject
        [''account'' \<mapsto> PObject [''info'' \<mapsto> PObject [''boc'' \<mapsto> PText ''te6'']]]]]),
      fk_send := (\<lambda>_. Inr (Inr ''{}''))\<rparr>"

lemma live_account: "get_account live_fork fp address = Inr (Some (LvAcc 0 0))"
  by (simp add: get_account_def fork_query_def live_fork_def dead_fork_def plain_access_def
      try_extract_graphql_error_def json_get_def boc_at_def fetched_def)

lemma live_roots: "roots_ok live_fork ledger_bx"
  by (simp add: roots_ok_def live_fork_def dead_fork_def ledger_bx_def)


theorem unanswered_request_loses_message_witness:
  "\<exists>p. build_block ledger_bx (ledger_builder (Some (get_account dead_fork dead_provider))) (ledger_queue [(7, False)]) =
      Some (Inr p, ledger_queue []) \<and> \<not> prep_is_empty p \<and> prep_state p = (4, snd ledger_state)"
proof -
  let ?bb = "ledger_builder (Some (get_account dead_fork dead_provider))"
  have "bx_queue_len ledger_bx (bb_out_queue_info ?bb) = Inr 0" "bx_queue_iter ledger_bx (bb_out_queue_info ?bb) = []"
      "bx_account ledger_bx (LvId 7) (bb_accounts ?bb) = Inr None"
    by (simp_all add: ledger_values)
  moreover have "mq_dequeue (bx_dst_workchain ledger_bx) (si_workchain_id (bx_state_shard ledger_bx ledger_state))
        (ledger_queue [(7, False)]) = (Some (7, False), ledger_queue [])"
      "mq_dequeue (bx_dst_workchain ledger_bx) (si_workchain_id (bx_state_shard ledger_bx ledger_state))
        (ledger_queue []) = (None, ledger_queue [])"
    by (simp_all add: ledger_queue_def mq_new_def mq_dequeue_def dequeue_loop.simps ledger_bx_def toy_workchain_def)
  moreover have "bx_dst_account ledger_bx (7, False) = Some (LvId 7)"
      "bx_std_address ledger_bx (ucast (si_workchain_id (bx_state_shard ledger_bx ledger_state))) (LvId 7) = Inr (LvId 7)"
    by (simp_all add: ledger_bx_def)
  moreover have "fk_send dead_fork (query_request (fk_json dead_fork) dead_provider account_query
      (address_variables dead_fork (LvId 7))) = Inl ''no route''"
    by (simp add: dead_fork_def)
  moreover have "\<exists>b. finalize_block ledger_bx ?bb = Inr (b, (4, snd ledger_state))"
    by (simp add: finalize_block_def ledger_values)
  ultimately show ?thesis
    using unanswered_request_loses_message [OF ledger_builder_new, of dead_fork dead_provider 0
        "ledger_queue [(7, False)]" "(7, False)" "ledger_queue []" "LvId 7" "LvId 7" "''no route''"]
    by auto
qed

text \<open>A chain with an outbound message to an account that the provider cannot fetch.\<close>

definition waiting_lib :: "(toy_state, block_info, toy_v) block_lib" where
  "waiting_lib = toy_lib\<lparr>bl_default_state := toy_zero\<lparr>ts_out := [(TvNat 3, toy_inner, 7)]\<rparr>\<rparr>"

definition waiting_engine where
  "waiting_engine =
     (toy_engine System)\<lparr>en_workchain := (toy_chain toy_workchain)
       \<lparr>sc_block_finality := finality_with_params waiting_lib 0 toy_workchain Map.empty True,
        sc_accounts_provider := Some (\<lambda>_. Fail NotFound)\<rparr>\<rparr>"

lemma waiting_blocked: "outbound_blocked toy_ce (en_workchain waiting_engine)"
  unfolding outbound_blocked_def unreachable_def
  by (simp add: waiting_engine_def waiting_lib_def sc_head_def get_last_shard_state_def chain_defs toy_zero_def
      sorted_out_queue_def toy_bx_def)

theorem blocked_outbound_message_stops_node_witness:
  "\<exists>n' w'. run_reaches toy_ce toy_ce (Running, (waiting_engine, toy_world [])) (Running, (n', w')) \<and>
     mq_storage (nw_queue w') = [toy_plain] \<and> en_workchain n' = en_workchain waiting_engine"
proof -
  obtain w' where q: "enqueue_message toy_plain (waiting_engine, toy_world []) = (Inr (), (waiting_engine, w'))"
      "mq_storage (nw_queue w') = [toy_plain]"
    by (simp add: enqueue_message_def mq_queue_def toy_world_def mq_new_def mq_is_full_def mq_len_def)
  have run: "run_reaches toy_ce toy_ce (Running, (waiting_engine, toy_world [])) (Running, (waiting_engine, w'))"
    by (rule run_reaches.step [OF run_reaches.start run_step.api_queue [OF q(1)]])
  from blocked_outbound_message_stops_node [OF waiting_blocked run] run q(2) show ?thesis by blast
qed

section \<open>A request and a run\<close>

definition toy_messages :: "(bytes, toy_msg) message_lib" where
  "toy_messages =
     \<lparr>ml_base64_decode = ml_base64_decode example_messages, ml_hash_from_str = (\<lambda>_. Inr 0),
      ml_read_single_root = Inr, ml_repr_hash = (\<lambda>_. 0), ml_message = (\<lambda>_. Inr toy_plain),
      ml_error_text = (\<lambda>_. [])\<rparr>"

theorem posted_messages_are_executed_witness:
  "\<exists>answer q n' w' log. process_message_request example_access toy_messages (Some ''{}'') (nw_queue (toy_world [])) nobody =
      Some (answer, q, nobody) \<and> mq_storage q = [toy_plain] \<and> fst answer \<noteq> StatusOk \<and>
    execute_queued_messages toy_ce toy_ce (toy_engine System, (toy_world [])\<lparr>nw_queue := q\<rparr>) = Some (Inr (), (n', w')) \<and>
    grows toy_ce toy_ce (toy_engine System) log n' \<and> log_messages 0 log = [toy_plain]"
proof -
  let ?rs = "[EObject [(''key'', EText ''ok''), (''value'', EText ''m1'')], EObject [(''value'', EText ''m2'')],
           EObject [(''key'', EText ''ok''), (''value'', EText ''bad'')],
           EObject [(''key'', EText ''ok''), (''value'', EText ''m3'')]]"
  have parts: "good_messages (attempts example_access toy_messages ?rs) = [toy_plain]"
      "\<not> list_all (\<lambda>x. \<not> isl x) (attempts example_access toy_messages ?rs)"
    by (simp_all add: attempts_Cons record_message.simps record_field_def json_get_def example_access_def
        toy_messages_def example_messages_def parse_message_def decode_or_def)
  have room: "\<not> mq_stopped (nw_queue (toy_world []))"
      "length (mq_storage (nw_queue (toy_world []))) + length (good_messages (attempts example_access toy_messages ?rs))
         \<le> mq_capacity (nw_queue (toy_world []))"
    unfolding parts by (simp_all add: toy_world_def mq_new_def)
  obtain reason where p: "process_message_request example_access toy_messages (Some ''{}'') (nw_queue (toy_world [])) nobody =
      Some ((StatusBadRequest, reason), nw_queue (toy_world [toy_plain]), nobody)"
    using process_records_alone [OF room] example_attempts parts
    by (auto simp: process_message_request_def toy_world_def mq_new_def)
  have w: "(toy_world [])\<lparr>nw_queue := nw_queue (toy_world [toy_plain])\<rparr> = toy_world [toy_plain]"
    by (simp add: toy_world_def)
  obtain n' w' where run: "execute_queued_messages toy_ce toy_ce
      (toy_engine System, (toy_world [])\<lparr>nw_queue := nw_queue (toy_world [toy_plain])\<rparr>) = Some (Inr (), (n', w'))"
    unfolding w using toy_run by auto
  have "0 \<in> served toy_ce toy_ce (toy_engine System)"
    by (simp add: served_def sc_workchain_def sc_shard_def sc_head_def get_last_shard_state_def chain_defs toy_bx_def
        toy_zero_def toy_workchain_def)
  moreover obtain log where log: "grows toy_ce toy_ce (toy_engine System) log n'"
      "\<And>wc. let posted = pending (bx_dst_workchain (ce_builder toy_ce)) (nw_queue (toy_world [])) wc @
           for_wc (bx_dst_workchain (ce_builder toy_ce)) wc (good_messages (attempts example_access toy_messages ?rs));
         left = pending (bx_dst_workchain (ce_builder toy_ce)) (nw_queue w') wc in
       if wc \<in> served toy_ce toy_ce (toy_engine System) then log_messages wc log = posted \<and> left = []
       else log_messages wc log = [] \<and> left = posted"
    using posted_messages_are_executed [OF toy_engine_env_ok toy_engine_wf example_attempts room p run] by blast
  moreover have "pending (bx_dst_workchain (ce_builder toy_ce)) (nw_queue (toy_world [])) 0 = []"
      "for_wc (bx_dst_workchain (ce_builder toy_ce)) 0 [toy_plain] = [toy_plain]"
    by (simp_all add: pending_def for_wc_def toy_world_def mq_new_def toy_ce_def toy_bx_def toy_plain_def)
  ultimately have "log_messages 0 log = [toy_plain]" using log(2) [of 0] by (simp add: parts(1))
  with p run log(1) show ?thesis by (auto simp: toy_world_def mq_new_def)
qed

end
