(* ===== verification/Restart.thy ===== *)
theory Restart
  imports Chain_Props Finality_Props
begin

text \<open>
  A chain over the file system that is opened again: from what a block has left on disk the chain
  goes on as the one that made the block.
\<close>

section \<open>What a successful put tells\<close>

lemma new_block_parts:
  assumes "sb_with_block_and_state lib b st = Inr sb"
  shows "\<exists>cell boc info. bl_block_cell lib b = Inr cell \<and> bl_write_boc lib cell = Inr boc \<and>
    bl_read_info lib b = Inr info \<and> sb_block sb = b \<and> sb_shard_state sb = st \<and>
    sb_root_hash sb = bl_cell_hash lib cell"
  using assms by (auto simp: sb_with_block_and_state_def bindR_eq_Inr Let_def)

lemma finality_blocks_parts:
  assumes "finality_blocks env n (sb_root_hash sb) (f, d) = (Inr u, x)"
    and "fin_blocks_by_hash f (sb_root_hash sb) = Some (Loaded sb)"
  shows "\<exists>state new_hash. bl_write_state (env_lib env) (sb_shard_state sb) = Inr state \<and>
    bl_state_update_hash (env_lib env) (sb_block sb) = Inr new_hash \<and> new_hash \<noteq> 0"
proof -
  obtain info where info: "bl_read_info (env_lib env) (sb_block sb) = Inr info"
    using assms by (cases "bl_read_info (env_lib env) (sb_block sb)")
      (simp_all add: finality_blocks_def Let_def stored_to_loaded_def)
  obtain state where state: "bl_write_state (env_lib env) (sb_shard_state sb) = Inr state"
    using assms info by (cases "bl_write_state (env_lib env) (sb_shard_state sb)")
      (simp_all add: finality_blocks_def Let_def stored_to_loaded_def)
  obtain h where h: "bl_state_update_hash (env_lib env) (sb_block sb) = Inr h"
    using assms info state by (cases "bl_state_update_hash (env_lib env) (sb_block sb)")
      (simp_all add: finality_blocks_def Let_def stored_to_loaded_def)
  have "h \<noteq> 0"
  proof
    assume "h = 0"
    with assms info state h show False
      by (simp add: finality_blocks_def Let_def stored_to_loaded_def save_serialized_shardstate_ex_def
          on_storage_def bindS_def liftS_def)
  qed
  with state h show ?thesis by simp
qed

lemma save_finality_parts:
  assumes "save_finality env (f, d) = (Inr u, x)"
  shows "\<exists>block. bl_write_block (env_lib env) (sb_block (fin_current_block f)) = Inr block"
proof -
  obtain data where "sb_serialize (env_lib env) (fin_current_block f) = Inr data"
    using assms by (cases "sb_serialize (env_lib env) (fin_current_block f)")
      (simp_all add: save_finality_def save_block_entry_def bindS_def liftS_def)
  then show ?thesis by (auto simp: sb_serialize_def bindR_eq_Inr Let_def)
qed

text \<open>Every call on the library that the put of a block makes has succeeded.\<close>

lemma put_success_parts:
  assumes "put_block_with_info env n b st tr (f, d) = (Inr u, x)"
  obtains p where "parts_of (env_lib env) b st p"
proof -
  obtain info where info: "bl_read_info (env_lib env) b = Inr info"
    using assms by (cases "bl_read_info (env_lib env) b") (simp_all add: put_block_with_info_def)
  obtain sb0 where sb0: "sb_with_block_and_state (env_lib env) b st = Inr sb0"
    using assms info by (cases "sb_with_block_and_state (env_lib env) b st") (simp_all add: put_block_with_info_def)
  let ?sb = "sb0\<lparr>sb_traces := tr\<rparr>"
  let ?f = "f\<lparr>fin_current_block := ?sb,
      fin_blocks_by_hash := (fin_blocks_by_hash f)(sb_root_hash ?sb \<mapsto> Loaded ?sb),
      fin_blocks_by_no := (fin_blocks_by_no f)(sb_seq_no ?sb \<mapsto> Loaded ?sb)\<rparr>"
  have run: "bindS (finality_blocks env n (sb_root_hash ?sb)) (\<lambda>_. save_finality env) (?f, d) = (Inr u, x)"
    using assms info sb0 by (simp add: put_block_with_info_def Let_def)
  then obtain v f1 d1 where fin: "finality_blocks env n (sb_root_hash ?sb) (?f, d) = (Inr v, (f1, d1))"
      and save: "save_finality env (f1, d1) = (Inr u, x)"
    unfolding bindS_eq_Inr by (metis prod.exhaust)
  obtain cell boc where new: "bl_block_cell (env_lib env) b = Inr cell" "bl_write_boc (env_lib env) cell = Inr boc"
      "sb_block sb0 = b" "sb_shard_state sb0 = st"
    using new_block_parts [OF sb0] by blast
  obtain state h where "bl_write_state (env_lib env) st = Inr state"
      "bl_state_update_hash (env_lib env) b = Inr h" "h \<noteq> 0"
    using finality_blocks_parts [OF fin] new(3,4) by auto
  moreover obtain block where "bl_write_block (env_lib env) b = Inr block"
    using save_finality_parts [OF save] current_finality_blocks [OF fin] new(3) by auto
  ultimately have "parts_of (env_lib env) b st \<lparr>bp_cell = cell, bp_boc = boc, bp_info = info, bp_state = state,
      bp_new_hash = h, bp_block = block\<rparr>"
    using info new by (simp add: parts_of_def)
  then show thesis by (rule that)
qed

section \<open>Opening the chain again\<close>

text \<open>The block can be kept: it is shorter than 4 GB and no file has its hash yet.\<close>

definition block_fits where
  "block_fits lib root storage block \<longleftrightarrow>
     (\<forall>cell. bl_block_cell lib block = Inr cell \<longrightarrow>
        fs_view root storage (block_finality_hash_key (bl_hex lib) (bl_cell_hash lib cell)) = None \<and>
        (\<forall>boc. bl_write_boc lib cell = Inr boc \<longrightarrow> length boc < 2 ^ 32))"

definition reopened where
  "reopened ce shard gid sc =
     shardchain_with_params ce shard gid (Inr (fin_storage (sc_block_finality sc))) (sc_accounts_provider sc)"

text \<open>Two chains with the same head, limit and provider build the same block.\<close>

lemma sc_build_block_same:
  assumes "get_last_info (ce_blocks ce) (sc_block_finality sc2) = get_last_info (ce_blocks ce) (sc_block_finality sc)"
    and "sc_block_gas_limit sc2 = sc_block_gas_limit sc" "sc_accounts_provider sc2 = sc_accounts_provider sc"
  shows "sc_build_block ce t mode sc2 v = sc_build_block ce t mode sc v"
  unfolding sc_build_block_def assms by (rule refl)

lemma reopened_chain:
  fixes ce :: "(fs, 's, 'b, 'c, 'm, 't, 'v, 'q, 'j, 'd, 'x, 'y, 'g, 'p) chain_env"
  assumes "env_kv (ce_node ce) = fs_kv root" "fs_ready root (fin_storage (sc_block_finality sc))"
    and "lib_ok (ce_blocks ce)" "iter_ok (env_iter (ce_node ce))" "docs_calm (ce_node ce)"
    and "finite (dom (fin_blocks_by_hash (sc_block_finality sc)))"
    and "block_fits (ce_blocks ce) root (fin_storage (sc_block_finality sc)) b"
    and "bl_read_info (ce_blocks ce) b = Inr info" "bi_seq_no info \<noteq> 0"
    and "finality_and_apply_block ce n b st tr (sc, w) = (Inr y, (sc', w'))"
  shows "\<exists>sc2. reopened ce shard gid sc' = Some (Inr sc2) \<and> sc_finality_was_loaded sc2 \<and>
    get_last_info (ce_blocks ce) (sc_block_finality sc2) = get_last_info (ce_blocks ce) (sc_block_finality sc') \<and>
    get_last_finalized_block sc2 = get_last_finalized_block sc' \<and> get_last_finalized_block sc' = Inr b \<and>
    sc_block_gas_limit sc2 = ch_block_gas_limit (ce_lib ce) shard \<and>
    sc_accounts_provider sc2 = sc_accounts_provider sc"
proof -
  obtain f d where put: "put_block_with_info (ce_node ce) n b st tr (sc_block_finality sc, nw_docs w) = (Inr (), (f, d))"
      and sc': "sc' = sc\<lparr>sc_block_finality := f\<rparr>"
    using assms(8,10) by (auto simp: finality_and_apply_block_def bindR_eq_Inr split: prod.splits)
  obtain p where p: "parts_of (ce_blocks ce) b st p" using put_success_parts [OF put] .
  have info: "bp_info p = info" using p assms(8) by (simp add: parts_of_def)
  have calm: "\<not> reflect_panics (ce_node ce) n sb (nw_docs w)" for sb using assms(5) by (simp add: docs_calm_def)
  have fits: "length (bp_boc p) < 2 ^ 32" "fs_view root (fin_storage (sc_block_finality sc))
      (block_finality_hash_key (bl_hex (ce_blocks ce)) (bl_cell_hash (ce_blocks ce) (bp_cell p))) = None"
    using assms(7) p by (auto simp: block_fits_def parts_of_def)
  let ?sb = "parts_block (ce_blocks ce) b st tr p"
  have seq: "sb_seq_no ?sb \<noteq> 0" using info assms(9) by simp
  have key: "x \<in> node_keys (bl_hex (ce_blocks ce)) \<Longrightarrow> storage_key x" for x
    using node_keys_storage_keys [OF assms(3)] .
  let ?K = "block_finality_hash_key (bl_hex (ce_blocks ce)) (sb_root_hash ?sb)"
  obtain k where k: "f = put_result (ce_node ce) n ?sb (nw_docs w) (sc_block_finality sc) k"
      "kv_store.wrote (fs_view root) (fs_ready root) storage_key (fin_storage (sc_block_finality sc))
         (saved_entries (ce_node ce) p f None) k"
    using fs.put_block_spec [where tr = tr, OF assms(1,2) key p refl calm] put fits(2) by auto
  obtain tr' where last: "fin_last_finalized_block f = parts_block (ce_blocks ce) b st tr' p"
    using reflected_block [of "ce_node ce" n "sc_block_finality sc" ?sb "nw_docs w"] k(1)
    by (auto simp: put_result_def)
  have cur: "fin_current_block f = ?sb" "fin_storage f = k"
      "fin_blocks_by_hash f = (fin_blocks_by_hash (sc_block_finality sc))(sb_root_hash ?sb := None)"
    using k(1) by (simp_all add: put_result_def)
  have "fs_view root k ?K = Some (parts_bytes (ce_blocks ce) p)"
    using fs.wrote_view [OF k(2) key, of ?K] by (simp add: saved_entries_def)
  then have held: "kv_store.holds_block (fs_view root) (ce_node ce) k (fin_current_block f)"
      "kv_store.holds_block (fs_view root) (ce_node ce) k (fin_last_finalized_block f)"
    unfolding fs.holds_block_def cur last using seq fits(1) parts_serialize [OF p] by auto
  have idx: "fs_view root k BLOCKS_FINALITY_INFO_KEY = Some (finality_serialize (ce_node ce) f)"
    using fs.wrote_view [OF k(2) key, of BLOCKS_FINALITY_INFO_KEY] by simp
  have fin: "finite (dom (fin_blocks_by_hash f))" using assms(6) cur(3) by simp
  obtain g where g: "finality_load (ce_node ce) (finality_with_params (ce_blocks ce) gid shard k True) = Some (Inr True, g)"
      "fin_current_block g = (fin_current_block f)\<lparr>sb_traces := Map.empty\<rparr>"
      "fin_last_finalized_block g = (fin_last_finalized_block f)\<lparr>sb_traces := Map.empty\<rparr>"
    using fs.load_saved [OF assms(1) fs.wrote_inv [OF k(2)] assms(3,4) key idx held fin,
        of "ce_blocks ce" gid shard True] by blast
  let ?sc2 = "\<lparr>sc_finality_was_loaded = True, sc_block_finality = g,
      sc_block_gas_limit = ch_block_gas_limit (ce_lib ce) shard, sc_accounts_provider = sc_accounts_provider sc\<rparr>"
  have "reopened ce shard gid sc' = Some (Inr ?sc2)"
    using g(1) cur(2) sc' by (simp add: reopened_def shardchain_with_params_def)
  moreover have "get_last_info (ce_blocks ce) g = get_last_info (ce_blocks ce) f"
    using g(2) by (simp add: get_last_info_def get_last_block_info_def get_last_shard_state_def)
  ultimately show ?thesis
    using g(3) last sc' by (simp add: get_last_finalized_block_def)
qed

text \<open>\<^bold>\<open>C8\<close>. A workchain that is opened again on the disk where its last block was put goes on as the one
  that put it: it has the same number to give next and the same last finalized block, and it builds
  the same next block from every queue, clock and seed.\<close>

theorem restarted_chain_builds_the_same_blocks:
  fixes ce :: "(fs, 's, 'b, 'c, 'm, 't, 'v, 'q, 'j, 'd, 'x, 'y, 'g, 'p) chain_env"
  assumes "env_kv (ce_node ce) = fs_kv root" "fs_ready root (fin_storage (sc_block_finality sc))"
    and "chain_env_ok ce" "lib_ok (ce_blocks ce)" "iter_ok (env_iter (ce_node ce))" "docs_calm (ce_node ce)"
    and "finite (dom (fin_blocks_by_hash (sc_block_finality sc)))"
      "sc_block_gas_limit sc = ch_block_gas_limit (ce_lib ce) shard"
    and "sc_generate_block ce n t mode (sc, w) = Some (Inr (Some b), (sc', w'))"
    and "block_fits (ce_blocks ce) root (fin_storage (sc_block_finality sc)) b" "sc_seq_no ce sc + 1 \<noteq> 0"
  shows "\<exists>sc2. reopened ce shard gid sc' = Some (Inr sc2) \<and> sc_finality_was_loaded sc2 \<and>
    next_seq_no ce sc2 = next_seq_no ce sc' \<and>
    get_last_finalized_block sc2 = Inr b \<and>
    (\<forall>t mode v. sc_build_block ce t mode sc2 v = sc_build_block ce t mode sc' v)"
  using assms(9)
proof (cases rule: sc_generate_block_cases)
  case (put p w1 r1)
  obtain y where y: "r1 = Inr y" "b = prep_block p" using put(5) by (cases r1) auto
  obtain info where info: "bl_read_info (ce_blocks ce) b = Inr info" "bi_seq_no info = sc_seq_no ce sc + 1"
    using sc_build_block_header [OF assms(3) put(1)] y(2) by (auto simp: extends_head_def)
  obtain sc2 where sc2: "reopened ce shard gid sc' = Some (Inr sc2)" "sc_finality_was_loaded sc2"
      "get_last_info (ce_blocks ce) (sc_block_finality sc2) = get_last_info (ce_blocks ce) (sc_block_finality sc')"
      "get_last_finalized_block sc2 = Inr b" "sc_block_gas_limit sc2 = sc_block_gas_limit sc"
      "sc_accounts_provider sc2 = sc_accounts_provider sc"
    using reopened_chain [OF assms(1,2,4-7,10) info(1) _ put(4) [unfolded y(1), folded y(2)], of shard gid]
      info(2) assms(8,11) by auto
  have "sc_block_gas_limit sc' = sc_block_gas_limit sc \<and> sc_accounts_provider sc' = sc_accounts_provider sc"
    using put(4) by (auto simp: finality_and_apply_block_def split: sum.splits prod.splits)
  with sc2 have "sc_build_block ce t mode sc2 v = sc_build_block ce t mode sc' v" for t mode v
    by (intro sc_build_block_same) simp_all
  with sc2 show ?thesis by (auto simp: next_seq_no_def)
qed auto

section \<open>The masterchain after a restart\<close>

text \<open>What the library promises of the extra part of a masterchain block: it reads back, and a shard tree
  of one description has it under the prefix of the whole workchain.\<close>

definition mc_extra_ok where
  "mc_extra_ok ch whole \<longleftrightarrow>
     (\<forall>x b b'. ch_write_extra ch x b = Inr b' \<longrightarrow> ch_read_extra ch b' = Inr x) \<and>
     (\<forall>y x x'. ch_write_custom ch y x = Inr x' \<longrightarrow> ch_read_custom ch x' = Inr (Some y)) \<and>
     (\<forall>g. ch_config ch (ch_set_config ch g (ch_default_mc_extra ch)) = Some g \<and>
        ch_shards ch (ch_set_config ch g (ch_default_mc_extra ch)) = []) \<and>
     (\<forall>wc d y y'. ch_shards ch y = [] \<longrightarrow> ch_shards_set ch wc d y = Inr y' \<longrightarrow>
        ch_shards ch y' = [Inr (wc, [Inr (whole, d)])] \<and> ch_config ch y' = ch_config ch y)"

lemma master_block_extra:
  assumes "mc_extra_ok (ce_lib ce) whole" "master_block ce [shard \<mapsto> d] block = Inr b"
    and "ch_iter_shards (ce_lib ce) [shard \<mapsto> d] = [(shard, d)]"
  shows "\<exists>extra y. ch_read_extra (ce_lib ce) b = Inr extra \<and> ch_read_custom (ce_lib ce) extra = Inr (Some y) \<and>
    ch_shards (ce_lib ce) y = [Inr (si_workchain_id shard, [Inr (whole, d)])] \<and>
    ch_config (ce_lib ce) y = Some (ce_raw_config ce)"
proof -
  let ?ch = "ce_lib ce"
  let ?y0 = "ch_set_config ?ch (ce_raw_config ce) (ch_default_mc_extra ?ch)"
  obtain block' extra y extra' where made: "ch_shards_set ?ch (si_workchain_id shard) d ?y0 = Inr y"
      "ch_write_custom ?ch y extra = Inr extra'" "ch_write_extra ?ch extra' block' = Inr b"
    using assms(2,3) by (auto simp: master_block_def bindR_eq_Inr Let_def)
  with assms(1) have "ch_read_extra ?ch b = Inr extra'" "ch_read_custom ?ch extra' = Inr (Some y)"
      "ch_shards ?ch y = [Inr (si_workchain_id shard, [Inr (whole, d)])]" "ch_config ?ch y = Some (ce_raw_config ce)"
    unfolding mc_extra_ok_def by metis+
  then show ?thesis by blast
qed

lemma restore_one_shard:
  assumes "sc_finality_was_loaded sc" "get_last_finalized_block sc = Inr b"
    and "ch_read_extra (ce_lib ce) b = Inr extra" "ch_read_custom (ce_lib ce) extra = Inr (Some y)"
    and "ch_shards (ce_lib ce) y = [Inr (wc, [Inr (whole, d)])]" "ch_config (ce_lib ce) y = Some (ce_raw_config ce)"
    and "ch_with_prefix_slice (ce_lib ce) wc whole = Inr shard"
  shows "restore_state ce (\<lparr>mc_shardchain = sc, mc_shards = Map.empty, mc_shards_has_been_changed = False\<rparr>, v) =
    Some (Inr (), (\<lparr>mc_shardchain = sc, mc_shards = [shard \<mapsto> d], mc_shards_has_been_changed = True\<rparr>, v))"
  using assms by (simp add: restore_state_def get_last_finalized_mc_extra_def bindS_def liftS_def retS_def)

text \<open>\<^bold>\<open>C9\<close>. A masterchain that is opened again on the disk where its last block was put has the same number
  to give next, and restoring its state gives it the description of the workchain's last block again,
  under the shard of the whole workchain, whatever shard it was entered for. It takes this for a
  change, so that the restarted node makes a masterchain block even when there is nothing new.\<close>

theorem restarted_masterchain_knows_the_workchain:
  fixes ce :: "(fs, 's, 'b, 'c, 'm, 't, 'v, 'q, 'j, 'd, 'x, 'y, 'g, 'p) chain_env"
    and w v :: "('m, 'd) node_world"
  defines "sc \<equiv> \<lambda>mc. mc_shardchain mc"
  assumes "env_kv (ce_node ce) = fs_kv root" "fs_ready root (fin_storage (sc_block_finality (sc mc)))"
    and "chain_env_ok ce" "lib_ok (ce_blocks ce)" "iter_ok (env_iter (ce_node ce))" "docs_calm (ce_node ce)"
    and "finite (dom (fin_blocks_by_hash (sc_block_finality (sc mc))))"
    and "mc_shards mc = [shard \<mapsto> d]" "ch_iter_shards (ce_lib ce) [shard \<mapsto> d] = [(shard, d)]"
    and "mc_extra_ok (ce_lib ce) whole" "ch_with_prefix_slice (ce_lib ce) (si_workchain_id shard) whole = Inr shard'"
    and "mc_generate_block ce n t mode (mc, w) = Some (Inr (Some b), (mc', w'))"
    and "block_fits (ce_blocks ce) root (fin_storage (sc_block_finality (sc mc))) b"
      "sc_seq_no ce (sc mc) + 1 \<noteq> 0"
  shows "\<exists>sc2. reopened ce ident gid (sc mc') = Some (Inr sc2) \<and>
    next_seq_no ce sc2 = next_seq_no ce (sc mc') \<and>
    restore_state ce (\<lparr>mc_shardchain = sc2, mc_shards = Map.empty, mc_shards_has_been_changed = False\<rparr>, v) =
      Some (Inr (), (\<lparr>mc_shardchain = sc2, mc_shards = [shard' \<mapsto> d], mc_shards_has_been_changed = True\<rparr>, v))"
  using assms(13)
proof (cases rule: mc_generate_block_cases)
  case (put p w1 blk r1 sc1)
  obtain y where y: "r1 = Inr y" "blk = b" using put(5) by (cases r1) auto
  then have mc': "sc mc' = sc1" using put(6) by (simp add: sc_def)
  note head = master_block_header [OF assms(4) put(3) sc_build_block_header [OF assms(4) put(1)]]
  obtain info where info: "bl_read_info (ce_blocks ce) b = Inr info" "bi_seq_no info = sc_seq_no ce (sc mc) + 1"
    using head y(2) by (auto simp: extends_head_def sc_def)
  have "bi_seq_no info \<noteq> 0" using info(2) assms(15) by simp
  obtain sc2 where sc2: "reopened ce ident gid sc1 = Some (Inr sc2)" "sc_finality_was_loaded sc2"
      "get_last_info (ce_blocks ce) (sc_block_finality sc2) = get_last_info (ce_blocks ce) (sc_block_finality sc1)"
      "get_last_finalized_block sc2 = Inr b"
    using reopened_chain [OF assms(2,3,5-8,14) info(1) \<open>bi_seq_no info \<noteq> 0\<close>
        put(4) [unfolded y, folded sc_def], of ident gid] by auto
  obtain extra z where "ch_read_extra (ce_lib ce) b = Inr extra" "ch_read_custom (ce_lib ce) extra = Inr (Some z)"
      "ch_shards (ce_lib ce) z = [Inr (si_workchain_id shard, [Inr (whole, d)])]"
      "ch_config (ce_lib ce) z = Some (ce_raw_config ce)"
    using master_block_extra [OF assms(11) put(3) [unfolded y(2) assms(9)] assms(10)] by blast
  from restore_one_shard [OF sc2(2,4) this assms(12)] sc2(1,3) mc' show ?thesis
    by (auto simp: next_seq_no_def)
qed auto

end
