(* ===== verification/Example_Restart.thy ===== *)
theory Example_Restart
  imports Example_Node Restart
begin

text \<open>
  The small node of \<open>Example_Node\<close> on a file system, with a library that writes one block and reads it
  back: the witnesses of \<open>Restart\<close>.
\<close>

section \<open>A library that reads back\<close>

definition restart_lib :: "block_info \<Rightarrow> (toy_state, block_info, toy_v) block_lib" where
  "restart_lib b = toy_lib
     \<lparr>bl_write_state := (\<lambda>s. if s = prep_state toy_block1 then Inr [] else Inl (LibError ''state'')),
      bl_read_state_boc := (\<lambda>bs. Inr (prep_state toy_block1, bs)),
      bl_write_block := (\<lambda>x. if x = b then Inr [] else Inl (LibError ''block'')),
      bl_read_block_boc := (\<lambda>bs. Inr (b, bs)),
      bl_rd_le_u64 := bl_rd_le_u64 demo_lib, bl_rd_le_u32 := bl_rd_le_u32 demo_lib,
      bl_rd_u256 := bl_rd_u256 demo_lib, bl_hex := std_hex\<rparr>"

lemma restart_lib_ok: "lib_ok (restart_lib b)"
  using demo_lib_ok
  by (auto simp: lib_ok_def reader_ok_def boc_ok_def restart_lib_def hex_digest_std_hex split: if_splits)

definition restart_iter ::
  "(u256 \<Rightarrow> ('s, 'b) finality_block option) \<Rightarrow> (u256 \<times> ('s, 'b) finality_block) list" where
  "restart_iter m = map (\<lambda>h. (h, the (m h))) (sorted_list_of_set (dom m))"

lemma restart_iter_ok: "iter_ok restart_iter"
  by (auto simp: iter_ok_def restart_iter_def comp_def)

definition restart_node :: "block_info \<Rightarrow> (fs, toy_state, block_info, toy_v, unit, unit mem_docs) node_env" where
  "restart_node b =
     \<lparr>env_lib = restart_lib b, env_kv = fs_kv demo_root, env_json = toy_json, env_docs = mem_documents_db,
      env_default_shard = toy_workchain, env_iter = restart_iter\<rparr>"

text \<open>The extra part of a block is its masterchain part: one description, and the configuration.\<close>

type_synonym restart_extra = "(i32 \<times> shard_descr) option \<times> nat"

definition restart_chain_lib ::
  "restart_extra \<Rightarrow> (block_info, restart_extra, restart_extra, nat, unit) chain_lib" where
  "restart_chain_lib x =
     \<lparr>ch_block_gas_limit = (\<lambda>_. 10), ch_read_extra = (\<lambda>_. Inr x), ch_in_msg_count = (\<lambda>_. Inr 0),
      ch_out_msg_count = (\<lambda>_. Inr 0), ch_account_blocks_count = (\<lambda>_. Inr 0),
      ch_write_info = (\<lambda>i _. Inr i), ch_write_extra = (\<lambda>y b. if y = x then Inr b else Inl (LibError ''extra'')),
      ch_write_custom = (\<lambda>y _. Inr y), ch_read_custom = (\<lambda>y. Inr (Some y)), ch_default_mc_extra = (None, 0),
      ch_set_config = (\<lambda>g y. (fst y, g)), ch_config = (\<lambda>y. Some (snd y)),
      ch_shards_set = (\<lambda>wc d y. Inr (Some (wc, d), snd y)),
      ch_shards = (\<lambda>y. case fst y of None \<Rightarrow> [] | Some (wc, d) \<Rightarrow> [Inr (wc, [Inr ((), d)])]),
      ch_with_prefix_slice = (\<lambda>wc _. Inr \<lparr>si_workchain_id = wc, si_prefix = 0x8000000000000000\<rparr>),
      ch_prefix_with_tag = si_prefix, ch_iter_shards = (\<lambda>m. case m toy_workchain of
        Some d \<Rightarrow> [(toy_workchain, d)] | None \<Rightarrow> [])\<rparr>"

definition restart_ce where
  "restart_ce b x = \<lparr>ce_builder = toy_bx, ce_node = restart_node b, ce_lib = restart_chain_lib x, ce_raw_config = 2\<rparr>"

definition restart_chain :: "(fs, toy_state, block_info, toy_v) shardchain" where
  "restart_chain =
     \<lparr>sc_finality_was_loaded = False,
      sc_block_finality = (finality_with_params toy_lib 0 toy_workchain demo_fs True)
        \<lparr>fin_current_block := \<lparr>sb_seq_no = 0, sb_serialized_block = [], sb_root_hash = 1, sb_file_hash = 1,
           sb_block = toy_info\<lparr>bi_end_lt := 4\<rparr>, sb_shard_state = toy_zero, sb_traces = Map.empty\<rparr>\<rparr>,
      sc_block_gas_limit = 10, sc_accounts_provider = None\<rparr>"

definition restart_world :: "(toy_msg, unit mem_docs) node_world" where
  "restart_world = \<lparr>nw_queue = toy_queue, nw_docs = mem_docs_new, nw_clock = sconst 100, nw_seeds = sconst 9\<rparr>"

lemma restart_sel [simp]:
  "ce_builder (restart_ce b x) = toy_bx" "ce_node (restart_ce b x) = restart_node b"
  "ce_lib (restart_ce b x) = restart_chain_lib x" "ce_raw_config (restart_ce b x) = 2"
  "env_lib (restart_node b) = restart_lib b" "env_kv (restart_node b) = fs_kv demo_root"
  "env_docs (restart_node b) = mem_documents_db" "env_iter (restart_node b) = restart_iter"
  "fin_storage (sc_block_finality restart_chain) = demo_fs"
  "fin_blocks_by_hash (sc_block_finality restart_chain) = Map.empty"
  "sc_block_gas_limit restart_chain = 10" "sc_accounts_provider restart_chain = None"
  by (simp_all add: restart_ce_def restart_node_def restart_chain_def finality_with_params_def)

lemma restart_env_ok: "chain_env_ok (restart_ce b x)"
  using toy_header_ok
  by (auto simp: chain_env_ok_def state_ok_def restart_lib_def restart_chain_lib_def toy_bx_def toy_lib_def
      header_ok_def split: if_splits)

lemma restart_build: "\<exists>w1. sc_build_block (restart_ce b x) 100 Seq restart_chain restart_world = Some (Inr toy_block1, w1)"
  using toy_seq_run toy_builder_new [of Seq]
  by (simp add: sc_build_block_def get_last_info_def get_last_block_info_def get_last_shard_state_def
      restart_chain_def restart_world_def restart_lib_def toy_lib_def toy_prev_def toy_info_def)

lemma restart_apply:
  "\<exists>sc' w'. finality_and_apply_block (restart_ce b x) n b (prep_state toy_block1) tr (restart_chain, w) =
     (Inr (prep_state toy_block1), (sc', w'))"
proof -
  let ?p = "\<lparr>bp_cell = TvUnit, bp_boc = [], bp_info = b, bp_state = [], bp_new_hash = 1, bp_block = []\<rparr>"
  have p: "parts_of (restart_lib b) b (prep_state toy_block1) ?p"
    by (simp add: parts_of_def restart_lib_def toy_lib_def)
  have calm: "\<not> reflect_panics (restart_node b) n sb d" for sb d
    using docs_calm_mem [of "restart_node b"] by (simp add: docs_calm_def)
  have key: "k \<in> node_keys (bl_hex (restart_lib b)) \<Longrightarrow> storage_key k" for k
    using node_keys_storage_keys [OF restart_lib_ok] .
  obtain f d where "put_block_with_info (restart_node b) n b (prep_state toy_block1) tr
      (sc_block_finality restart_chain, nw_docs w) = (Inr (), (f, d))"
    using fs.put_block_spec [where env = "restart_node b" and root = demo_root and tr = tr and d = "nw_docs w"
        and f = "sc_block_finality restart_chain" and mc_seq_no = n, OF _ _ _ _ refl calm] p key demo_fs_ready
    by fastforce
  moreover have "bl_read_info (restart_lib b) b = Inr b" by (simp add: restart_lib_def toy_lib_def)
  ultimately show ?thesis by (simp add: finality_and_apply_block_def)
qed

lemma restart_fits: "block_fits (restart_lib b) demo_root demo_fs b"
  by (simp add: block_fits_def demo_fs_empty restart_lib_def toy_lib_def)

lemma restart_seq_no: "sc_seq_no (restart_ce b x) restart_chain = 0"
  by (simp add: sc_seq_no_def sc_head_def get_last_shard_state_def restart_chain_def toy_zero_def toy_bx_def)

lemma toy_block1_full: "\<not> prep_is_empty toy_block1"
  by (simp add: toy_block1_def)

section \<open>Witnesses\<close>

theorem restarted_chain_builds_the_same_blocks_witness:
  "\<exists>sc' w' sc2. sc_generate_block (restart_ce (prep_block toy_block1) (None, 0)) 1 100 Seq (restart_chain, restart_world) =
      Some (Inr (Some (prep_block toy_block1)), (sc', w')) \<and>
    reopened (restart_ce (prep_block toy_block1) (None, 0)) toy_workchain 0 sc' = Some (Inr sc2) \<and>
    get_last_finalized_block sc2 = Inr (prep_block toy_block1)"
proof -
  let ?b = "prep_block toy_block1" and ?ce = "restart_ce (prep_block toy_block1) (None, 0)"
  obtain w1 where build: "sc_build_block ?ce 100 Seq restart_chain restart_world = Some (Inr toy_block1, w1)"
    using restart_build by blast
  obtain sc' w' where put: "finality_and_apply_block ?ce 1 ?b (prep_state toy_block1) (prep_traces toy_block1)
      (restart_chain, w1) = (Inr (prep_state toy_block1), (sc', w'))" using restart_apply by blast
  have "print_block_info ?ce ?b = Inr ()"
    by (simp add: print_block_info_def restart_chain_lib_def restart_lib_def toy_lib_def)
  with build put have run: "sc_generate_block ?ce 1 100 Seq (restart_chain, restart_world) =
      Some (Inr (Some ?b), (sc', w'))"
    by (simp add: sc_generate_block_def bindO_def returns_def toy_block1_full bindS_def liftS_def retS_def)
  have calm: "docs_calm (restart_node b)" for b by (rule docs_calm_mem) simp
  from restarted_chain_builds_the_same_blocks [where root = demo_root and gid = 0 and shard = toy_workchain
      and ce = ?ce and sc = restart_chain, OF _ _ restart_env_ok _ _ _ _ _ run]
  obtain sc2 where "reopened ?ce toy_workchain 0 sc' = Some (Inr sc2)" "get_last_finalized_block sc2 = Inr ?b"
    using demo_fs_ready restart_lib_ok restart_iter_ok calm restart_fits
    by (auto simp: restart_seq_no restart_chain_lib_def)
  with run show ?thesis by blast
qed

text \<open>A masterchain that knows one block of the workchain and makes a block with its description.\<close>

definition restart_descr :: shard_descr where
  "restart_descr =
     \<lparr>sd_seq_no = 4, sd_reg_mc_seqno = 1, sd_start_lt = 1, sd_end_lt = 2, sd_root_hash = 3, sd_file_hash = 3,
      sd_before_split = False, sd_want_split = False, sd_want_merge = False, sd_flags = 0,
      sd_next_validator_shard = 0x8000000000000000, sd_min_ref_mc_seqno = 0, sd_gen_utime = 90\<rparr>"

definition restart_masterchain where
  "restart_masterchain = \<lparr>mc_shardchain = restart_chain, mc_shards = [toy_workchain \<mapsto> restart_descr],
     mc_shards_has_been_changed = True\<rparr>"

lemma restart_extra_ok: "mc_extra_ok (restart_chain_lib x) ()"
  by (auto simp: mc_extra_ok_def restart_chain_lib_def split: if_splits option.splits)

theorem restarted_masterchain_knows_the_workchain_witness:
  "\<exists>mc' w' sc2 st. mc_generate_block (restart_ce ((prep_block toy_block1)\<lparr>bi_key_block := True\<rparr>) (Some (0, restart_descr), 2))
      1 100 Seq (restart_masterchain, restart_world) = Some (Inr (Some ((prep_block toy_block1)\<lparr>bi_key_block := True\<rparr>)), (mc', w')) \<and>
    restore_state (restart_ce ((prep_block toy_block1)\<lparr>bi_key_block := True\<rparr>) (Some (0, restart_descr), 2))
      (\<lparr>mc_shardchain = sc2, mc_shards = Map.empty, mc_shards_has_been_changed = False\<rparr>, restart_world) =
        Some (Inr (), st) \<and> mc_shards (fst st) toy_workchain = Some restart_descr"
proof -
  let ?b = "(prep_block toy_block1)\<lparr>bi_key_block := True\<rparr>"
  let ?ce = "restart_ce ?b (Some (0, restart_descr), 2)"
  obtain w1 where build: "sc_build_block ?ce 100 Seq restart_chain restart_world = Some (Inr toy_block1, w1)"
    using restart_build by blast
  obtain sc' w' where put: "finality_and_apply_block ?ce 1 ?b (prep_state toy_block1) (prep_traces toy_block1)
      (restart_chain, w1) = (Inr (prep_state toy_block1), (sc', w'))" using restart_apply by blast
  have shaped: "master_block ?ce [toy_workchain \<mapsto> restart_descr] (prep_block toy_block1) = Inr ?b"
    by (simp add: master_block_def restart_chain_lib_def restart_lib_def toy_lib_def toy_workchain_def)
  let ?mc = "restart_masterchain\<lparr>mc_shardchain := sc', mc_shards_has_been_changed := False\<rparr>"
  from build put shaped have run: "mc_generate_block ?ce 1 100 Seq (restart_masterchain, restart_world) =
      Some (Inr (Some ?b), (?mc, w'))"
    by (simp add: mc_generate_block_def bindO_def returns_def toy_block1_full restart_masterchain_def
        on_shardchain_def bindS_def liftS_def)
  have calm: "docs_calm (restart_node b)" for b by (rule docs_calm_mem) simp
  have one: "ch_iter_shards (restart_chain_lib x) [toy_workchain \<mapsto> d] = [(toy_workchain, d)]"
      "ch_with_prefix_slice (restart_chain_lib x) (si_workchain_id toy_workchain) () = Inr toy_workchain" for x d
    by (simp_all add: restart_chain_lib_def toy_workchain_def)
  from restarted_masterchain_knows_the_workchain [where root = demo_root and gid = 0 and ident = toy_workchain
      and ce = ?ce and mc = restart_masterchain and v = restart_world and shard = toy_workchain and
      d = restart_descr and whole = "()" and shard' = toy_workchain,
      OF _ _ restart_env_ok _ _ _ _ _ _ _ _ run]
  obtain sc2 where "restore_state ?ce (\<lparr>mc_shardchain = sc2, mc_shards = Map.empty,
        mc_shards_has_been_changed = False\<rparr>, restart_world) =
      Some (Inr (), (\<lparr>mc_shardchain = sc2, mc_shards = [toy_workchain \<mapsto> restart_descr],
        mc_shards_has_been_changed = True\<rparr>, restart_world))"
    using demo_fs_ready restart_lib_ok restart_iter_ok calm restart_fits restart_extra_ok one
    by (auto simp: restart_seq_no restart_masterchain_def)
  with run show ?thesis by fastforce
qed

end
