(* ===== verification/Test_Client.thy ===== *)
theory Test_Client
  imports Json_Http Decimal
begin

text \<open>
  The client of the integration tests (\<^verbatim>\<open>integration-tests/src/lib.rs\<close>): the calls of the
  client library (\<^verbatim>\<open>ever_client\<close>) that the tests build on, the two funded contracts, and the
  deployment of a test contract. The library, the files and the HTTP client are not part of the
  repository: they are functions on the state \<open>'w\<close> of the world outside, the node under test
  included. A run ends with a value, with an error that a test may hand on, or with a panic.
\<close>

section \<open>The library\<close>

text \<open>An error of the client library; its data is a JSON value.\<close>

record 'j client_error =
  cle_code :: nat
  cle_message :: string
  cle_data :: 'j

text \<open>\<^verbatim>\<open>Failed\<close> is an error of a \<^verbatim>\<open>Result\<close>, of the library or made by \<^verbatim>\<open>format_err!\<close>.\<close>

datatype 'j test_error = ClientError "'j client_error" | OtherError string | ParseIntError

datatype 'j test_fault = Failed "'j test_error" | Panicked string

type_synonym ('j, 'a) outcome = "'j test_fault + 'a"

text \<open>A call of a test: a run on the world.\<close>

type_synonym ('w, 'j, 'a) act = "'w \<Rightarrow> ('j, 'a) outcome \<times> 'w"

datatype 'ab abi = Contract 'ab | OtherAbi

record 'j call_set =
  cs_function_name :: string
  cs_header :: "'j option"
  cs_input :: "'j option"

record deploy_set =
  ds_tvc :: "string option"
  ds_workchain_id :: "i32 option"

datatype signer = NoSigner | SignerKeys string string

record keypair =
  kp_public :: bytes
  kp_secret :: bytes

record ('j, 'ab) encode_params =
  pe_abi :: "'ab abi"
  pe_address :: "string option"
  pe_deploy_set :: "deploy_set option"
  pe_call_set :: "'j call_set option"
  pe_signer :: signer

record encoded_message =
  en_address :: string
  en_message :: string
  en_message_id :: string

text \<open>The decoded output of a call: its result, if the function has one.\<close>

record 'j decoded_output =
  do_output :: "'j option"

record 'j processed =
  pr_transaction :: 'j
  pr_out_messages :: "string list"
  pr_decoded :: "'j decoded_output option"

datatype sort_direction = ASC | DESC

record 'j collection_query =
  cq_collection :: string
  cq_filter :: "'j option"
  cq_result :: string
  cq_limit :: "nat option"
  cq_order :: "(string \<times> sort_direction) list option"

datatype abi_param = AbiParam (ap_name: string) (ap_type: string) (ap_components: "abi_param list")

text \<open>A tree of transactions: the identifiers of its messages, and which transactions are aborted.\<close>

record transaction_tree =
  tt_message_ids :: "string list"
  tt_aborted :: "bool list"

record ('w, 'x, 'j, 'ab) test_lib =
  tl_json :: "'j json_access"
  tl_num :: "int \<Rightarrow> 'j"
  tl_bool :: "bool \<Rightarrow> 'j"
  tl_env :: "string \<Rightarrow> string option"
  tl_context :: "string \<Rightarrow> 'j client_error + 'x"
  tl_generate_keypair :: "'w \<Rightarrow> keypair \<times> 'w"
  tl_hex_encode :: "bytes \<Rightarrow> string"
  tl_hex_decode :: "string \<Rightarrow> string + bytes"
  tl_public_key :: "bytes \<Rightarrow> string + bytes"
  tl_secret_key :: "bytes \<Rightarrow> string + bytes"
  tl_base64_encode :: "bytes \<Rightarrow> string"
  tl_include :: "string \<Rightarrow> string"
  tl_read :: "string \<Rightarrow> string + bytes"
  tl_read_to_string :: "string \<Rightarrow> string + string"
  tl_contract :: "string \<Rightarrow> string + 'ab"
  tl_functions :: "'ab \<Rightarrow> string list"
  tl_some_with_function :: "string \<Rightarrow> 'j call_set option"
  tl_some_with_function_and_input :: "string \<Rightarrow> 'j \<Rightarrow> 'j call_set option"
  tl_message_finalized :: nat
  tl_transaction_finalized :: nat
  tl_block_finalized :: nat
  tl_show :: "'j client_error \<Rightarrow> string"
  tl_encode_message :: "'x \<Rightarrow> ('j, 'ab) encode_params \<Rightarrow> 'w \<Rightarrow> ('j client_error + encoded_message) \<times> 'w"
  tl_send_message :: "'x \<Rightarrow> string \<Rightarrow> 'ab abi option \<Rightarrow> 'w \<Rightarrow> ('j client_error + string) \<times> 'w"
  tl_wait_for_transaction ::
    "'x \<Rightarrow> 'ab abi option \<Rightarrow> string \<Rightarrow> string \<Rightarrow> bool \<Rightarrow> 'w \<Rightarrow> ('j client_error + 'j processed) \<times> 'w"
  tl_run_tvm :: "'x \<Rightarrow> string \<Rightarrow> string \<Rightarrow> 'ab abi option \<Rightarrow> bool \<Rightarrow> 'w \<Rightarrow>
    ('j client_error + 'j decoded_output option) \<times> 'w"
  tl_query_collection :: "'x \<Rightarrow> 'j collection_query \<Rightarrow> 'w \<Rightarrow> ('j client_error + 'j list) \<times> 'w"
  tl_wait_for_collection :: "'x \<Rightarrow> 'j collection_query \<Rightarrow> 'w \<Rightarrow> ('j client_error + 'j) \<times> 'w"
  tl_parse_message :: "'x \<Rightarrow> string \<Rightarrow> 'j client_error + 'j"
  tl_encode_boc :: "'x \<Rightarrow> abi_param list \<Rightarrow> 'j \<Rightarrow> 'j client_error + string"
  tl_query_transaction_tree ::
    "'x \<Rightarrow> string \<Rightarrow> nat option \<Rightarrow> 'w \<Rightarrow> ('j client_error + transaction_tree) \<times> 'w"
  tl_ext_in_message :: "string \<Rightarrow> string + bytes"
  tl_post :: "string \<Rightarrow> 'w \<Rightarrow> (string + nat \<times> (string + string)) \<times> 'w"
  tl_sleep :: "nat \<Rightarrow> 'w \<Rightarrow> 'w"

section \<open>Results\<close>

text \<open>The \<^verbatim>\<open>?\<close> on a result of the library, \<^verbatim>\<open>map_err(format_err!(..))?\<close>, and \<^verbatim>\<open>unwrap\<close> or \<^verbatim>\<open>expect\<close>.\<close>

definition sdk_try :: "'j client_error + 'a \<Rightarrow> ('j, 'a) outcome" where
  "sdk_try r = map_sum (\<lambda>e. Failed (ClientError e)) id r"

definition sdk_err :: "('j client_error \<Rightarrow> string) \<Rightarrow> 'j client_error + 'a \<Rightarrow> ('j, 'a) outcome" where
  "sdk_err text_of r = map_sum (\<lambda>e. Failed (OtherError (text_of e))) id r"

definition other_try :: "string + 'a \<Rightarrow> ('j, 'a) outcome" where
  "other_try r = map_sum (\<lambda>e. Failed (OtherError e)) id r"

definition expect :: "string \<Rightarrow> 'e + 'a \<Rightarrow> ('j, 'a) outcome" where
  "expect what r = map_sum (\<lambda>_. Panicked what) id r"

definition expect_some :: "string \<Rightarrow> 'a option \<Rightarrow> ('j, 'a) outcome" where
  "expect_some what x = (case x of Some y \<Rightarrow> Inr y | None \<Rightarrow> Inl (Panicked what))"

definition assert_that :: "string \<Rightarrow> bool \<Rightarrow> ('j, unit) outcome" where
  "assert_that what c = (if c then Inr () else Inl (Panicked what))"

text \<open>A call on the world, with what is done with its result; and a call whose failure panics: an
  error of a \<^verbatim>\<open>Result\<close> becomes a panic.\<close>

definition on_world :: "('r \<Rightarrow> ('j, 'a) outcome) \<Rightarrow> ('w \<Rightarrow> 'r \<times> 'w) \<Rightarrow> 'w \<Rightarrow> ('j, 'a) outcome \<times> 'w" where
  "on_world f m w = (case m w of (r, w) \<Rightarrow> (f r, w))"

definition unwrap :: "('w \<Rightarrow> ('j, 'a) outcome \<times> 'w) \<Rightarrow> 'w \<Rightarrow> ('j, 'a) outcome \<times> 'w" where
  "unwrap m w =
     (case m w of
        (Inl (Failed _), w) \<Rightarrow> (Inl (Panicked ''unwrap''), w)
      | (r, w) \<Rightarrow> (r, w))"

text \<open>\<^verbatim>\<open>unwrap_err().downcast::<ClientError>().unwrap()\<close>.\<close>

definition unwrap_client_err ::
  "('w \<Rightarrow> ('j, 'a) outcome \<times> 'w) \<Rightarrow> 'w \<Rightarrow> ('j, 'j client_error) outcome \<times> 'w" where
  "unwrap_client_err m w =
     (case m w of
        (Inr _, w) \<Rightarrow> (Inl (Panicked ''unwrap_err''), w)
      | (Inl (Failed (ClientError e)), w) \<Rightarrow> (Inr e, w)
      | (Inl (Failed (OtherError _)), w) \<Rightarrow> (Inl (Panicked ''unwrap''), w)
      | (Inl (Panicked p), w) \<Rightarrow> (Inl (Panicked p), w))"

section \<open>JSON\<close>

text \<open>\<^verbatim>\<open>value["name"]\<close> is null when there is no such field; an \<^verbatim>\<open>as_u64\<close> is an integer in its range.\<close>

definition json_at :: "('w, 'x, 'j, 'ab) test_lib \<Rightarrow> string \<Rightarrow> 'j \<Rightarrow> 'j" where
  "json_at tb name v = (case json_get (tl_json tb) name v of Some x \<Rightarrow> x | None \<Rightarrow> ja_null (tl_json tb))"

definition as_u64_of :: "('w, 'x, 'j, 'ab) test_lib \<Rightarrow> 'j \<Rightarrow> nat option" where
  "as_u64_of tb v =
     Option.bind (ja_as_integer (tl_json tb) v) (\<lambda>i. if 0 \<le> i \<and> i < 2 ^ 64 then Some (nat i) else None)"

definition obj :: "('w, 'x, 'j, 'ab) test_lib \<Rightarrow> (string \<times> 'j) list \<Rightarrow> 'j" where
  "obj tb fs = ja_object (tl_json tb) (map_of fs)"

abbreviation str :: "('w, 'x, 'j, 'ab) test_lib \<Rightarrow> string \<Rightarrow> 'j" where
  "str tb s \<equiv> ja_string (tl_json tb) s"

definition filter_eq :: "('w, 'x, 'j, 'ab) test_lib \<Rightarrow> string \<Rightarrow> 'j \<Rightarrow> 'j" where
  "filter_eq tb field v = obj tb [(field, obj tb [(''eq'', v)])]"

definition query :: "string \<Rightarrow> 'j option \<Rightarrow> string \<Rightarrow> 'j collection_query" where
  "query collection flt result =
     \<lparr>cq_collection = collection, cq_filter = flt, cq_result = result, cq_limit = None,
      cq_order = None\<rparr>"

section \<open>The client\<close>

definition DEFAULT_NETWORK_ADDRESS :: string where
  "DEFAULT_NETWORK_ADDRESS = ''http://localhost''"

definition network_address :: "('w, 'x, 'j, 'ab) test_lib \<Rightarrow> string" where
  "network_address tb =
     (case tl_env tb ''TON_NETWORK_ADDRESS'' of Some a \<Rightarrow> a | None \<Rightarrow> DEFAULT_NETWORK_ADDRESS)"

record 'x test_client =
  tc_context :: 'x

definition client_new :: "('w, 'x, 'j, 'ab) test_lib \<Rightarrow> ('j, 'x test_client) outcome" where
  "client_new tb =
     bindR (expect ''unwrap'' (tl_context tb (network_address tb))) (\<lambda>context.
     Inr \<lparr>tc_context = context\<rparr>)"

definition generate_keypair ::
  "('w, 'x, 'j, 'ab) test_lib \<Rightarrow> ('w, 'j, keypair) act" where
  "generate_keypair tb = on_world Inr (tl_generate_keypair tb)"

definition client_encode_message ::
  "('w, 'x, 'j, 'ab) test_lib \<Rightarrow> 'x test_client \<Rightarrow> 'ab abi \<Rightarrow> string option \<Rightarrow> deploy_set option \<Rightarrow>
   'j call_set option \<Rightarrow> keypair option \<Rightarrow> ('w, 'j, encoded_message) act" where
  "client_encode_message tb client abi address deploy_set call_set keys =
     on_world (sdk_err cle_message)
       (tl_encode_message tb (tc_context client)
          \<lparr>pe_abi = abi, pe_address = address, pe_deploy_set = deploy_set, pe_call_set = call_set,
           pe_signer = (case keys of
              Some keys \<Rightarrow> SignerKeys (tl_hex_encode tb (kp_public keys)) (tl_hex_encode tb (kp_secret keys))
            | None \<Rightarrow> NoSigner)\<rparr>)"

definition prepare_message ::
  "('w, 'x, 'j, 'ab) test_lib \<Rightarrow> 'x test_client \<Rightarrow> string \<Rightarrow> 'ab abi \<Rightarrow> string \<Rightarrow> 'j \<Rightarrow> 'j option \<Rightarrow>
   keypair option \<Rightarrow> ('w, 'j, encoded_message) act" where
  "prepare_message tb client addr abi method params header keys =
     client_encode_message tb client abi (Some addr) None
       (Some \<lparr>cs_function_name = method, cs_header = header, cs_input = Some params\<rparr>) keys"

definition send_message_and_wait ::
  "('w, 'x, 'j, 'ab) test_lib \<Rightarrow> 'x test_client \<Rightarrow> 'ab abi option \<Rightarrow> string \<Rightarrow> ('w, 'j, 'j processed) act" where
  "send_message_and_wait tb client abi msg =
     bindS (on_world sdk_try (tl_send_message tb (tc_context client) msg abi)) (\<lambda>shard_block_id.
     on_world sdk_try (tl_wait_for_transaction tb (tc_context client) abi msg shard_block_id True))"

definition call_contract ::
  "('w, 'x, 'j, 'ab) test_lib \<Rightarrow> 'x test_client \<Rightarrow> string \<Rightarrow> 'ab abi \<Rightarrow> string \<Rightarrow> 'j \<Rightarrow> keypair option \<Rightarrow>
   ('w, 'j, 'j processed) act" where
  "call_contract tb client addr abi method params keys =
     bindS (prepare_message tb client addr abi method params None keys) (\<lambda>msg.
     send_message_and_wait tb client (Some abi) (en_message msg))"

definition query_account_boc ::
  "('w, 'x, 'j, 'ab) test_lib \<Rightarrow> 'x test_client \<Rightarrow> string \<Rightarrow> ('w, 'j, string) act" where
  "query_account_boc tb client addr =
     bindS (on_world (sdk_err (\<lambda>e. ''failed to query account: '' @ tl_show tb e))
         (tl_query_collection tb (tc_context client)
            (query ''accounts'' (Some (filter_eq tb ''id'' (str tb addr))) ''boc''))) (\<lambda>accounts.
     liftS (case accounts of
         [] \<Rightarrow> Inl (Failed (OtherError ''account not found''))
       | account # _ \<Rightarrow>
           (case ja_as_str (tl_json tb) (json_at tb ''boc'' account) of
              None \<Rightarrow> Inl (Failed (OtherError ''account doesn't contain data''))
            | Some boc \<Rightarrow> Inr boc)))"

definition run_contract ::
  "('w, 'x, 'j, 'ab) test_lib \<Rightarrow> 'x test_client \<Rightarrow> string \<Rightarrow> 'ab abi \<Rightarrow> string \<Rightarrow> 'j \<Rightarrow>
   ('w, 'j, 'j decoded_output option) act" where
  "run_contract tb client addr abi method params =
     bindS (prepare_message tb client addr abi method params None None) (\<lambda>message.
     bindS (query_account_boc tb client addr) (\<lambda>account.
     on_world (sdk_err (\<lambda>e. ''run failed: '' @ tl_show tb e))
       (tl_run_tvm tb (tc_context client) (en_message message) account (Some abi) True)))"

text \<open>Only internal messages (\<^verbatim>\<open>msg_type\<close> 0) are waited for.\<close>

fun wait_for_out_messages ::
  "('w, 'x, 'j, 'ab) test_lib \<Rightarrow> 'x test_client \<Rightarrow> string list \<Rightarrow> ('w, 'j, unit) act" where
  "wait_for_out_messages tb client [] = retS ()"
| "wait_for_out_messages tb client (message # rest) =
     bindS (liftS (sdk_try (tl_parse_message tb (tc_context client) message))) (\<lambda>msg_json.
     bindS (if ja_as_integer (tl_json tb) (json_at tb ''msg_type'' msg_json) = Some 0
            then bindS (on_world sdk_try (tl_wait_for_collection tb (tc_context client)
                    (query ''transactions'' (Some (filter_eq tb ''in_msg'' (json_at tb ''id'' msg_json))) ''id'')))
                   (\<lambda>_. retS ())
            else retS ()) (\<lambda>_.
     wait_for_out_messages tb client rest))"

section \<open>The funded contracts\<close>

record 'ab funded =
  fd_abi :: "'ab abi"
  fd_keypair :: keypair

text \<open>\<^verbatim>\<open>Giver::new\<close> and \<^verbatim>\<open>Multisig::new\<close> are the same but for their files.\<close>

definition funded_new :: "('w, 'x, 'j, 'ab) test_lib \<Rightarrow> string \<Rightarrow> string \<Rightarrow> ('j, 'ab funded) outcome" where
  "funded_new tb keys_file abi_file =
     bindR (expect ''Failed to parse giver's keypair file'' (ja_from_str (tl_json tb) (tl_include tb keys_file)))
       (\<lambda>json.
     bindR (expect_some ''public'' (ja_as_str (tl_json tb) (json_at tb ''public'' json))) (\<lambda>public.
     bindR (expect_some ''secret'' (ja_as_str (tl_json tb) (json_at tb ''secret'' json))) (\<lambda>secret.
     bindR (expect ''Failed to parse giver's public key'' (tl_hex_decode tb public)) (\<lambda>public.
     bindR (expect ''Failed to parse giver's secret key'' (tl_hex_decode tb secret)) (\<lambda>secret.
     bindR (expect ''unwrap'' (tl_contract tb (tl_include tb abi_file))) (\<lambda>contract.
     bindR (expect ''public'' (tl_public_key tb public)) (\<lambda>public.
     bindR (expect ''secret'' (tl_secret_key tb secret)) (\<lambda>secret.
     Inr \<lparr>fd_abi = Contract contract, fd_keypair = \<lparr>kp_public = public, kp_secret = secret\<rparr>\<rparr>))))))))"

definition giver_new :: "('w, 'x, 'j, 'ab) test_lib \<Rightarrow> ('j, 'ab funded) outcome" where
  "giver_new tb =
     funded_new tb ''../../../evernode-se/contracts/giver_v3/seGiver.keys.json''
       ''../../../evernode-se/contracts/giver_v3/GiverV3.abi.json''"

definition giver_address :: string where
  "giver_address = ''0:96137b99dcd65afce5a54a48dac83c0fd276432abbe3ba7f1bfb0fb795e69025''"

definition giver_send_grams ::
  "('w, 'x, 'j, 'ab) test_lib \<Rightarrow> 'ab funded \<Rightarrow> 'x test_client \<Rightarrow> string \<Rightarrow> nat \<Rightarrow> ('w, 'j, 'j processed) act" where
  "giver_send_grams tb giver client account amount =
     call_contract tb client giver_address (fd_abi giver) ''sendTransaction''
       (obj tb [(''dest'', str tb account), (''value'', tl_num tb (int amount)), (''bounce'', tl_bool tb False)])
       (Some (fd_keypair giver))"

definition multisig_new :: "('w, 'x, 'j, 'ab) test_lib \<Rightarrow> ('j, 'ab funded) outcome" where
  "multisig_new tb =
     funded_new tb ''../../../evernode-se/contracts/safe_multisig/SafeMultisigWallet.keys.json''
       ''../../../evernode-se/contracts/safe_multisig/SafeMultisigWallet.abi.json''"

definition multisig_address :: string where
  "multisig_address = ''0:d5f5cfc4b52d2eb1bd9d3a8e51707872c7ce0c174facddd0e06ae5ffd17d2fcd''"

definition multisig_send_grams ::
  "('w, 'x, 'j, 'ab) test_lib \<Rightarrow> 'ab funded \<Rightarrow> 'x test_client \<Rightarrow> string \<Rightarrow> nat \<Rightarrow> bool \<Rightarrow> nat \<Rightarrow>
   string option \<Rightarrow> ('w, 'j, 'j processed) act" where
  "multisig_send_grams tb multisig client account amount bounce flags payload =
     call_contract tb client multisig_address (fd_abi multisig) ''sendTransaction''
       (obj tb [(''dest'', str tb account), (''value'', tl_num tb (int amount)), (''bounce'', tl_bool tb bounce),
          (''flags'', tl_num tb (int flags)),
          (''payload'', str tb (case payload of Some p \<Rightarrow> p | None \<Rightarrow> []))])
       (Some (fd_keypair multisig))"

section \<open>Deploying\<close>

text \<open>\<^verbatim>\<open>with_extension\<close> of a file name without directories: what follows the last dot is
  replaced, a leading dot apart.\<close>

definition with_extension :: "string \<Rightarrow> string \<Rightarrow> string" where
  "with_extension ext name =
     (case dropWhile (\<lambda>c. c \<noteq> CHR ''.'') (rev name) of
        [] \<Rightarrow> name @ ''.'' @ ext
      | _ # before \<Rightarrow> if before = [] then name @ ''.'' @ ext else rev before @ ''.'' @ ext)"

definition load_contract :: "('w, 'x, 'j, 'ab) test_lib \<Rightarrow> string \<Rightarrow> ('j, string \<times> 'ab abi) outcome" where
  "load_contract tb name =
     bindR (other_try (tl_read tb (''contracts/'' @ with_extension ''tvc'' name))) (\<lambda>tvc.
     bindR (other_try (tl_read_to_string tb (''contracts/'' @ with_extension ''abi.json'' name))) (\<lambda>json.
     bindR (other_try (tl_contract tb json)) (\<lambda>contract.
     Inr (tl_base64_encode tb tvc, Contract contract))))"

definition deploy_with_giver ::
  "('w, 'x, 'j, 'ab) test_lib \<Rightarrow> 'x test_client \<Rightarrow> 'ab abi \<Rightarrow> string \<Rightarrow> i32 \<Rightarrow> 'j call_set option \<Rightarrow>
   keypair \<Rightarrow> nat \<Rightarrow> ('w, 'j, string \<times> 'j decoded_output option) act" where
  "deploy_with_giver tb client abi tvc workchain_id call_set keys amount =
     bindS (client_encode_message tb client abi None
         (Some \<lparr>ds_tvc = Some tvc, ds_workchain_id = Some workchain_id\<rparr>) call_set (Some keys)) (\<lambda>encoded.
     bindS (liftS (giver_new tb)) (\<lambda>giver.
     bindS (giver_send_grams tb giver client (en_address encoded) amount) (\<lambda>sent.
     bindS (wait_for_out_messages tb client (pr_out_messages sent)) (\<lambda>_.
     bindS (send_message_and_wait tb client (Some abi) (en_message encoded)) (\<lambda>send_result.
     retS (en_address encoded, pr_decoded send_result))))))"

end
