(* ===== verification/Test_Cases.thy ===== *)
theory Test_Cases
  imports Test_Client
begin

text \<open>
  The integration tests (\<^verbatim>\<open>integration-tests/src/lib.rs\<close>), one definition per function. A test
  passes when its run ends with a value; an error of a test that returns a \<^verbatim>\<open>Result\<close>, and a
  panic, fail it. The lock in the test of the message order only orders the tests that run at the
  same time, and printing is left out.
\<close>

section \<open>Shared steps\<close>

text \<open>A call whose \<^verbatim>\<open>Result\<close> is looked at; a panic goes on.\<close>

definition attempt :: "('w, 'j, 'a) act \<Rightarrow> ('w, 'j, 'j test_error + 'a) act" where
  "attempt m w =
     (case m w of
        (Inr x, w) \<Rightarrow> (Inr (Inr x), w)
      | (Inl (Failed e), w) \<Rightarrow> (Inr (Inl e), w)
      | (Inl (Panicked p), w) \<Rightarrow> (Inl (Panicked p), w))"

definition require :: "string \<Rightarrow> bool \<Rightarrow> ('w, 'j, unit) act" where
  "require what c = liftS (assert_that what c)"

definition sleep :: "('w, 'x, 'j, 'ab) test_lib \<Rightarrow> nat \<Rightarrow> ('w, 'j, unit) act" where
  "sleep tb seconds = on_world Inr (\<lambda>w. ((), tl_sleep tb seconds w))"

text \<open>A subtraction of \<^verbatim>\<open>u64\<close>: the tests are built with overflow checks.\<close>

definition minus_u64 :: "nat \<Rightarrow> nat \<Rightarrow> ('j, nat) outcome" where
  "minus_u64 a b = (if b \<le> a then Inr (a - b) else Inl (Panicked ''attempt to subtract with overflow''))"

definition query_rows ::
  "('w, 'x, 'j, 'ab) test_lib \<Rightarrow> 'x test_client \<Rightarrow> ('j client_error \<Rightarrow> string) \<Rightarrow>
   'j collection_query \<Rightarrow> ('w, 'j, 'j list) act" where
  "query_rows tb client text_of q = on_world (sdk_err text_of) (tl_query_collection tb (tc_context client) q)"

definition first_row :: "'j list \<Rightarrow> ('j, 'j) outcome" where
  "first_row rows = (case rows of row # _ \<Rightarrow> Inr row | [] \<Rightarrow> Inl (Panicked ''index out of bounds''))"

text \<open>\<^verbatim>\<open>load_contract(name).unwrap()\<close> and \<^verbatim>\<open>deploy_with_giver(..).await.unwrap()\<close>, the address kept.\<close>

definition must_load ::
  "('w, 'x, 'j, 'ab) test_lib \<Rightarrow> string \<Rightarrow> ('w, 'j, string \<times> 'ab abi) act" where
  "must_load tb name = unwrap (liftS (load_contract tb name))"

definition must_deploy ::
  "('w, 'x, 'j, 'ab) test_lib \<Rightarrow> 'x test_client \<Rightarrow> 'ab abi \<Rightarrow> string \<Rightarrow> 'j call_set option \<Rightarrow>
   keypair \<Rightarrow> nat \<Rightarrow> ('w, 'j, string) act" where
  "must_deploy tb client abi tvc call_set keys amount =
     bindS (unwrap (deploy_with_giver tb client abi tvc 0 call_set keys amount)) (\<lambda>deployed.
     retS (fst deployed))"

definition call_set_of :: "string \<Rightarrow> 'j \<Rightarrow> 'j call_set option" where
  "call_set_of name input = Some \<lparr>cs_function_name = name, cs_header = None, cs_input = Some input\<rparr>"

section \<open>Order of internal messages\<close>

definition deploy_msg_ordering_receiver ::
  "('w, 'x, 'j, 'ab) test_lib \<Rightarrow> 'x test_client \<Rightarrow> keypair \<Rightarrow> ('w, 'j, string \<times> 'ab abi) act" where
  "deploy_msg_ordering_receiver tb client keypair =
     bindS (liftS (load_contract tb ''MessageOrderingReceiver'')) (\<lambda>(receiver_tvc, receiver_abi).
     bindS (deploy_with_giver tb client receiver_abi receiver_tvc 0
         (tl_some_with_function tb ''constructor'') keypair 10000000000000) (\<lambda>(receiver_addr, _).
     retS (receiver_addr, receiver_abi)))"

definition deploy_msg_ordering_sender ::
  "('w, 'x, 'j, 'ab) test_lib \<Rightarrow> 'x test_client \<Rightarrow> keypair \<Rightarrow> string \<Rightarrow>
   ('w, 'j, string \<times> 'ab abi) act" where
  "deploy_msg_ordering_sender tb client keypair receiver_addr =
     bindS (liftS (load_contract tb ''MessageOrderingSender'')) (\<lambda>(sender_tvc, sender_abi).
     bindS (deploy_with_giver tb client sender_abi sender_tvc 0
         (tl_some_with_function_and_input tb ''constructor'' (obj tb [(''receiver'', str tb receiver_addr)]))
         keypair 10000000000000) (\<lambda>(sender_addr, _).
     retS (sender_addr, sender_abi)))"

definition execute_msg_ordering_sender ::
  "('w, 'x, 'j, 'ab) test_lib \<Rightarrow> 'x test_client \<Rightarrow> string \<Rightarrow> 'ab abi \<Rightarrow> keypair \<Rightarrow> nat \<Rightarrow>
   ('w, 'j, string list) act" where
  "execute_msg_ordering_sender tb client addr abi keypair max_value =
     bindS (call_contract tb client addr abi ''sendMessages''
         (obj tb [(''max'', tl_num tb (int max_value))]) (Some keypair)) (\<lambda>result.
     bindS (liftS (expect_some ''Expected sendMessages output'' (pr_decoded result))) (\<lambda>decoded.
     bindS (require ''output.is_none()'' (do_output decoded = None)) (\<lambda>_.
     retS (pr_out_messages result))))"

definition get_receiver_last_accepted ::
  "('w, 'x, 'j, 'ab) test_lib \<Rightarrow> 'x test_client \<Rightarrow> string \<Rightarrow> 'ab abi \<Rightarrow> ('w, 'j, nat) act" where
  "get_receiver_last_accepted tb client addr abi =
     bindS (run_contract tb client addr abi ''getLastAccepted'' (obj tb [])) (\<lambda>run.
     bindS (liftS (expect_some ''Expected getLastAccepted output'' run)) (\<lambda>decoded.
     bindS (liftS (expect_some ''Expected getLastAccepted result'' (do_output decoded))) (\<lambda>result.
     bindS (liftS (expect_some ''Expected string result''
         (ja_as_str (tl_json tb) (json_at tb ''result'' result)))) (\<lambda>result.
     liftS (case parse_unsigned 32 result of
        Some n \<Rightarrow> Inr n
      | None \<Rightarrow> Inl (Failed ParseIntError))))))"

definition test_internal_message_order_internal ::
  "('w, 'x, 'j, 'ab) test_lib \<Rightarrow> 'x test_client \<Rightarrow> ('w, 'j, unit) act" where
  "test_internal_message_order_internal tb client =
     bindS (generate_keypair tb) (\<lambda>keypair.
     bindS (deploy_msg_ordering_receiver tb client keypair) (\<lambda>(receiver_addr, receiver_abi).
     bindS (deploy_msg_ordering_sender tb client keypair receiver_addr) (\<lambda>(sender_addr, sender_abi).
     bindS (execute_msg_ordering_sender tb client sender_addr sender_abi keypair 100) (\<lambda>out_messages.
     bindS (require ''out_messages.len()'' (length out_messages = 100 + 1)) (\<lambda>_.
     bindS (wait_for_out_messages tb client out_messages) (\<lambda>_.
     bindS (get_receiver_last_accepted tb client receiver_addr receiver_abi) (\<lambda>last_accepted.
     require ''last_accepted'' (last_accepted = 100))))))))"

definition test_internal_message_order :: "('w, 'x, 'j, 'ab) test_lib \<Rightarrow> ('w, 'j, unit) act" where
  "test_internal_message_order tb =
     bindS (liftS (client_new tb)) (\<lambda>client. test_internal_message_order_internal tb client)"

section \<open>Prices\<close>

definition extract_contract_output ::
  "string \<Rightarrow> 'j test_error + 'j processed \<Rightarrow> ('j, 'j) outcome" where
  "extract_contract_output method result =
     bindR (expect (''Error calling '' @ method @ '' method'') result) (\<lambda>result.
     bindR (expect_some (''Expected '' @ method @ '' output'') (pr_decoded result)) (\<lambda>decoded.
     expect_some (''Expected '' @ method @ '' result'') (do_output decoded)))"

definition get_price :: "('w, 'x, 'j, 'ab) test_lib \<Rightarrow> 'j \<Rightarrow> ('j, nat) outcome" where
  "get_price tb v =
     bindR (expect_some ''Field not found: price'' (ja_as_str (tl_json tb) (json_at tb ''price'' v))) (\<lambda>s.
     expect_some ''Error parsing price value'' (parse_unsigned 64 s))"

definition call_gas_to_ton ::
  "('w, 'x, 'j, 'ab) test_lib \<Rightarrow> 'x test_client \<Rightarrow> string \<Rightarrow> 'ab abi \<Rightarrow> keypair \<Rightarrow> i32 \<Rightarrow>
   ('w, 'j, nat) act" where
  "call_gas_to_ton tb client addr abi keypair workchain_id =
     bindS (attempt (call_contract tb client addr abi ''gasToTon''
         (obj tb [(''gas'', tl_num tb 1000000), (''wid'', tl_num tb (sint workchain_id))])
         (Some keypair))) (\<lambda>result.
     liftS (bindR (extract_contract_output ''gasToTon'' result) (get_price tb)))"

definition call_ton_to_gas ::
  "('w, 'x, 'j, 'ab) test_lib \<Rightarrow> 'x test_client \<Rightarrow> string \<Rightarrow> 'ab abi \<Rightarrow> keypair \<Rightarrow> i32 \<Rightarrow>
   ('w, 'j, nat) act" where
  "call_ton_to_gas tb client addr abi keypair workchain_id =
     bindS (attempt (call_contract tb client addr abi ''tonToGas''
         (obj tb [(''_ton'', tl_num tb 1000000), (''wid'', tl_num tb (sint workchain_id))])
         (Some keypair))) (\<lambda>result.
     liftS (bindR (extract_contract_output ''tonToGas'' result) (get_price tb)))"

definition test_config_params_20_21 :: "('w, 'x, 'j, 'ab) test_lib \<Rightarrow> ('w, 'j, unit) act" where
  "test_config_params_20_21 tb =
     bindS (liftS (client_new tb)) (\<lambda>client.
     bindS (generate_keypair tb) (\<lambda>keypair.
     bindS (liftS (load_contract tb ''ConfigParamsTest'')) (\<lambda>(tvc, abi).
     bindS (deploy_with_giver tb client abi tvc 0 (tl_some_with_function tb ''constructor'') keypair
         10000000000) (\<lambda>(addr, _).
     bindS (call_gas_to_ton tb client addr abi keypair (-1)) (\<lambda>price.
     bindS (require ''call_gas_to_ton'' (price > 0)) (\<lambda>_.
     bindS (call_gas_to_ton tb client addr abi keypair 0) (\<lambda>price.
     bindS (require ''call_gas_to_ton'' (price > 0)) (\<lambda>_.
     bindS (call_ton_to_gas tb client addr abi keypair (-1)) (\<lambda>gas.
     bindS (require ''call_ton_to_gas'' (gas > 0)) (\<lambda>_.
     bindS (call_ton_to_gas tb client addr abi keypair 0) (\<lambda>gas.
     require ''call_ton_to_gas'' (gas > 0))))))))))))"

section \<open>Documents\<close>

text \<open>The loop over the messages of \<^verbatim>\<open>test_ext_in_created_at\<close>.\<close>

fun all_created ::
  "('w, 'x, 'j, 'ab) test_lib \<Rightarrow> 'j list \<Rightarrow> ('j, unit) outcome" where
  "all_created tb [] = Inr ()"
| "all_created tb (msg # msgs) =
     (case as_u64_of tb (json_at tb ''created_at'' msg) of
        None \<Rightarrow> Inl (Failed (OtherError ''created_at must be set!''))
      | Some n \<Rightarrow> bindR (assert_that ''created_at'' (n > 0)) (\<lambda>_. all_created tb msgs))"

definition test_ext_in_created_at :: "('w, 'x, 'j, 'ab) test_lib \<Rightarrow> ('w, 'j, unit) act" where
  "test_ext_in_created_at tb =
     bindS (liftS (client_new tb)) (\<lambda>client.
     bindS (query_rows tb client (\<lambda>e. ''failed to query messages: '' @ tl_show tb e)
         ((query ''messages'' (Some (filter_eq tb ''msg_type'' (tl_num tb 1))) ''created_at'')
            \<lparr>cq_limit := Some 100\<rparr>)) (\<lambda>messages.
     bindS (require ''!messages.is_empty()'' (messages \<noteq> [])) (\<lambda>_.
     liftS (all_created tb messages))))"

definition ensure_no_non_finalized ::
  "('w, 'x, 'j, 'ab) test_lib \<Rightarrow> 'x test_client \<Rightarrow> string \<Rightarrow> nat \<Rightarrow> ('w, 'j, unit) act" where
  "ensure_no_non_finalized tb client collection finalized_status =
     bindS (query_rows tb client (\<lambda>e. ''failed to query '' @ collection @ '': '' @ tl_show tb e)
         (query collection
            (Some (obj tb [(''status'', obj tb [(''ne'', tl_num tb (int finalized_status))])]))
            ''id, status, status_name'')) (\<lambda>items.
     require ''Unexpected status'' (length items = 0))"

definition test_message_statuses :: "('w, 'x, 'j, 'ab) test_lib \<Rightarrow> ('w, 'j, unit) act" where
  "test_message_statuses tb =
     bindS (liftS (client_new tb)) (\<lambda>client.
     bindS (test_internal_message_order_internal tb client) (\<lambda>_.
     bindS (ensure_no_non_finalized tb client ''messages'' (tl_message_finalized tb)) (\<lambda>_.
     bindS (ensure_no_non_finalized tb client ''transactions'' (tl_transaction_finalized tb)) (\<lambda>_.
     ensure_no_non_finalized tb client ''blocks'' (tl_block_finalized tb)))))"

definition assert_account ::
  "('w, 'x, 'j, 'ab) test_lib \<Rightarrow> 'x test_client \<Rightarrow> string \<Rightarrow> string \<Rightarrow> nat \<Rightarrow>
   ('w, 'j, unit) act" where
  "assert_account tb client id_text code_hash min_balance =
     bindS (query_rows tb client (\<lambda>e. ''failed to query account: '' @ tl_show tb e)
         (query ''accounts'' (Some (filter_eq tb ''id'' (str tb id_text)))
            ''balance(format:DEC), code_hash'')) (\<lambda>accounts.
     bindS (require ''account not found'' (length accounts = 1)) (\<lambda>_.
     bindS (liftS (first_row accounts)) (\<lambda>account.
     bindS (require ''code_hash'' (ja_as_str (tl_json tb) (json_at tb ''code_hash'' account) = Some code_hash)) (\<lambda>_.
     bindS (liftS (expect_some ''balance must be a string''
         (ja_as_str (tl_json tb) (json_at tb ''balance'' account)))) (\<lambda>s.
     case parse_unsigned 128 s of
       None \<Rightarrow> liftS (Inl (Failed ParseIntError))
     | Some balance \<Rightarrow> require ''balance is less than expected'' (balance \<ge> min_balance))))))"

definition test_predeployed_contracts :: "('w, 'x, 'j, 'ab) test_lib \<Rightarrow> ('w, 'j, unit) act" where
  "test_predeployed_contracts tb =
     bindS (liftS (client_new tb)) (\<lambda>client.
     bindS (assert_account tb client
         ''0:841288ed3b55d9cdafa806807f02a0ae0c169aa5edfe88a789a6482429756a94''
         ''fdfab26e1359ddd0c247b0fb334c2cc3943256a263e75d33e5473567cbe2c124'' 4900000000000000000) (\<lambda>_.
     bindS (assert_account tb client
         ''0:ece57bcc6c530283becbbd8a3b24d3c5987cdddc3c8b7b33be6e4a6312490415''
         ''ccbfc821853aa641af3813ebd477e26818b51e4ca23e5f6d34509215aa7123d9'' 4900000000000000000) (\<lambda>_.
     bindS (assert_account tb client
         ''0:96137b99dcd65afce5a54a48dac83c0fd276432abbe3ba7f1bfb0fb795e69025''
         ''57a1e5e4304f4db2beb23117e4d85df9cb5caec127531350e73219a8b8dc8afd'' 4900000000000000000) (\<lambda>_.
     assert_account tb client
         ''0:d5f5cfc4b52d2eb1bd9d3a8e51707872c7ce0c174facddd0e06ae5ffd17d2fcd''
         ''80d6c47c4a25543c9b397b71716f3fae1e2c5d247174c52e2c19bd896442b105'' 999998000000000))))"

section \<open>Deployed contracts\<close>

text \<open>\<^verbatim>\<open>encode_message(..).await.unwrap()\<close> and \<^verbatim>\<open>send_message_and_wait(..).await.unwrap()\<close> on a deployed
  contract.\<close>

definition must_send ::
  "('w, 'x, 'j, 'ab) test_lib \<Rightarrow> 'x test_client \<Rightarrow> 'ab abi \<Rightarrow> string \<Rightarrow> 'j call_set option \<Rightarrow>
   keypair \<Rightarrow> ('w, 'j, 'j processed) act" where
  "must_send tb client abi addr call_set keys =
     bindS (unwrap (client_encode_message tb client abi (Some addr) None call_set (Some keys))) (\<lambda>message.
     unwrap (send_message_and_wait tb client (Some abi) (en_message message)))"

text \<open>The input of the constructors that take the public key.\<close>

definition pubkey_input :: "('w, 'x, 'j, 'ab) test_lib \<Rightarrow> keypair \<Rightarrow> 'j" where
  "pubkey_input tb keys = obj tb [(''pubkey'', str tb (''0x'' @ tl_hex_encode tb (kp_public keys)))]"

definition test_my_code :: "('w, 'x, 'j, 'ab) test_lib \<Rightarrow> ('w, 'j, unit) act" where
  "test_my_code tb =
     bindS (liftS (client_new tb)) (\<lambda>client.
     bindS (generate_keypair tb) (\<lambda>keys.
     bindS (must_load tb ''MyCodeFail'') (\<lambda>(tvc, abi).
     bindS (must_deploy tb client abi tvc
         (tl_some_with_function_and_input tb ''constructor'' (pubkey_input tb keys)) keys 10000000000) (\<lambda>addr.
     bindS (must_send tb client abi addr (call_set_of ''requestCodeRefs'' (obj tb [])) keys) (\<lambda>result.
     bindS (liftS (expect_some ''unwrap'' (pr_decoded result))) (\<lambda>decoded.
     bindS (liftS (expect_some ''unwrap'' (do_output decoded))) (\<lambda>answer.
     require ''output'' (obj tb [(''value0'', str tb ''2'')] = answer))))))))"

section \<open>Time\<close>

text \<open>A post to the control interface of the node; the text of a successful answer.\<close>

definition se :: "('w, 'x, 'j, 'ab) test_lib \<Rightarrow> string \<Rightarrow> ('w, 'j, string) act" where
  "se tb command =
     bindS (on_world (expect ''unwrap'') (tl_post tb (network_address tb @ ''/se/'' @ command))) (\<lambda>(status, body).
     bindS (liftS (expect ''unwrap'' body)) (\<lambda>result.
     if 200 \<le> status \<and> status < 300 then retS result
     else liftS (Inl (Panicked (''Server responded with error: '' @ result)))))"

definition get_u64 :: "('w, 'x, 'j, 'ab) test_lib \<Rightarrow> 'j \<Rightarrow> string \<Rightarrow> ('j, nat) outcome" where
  "get_u64 tb v name =
     bindR (expect_some ''unwrap'' (json_get (tl_json tb) name v)) (\<lambda>v.
     case as_u64_of tb v of
       Some n \<Rightarrow> Inr n
     | None \<Rightarrow>
         bindR (expect_some ''unwrap'' (ja_as_str (tl_json tb) v)) (\<lambda>s.
         expect_some ''unwrap'' (parse_unsigned 64 s)))"

definition get_output_u64 ::
  "('w, 'x, 'j, 'ab) test_lib \<Rightarrow> 'j processed \<Rightarrow> string \<Rightarrow> ('j, nat) outcome" where
  "get_output_u64 tb result name =
     bindR (expect_some ''unwrap'' (pr_decoded result)) (\<lambda>decoded.
     bindR (expect_some ''unwrap'' (do_output decoded)) (\<lambda>answer. get_u64 tb answer name))"

definition return_time ::
  "('w, 'x, 'j, 'ab) test_lib \<Rightarrow> 'x test_client \<Rightarrow> string \<Rightarrow> keypair \<Rightarrow> 'ab abi \<Rightarrow>
   ('w, 'j, nat \<times> nat) act" where
  "return_time tb client addr keys abi =
     bindS (must_send tb client abi addr (call_set_of ''returnNow'' (obj tb [])) keys) (\<lambda>result.
     liftS (bindR (get_u64 tb (pr_transaction result) ''now'') (\<lambda>tr_time.
       bindR (get_output_u64 tb result ''value0'') (\<lambda>tvm_time.
       Inr (tr_time, tvm_time)))))"

text \<open>\<^verbatim>\<open>se("time-delta").await.parse::<u64>().unwrap()\<close>.\<close>

definition read_time_delta :: "('w, 'x, 'j, 'ab) test_lib \<Rightarrow> ('w, 'j, nat) act" where
  "read_time_delta tb =
     bindS (se tb ''time-delta'') (\<lambda>s. liftS (expect_some ''unwrap'' (parse_unsigned 64 s)))"

definition test_time_shift :: "('w, 'x, 'j, 'ab) test_lib \<Rightarrow> ('w, 'j, unit) act" where
  "test_time_shift tb =
     bindS (liftS (client_new tb)) (\<lambda>client.
     bindS (generate_keypair tb) (\<lambda>keys.
     bindS (must_load tb ''TimeShiftTest'') (\<lambda>(tvc, abi).
     bindS (must_deploy tb client abi tvc
         (tl_some_with_function_and_input tb ''constructor'' (pubkey_input tb keys)) keys 10000000000) (\<lambda>addr.
     bindS (return_time tb client addr keys abi) (\<lambda>(tr_time1, tvm_time1).
     let delta = 10 in
     bindS (se tb (''increase-time?delta='' @ show_nat delta)) (\<lambda>_.
     bindS (read_time_delta tb) (\<lambda>time_delta.
     bindS (require ''time_delta'' (time_delta = 10)) (\<lambda>_.
     bindS (sleep tb 1) (\<lambda>_.
     bindS (return_time tb client addr keys abi) (\<lambda>(tr_time2, tvm_time2).
     bindS (se tb ''reset-time'') (\<lambda>_.
     bindS (read_time_delta tb) (\<lambda>time_delta.
     bindS (require ''time_delta'' (time_delta = 0)) (\<lambda>_.
     bindS (sleep tb (delta + 1)) (\<lambda>_.
     bindS (liftS (minus_u64 tr_time2 tr_time1)) (\<lambda>tr_delta.
     bindS (liftS (minus_u64 tvm_time2 tvm_time1)) (\<lambda>tvm_delta.
     bindS (require ''tr delta'' (tr_delta > delta)) (\<lambda>_.
     require ''tvm delta'' (tvm_delta > delta))))))))))))))))))"

section \<open>Deployment, calls and traces\<close>

definition test_non_sponsored_deploy :: "('w, 'x, 'j, 'ab) test_lib \<Rightarrow> ('w, 'j, unit) act" where
  "test_non_sponsored_deploy tb =
     bindS (liftS (client_new tb)) (\<lambda>client.
     bindS (generate_keypair tb) (\<lambda>keys.
     bindS (must_load tb ''TimeShiftTest'') (\<lambda>(tvc, abi).
     bindS (unwrap (client_encode_message tb client abi None
         (Some \<lparr>ds_tvc = Some tvc, ds_workchain_id = None\<rparr>)
         (tl_some_with_function tb ''constructor'') (Some keys))) (\<lambda>message.
     bindS (unwrap_client_err (send_message_and_wait tb client (Some abi) (en_message message))) (\<lambda>err.
     require ''err.code'' (cle_code err = 406))))))"

fun call_all ::
  "('w, 'x, 'j, 'ab) test_lib \<Rightarrow> 'x test_client \<Rightarrow> 'ab abi \<Rightarrow> string \<Rightarrow> keypair \<Rightarrow> string list \<Rightarrow>
   ('w, 'j, unit) act" where
  "call_all tb client abi addr keys [] = retS ()"
| "call_all tb client abi addr keys (f # fs) =
     bindS (must_send tb client abi addr (tl_some_with_function tb f) keys) (\<lambda>_.
     call_all tb client abi addr keys fs)"

definition test_gosh :: "('w, 'x, 'j, 'ab) test_lib \<Rightarrow> ('w, 'j, unit) act" where
  "test_gosh tb =
     bindS (liftS (client_new tb)) (\<lambda>client.
     bindS (generate_keypair tb) (\<lambda>keys.
     bindS (must_load tb ''test_gosh'') (\<lambda>(tvc, abi).
     bindS (must_deploy tb client abi tvc (tl_some_with_function tb ''constructor'') keys 10000000000) (\<lambda>addr.
     bindS (liftS (case abi of Contract json \<Rightarrow> Inr json | OtherAbi \<Rightarrow> Inl (Panicked ''unreachable''))) (\<lambda>abi_json.
     call_all tb client abi addr keys (filter (\<lambda>f. f \<noteq> ''constructor'') (tl_functions tb abi_json)))))))"

definition test_copyleft :: "('w, 'x, 'j, 'ab) test_lib \<Rightarrow> ('w, 'j, unit) act" where
  "test_copyleft tb =
     bindS (liftS (client_new tb)) (\<lambda>client.
     bindS (generate_keypair tb) (\<lambda>keys.
     bindS (must_load tb ''Copyleft'') (\<lambda>(tvc, abi).
     bindS (must_deploy tb client abi tvc (tl_some_with_function tb ''constructor'') keys 10000000000) (\<lambda>addr.
     bindS (unwrap (call_contract tb client addr abi ''touch'' (obj tb []) (Some keys))) (\<lambda>_.
     retS ())))))"

text \<open>The parameters that \<^verbatim>\<open>test_bounced_body\<close> encodes: the payload, and the body that comes back.\<close>

definition payload_params :: "abi_param list" where
  "payload_params = [AbiParam ''a'' ''uint256'' [], AbiParam ''b'' ''uint32'' []]"

definition payload_data :: "('w, 'x, 'j, 'ab) test_lib \<Rightarrow> 'j" where
  "payload_data tb = obj tb [(''a'', tl_num tb 123), (''b'', str tb ''456'')]"

definition bounced_params :: "abi_param list" where
  "bounced_params =
     [AbiParam ''a'' ''int32'' [], AbiParam ''b'' ''uint256'' [],
      AbiParam ''c'' ''ref(tuple)'' [AbiParam ''a'' ''uint256'' [], AbiParam ''b'' ''uint32'' []]]"

definition bounced_data :: "('w, 'x, 'j, 'ab) test_lib \<Rightarrow> 'j" where
  "bounced_data tb =
     obj tb [(''a'', tl_num tb (-1)), (''b'', tl_num tb 123),
       (''c'', obj tb [(''a'', tl_num tb 123), (''b'', str tb ''456'')])]"

definition must_encode_boc ::
  "('w, 'x, 'j, 'ab) test_lib \<Rightarrow> 'x test_client \<Rightarrow> abi_param list \<Rightarrow> 'j \<Rightarrow> ('w, 'j, string) act" where
  "must_encode_boc tb client params data =
     liftS (expect ''unwrap'' (tl_encode_boc tb (tc_context client) params data))"

definition must_query ::
  "('w, 'x, 'j, 'ab) test_lib \<Rightarrow> 'x test_client \<Rightarrow> 'j collection_query \<Rightarrow> ('w, 'j, 'j list) act" where
  "must_query tb client q = on_world (expect ''unwrap'') (tl_query_collection tb (tc_context client) q)"

definition must_query_tree ::
  "('w, 'x, 'j, 'ab) test_lib \<Rightarrow> 'x test_client \<Rightarrow> string \<Rightarrow> nat option \<Rightarrow>
   ('w, 'j, transaction_tree) act" where
  "must_query_tree tb client in_msg max_count =
     on_world (expect ''unwrap'') (tl_query_transaction_tree tb (tc_context client) in_msg max_count)"

definition test_bounced_body :: "('w, 'x, 'j, 'ab) test_lib \<Rightarrow> ('w, 'j, unit) act" where
  "test_bounced_body tb =
     bindS (liftS (client_new tb)) (\<lambda>client.
     bindS (liftS (multisig_new tb)) (\<lambda>multisig.
     bindS (must_encode_boc tb client payload_params (payload_data tb)) (\<lambda>payload.
     bindS (unwrap (multisig_send_grams tb multisig client
         ''0:0123456789abcdef0123456789abcdef0123456789abcdef0123456789abcdef''
         500000000 True 0 (Some payload))) (\<lambda>result.
     bindS (liftS (expect_some ''unwrap''
         (ja_as_str (tl_json tb) (json_at tb ''in_msg'' (pr_transaction result))))) (\<lambda>in_msg.
     bindS (must_query_tree tb client in_msg None) (\<lambda>tree.
     bindS (liftS (if tt_message_ids tree = [] then Inl (Panicked ''unwrap'')
         else Inr (last (tt_message_ids tree)))) (\<lambda>bounced_id.
     bindS (must_query tb client
         (query ''messages'' (Some (filter_eq tb ''id'' (str tb bounced_id))) ''body bounced'')) (\<lambda>rows.
     bindS (liftS (first_row rows)) (\<lambda>message.
     bindS (require ''bounced'' (json_at tb ''bounced'' message = tl_bool tb True)) (\<lambda>_.
     bindS (must_encode_boc tb client bounced_params (bounced_data tb)) (\<lambda>bounced_body.
     bindS (liftS (expect_some ''unwrap'' (ja_as_str (tl_json tb) (json_at tb ''body'' message)))) (\<lambda>body.
     require ''body'' (body = bounced_body)))))))))))))"

definition advanced_test_msg_order :: "('w, 'x, 'j, 'ab) test_lib \<Rightarrow> ('w, 'j, unit) act" where
  "advanced_test_msg_order tb =
     bindS (liftS (client_new tb)) (\<lambda>client.
     bindS (generate_keypair tb) (\<lambda>keys.
     bindS (must_load tb ''Alpha'') (\<lambda>(alpha_tvc, alpha_abi).
     bindS (must_load tb ''Beta'') (\<lambda>(beta_tvc, beta_abi).
     bindS (must_load tb ''Gamma'') (\<lambda>(gamma_tvc, gamma_abi).
     bindS (must_deploy tb client gamma_abi gamma_tvc (tl_some_with_function tb ''constructor'') keys
         10000000000) (\<lambda>gamma_addr.
     bindS (must_deploy tb client beta_abi beta_tvc
         (tl_some_with_function_and_input tb ''constructor'' (obj tb [(''gamma_addr'', str tb gamma_addr)]))
         keys 10000000000) (\<lambda>beta_addr.
     bindS (must_deploy tb client alpha_abi alpha_tvc
         (tl_some_with_function_and_input tb ''constructor'' (obj tb [(''beta_addr'', str tb beta_addr)]))
         keys 1000000000000) (\<lambda>alpha_addr.
     let count = 100 in
     bindS (unwrap (client_encode_message tb client alpha_abi (Some alpha_addr) None
         (tl_some_with_function_and_input tb ''massTrigger'' (obj tb [(''count'', tl_num tb (int count))]))
         (Some keys))) (\<lambda>message.
     bindS (unwrap (send_message_and_wait tb client (Some alpha_abi) (en_message message))) (\<lambda>_.
     bindS (must_query_tree tb client (en_message_id message) (Some 0)) (\<lambda>tree.
     bindS (require ''transactions.len()'' (count * 3 + 1 = length (tt_aborted tree))) (\<lambda>_.
     require ''!tr.aborted'' (list_all Not (tt_aborted tree))))))))))))))"

definition test_transaction_trace :: "('w, 'x, 'j, 'ab) test_lib \<Rightarrow> ('w, 'j, unit) act" where
  "test_transaction_trace tb =
     bindS (liftS (client_new tb)) (\<lambda>client.
     bindS (generate_keypair tb) (\<lambda>keys.
     bindS (liftS (giver_new tb)) (\<lambda>giver.
     bindS (unwrap_client_err (call_contract tb client giver_address (fd_abi giver) ''sendTransaction''
         (obj tb [(''dest'', str tb giver_address), (''value'', tl_num tb 123456), (''bounce'', tl_bool tb False)])
         (Some keys))) (\<lambda>result.
     bindS (must_query tb client
         (query ''transactions''
            (Some (filter_eq tb ''id'' (json_at tb ''transaction_id'' (cle_data result)))) ''trace { step }''))
       (\<lambda>rows.
     bindS (liftS (first_row rows)) (\<lambda>row.
     require ''is_array()'' (ja_as_array (tl_json tb) (json_at tb ''trace'' row) \<noteq> None)))))))"

section \<open>Reset and fork\<close>

definition query_last_seq_no ::
  "('w, 'x, 'j, 'ab) test_lib \<Rightarrow> 'x test_client \<Rightarrow> ('w, 'j, nat) act" where
  "query_last_seq_no tb client =
     bindS (must_query tb client
         ((query ''blocks'' None ''seq_no'')\<lparr>cq_order := Some [(''seq_no'', DESC)], cq_limit := Some 1\<rparr>)) (\<lambda>rows.
     bindS (liftS (first_row rows)) (\<lambda>row.
     liftS (expect_some ''unwrap'' (as_u64_of tb (json_at tb ''seq_no'' row)))))"

definition test_reset :: "('w, 'x, 'j, 'ab) test_lib \<Rightarrow> ('w, 'j, unit) act" where
  "test_reset tb =
     bindS (liftS (client_new tb)) (\<lambda>client.
     bindS (liftS (giver_new tb)) (\<lambda>giver.
     bindS (unwrap (giver_send_grams tb giver client giver_address 500000000)) (\<lambda>_.
     bindS (query_last_seq_no tb client) (\<lambda>seq_no.
     bindS (se tb ''reset'') (\<lambda>_.
     bindS (sleep tb 1) (\<lambda>_.
     bindS (query_last_seq_no tb client) (\<lambda>reset_seq_no.
     require ''seq_no'' (seq_no > reset_seq_no))))))))"

text \<open>\<^verbatim>\<open>send_msg\<close> of \<^verbatim>\<open>test_fork\<close>: an external message to the zero address of the masterchain; the
  transaction that refused it.\<close>

definition fork_send_msg :: "('w, 'x, 'j, 'ab) test_lib \<Rightarrow> ('w, 'j, 'j) act" where
  "fork_send_msg tb =
     bindS (liftS (client_new tb)) (\<lambda>client.
     bindS (liftS (expect ''unwrap'' (tl_ext_in_message tb
         ''-1:0000000000000000000000000000000000000000000000000000000000000000''))) (\<lambda>msg.
     bindS (unwrap_client_err (send_message_and_wait tb client None (tl_base64_encode tb msg))) (\<lambda>err.
     bindS (must_query tb client
         (query ''transactions''
            (Some (filter_eq tb ''id'' (json_at tb ''transaction_id'' (cle_data err))))
            ''orig_status end_status'')) (\<lambda>rows.
     liftS (if rows = [] then Inl (Panicked ''unwrap'') else Inr (last rows))))))"

definition statuses_are :: "('w, 'x, 'j, 'ab) test_lib \<Rightarrow> nat \<Rightarrow> 'j \<Rightarrow> ('w, 'j, unit) act" where
  "statuses_are tb n transaction =
     bindS (require ''orig_status'' (as_u64_of tb (json_at tb ''orig_status'' transaction) = Some n)) (\<lambda>_.
     require ''end_status'' (as_u64_of tb (json_at tb ''end_status'' transaction) = Some n))"

definition FORK_COMMAND :: string where
  "FORK_COMMAND =
     ''fork?endpoint=https://mainnet.evercloud.dev/1467de01155143d5ba129ab5ea4ede1f/graphql?resetData=false''"

definition test_fork :: "('w, 'x, 'j, 'ab) test_lib \<Rightarrow> ('w, 'j, unit) act" where
  "test_fork tb =
     bindS (se tb ''reset'') (\<lambda>_.
     bindS (sleep tb 5) (\<lambda>_.
     bindS (fork_send_msg tb) (\<lambda>transaction.
     bindS (statuses_are tb 3 transaction) (\<lambda>_.
     bindS (se tb FORK_COMMAND) (\<lambda>_.
     bindS (sleep tb 5) (\<lambda>_.
     bindS (fork_send_msg tb) (\<lambda>transaction.
     bindS (statuses_are tb 1 transaction) (\<lambda>_.
     bindS (se tb ''unfork?resetData=true'') (\<lambda>_.
     bindS (sleep tb 5) (\<lambda>_.
     bindS (fork_send_msg tb) (\<lambda>transaction.
     statuses_are tb 3 transaction)))))))))))"

end
