(* ===== verification/Test_Node.thy ===== *)
theory Test_Node
  imports Test_Cases Control_Api
begin

text \<open>
  The integration tests against the modelled node: a post to the control interface is answered by
  \<open>process_control_request\<close>. How the router of the node and the \<^verbatim>\<open>url\<close> library take a URL apart is a
  parameter; \<open>urls_ok\<close> states what they document for the commands of the tests.
\<close>

section \<open>The wire\<close>

fun status_number :: "http_status \<Rightarrow> nat" where
  "status_number StatusOk = 200"
| "status_number StatusBadRequest = 400"
| "status_number StatusInternalServerError = 500"

text \<open>Characters that a URL gives a meaning in a command or in a query.\<close>

definition plain :: "string \<Rightarrow> bool" where
  "plain s = list_all (\<lambda>c. c \<notin> set ''?#/%&+='') s"

definition plain_value :: "string \<Rightarrow> bool" where
  "plain_value s = list_all (\<lambda>c. c \<notin> set ''#%&+'') s"

text \<open>The path ends at the first question mark; the query is split at \<^verbatim>\<open>&\<close>, and a pair at its first
  equals sign. The text of a value goes on to the end of the query.\<close>

definition urls_ok :: "string \<Rightarrow> (string \<Rightarrow> control_request) \<Rightarrow> bool" where
  "urls_ok address router \<longleftrightarrow>
     (\<forall>cmd. plain cmd \<longrightarrow>
        router (address @ ''/se/'' @ cmd) = \<lparr>cr_command = Some cmd, cr_query = []\<rparr>) \<and>
     (\<forall>cmd name v. plain cmd \<and> plain name \<and> plain_value v \<longrightarrow>
        router (address @ ''/se/'' @ cmd @ ''?'' @ name @ ''='' @ v) =
          \<lparr>cr_command = Some cmd, cr_query = [(name, v)]\<rparr>)"

text \<open>The HTTP client reaches the node, whose state is seen in the world through \<open>get\<close> and \<open>put\<close>.\<close>

definition reaches_node where
  "reaches_node tb me lt router get put \<longleftrightarrow>
     (\<forall>url w status body st. process_control_request me lt (router url) (get w) = Some (Some (status, body), st) \<longrightarrow>
        tl_post tb url w = (Inr (status_number status, Inr (case body of Some s \<Rightarrow> s | None \<Rightarrow> [])), put st w)) \<and>
     (\<forall>st w. get (put st w) = st)"

lemma url_query:
  assumes "urls_ok address router" "plain cmd" "plain name" "plain_value v"
  shows "router (address @ ''/se/'' @ cmd @ ''?'' @ name @ ''='' @ v) =
    \<lparr>cr_command = Some cmd, cr_query = [(name, v)]\<rparr>"
  using assms unfolding urls_ok_def by blast

lemma status_success: "200 \<le> status_number s \<and> status_number s < 300 \<longleftrightarrow> s = StatusOk"
  by (cases s) auto

section \<open>Commands\<close>

lemma se_answer:
  assumes "reaches_node tb me lt router get put"
    and "process_control_request me lt (router (network_address tb @ ''/se/'' @ command)) (get w) =
      Some (Some (status, body), st)"
  shows "se tb command w =
    (if status = StatusOk then Inr (case body of Some s \<Rightarrow> s | None \<Rightarrow> [])
     else Inl (Panicked (''Server responded with error: '' @ (case body of Some s \<Rightarrow> s | None \<Rightarrow> []))),
     put st w)"
proof -
  have "tl_post tb (network_address tb @ ''/se/'' @ command) w =
      (Inr (status_number status, Inr (case body of Some s \<Rightarrow> s | None \<Rightarrow> [])), put st w)"
    using assms unfolding reaches_node_def by blast
  then show ?thesis
    by (simp add: se_def bindS_def on_world_def expect_def liftS_def retS_def status_success)
qed

lemma put_get: "reaches_node tb me lt router get put \<Longrightarrow> get (put st w) = st"
  unfolding reaches_node_def by blast

lemma plain_number [simp]: "plain_value (show_nat n)"
proof -
  have "c \<notin> set ''#%&+''" if "c \<in> set (show_nat n)" for c
  proof -
    obtain d where "d < 10" "c = char_of (48 + d :: nat)" using show_nat_digit_chars [OF \<open>c \<in> set (show_nat n)\<close>] by blast
    then have "of_char c = 48 + d" by simp
    then have "digit_of c = Some d" using \<open>d < 10\<close> by (simp add: digit_of_def)
    then show ?thesis by (auto simp: digit_of_def)
  qed
  then show ?thesis by (auto simp: plain_value_def list_all_iff)
qed

lemma from_req_reset_time: "from_req \<lparr>cr_command = Some ''reset-time'', cr_query = q\<rparr> = Inr ResetTime"
proof -
  have "to_lowercase ''reset-time'' = ''reset-time''" by (simp add: to_lowercase_def lower_char_def)
  then show ?thesis by (simp add: from_req_def)
qed

lemma read_time_delta_answer:
  assumes "reaches_node tb me lt router get put" "urls_ok (network_address tb) router"
  shows "read_time_delta tb w = (Inr (unat (time_delta (engine_of (get w)))), put (get w) w)"
proof -
  have "router (network_address tb @ ''/se/'' @ ''time-delta'') = \<lparr>cr_command = Some ''time-delta'', cr_query = []\<rparr>"
    using assms(2) by (simp add: urls_ok_def plain_def)
  then have se: "se tb ''time-delta'' w =
      (Inr (show_nat (unat (time_delta (engine_of (get w))))), put (get w) w)"
    using se_answer [OF assms(1), of "''time-delta''" w]
    by (simp add: process_control_request_def from_req_queries)
  have "(unat (time_delta (engine_of (get w))) :: nat) < 2 ^ LENGTH(32)" by (rule unsigned_less)
  then have "unat (time_delta (engine_of (get w))) < 2 ^ 64" by simp
  then have "parse_unsigned 64 (show_nat (unat (time_delta (engine_of (get w))))) =
      Some (unat (time_delta (engine_of (get w))))" by (rule parse_unsigned_show)
  with se show ?thesis by (simp add: read_time_delta_def bindS_def expect_some_def liftS_def)
qed

lemma increase_time_answer:
  assumes "reaches_node tb me lt router get put" "urls_ok (network_address tb) router"
  shows "se tb (''increase-time?delta='' @ show_nat (unat d)) w =
    (Inr [], put (on_engine (\<lambda>(n, w). (increase_time_delta d n, w)) (get w)) w)"
proof -
  have "to_lowercase ''increase-time'' = ''increase-time''" by (simp add: to_lowercase_def lower_char_def)
  note parse = control_time_parse [OF this]
  have "plain ''increase-time''" "plain ''delta''" by (simp_all add: plain_def)
  from url_query [OF assms(2) this plain_number]
  have "router (network_address tb @ ''/se/'' @ (''increase-time?delta='' @ show_nat (unat d))) =
      \<lparr>cr_command = Some ''increase-time'', cr_query = [(''delta'', show_nat (unat d))]\<rparr>"
    by simp
  then show ?thesis
    using se_answer [OF assms(1), of "''increase-time?delta='' @ show_nat (unat d)" w]
    by (simp add: process_control_request_def parse parse_u32_show)
qed

lemma reset_time_answer:
  assumes "reaches_node tb me lt router get put" "urls_ok (network_address tb) router"
  shows "se tb ''reset-time'' w = (Inr [], put (on_engine (\<lambda>(n, w). (reset_time_delta n, w)) (get w)) w)"
proof -
  have "router (network_address tb @ ''/se/'' @ ''reset-time'') = \<lparr>cr_command = Some ''reset-time'', cr_query = []\<rparr>"
    using assms(2) by (simp add: urls_ok_def plain_def)
  then show ?thesis
    using se_answer [OF assms(1), of "''reset-time''" w]
    by (simp add: process_control_request_def from_req_reset_time)
qed

lemma reset_clock: "time_delta (engine_of (on_engine (\<lambda>(n, w). (reset_time_delta n, w)) st)) = 0"
  by (cases st; cases "le_state (mg_engine (fst st))";
      simp add: engine_of_def on_engine_def time_delta_def reset_time_delta_def reset_delta_def)

lemma shifted_clock:
  "time_delta (engine_of (on_engine (\<lambda>(n, w). (increase_time_delta d n, w)) st)) = time_delta (engine_of st) + d"
  by (rule on_engine_clock)

text \<open>The last part of the test: the command \<open>reset-time\<close>, the check of the delta, the pause of eleven
  seconds and the comparison of the times that were measured before.\<close>

lemma reset_and_compare:
  assumes "reaches_node tb me lt router get put" "urls_ok (network_address tb) router"
  shows "\<exists>w7 result. time_delta (engine_of (get w7)) = 0 \<and>
    bindS (se tb ''reset-time'') (\<lambda>_.
     bindS (read_time_delta tb) (\<lambda>time_delta.
     bindS (require ''time_delta'' (time_delta = 0)) (\<lambda>_.
     bindS (sleep tb 11) (\<lambda>_.
     bindS (liftS (minus_u64 tr_time2 tr_time1)) (\<lambda>tr_delta.
     bindS (liftS (minus_u64 tvm_time2 tvm_time1)) (\<lambda>tvm_delta.
     bindS (require ''tr delta'' (tr_delta > 10)) (\<lambda>_.
     require ''tvm delta'' (tvm_delta > 10)))))))) w6 = (result, tl_sleep tb 11 w7) \<and>
    (result = Inr () \<longleftrightarrow> tr_time1 + 10 < tr_time2 \<and> tvm_time1 + 10 < tvm_time2)"
proof -
  have get: "get (put st x) = st" for st x by (rule put_get [OF assms(1)])
  note answers = reset_time_answer [OF assms, of w6] read_time_delta_answer [OF assms]
  show ?thesis
    by (rule exI [of _ "put (get (put (on_engine (\<lambda>(n, w). (reset_time_delta n, w)) (get w6)) w6))
        (put (on_engine (\<lambda>(n, w). (reset_time_delta n, w)) (get w6)) w6)"])
      (auto simp: bindS_def answers get reset_clock require_def assert_that_def liftS_def sleep_def on_world_def
        minus_u64_def)
qed

text \<open>\<^bold>\<open>C40\<close>. The test of the time shift needs a node whose delta is zero when it sends its first
  command. On such a node both checks of the delta pass (the second measurement is made at a delta
  of 10, and the delta is 0 again before the last pause), and the test passes exactly when both
  measured times moved by more than ten seconds; when the second measurement fails, the test fails
  with it. On any other node the test fails before it resets the clock and leaves the delta 10
  larger, so a test that was cut off between its two commands makes the next runs fail too.\<close>

theorem time_shift_test_needs_a_clear_clock:
  assumes "reaches_node tb me lt router get put" "urls_ok (network_address tb) router"
    and "client_new tb = Inr client" "generate_keypair tb w = (Inr keys, w1)"
      "must_load tb ''TimeShiftTest'' w1 = (Inr (tvc, abi), w2)"
      "must_deploy tb client abi tvc
         (tl_some_with_function_and_input tb ''constructor'' (pubkey_input tb keys)) keys 10000000000 w2 =
         (Inr addr, w3)"
      "return_time tb client addr keys abi w3 = (Inr (tr_time1, tvm_time1), w4)"
  shows "if time_delta (engine_of (get w4)) = 0
    then \<exists>w5. time_delta (engine_of (get w5)) = 10 \<and>
      (case return_time tb client addr keys abi (tl_sleep tb 1 w5) of
         (Inl e, w6) \<Rightarrow> test_time_shift tb w = (Inl e, w6)
       | (Inr (tr_time2, tvm_time2), w6) \<Rightarrow>
           \<exists>w7 result. time_delta (engine_of (get w7)) = 0 \<and> test_time_shift tb w = (result, tl_sleep tb 11 w7) \<and>
             (result = Inr () \<longleftrightarrow> tr_time1 + 10 < tr_time2 \<and> tvm_time1 + 10 < tvm_time2))
    else \<exists>w5. test_time_shift tb w = (Inl (Panicked ''time_delta''), w5) \<and>
      time_delta (engine_of (get w5)) = time_delta (engine_of (get w4)) + 10"
proof -
  let ?d = "time_delta (engine_of (get w4))"
  let ?v = "put (on_engine (\<lambda>(n, w). (increase_time_delta 10 n, w)) (get w4)) w4"
  have up: "se tb (''increase-time?delta='' @ show_nat 10) w4 = (Inr [], ?v)"
    using increase_time_answer [OF assms(1,2), of 10 w4] by simp
  have get: "get (put st x) = st" for st x by (rule put_get [OF assms(1)])
  have read: "read_time_delta tb ?v = (Inr (unat (?d + 10)), put (get ?v) ?v)"
    using read_time_delta_answer [OF assms(1,2), of ?v] by (simp add: get shifted_clock)
  have ten: "unat (?d + 10) = 10 \<longleftrightarrow> ?d = 0"
  proof -
    have "unat (?d + 10) = 10 \<longleftrightarrow> ?d + 10 = (10 :: u32)"
      using word_unat_eq_iff [of "?d + 10" "10 :: u32"] by simp
    then show ?thesis by simp
  qed
  note begun = assms(3-7) up read test_time_shift_def bindS_def Let_def require_def assert_that_def liftS_def
  show ?thesis
  proof (cases "?d = 0")
    case True
    have clock: "time_delta (engine_of (get (put (get ?v) ?v))) = 10" using True by (simp add: get shifted_clock)
    obtain second w6 where again: "return_time tb client addr keys abi (tl_sleep tb 1 (put (get ?v) ?v)) = (second, w6)"
      by fastforce
    show ?thesis
    proof (cases second)
      case (Inl e)
      with again True have "test_time_shift tb w = (Inl e, w6)"
        using begun(1-7) by (simp add: begun(8-) sleep_def on_world_def)
      with clock again Inl True show ?thesis by (intro if_P [THEN iffD2] exI [of _ "put (get ?v) ?v"]) simp_all
    next
      case (Inr times)
      obtain tr_time2 tvm_time2 where times: "times = (tr_time2, tvm_time2)" by (cases times)
      obtain w7 result where rest: "time_delta (engine_of (get w7)) = 0"
        "test_time_shift tb w = (result, tl_sleep tb 11 w7)"
        "result = Inr () \<longleftrightarrow> tr_time1 + 10 < tr_time2 \<and> tvm_time1 + 10 < tvm_time2"
        using reset_and_compare [OF assms(1,2), of tr_time2 tr_time1 tvm_time2 tvm_time1 w6] again Inr times True
          begun(1-7) by (simp add: begun(8-) sleep_def on_world_def) blast
      have "\<exists>w7 result. time_delta (engine_of (get w7)) = 0 \<and> test_time_shift tb w = (result, tl_sleep tb 11 w7) \<and>
          (result = Inr () \<longleftrightarrow> tr_time1 + 10 < tr_time2 \<and> tvm_time1 + 10 < tvm_time2)"
        using rest by blast
      with clock again Inr times True show ?thesis
        by (intro if_P [THEN iffD2] exI [of _ "put (get ?v) ?v"]) simp_all
    qed
  next
    case False
    with ten have "unat (?d + 10) \<noteq> 10" by simp
    then have "test_time_shift tb w = (Inl (Panicked ''time_delta''), put (get ?v) ?v)"
      using begun(1-7) by (simp add: begun(8-))
    with False show ?thesis by (simp add: get shifted_clock)
  qed
qed

section \<open>The fork\<close>

definition FORK_ENDPOINT :: string where
  "FORK_ENDPOINT = ''https://mainnet.evercloud.dev/1467de01155143d5ba129ab5ea4ede1f/graphql''"

lemma fork_request:
  assumes "urls_ok address router"
  shows "from_req (router (address @ ''/se/'' @ FORK_COMMAND)) =
    Inr (Fork (FORK_ENDPOINT @ ''?resetData=false'') None False)"
proof -
  have low: "to_lowercase ''fork'' = ''fork''" by (simp add: to_lowercase_def lower_char_def)
  have "plain ''fork''" "plain ''endpoint''" "plain_value (FORK_ENDPOINT @ ''?resetData=false'')"
    by (simp_all add: plain_def plain_value_def FORK_ENDPOINT_def)
  from url_query [OF assms this]
  have "router (address @ ''/se/'' @ FORK_COMMAND) =
      \<lparr>cr_command = Some ''fork'', cr_query = [(''endpoint'', FORK_ENDPOINT @ ''?resetData=false'')]\<rparr>"
    by (simp add: FORK_COMMAND_def FORK_ENDPOINT_def)
  then show ?thesis
    by (simp add: from_req_def low required_parameter_def optional_parameter_def find_parameter_def
        reset_data_def)
qed

lemma unfork_request:
  assumes "urls_ok address router"
  shows "from_req (router (address @ ''/se/'' @ ''unfork?resetData=true'')) = Inr (Unfork True)"
proof -
  have low: "to_lowercase ''unfork'' = ''unfork''" by (simp add: to_lowercase_def lower_char_def)
  have "plain ''unfork''" "plain ''resetData''" "plain_value ''true''"
    by (simp_all add: plain_def plain_value_def)
  from url_query [OF assms this]
  have "router (address @ ''/se/'' @ ''unfork?resetData=true'') =
      \<lparr>cr_command = Some ''unfork'', cr_query = [(''resetData'', ''true'')]\<rparr>"
    by simp
  then show ?thesis
    by (simp add: from_req_def low optional_parameter_def find_parameter_def reset_data_def parse_bool_def)
qed

text \<open>What the test gets for a command that the manager answered.\<close>

definition told :: "library_texts \<Rightarrow> node_error option \<Rightarrow> ('j, string) outcome" where
  "told lt problem =
     (case problem of
        None \<Rightarrow> Inr []
      | Some e \<Rightarrow> Inl (Panicked (''Server responded with error: '' @ error_text lt e)))"

lemma se_manager:
  assumes "reaches_node tb me lt router get put"
    and "from_req (router (network_address tb @ ''/se/'' @ command)) = Inr c"
    and "control_run me lt c (get w) =
      Some (server_answer lt (case problem of None \<Rightarrow> Inr () | Some e \<Rightarrow> Inl (Err e)), st)"
  shows "se tb command w = (told lt problem, put st w)"
proof (cases problem)
  case None
  with assms(2,3) have "process_control_request me lt (router (network_address tb @ ''/se/'' @ command)) (get w) =
      Some (Some (StatusOk, None), st)"
    by (simp add: process_control_request_def server_answer_def)
  from se_answer [OF assms(1) this] None show ?thesis by (simp add: told_def)
next
  case (Some e)
  with assms(2,3) have "process_control_request me lt (router (network_address tb @ ''/se/'' @ command)) (get w) =
      Some (Some (StatusInternalServerError, Some (error_text lt e)), st)"
    by (simp add: process_control_request_def server_answer_def)
  from se_answer [OF assms(1) this] Some show ?thesis by (simp add: told_def)
qed

text \<open>The command of the fork test joins its second parameter with a question mark: the node forks
  from the endpoint with \<^verbatim>\<open>?resetData=false\<close> at its end, whether the data is cleared is decided by
  the default. The unfork at the end of the test clears the data as it asks. Both end the test
  when the manager answers an error, with its text.\<close>

theorem fork_test_joins_its_parameter_to_the_endpoint:
  assumes "reaches_node tb me lt router get put" "urls_ok (network_address tb) router"
    and "manager_fork me (FORK_ENDPOINT @ ''?resetData=false'') None False (get w) =
      Some (case problem of None \<Rightarrow> Inr () | Some e \<Rightarrow> Inl (Err e), st)"
    and "manager_unfork me True (get w') =
      Some (case problem' of None \<Rightarrow> Inr () | Some e \<Rightarrow> Inl (Err e), st')"
  shows "se tb FORK_COMMAND w = (told lt problem, put st w) \<and>
    se tb ''unfork?resetData=true'' w' = (told lt problem', put st' w')"
proof
  show "se tb FORK_COMMAND w = (told lt problem, put st w)"
    by (rule se_manager [OF assms(1) fork_request [OF assms(2)]]) (simp add: assms(3))
  show "se tb ''unfork?resetData=true'' w' = (told lt problem', put st' w')"
    by (rule se_manager [OF assms(1) unfork_request [OF assms(2)]]) (simp add: assms(4))
qed

end
