(* ===== verification/Example_Tests.thy ===== *)
theory Example_Tests
  imports Example_Service Test_Node
begin

text \<open>The integration tests against the small node of \<open>Example_Service\<close>: the witnesses of \<open>Test_Node\<close>.\<close>

section \<open>URLs\<close>

definition test_query :: "string \<Rightarrow> (string \<times> string) list" where
  "test_query q =
     (case q of [] \<Rightarrow> [] | _ # pair \<Rightarrow>
        [(takeWhile (\<lambda>c. c \<noteq> CHR ''='') pair, drop 1 (dropWhile (\<lambda>c. c \<noteq> CHR ''='') pair))])"

definition test_router :: "string \<Rightarrow> control_request" where
  "test_router url =
     (let rest = drop (length (DEFAULT_NETWORK_ADDRESS @ ''/se/'')) url in
      \<lparr>cr_command = Some (takeWhile (\<lambda>c. c \<noteq> CHR ''?'') rest),
       cr_query = test_query (dropWhile (\<lambda>c. c \<noteq> CHR ''?'') rest)\<rparr>)"

lemma take_drop_until:
  "list_all P xs \<Longrightarrow> takeWhile P (xs @ ys) = xs @ takeWhile P ys"
  "list_all P xs \<Longrightarrow> dropWhile P (xs @ ys) = dropWhile P ys"
  by (induction xs) auto

lemma test_urls: "urls_ok DEFAULT_NETWORK_ADDRESS test_router"
proof -
  have plain: "list_all (\<lambda>c. c \<noteq> CHR ''?'') s" "list_all (\<lambda>c. c \<noteq> CHR ''='') s" if "plain s" for s
    using that by (auto simp: plain_def list_all_iff)
  have drop: "drop (length (DEFAULT_NETWORK_ADDRESS @ ''/se/'')) (DEFAULT_NETWORK_ADDRESS @ ''/se/'' @ s) = s" for s
    by (simp add: DEFAULT_NETWORK_ADDRESS_def)
  have one: "test_router (DEFAULT_NETWORK_ADDRESS @ ''/se/'' @ cmd) = \<lparr>cr_command = Some cmd, cr_query = []\<rparr>"
    if "plain cmd" for cmd
    using take_drop_until [OF plain(1) [OF that], of "[]"] unfolding test_router_def drop Let_def
    by (simp only: append_Nil2 takeWhile.simps dropWhile.simps test_query_def list.case)
  have two: "test_router (DEFAULT_NETWORK_ADDRESS @ ''/se/'' @ cmd @ ''?'' @ name @ ''='' @ v) =
      \<lparr>cr_command = Some cmd, cr_query = [(name, v)]\<rparr>" if "plain cmd" "plain name" for cmd name v
    unfolding test_router_def drop Let_def
    by (simp add: test_query_def take_drop_until [OF plain(1) [OF that(1)]] take_drop_until [OF plain(2) [OF that(2)]])
  from one two show ?thesis unfolding urls_ok_def by blast
qed

section \<open>The library\<close>

definition test_keys :: plain_json where
  "test_keys = PObject [''public'' \<mapsto> PText [], ''secret'' \<mapsto> PText []]"

type_synonym service_state =
  "(toy_state, block_info, toy_v, toy_msg, plain_json, nat) manager \<times>
   (plain_json, http_request list \<times> nat) host"

definition test_post ::
  "string \<Rightarrow> service_state \<Rightarrow> (string + nat \<times> (string + string)) \<times> service_state" where
  "test_post url st =
     (case process_control_request service_env service_texts (test_router url) st of
        Some (Some (status, body), st') \<Rightarrow>
          (Inr (status_number status, Inr (case body of Some s \<Rightarrow> s | None \<Rightarrow> [])), st')
      | Some (None, st') \<Rightarrow> (Inl ''no answer'', st')
      | None \<Rightarrow> (Inl ''no answer'', st))"

text \<open>The contract answers with the time of the node: the host's clock and the node's delta. A pause
  moves the host's clock on.\<close>

definition test_time :: "service_state \<Rightarrow> nat" where
  "test_time st = unat (shd (ho_clock (snd st))) + unat (time_delta (engine_of st))"

definition test_answer :: "service_state \<Rightarrow> plain_json processed" where
  "test_answer st = \<lparr>pr_transaction = PObject [''now'' \<mapsto> PNumber (int (test_time st))], pr_out_messages = [],
     pr_decoded = Some \<lparr>do_output = Some (PObject [''value0'' \<mapsto> PText (show_nat (test_time st))])\<rparr>\<rparr>"

definition test_pause :: "nat \<Rightarrow> service_state \<Rightarrow> service_state" where
  "test_pause n = (\<lambda>(mg, h). (mg, h\<lparr>ho_clock := smap (\<lambda>t. t + of_nat n) (ho_clock h)\<rparr>))"

lemma test_time_bound [simp]: "test_time st < 18446744073709551616"
  using unsigned_less [of "shd (ho_clock (snd st))", where ?'a = nat]
    unsigned_less [of "time_delta (engine_of st)", where ?'a = nat]
  by (simp add: test_time_def)

definition node_test :: "(service_state, unit, plain_json, unit) test_lib" where
  "node_test =
     \<lparr>tl_json = plain_access test_keys, tl_num = PNumber, tl_bool = (\<lambda>_. PNull), tl_env = (\<lambda>_. None),
      tl_context = (\<lambda>_. Inr ()), tl_generate_keypair = (\<lambda>w. (\<lparr>kp_public = [], kp_secret = []\<rparr>, w)),
      tl_hex_encode = (\<lambda>_. []), tl_hex_decode = (\<lambda>_. Inr []), tl_public_key = Inr, tl_secret_key = Inr,
      tl_base64_encode = (\<lambda>_. []), tl_include = (\<lambda>_. []), tl_read = (\<lambda>_. Inr []),
      tl_read_to_string = (\<lambda>_. Inr []), tl_contract = (\<lambda>_. Inr ()), tl_functions = (\<lambda>_. []),
      tl_some_with_function = (\<lambda>_. None), tl_some_with_function_and_input = (\<lambda>_ _. None),
      tl_message_finalized = 5, tl_transaction_finalized = 3, tl_block_finalized = 2, tl_show = (\<lambda>_. []),
      tl_encode_message = (\<lambda>_ _ w. (Inr \<lparr>en_address = [], en_message = [], en_message_id = []\<rparr>, w)),
      tl_send_message = (\<lambda>_ _ _ w. (Inr [], w)),
      tl_wait_for_transaction = (\<lambda>_ _ _ _ _ w. (Inr (test_answer w), w)),
      tl_run_tvm = (\<lambda>_ _ _ _ _ w. (Inr None, w)), tl_query_collection = (\<lambda>_ _ w. (Inr [], w)),
      tl_wait_for_collection = (\<lambda>_ _ w. (Inr PNull, w)), tl_parse_message = (\<lambda>_ _. Inr PNull),
      tl_encode_boc = (\<lambda>_ _ _. Inr []),
      tl_query_transaction_tree = (\<lambda>_ _ _ w. (Inr \<lparr>tt_message_ids = [], tt_aborted = []\<rparr>, w)),
      tl_ext_in_message = (\<lambda>_. Inr []), tl_post = test_post, tl_sleep = test_pause\<rparr>"

lemma node_test_sel [simp]:
  "tl_json node_test = plain_access test_keys" "tl_env node_test s = None" "tl_post node_test = test_post"
  "tl_sleep node_test = test_pause"
  by (simp_all add: node_test_def)

lemma node_test_urls: "urls_ok (network_address node_test) test_router"
  by (simp add: network_address_def test_urls)

lemma node_test_reaches:
  "reaches_node node_test service_env service_texts test_router (\<lambda>w. w) (\<lambda>st _. st)"
  by (simp add: reaches_node_def test_post_def)

lemmas test_run_simps = bindS_def bindR_def on_world_def liftS_def retS_def unwrap_def sdk_err_def sdk_try_def
  other_try_def expect_def expect_some_def

section \<open>Witnesses\<close>

lemma node_test_prefix:
  "client_new node_test = Inr \<lparr>tc_context = ()\<rparr>"
  "generate_keypair node_test w = (Inr \<lparr>kp_public = [], kp_secret = []\<rparr>, w)"
  "must_load node_test name w = (Inr ([], Contract ()), w)"
  "return_time node_test client addr keys abi w = (Inr (test_time w, test_time w), w)"
  by (simp_all add: client_new_def generate_keypair_def must_load_def load_contract_def return_time_def must_send_def
      client_encode_message_def send_message_and_wait_def get_u64_def get_output_u64_def as_u64_of_def
      json_get_def plain_access_def test_answer_def test_run_simps node_test_def parse_unsigned_show
      split: option.split)

lemma node_test_deploy: "must_deploy node_test client abi tvc call_set keys amount w = (Inr [], w)"
  by (simp add: must_deploy_def deploy_with_giver_def giver_new_def funded_new_def giver_send_grams_def
      call_contract_def prepare_message_def client_encode_message_def send_message_and_wait_def json_at_def
      json_get_def plain_access_def test_answer_def test_keys_def test_run_simps node_test_def
      split: option.split)

text \<open>A node whose clock is five seconds ahead.\<close>

abbreviation service_ahead :: service_state where
  "service_ahead \<equiv> on_engine (\<lambda>(n, w). (increase_time_delta 5 n, w)) (service_manager, service_host)"

lemma test_pause_clock [simp]: "time_delta (engine_of (test_pause n st)) = time_delta (engine_of st)"
  by (simp add: test_pause_def engine_of_def split_beta)

theorem time_shift_test_needs_a_clear_clock_witness:
  "(\<exists>w. test_time_shift node_test service_ahead = (Inl (Panicked ''time_delta''), w) \<and>
     time_delta (engine_of w) = 15) \<and>
   (\<exists>r w. test_time_shift node_test (service_manager, service_host) = (r, test_pause 11 w) \<and>
     time_delta (engine_of w) = 0)"
proof -
  let ?st = "(service_manager, service_host) :: service_state"
  have clear: "time_delta (engine_of ?st) = 0"
    by (simp add: engine_of_def time_delta_def service_live_def service_engine_def block_time_new_def)
  then have "time_delta (engine_of service_ahead) = 5" by (simp only: shifted_clock) simp
  with clear time_shift_test_needs_a_clear_clock [OF node_test_reaches node_test_urls
      node_test_prefix(1) node_test_prefix(2) [of service_ahead] node_test_prefix(3) node_test_deploy
      node_test_prefix(4)]
    time_shift_test_needs_a_clear_clock [OF node_test_reaches node_test_urls
      node_test_prefix(1) node_test_prefix(2) [of ?st] node_test_prefix(3) node_test_deploy node_test_prefix(4)]
  show ?thesis by (auto simp: node_test_prefix(4))
qed

theorem fork_test_joins_its_parameter_to_the_endpoint_witness:
  "\<exists>w w'. se node_test FORK_COMMAND (service_manager, service_host) =
      (Inl (Panicked (''Server responded with error: '' @
         error_text service_texts (ForkEndpointFetchError ''no route''))), w) \<and>
    se node_test ''unfork?resetData=true'' (service_manager, service_host) = (Inr [], w')"
proof -
  have "FORK_ENDPOINT @ ''?resetData=false'' \<noteq> ''net''" by (simp add: FORK_ENDPOINT_def)
  from service_no_route [OF this] obtain mg h where
    fork: "manager_fork service_env (FORK_ENDPOINT @ ''?resetData=false'') None False (service_manager, service_host) =
      Some (case Some (ForkEndpointFetchError ''no route'') of None \<Rightarrow> Inr () | Some e \<Rightarrow> Inl (Err e), (mg, h))"
    by auto
  have "chain_source service_env (call_config (CallUnfork True) example_service_config) = Inr (2, 0, None)"
    using service_source by simp
  from service_call [OF service_start(1) service_manager_sel service_start(2) this] obtain mg' h' where
    unfork: "manager_unfork service_env True (service_manager, service_host) =
      Some (case None of None \<Rightarrow> Inr () | Some e \<Rightarrow> Inl (Err e), (mg', h'))"
    by auto
  from fork_test_joins_its_parameter_to_the_endpoint [where get = "\<lambda>w. w" and w = "(service_manager, service_host)"
      and w' = "(service_manager, service_host)", OF node_test_reaches node_test_urls fork unfork]
  show ?thesis
    by (auto simp: told_def)
qed

end
