(* ===== verification/Spec2Isabelle.thy ===== *)
theory Spec2Isabelle
  imports Queue_Wakeup Finality_Props Example_Service Example_Ledger Example_Restart Example_Tests
begin

text \<open>
  The node of the Evernode Simple Emulator (\<^verbatim>\<open>src/node/src\<close>), a single-process blockchain
  node for the testing of smart contracts, modelled in HOL.

  \<^bold>\<open>The program.\<close> \<^verbatim>\<open>main.rs\<close> reads two configuration files and starts the service
  (\<^verbatim>\<open>service/mod.rs\<close>). Its manager (\<^verbatim>\<open>service/engine_manager.rs\<close>) makes an engine, runs it in a
  thread, and replaces it when the node is reset, forked or unforked by the control interface
  (\<^verbatim>\<open>service/control_api.rs\<close>). Messages arrive over HTTP (\<^verbatim>\<open>service/message_api.rs\<close>) and wait in a
  bounded queue (\<^verbatim>\<open>engine/messages.rs\<close>). The engine (\<^verbatim>\<open>engine/engine.rs\<close>) has a clock
  (\<^verbatim>\<open>engine/time.rs\<close>), a workchain of one shard (\<^verbatim>\<open>engine/shardchain.rs\<close>) and a masterchain that
  records its blocks (\<^verbatim>\<open>engine/masterchain.rs\<close>). The collator (\<^verbatim>\<open>block/builder.rs\<close>) makes one block
  from messages, the finality layer (\<^verbatim>\<open>block/finality.rs\<close>) puts the block on the storage of its shard
  (\<^verbatim>\<open>data/shard_storage.rs\<close> over \<^verbatim>\<open>data/fs_storage.rs\<close> or \<^verbatim>\<open>data/mem_storage.rs\<close>) and its documents
  (\<^verbatim>\<open>block/json.rs\<close>) into the database (\<^verbatim>\<open>data/arango.rs\<close>, or in memory). A forked node takes the
  accounts it does not have from a GraphQL endpoint (\<^verbatim>\<open>data/fork_provider.rs\<close>). The integration
  tests (\<^verbatim>\<open>src/integration-tests/src/lib.rs\<close>) drive a running node through a client library and the
  control interface.
\<close>

text \<open>
  \<^bold>\<open>The theories\<close>, in the order in which they import each other, with the file each models.

  \<^item> \<open>Node_Prelude\<close> (\<^verbatim>\<open>error.rs\<close>): machine types, \<open>node_error\<close>; a fallible function returns
    \<open>fault + 'a\<close>, where a fault is an error value or a panic; \<open>bindR\<close>, \<open>bindS\<close> (with a state) and
    \<open>bindO\<close> (with a state, and None for a call that does not return) stand for Rust's \<^verbatim>\<open>?\<close>; the
    locale \<open>step_relation\<close> has the invariant rule of reachable states.
  \<^item> \<open>Byte_Codec\<close>: little and big endian integers and the positional readers of byte slices; \<open>Decimal\<close>:
    unsigned integers as decimal texts.
  \<^item> \<open>Block_Time\<close> (\<^verbatim>\<open>engine/time.rs\<close>): \<open>block_time\<close> with \<open>get_next\<close> and \<open>set_last\<close> in wrapping 32 bits.
  \<^item> \<open>Messages_Queue\<close> (\<^verbatim>\<open>engine/messages.rs\<close>): \<open>in_messages_queue\<close>, one definition per method, the locale
    \<open>inbound_queue\<close> of its clients' contract, interpreted as \<open>mq\<close>. \<open>Queue_Wakeup\<close>: the same queue under
    its mutex, with the worker of \<^verbatim>\<open>engine.rs\<close> as \<open>worker_step\<close> and the receivers and \<^verbatim>\<open>stop\<close> as \<open>api_step\<close>.
  \<^item> \<open>KV_Storage\<close>, \<open>FS_Storage\<close> (\<^verbatim>\<open>data/mod.rs\<close>, \<^verbatim>\<open>mem_storage.rs\<close>, \<^verbatim>\<open>fs_storage.rs\<close>): the locale \<open>kv_store\<close>,
    a store with a state and a view of it as a map, interpreted as \<open>mem\<close> (a hash map) and as \<open>fs\<close> (files
    and directories). \<open>Shard_Storage\<close> (\<^verbatim>\<open>shard_storage.rs\<close>): keys and operations over any such store.
  \<^item> \<open>Documents_Db\<close> (\<^verbatim>\<open>data/mod.rs\<close>, \<^verbatim>\<open>mem_documents_db.rs\<close>, \<^verbatim>\<open>documents_db_mock.rs\<close>): the locale
    \<open>accepting_db\<close> and the two databases in memory; \<open>Arango\<close> (\<^verbatim>\<open>arango.rs\<close>): the helper with its
    channel, and the worker that posts one document after the other; worker and helper share the channel
    and the flag \<open>ah_has_delivery_problems\<close>.
  \<^item> \<open>Block_Lib\<close>, \<open>Json_Http\<close>: the interfaces of the libraries, as records of functions.
  \<^item> \<open>Finality_Block\<close>, \<open>Block_Json\<close>, \<open>Finality\<close> (\<^verbatim>\<open>block/finality_block.rs\<close>, \<^verbatim>\<open>json.rs\<close>, \<^verbatim>\<open>finality.rs\<close>), with
    \<open>Finality_Props\<close>.
  \<^item> \<open>Block_Builder\<close> (\<^verbatim>\<open>block/builder.rs\<close>), with \<open>Builder_Props\<close>, \<open>Builder_Flow\<close> and \<open>Account_Chain\<close>. The locale
    \<open>builder_relation\<close> carries a relation between two builders from the execution of one message through
    the import of messages to the whole block; \<open>block_rel\<close> is its interpretation on the fields that stay.
  \<^item> \<open>Shardchain\<close>, \<open>Masterchain\<close>, \<open>Node_Engine\<close> (\<^verbatim>\<open>engine/shardchain.rs\<close>, \<^verbatim>\<open>masterchain.rs\<close>, \<^verbatim>\<open>engine.rs\<close>),
    with \<open>Chain_Props\<close> and \<open>Engine_Props\<close>; \<open>Run_Log\<close> is the history of a call of the engine: the blocks it
    made, each with its chain, its time and the messages that were executed for it; \<open>Example_Node\<close> is a small block library on which the witnesses
    of these theories run.
  \<^item> \<open>Node_Config\<close> (\<^verbatim>\<open>config.rs\<close>), \<open>Fork_Provider\<close> (\<^verbatim>\<open>data/fork_provider.rs\<close>), \<open>Message_Api\<close>,
    \<open>Engine_Manager\<close>, \<open>Control_Api\<close>, \<open>Node_Service\<close> (\<^verbatim>\<open>service/message_api.rs\<close>, \<^verbatim>\<open>engine_manager.rs\<close>,
    \<^verbatim>\<open>control_api.rs\<close>, \<^verbatim>\<open>mod.rs\<close> and \<^verbatim>\<open>main.rs\<close>), with \<open>Manager_Props\<close>; \<open>Example_Service\<close> is the concrete
    service of their witnesses.
  \<^item> \<open>Restart\<close> opens a chain again on the disk of another, with its witnesses in \<open>Example_Restart\<close>;
    \<open>Message_Flow\<close> puts the receiver and the engine on one queue, \<open>Fork_Accounts\<close> and \<open>Fork_Outage\<close> the
    fork provider below the collator and the engine; \<open>Example_Ledger\<close> has the witnesses of these three and of
    \<open>Account_Chain\<close>.
  \<^item> \<open>Test_Client\<close> and \<open>Test_Cases\<close> (\<^verbatim>\<open>integration-tests/src/lib.rs\<close>): the client of the tests and every test,
    as runs on the state of the world outside; \<open>Test_Node\<close> lets their posts to the control interface be
    answered by \<open>process_control_request\<close>, and \<open>Example_Tests\<close> has the witnesses.
\<close>

text \<open>
  \<^bold>\<open>State.\<close> A struct is a record with the fields of the source and a method takes and returns it.
  What a chain shares with the rest of the node is the world \<open>node_world\<close>: the inbound queue, the
  database helper, and the streams of clock readings and random seeds still to come. A method
  of the engine such as \<open>execute_queued_messages\<close> takes the engine with its world and gives the result
  with both of them after the call, or None.
  A storage is a value too: each chain carries the file system and writes in the directory of its
  shard alone, and \<open>merge_disk\<close> of \<open>Engine_Manager\<close> puts the two directories together when an engine is
  handed back. The effects before an error stay in the returned state, as in the code.

  \<^bold>\<open>Concurrency.\<close> Four threads meet in the code: the engine's, the receivers of messages, the control
  interface and the worker of the database. \<open>Queue_Wakeup\<close> interleaves them at the atomic steps of the
  queue; \<open>run_step\<close> of \<open>Node_Engine\<close> interleaves whole calls of \<^verbatim>\<open>execute_queued_messages\<close> with arriving
  messages and \<^verbatim>\<open>stop\<close>; \<open>submit\<close> of \<open>Message_Api\<close> takes what the other threads do to the queue
  between two attempts from a stream; the channel of \<open>Arango\<close> is a list that \<open>put_records_worker\<close> empties; and
  \<open>ho_helpers\<close> of \<open>Engine_Manager\<close> keeps the helpers whose worker outlives its engine. The control
  interface holds the write lock of the manager, so its operations are atomic.

  \<^bold>\<open>Loops.\<close> There is no fuel. A loop with a measure is a terminating \<open>function\<close> (\<open>dequeue_loop\<close>,
  \<open>import_external\<close>). A loop that may go on for ever is a partial function into \<open>option\<close>, where None is a
  call that does not return: \<open>process_new\<close> of the collator (messages may send messages),
  \<open>workchain_blocks\<close> and \<open>execute_rounds\<close> of the engine, \<open>run_stopped\<close> of the manager, \<open>read_index\<close> of the
  finality layer, \<open>post_loop\<close> of the database worker and \<open>submit\<close> of the receiver. That such a loop returns
  is proved where it does (\<open>finality_load_returns\<close>, \<open>sequential_block_is_always_built\<close>,
  \<open>idle_engine_rests\<close>, \<open>request_appends_the_good_messages\<close>, \<open>all_put_blocks_are_kept\<close>, \<open>documents_are_delivered_in_order\<close>); where the
  code makes it run for ever, None is the proved value (\<open>unserved_message_keeps_engine_busy\<close>, \<open>refused_document_blocks_all_later_ones\<close>).

  \<^bold>\<open>Libraries.\<close> The block library (cells, blocks, shard states, accounts), the transaction executor, the
  parser of blocks into documents, JSON, base64, the HTTP client with the servers behind it, the
  network address parser and the display texts of library errors are not in the repository. They are
  records of functions (\<open>block_lib\<close>, \<open>chain_env\<close>, \<open>json_access\<close>, \<open>message_lib\<close>, \<open>fork_lib\<close>, \<open>manager_env\<close>,
  \<open>main_env\<close>, \<open>test_lib\<close>), arguments of the definitions that use them; what a theorem needs of them is among its
  hypotheses (that a written cell reads back, that the number set into a state is found in it, that
  gas is not negative) and a witness satisfies it with concrete functions. The fork endpoint is a
  function of the request: it gives the same answer as long as the node runs. Texts are ASCII. \<^verbatim>\<open>u32\<close>
  and \<^verbatim>\<open>u64\<close> arithmetic wraps as in the release build; the tests, built for debugging, panic instead.
\<close>

text \<open>
  \<^bold>\<open>What is shown.\<close>

  \<^item> The queue (C1, C10, C16, C17): order and completeness; under interleaving the worker returns only
    after a stop, but a notification can be lost, so that a message is slept over or a stop is. That no
    run passes the capacity is \<open>queue_bounded_and_balanced\<close>.
  \<^item> Storage and finality (C2, C3, C4, C11, C12, C13, C15): the file system refines the map in memory;
    block files and the index read back, a file cut at any byte is refused and every content loads or fails;
    a put block is final, stays readable and is found by a restart; a failed put leaves the current
    block ahead of the storage. The keys of a shard never collide (\<open>storage_keys_unambiguous\<close>).
  \<^item> Documents (C14, C33, C34): a block is reflected as exactly its documents with their traces, its
    accounts over the old ones; every document reaches the server once, in order, behind a refused one never.
  \<^item> The collator (C18 to C21): header and logical time, the limits, which messages a block takes and
    makes, and that sequential mode always returns.
  \<^item> The accounts (C5, C7, C22, C35): each transaction is linked to the last one of its account and comes
    after it, and the accounts of the new state stay within the logical time of the block; the exception
    is an account that does not come into being, whose transactions replace each other. The first
    transaction of an account that a forked node fetched starts a chain of its own.
  \<^item> The chains and the engine (C6, C8, C9, C23 to C27): the posted messages are executed for the blocks of
    their chain, in order and once; a restarted chain builds the blocks of the running one; what is left
    after a run, and that the masterchain then describes the last block of the workchain; well-formed
    chains, the times of blocks, and a message that keeps the engine busy for ever.
  \<^item> The service (C28 to C32, C36 to C39): the outcomes of a reset, a fork and an unfork, what an endpoint
    that does not answer does to messages and blocks, the answers to messages, the configuration and the
    start. The commands of the clock read back (\<open>clock_commands_read_back\<close>).
  \<^item> The integration tests against the node (C40): what the commands of the time shift test need of it;
    \<open>fork_test_joins_its_parameter_to_the_endpoint\<close> tells what those of the fork test ask for.

  \<^bold>\<open>Not modelled.\<close> \<^verbatim>\<open>node/build.rs\<close> asks git, date and rustc for the texts of the banner. Inside the modelled
  files: the banner and the HTTP server of \<^verbatim>\<open>main.rs\<close> and \<^verbatim>\<open>service/mod.rs\<close>; what the tests print, and the
  lock that keeps two of them from running at once; logging; the wording of library errors; duplicate JSON fields; the permissions and
  failures of the file system's device (a failing store appears through the record \<open>kv\<close>); \<^verbatim>\<open>start\<close> of the
  queue under interleaving and \<^verbatim>\<open>print_message\<close>, which nothing calls.
\<close>

end
